(* ===== verification/Prelude.thy ===== *)
theory Prelude
  imports Main "HOL-Library.Word"
begin

text \<open>
  Shared material of the development: the named collections of rewrite rules, generic facts on
  lists and maps, the reachability predicate of a step relation, and the locale that lifts a
  one-step invariant to all reachable states.
\<close>

section \<open>Collections\<close>

named_theorems str_simps \<open>equations for the C and C++ string operations\<close>
named_theorems sock_simps \<open>equations for reading from a socket\<close>
named_theorems step_simps \<open>equations that evaluate one step of a component\<close>

section \<open>Names of types and characters\<close>

type_synonym bytes = string

abbreviation LF :: char where "LF \<equiv> CHR 0x0A"
abbreviation CR :: char where "CR \<equiv> CHR 0x0D"
abbreviation NUL :: char where "NUL \<equiv> CHR 0x00"
abbreviation CRLF :: bytes where "CRLF \<equiv> [CR, LF]"

section \<open>Lists\<close>

lemma takeWhile_all: "\<forall>x\<in>set xs. P x \<Longrightarrow> takeWhile P xs = xs"
  by (induction xs) auto

lemma takeWhile_stop: "\<forall>x\<in>set xs. P x \<Longrightarrow> \<not> P y \<Longrightarrow> takeWhile P (xs @ y # ys) = xs"
  by (induction xs) auto

lemma dropWhile_stop: "\<forall>x\<in>set xs. P x \<Longrightarrow> \<not> P y \<Longrightarrow> dropWhile P (xs @ y # ys) = y # ys"
  by (induction xs) auto

lemma dropWhile_hd: "xs \<noteq> [] \<Longrightarrow> \<not> P (hd xs) \<Longrightarrow> dropWhile P xs = xs"
  by (cases xs) auto

lemma take_plus_slice: "take n xs @ take m (drop n xs) = take (n + m) xs"
  by (simp add: take_add)

lemma filter_neq_id: "x \<notin> fst ` set xs \<Longrightarrow> filter (\<lambda>p. fst p \<noteq> x) xs = xs"
  by (induction xs) (auto simp: image_iff)

section \<open>Remainders\<close>

lemma pred_mod:
  assumes "0 < (m::int)" and "n mod m \<noteq> 0"
  shows "(n - 1) mod m = n mod m - 1"
proof -
  have "(n - 1) mod m = (n mod m - 1) mod m" by (simp add: mod_diff_left_eq)
  moreover have "0 \<le> n mod m - 1" "n mod m - 1 < m"
    using assms pos_mod_sign [OF assms(1), of n] pos_mod_bound [OF assms(1), of n] by linarith+
  ultimately show ?thesis by (simp only: mod_pos_pos_trivial)
qed

section \<open>64-bit words\<close>

lemma unat64_of_nat: "n < 2 ^ 64 \<Longrightarrow> unat (of_nat n :: 64 word) = n"
  by (simp add: unat_of_nat)

lemma unat64_plus:
  assumes "unat (w :: 64 word) + n < 2 ^ 64"
  shows "unat (w + of_nat n) = unat w + n"
proof -
  have "unat (of_nat n :: 64 word) = n" using assms by (intro unat64_of_nat) linarith
  with assms show ?thesis by (subst unat_word_ariths(1)) simp
qed

section \<open>Sums over a list with one element changed\<close>

lemma update_sum:
  fixes f :: "'a \<Rightarrow> 'b::comm_monoid_add"
  assumes "i < length xs"
  shows "(\<Sum>t\<leftarrow>xs[i := x]. f t) + f (xs ! i) = (\<Sum>t\<leftarrow>xs. f t) + f x"
proof -
  have "(\<Sum>t\<leftarrow>xs. f t) = (\<Sum>t\<leftarrow>take i xs. f t) + (f (xs ! i) + (\<Sum>t\<leftarrow>drop (Suc i) xs. f t))"
    by (subst id_take_nth_drop [OF assms]) simp
  then show ?thesis by (simp add: upd_conv_take_nth_drop [OF assms] add_ac)
qed

section \<open>Maps with insertion that keeps the first binding\<close>

text \<open>
  \<open>std::unordered_map::insert\<close> does nothing when the key is already present.
\<close>

definition map_insert :: "('k \<rightharpoonup> 'v) \<Rightarrow> 'k \<Rightarrow> 'v \<Rightarrow> ('k \<rightharpoonup> 'v)" where
  "map_insert m k v = (case m k of None \<Rightarrow> m(k \<mapsto> v) | Some _ \<Rightarrow> m)"

lemma map_insert_fresh [simp]: "m k = None \<Longrightarrow> map_insert m k v = m(k \<mapsto> v)"
  by (simp add: map_insert_def)

lemma map_insert_present [simp]: "m k = Some w \<Longrightarrow> map_insert m k v = m"
  by (simp add: map_insert_def)

lemma map_insert_apply:
  "map_insert m k v j = (if j = k then (case m k of None \<Rightarrow> Some v | Some w \<Rightarrow> Some w) else m j)"
  by (simp add: map_insert_def split: option.split)

lemma dom_map_insert [simp]: "dom (map_insert m k v) = insert k (dom m)"
  by (auto simp: map_insert_def split: option.split)

section \<open>Step relations and their reachable states\<close>

inductive reachable :: "('s \<Rightarrow> bool) \<Rightarrow> ('s \<Rightarrow> 's \<Rightarrow> bool) \<Rightarrow> 's \<Rightarrow> bool"
  for init :: "'s \<Rightarrow> bool" and step :: "'s \<Rightarrow> 's \<Rightarrow> bool" where
  reach_init: "init s \<Longrightarrow> reachable init step s"
| reach_step: "reachable init step s \<Longrightarrow> step s t \<Longrightarrow> reachable init step t"

text \<open>
  The interface every concurrent component is checked through: an invariant that holds in the
  initial states and is kept by each step.
\<close>

locale invariant_system =
  fixes init :: "'s \<Rightarrow> bool" and step :: "'s \<Rightarrow> 's \<Rightarrow> bool" and inv :: "'s \<Rightarrow> bool"
  assumes inv_init: "init s \<Longrightarrow> inv s"
    and inv_step: "inv s \<Longrightarrow> step s t \<Longrightarrow> inv t"
begin

lemma reachable_inv: "reachable init step s \<Longrightarrow> inv s"
proof (induction rule: reachable.induct)
  case (reach_init s)
  then show ?case by (rule inv_init)
next
  case (reach_step s t)
  from reach_step.IH reach_step.hyps(2) show ?case by (rule inv_step)
qed

lemma reachable_inv_steps: "step\<^sup>*\<^sup>* s t \<Longrightarrow> inv s \<Longrightarrow> inv t"
  by (induction rule: rtranclp_induct) (blast intro: inv_step)+

end

end
