(* ===== verification/CStrings.thy ===== *)
theory CStrings
  imports Prelude
begin

text \<open>
  The operations of the C and C++ standard libraries on strings and integers that the
  repository uses: \<open>std::string\<close> searching and slicing, \<open>c_str\<close>, \<open>stringstream\<close> extraction,
  \<open>toupper\<close>, \<open>std::to_string\<close> and \<open>atoi\<close>. A \<open>std::string\<close> is the list of its bytes.
  \<open>int\<close> is 32 bits and \<open>size_t\<close> and \<open>long\<close> are 64 bits, as on the x86-64 target.
\<close>

section \<open>Conversions to the machine's integers\<close>

definition to_int32 :: "int \<Rightarrow> int" where
  "to_int32 n = signed_take_bit 31 n"

lemma to_int32_id: "- (2 ^ 31) \<le> n \<Longrightarrow> n < 2 ^ 31 \<Longrightarrow> to_int32 n = n"
  unfolding to_int32_def by (rule signed_take_bit_int_eq_self) simp_all

lemma to_int32_bounds: "- (2 ^ 31) \<le> to_int32 n \<and> to_int32 n < 2 ^ 31"
  using signed_take_bit_int_greater_eq_minus_exp [of 31 n] signed_take_bit_int_less_exp [of 31 n]
  by (simp add: to_int32_def)

lemma to_int32_mod: "to_int32 n mod 2 ^ 32 = n mod 2 ^ 32"
proof -
  have "take_bit 32 (signed_take_bit 31 n) = take_bit 32 n"
  proof (rule bit_eqI)
    fix i :: nat
    show "bit (take_bit 32 (signed_take_bit 31 n)) i = bit (take_bit 32 n) i"
    proof (cases "i < 32")
      case True
      then have "min 31 i = i" by simp
      with True show ?thesis by (simp add: bit_take_bit_iff bit_signed_take_bit_iff)
    qed (simp add: bit_take_bit_iff)
  qed
  then show ?thesis by (simp add: to_int32_def take_bit_eq_mod)
qed

definition size_to_int :: "nat \<Rightarrow> int" where
  "size_to_int n = to_int32 (int n)"

lemma size_to_int_small: "n < 2 ^ 31 \<Longrightarrow> size_to_int n = int n"
proof -
  assume "n < 2 ^ 31"
  then have "int n < 2 ^ 31" by simp
  then show ?thesis by (simp add: size_to_int_def to_int32_id)
qed

section \<open>NUL-terminated views\<close>

definition c_str :: "bytes \<Rightarrow> bytes" where
  "c_str s = takeWhile (\<lambda>c. c \<noteq> NUL) s"

lemma c_str_id [str_simps]: "NUL \<notin> set s \<Longrightarrow> c_str s = s"
  by (auto simp: c_str_def intro: takeWhile_all)

lemma c_str_append: "NUL \<notin> set s \<Longrightarrow> c_str (s @ t) = s @ c_str t"
  by (auto simp: c_str_def takeWhile_append)

lemma c_str_no_nul: "NUL \<notin> set (c_str s)"
  by (auto simp: c_str_def dest: set_takeWhileD)

lemma c_str_idem [simp]: "c_str (c_str s) = c_str s"
  by (simp add: c_str_id c_str_no_nul)

section \<open>Searching and slicing\<close>

fun is_prefix :: "bytes \<Rightarrow> bytes \<Rightarrow> bool" where
  "is_prefix [] s = True"
| "is_prefix (c # cs) [] = False"
| "is_prefix (c # cs) (d # ds) = (c = d \<and> is_prefix cs ds)"

lemma is_prefix_iff: "is_prefix p s \<longleftrightarrow> (\<exists>t. s = p @ t)"
  by (induction p s rule: is_prefix.induct) auto

text \<open>\<open>s.find(sep)\<close>: the first position at which \<open>sep\<close> occurs, \<open>None\<close> for \<open>npos\<close>.\<close>

fun str_find :: "bytes \<Rightarrow> bytes \<Rightarrow> nat option" where
  "str_find sep [] = (if sep = [] then Some 0 else None)"
| "str_find sep (c # cs) =
     (if is_prefix sep (c # cs) then Some 0 else map_option Suc (str_find sep cs))"

lemma str_find_Some_prefix:
  "str_find sep s = Some n \<Longrightarrow> is_prefix sep (drop n s) \<and> n + length sep \<le> length s"
proof (induction s arbitrary: n)
  case Nil
  then show ?case by (simp split: if_splits)
next
  case (Cons c cs)
  show ?case
  proof (cases "is_prefix sep (c # cs)")
    case True
    with Cons.prems have "n = 0" by simp
    moreover from True obtain t where "c # cs = sep @ t" by (auto simp: is_prefix_iff)
    then have "length sep \<le> length (c # cs)" by (metis length_append le_add1)
    ultimately show ?thesis using True by simp
  next
    case False
    with Cons.prems obtain m where "str_find sep cs = Some m" "n = Suc m" by auto
    with Cons.IH show ?thesis by simp
  qed
qed

lemma str_find_first:
  "str_find sep s = Some n \<Longrightarrow> k < n \<Longrightarrow> \<not> is_prefix sep (drop k s)"
proof (induction s arbitrary: n k)
  case Nil
  then show ?case by (simp split: if_splits)
next
  case (Cons c cs)
  from Cons.prems obtain m where m: "str_find sep cs = Some m" "n = Suc m"
    and np: "\<not> is_prefix sep (c # cs)"
    by (auto split: if_splits)
  show ?case
  proof (cases k)
    case 0
    with np show ?thesis by simp
  next
    case (Suc j)
    with m Cons.prems(2) Cons.IH [of m j] show ?thesis by simp
  qed
qed

lemma str_find_None: "str_find sep s = None \<Longrightarrow> \<not> is_prefix sep (drop k s)"
proof (induction s arbitrary: k)
  case Nil
  then show ?case by (cases sep) auto
next
  case (Cons c cs)
  then show ?case by (cases k) (auto split: if_splits)
qed

lemma str_find_char:
  "str_find [c] s = (if c \<in> set s then Some (length (takeWhile (\<lambda>x. x \<noteq> c) s)) else None)"
  by (induction s) auto

text \<open>\<open>s.substr(pos)\<close> and \<open>s.substr(pos, len)\<close>; every call of the code has \<open>pos\<close> in range.\<close>

definition substr :: "bytes \<Rightarrow> nat \<Rightarrow> nat \<Rightarrow> bytes" where
  "substr s pos len = take len (drop pos s)"

definition substr_from :: "bytes \<Rightarrow> nat \<Rightarrow> bytes" where
  "substr_from s pos = drop pos s"

text \<open>\<open>s.find_first_of(set, from)\<close> and \<open>s.find_last_of(set)\<close>.\<close>

fun find_idx :: "(char \<Rightarrow> bool) \<Rightarrow> bytes \<Rightarrow> nat option" where
  "find_idx P [] = None"
| "find_idx P (c # cs) = (if P c then Some 0 else map_option Suc (find_idx P cs))"

definition find_first_of :: "bytes \<Rightarrow> bytes \<Rightarrow> nat \<Rightarrow> nat option" where
  "find_first_of chars s from = map_option (\<lambda>n. from + n) (find_idx (\<lambda>c. c \<in> set chars) (drop from s))"

definition find_last_of :: "bytes \<Rightarrow> bytes \<Rightarrow> nat option" where
  "find_last_of chars s =
     map_option (\<lambda>n. length s - Suc n) (find_idx (\<lambda>c. c \<in> set chars) (rev s))"

lemma find_idx_None: "find_idx P s = None \<longleftrightarrow> (\<forall>c\<in>set s. \<not> P c)"
  by (induction s) auto

lemma find_idx_Some:
  "find_idx P s = Some n \<longleftrightarrow> n < length s \<and> P (s ! n) \<and> (\<forall>k<n. \<not> P (s ! k))"
proof (induction s arbitrary: n)
  case Nil
  then show ?case by simp
next
  case (Cons c cs)
  show ?case
  proof (cases n)
    case 0
    then show ?thesis by simp
  next
    case (Suc m)
    with Cons.IH [of m] show ?thesis
      by (auto simp: less_Suc_eq_0_disj)
  qed
qed

lemma find_last_of_bound: "find_last_of chars s = Some n \<Longrightarrow> n < length s"
  by (auto simp: find_last_of_def find_idx_Some)

lemma find_first_of_bounds:
  "find_first_of chars s from = Some n \<Longrightarrow> from \<le> n \<and> n < length s \<and> s ! n \<in> set chars"
  by (auto simp: find_first_of_def find_idx_Some)

section \<open>Characters and words\<close>

definition isspace :: "char \<Rightarrow> bool" where
  "isspace c \<longleftrightarrow> c \<in> {CHR '' '', CHR 0x09, LF, CHR 0x0B, CHR 0x0C, CR}"

definition toupper :: "char \<Rightarrow> char" where
  "toupper c = (if 97 \<le> (of_char c :: nat) \<and> (of_char c :: nat) \<le> 122
                then char_of ((of_char c :: nat) - 32) else c)"

text \<open>\<open>ss >> word\<close>: skip white space, then take the bytes up to the next white space.\<close>

definition extract_word :: "bytes \<Rightarrow> bytes \<times> bytes" where
  "extract_word s = (let t = dropWhile isspace s in
     (takeWhile (\<lambda>c. \<not> isspace c) t, dropWhile (\<lambda>c. \<not> isspace c) t))"

definition is_word :: "bytes \<Rightarrow> bool" where
  "is_word w \<longleftrightarrow> w \<noteq> [] \<and> (\<forall>c\<in>set w. \<not> isspace c)"

lemma isspace_space [simp]: "isspace (CHR '' '')" by (simp add: isspace_def)
lemma isspace_LF [simp]: "isspace LF" by (simp add: isspace_def)
lemma isspace_CR [simp]: "isspace CR" by (simp add: isspace_def)

lemma extract_word_sep:
  assumes "is_word w" and "isspace c"
  shows "extract_word (w @ c # s) = (w, c # s)"
proof -
  from assms have "dropWhile isspace (w @ c # s) = w @ c # s"
    by (intro dropWhile_hd) (cases w, auto simp: is_word_def)+
  with assms show ?thesis
    by (simp add: extract_word_def Let_def is_word_def takeWhile_stop dropWhile_stop)
qed

lemma extract_word_skip [simp]: "isspace c \<Longrightarrow> extract_word (c # s) = extract_word s"
  by (simp add: extract_word_def)

lemma extract_word_end:
  assumes "is_word w"
  shows "extract_word w = (w, [])"
proof -
  from assms have "dropWhile isspace w = w"
    by (intro dropWhile_hd) (cases w, auto simp: is_word_def)+
  with assms show ?thesis
    by (simp add: extract_word_def Let_def is_word_def takeWhile_all)
qed

lemma extract_word_Nil [simp]: "extract_word [] = ([], [])"
  by (simp add: extract_word_def)

end
