(* ===== verification/CNumbers.thy ===== *)
theory CNumbers
  imports CStrings
begin

text \<open>
  Decimal numbers as the C library reads and writes them: \<open>std::to_string\<close> (and \<open><<\<close> on an
  integer) on one side, \<open>atoi\<close> on the other. \<open>atoi\<close> is glibc's: \<open>strtol\<close>, which saturates at
  the bounds of a 64-bit \<open>long\<close>, followed by the conversion to a 32-bit \<open>int\<close>.
\<close>

section \<open>Digits\<close>

definition digit_char :: "nat \<Rightarrow> char" where
  "digit_char d = char_of (48 + d)"

definition isdigit :: "char \<Rightarrow> bool" where
  "isdigit c \<longleftrightarrow> 48 \<le> (of_char c :: nat) \<and> (of_char c :: nat) \<le> 57"

definition digit_val :: "char \<Rightarrow> nat" where
  "digit_val c = of_char c - 48"

lemma of_digit_char: "d < 10 \<Longrightarrow> (of_char (digit_char d) :: nat) = 48 + d"
  by (simp add: digit_char_def)

lemma isdigit_digit_char [simp]: "d < 10 \<Longrightarrow> isdigit (digit_char d)"
  by (simp add: isdigit_def of_digit_char)

lemma digit_val_digit_char [simp]: "d < 10 \<Longrightarrow> digit_val (digit_char d) = d"
  by (simp add: digit_val_def of_digit_char)

lemma isdigit_nospace: "isdigit c \<Longrightarrow> \<not> isspace c"
  by (auto simp: isdigit_def isspace_def)

lemma isdigit_nonul: "isdigit c \<Longrightarrow> c \<noteq> NUL"
  by (auto simp: isdigit_def)

lemma isdigit_nosign: "isdigit c \<Longrightarrow> c \<noteq> CHR ''-'' \<and> c \<noteq> CHR ''+''"
  by (auto simp: isdigit_def)

section \<open>Printing\<close>

fun string_of_nat :: "nat \<Rightarrow> bytes" where
  "string_of_nat n =
     (if n < 10 then [digit_char n] else string_of_nat (n div 10) @ [digit_char (n mod 10)])"

declare string_of_nat.simps [simp del]

definition string_of_int :: "int \<Rightarrow> bytes" where
  "string_of_int n =
     (if n < 0 then CHR ''-'' # string_of_nat (nat (- n)) else string_of_nat (nat n))"

lemma string_of_nat_nonempty: "string_of_nat n \<noteq> []"
  by (subst string_of_nat.simps) simp

lemma string_of_nat_digits: "\<forall>c\<in>set (string_of_nat n). isdigit c"
proof (induction n rule: string_of_nat.induct)
  case (1 n)
  then show ?case by (subst string_of_nat.simps) auto
qed

lemma string_of_nat_no_nul: "NUL \<notin> set (string_of_nat n)"
  using string_of_nat_digits [of n] isdigit_nonul by blast

lemma string_of_int_no_nul: "NUL \<notin> set (string_of_int n)"
  by (simp add: string_of_int_def string_of_nat_no_nul)

lemma string_of_nat_dash: "CHR ''-'' \<notin> set (string_of_nat n)"
  using string_of_nat_digits [of n] isdigit_nosign by blast

section \<open>Reading\<close>

fun parse_digits :: "nat \<Rightarrow> bytes \<Rightarrow> nat" where
  "parse_digits acc [] = acc"
| "parse_digits acc (c # cs) =
     (if isdigit c then parse_digits (10 * acc + digit_val c) cs else acc)"

definition long_max :: int where "long_max = 2 ^ 63 - 1"
definition long_min :: int where "long_min = - (2 ^ 63)"

definition clamp_long :: "int \<Rightarrow> int" where
  "clamp_long n = max long_min (min long_max n)"

definition strtol10 :: "bytes \<Rightarrow> int" where
  "strtol10 s = (case dropWhile isspace s of
       [] \<Rightarrow> 0
     | c # cs \<Rightarrow>
         if c = CHR ''-'' then clamp_long (- int (parse_digits 0 cs))
         else if c = CHR ''+'' then clamp_long (int (parse_digits 0 cs))
         else clamp_long (int (parse_digits 0 (c # cs))))"

definition atoi :: "bytes \<Rightarrow> int" where
  "atoi s = to_int32 (strtol10 s)"

lemma atoi_bounds: "- (2 ^ 31) \<le> atoi s \<and> atoi s < 2 ^ 31"
  unfolding atoi_def by (rule to_int32_bounds)

lemma parse_digits_append:
  "\<forall>c\<in>set s. isdigit c \<Longrightarrow> parse_digits acc (s @ t) = parse_digits (parse_digits acc s) t"
  by (induction s arbitrary: acc) auto

lemma parse_string_of_nat: "parse_digits 0 (string_of_nat n) = n"
proof (induction n rule: string_of_nat.induct)
  case (1 n)
  show ?case
  proof (cases "n < 10")
    case True
    then show ?thesis by (subst string_of_nat.simps) simp
  next
    case False
    have "string_of_nat n = string_of_nat (n div 10) @ [digit_char (n mod 10)]"
      using False by (subst string_of_nat.simps) simp
    with 1 False show ?thesis
      by (simp add: parse_digits_append string_of_nat_digits)
  qed
qed

lemma string_of_nat_inject: "string_of_nat m = string_of_nat n \<Longrightarrow> m = n"
  by (metis parse_string_of_nat)

lemma strtol10_string_of_nat: "strtol10 (string_of_nat n) = clamp_long (int n)"
proof -
  obtain c cs where s: "string_of_nat n = c # cs"
    using string_of_nat_nonempty by (cases "string_of_nat n") auto
  with string_of_nat_digits [of n] have "isdigit c" by simp
  with s isdigit_nospace isdigit_nosign parse_string_of_nat [of n] show ?thesis
    by (simp add: strtol10_def)
qed

lemma strtol10_neg: "strtol10 (CHR ''-'' # string_of_nat n) = clamp_long (- int n)"
  by (simp add: strtol10_def isspace_def parse_string_of_nat)

lemma strtol10_string_of_int: "strtol10 (string_of_int n) = clamp_long n"
  by (simp add: string_of_int_def strtol10_string_of_nat strtol10_neg)

lemma clamp_long_id: "- (2 ^ 63) \<le> n \<Longrightarrow> n < 2 ^ 63 \<Longrightarrow> clamp_long n = n"
  by (simp add: clamp_long_def long_max_def long_min_def)

lemma atoi_string_of_int:
  "- (2 ^ 31) \<le> n \<Longrightarrow> n < 2 ^ 31 \<Longrightarrow> atoi (string_of_int n) = n"
  by (simp add: atoi_def strtol10_string_of_int clamp_long_id to_int32_id)

lemma atoi_no_digits:
  "dropWhile isspace s = c # cs \<Longrightarrow> \<not> isdigit c \<Longrightarrow> c \<noteq> CHR ''-'' \<Longrightarrow> c \<noteq> CHR ''+'' \<Longrightarrow>
   atoi s = 0"
  by (simp add: atoi_def strtol10_def clamp_long_id to_int32_id)

lemma atoi_Nil [simp]: "atoi [] = 0"
  by (simp add: atoi_def strtol10_def to_int32_id)

end
