(* ===== verification/Utill.thy ===== *)
theory Utill
  imports CNumbers
begin

text \<open>
  \<open>http/Utill.hpp\<close>: \<open>Utill::ReadLine\<close>, which reads one line from a socket byte by byte and
  turns each of the three line ends into a newline, and \<open>Utill::CutString\<close>.

  The receiving side of a socket is the list of what the successive calls of \<open>recv\<close> deliver: a
  byte, or a failing call (\<open>recv\<close> returns -1); after the last event the peer has closed the
  connection and every call returns 0. \<open>MSG_PEEK\<close> reports the next byte without consuming it; a
  pending error is reported, and cleared, by whichever call meets it.
\<close>

section \<open>The receiving side of a socket\<close>

datatype rx = RxByte char | RxErr

type_synonym rxs = "rx list"

definition recv1 :: "char \<Rightarrow> rxs \<Rightarrow> int \<times> char \<times> rxs" where
  "recv1 ch sk = (case sk of [] \<Rightarrow> (0, ch, []) | RxErr # xs \<Rightarrow> (-1, ch, xs)
                  | RxByte c # xs \<Rightarrow> (1, c, xs))"

definition recv_peek :: "char \<Rightarrow> rxs \<Rightarrow> int \<times> char \<times> rxs" where
  "recv_peek ch sk = (case sk of [] \<Rightarrow> (0, ch, []) | RxErr # xs \<Rightarrow> (-1, ch, xs)
                      | RxByte c # xs \<Rightarrow> (1, c, sk))"

definition rx_bytes :: "bytes \<Rightarrow> rxs" where
  "rx_bytes s = map RxByte s"

lemma rx_bytes_simps [simp]:
  "rx_bytes [] = []" "rx_bytes (c # s) = RxByte c # rx_bytes s"
  "rx_bytes (s @ t) = rx_bytes s @ rx_bytes t" "length (rx_bytes s) = length s"
  by (simp_all add: rx_bytes_def)

lemma recv1_simps [simp]:
  "recv1 ch [] = (0, ch, [])" "recv1 ch (RxErr # xs) = (-1, ch, xs)"
  "recv1 ch (RxByte c # xs) = (1, c, xs)"
  by (simp_all add: recv1_def)

lemma recv_peek_simps [simp]:
  "recv_peek ch [] = (0, ch, [])" "recv_peek ch (RxErr # xs) = (-1, ch, xs)"
  "recv_peek ch (RxByte c # xs) = (1, c, RxByte c # xs)"
  by (simp_all add: recv_peek_def)

lemma recv1_shorter: "recv1 ch sk = (s, ch', sk') \<Longrightarrow> 0 < s \<Longrightarrow> length sk' < length sk"
  by (auto simp: recv1_def split: list.splits rx.splits)

lemma recv1_le: "recv1 ch sk = (s, ch', sk') \<Longrightarrow> length sk' \<le> length sk"
  by (auto simp: recv1_def split: list.splits rx.splits)

lemma recv_peek_le: "recv_peek ch sk = (s, ch', sk') \<Longrightarrow> length sk' \<le> length sk"
  by (auto simp: recv_peek_def split: list.splits rx.splits)

section \<open>ReadLine\<close>

text \<open>The body of the \<open>if (ch == '\r')\<close>: look at the next byte and swallow a newline.\<close>

definition norm_cr :: "char \<Rightarrow> rxs \<Rightarrow> char \<times> rxs" where
  "norm_cr ch sk =
     (if ch = CR then
        (case recv_peek ch sk of (_, ch1, sk1) \<Rightarrow>
           if ch1 = LF then (case recv1 ch1 sk1 of (_, ch2, sk2) \<Rightarrow> (ch2, sk2))
           else (LF, sk1))
      else (ch, sk))"

lemma norm_cr_le: "norm_cr ch sk = (ch', sk') \<Longrightarrow> length sk' \<le> length sk"
  by (auto simp: norm_cr_def split: prod.splits if_splits dest!: recv_peek_le recv1_le)

function ReadLine_loop :: "char \<Rightarrow> bytes \<Rightarrow> rxs \<Rightarrow> int \<times> bytes \<times> rxs" where
  "ReadLine_loop ch out sk =
     (if ch \<noteq> LF then
        (case recv1 ch sk of (s, ch1, sk1) \<Rightarrow>
           if 0 < s then
             (case norm_cr ch1 sk1 of (ch2, sk2) \<Rightarrow> ReadLine_loop ch2 (out @ [ch2]) sk2)
           else if s = 0 then (0, out, sk1)
           else (-1, out, sk1))
      else (size_to_int (length out), out, sk))"
  by pat_completeness auto
termination
  by (relation "measure (\<lambda>(ch, out, sk). length sk)") (auto dest!: norm_cr_le [OF sym] recv1_shorter [OF sym])

declare ReadLine_loop.simps [simp del]

definition ReadLine :: "rxs \<Rightarrow> bytes \<Rightarrow> int \<times> bytes \<times> rxs" where
  "ReadLine sk out = ReadLine_loop (CHR ''X'') out sk"

lemma ReadLine_loop_LF [sock_simps]: "ReadLine_loop LF out sk = (size_to_int (length out), out, sk)"
  by (subst ReadLine_loop.simps) simp

lemma ReadLine_loop_step [sock_simps]:
  assumes "ch \<noteq> LF"
  shows "ReadLine_loop ch out [] = (0, out, [])"
    and "ReadLine_loop ch out (RxErr # sk) = (-1, out, sk)"
    and "ReadLine_loop ch out (RxByte LF # sk) = (size_to_int (Suc (length out)), out @ [LF], sk)"
    and "c \<noteq> CR \<Longrightarrow> c \<noteq> LF \<Longrightarrow>
         ReadLine_loop ch out (RxByte c # sk) = ReadLine_loop c (out @ [c]) sk"
  using assms by (subst ReadLine_loop.simps, simp add: norm_cr_def ReadLine_loop_LF)+

lemma ReadLine_loop_CR [sock_simps]:
  assumes "ch \<noteq> LF"
  shows "ReadLine_loop ch out [RxByte CR] = (size_to_int (Suc (length out)), out @ [LF], [])"
    and "ReadLine_loop ch out (RxByte CR # RxErr # sk) =
           (size_to_int (Suc (length out)), out @ [LF], sk)"
    and "ReadLine_loop ch out (RxByte CR # RxByte LF # sk) =
           (size_to_int (Suc (length out)), out @ [LF], sk)"
    and "c \<noteq> LF \<Longrightarrow> ReadLine_loop ch out (RxByte CR # RxByte c # sk) =
           (size_to_int (Suc (length out)), out @ [LF], RxByte c # sk)"
  using assms by (subst ReadLine_loop.simps, simp add: norm_cr_def ReadLine_loop_LF)+

lemma ReadLine_loop_CR_any:
  assumes "ch \<noteq> LF"
  shows "\<exists>sk'. ReadLine_loop ch out (RxByte CR # xs) =
           (size_to_int (Suc (length out)), out @ [LF], sk') \<and> length sk' \<le> length xs"
proof (cases xs)
  case Nil
  with assms show ?thesis by (simp add: sock_simps)
next
  case (Cons y ys)
  with assms show ?thesis
    by (cases y; cases "y = RxByte LF") (auto simp: sock_simps)
qed

text \<open>The abstract view of a byte stream: its first line, and what follows the line end.\<close>

definition eol :: "char \<Rightarrow> bool" where "eol c \<longleftrightarrow> c = CR \<or> c = LF"

definition line_of :: "bytes \<Rightarrow> bytes" where
  "line_of s = takeWhile (\<lambda>c. \<not> eol c) s"

fun skip_eol :: "bytes \<Rightarrow> bytes" where
  "skip_eol [] = []"
| "skip_eol (c # cs) = (if c = CR then (case cs of d # ds \<Rightarrow> if d = LF then ds else cs | [] \<Rightarrow> [])
                        else cs)"

definition after_line :: "bytes \<Rightarrow> bytes" where
  "after_line s = skip_eol (dropWhile (\<lambda>c. \<not> eol c) s)"

definition has_eol :: "bytes \<Rightarrow> bool" where
  "has_eol s \<longleftrightarrow> (\<exists>c\<in>set s. eol c)"

lemma line_simps [str_simps]:
  "has_eol [] = False"
  "has_eol (c # s) = (eol c \<or> has_eol s)"
  "line_of (c # s) = (if eol c then [] else c # line_of s)"
  "after_line (c # s) = (if eol c then skip_eol (c # s) else after_line s)"
  by (auto simp: has_eol_def line_of_def after_line_def)

lemma ReadLine_loop_bytes:
  "ch \<noteq> LF \<Longrightarrow> ReadLine_loop ch out (rx_bytes s) =
     (if has_eol s
      then (size_to_int (Suc (length out + length (line_of s))), out @ line_of s @ [LF],
            rx_bytes (after_line s))
      else (0, out @ s, []))"
proof (induction s arbitrary: ch out)
  case Nil
  then show ?case by (simp add: sock_simps str_simps)
next
  case (Cons c s)
  consider "c = LF" | "c = CR" | "c \<noteq> LF" "c \<noteq> CR" by blast
  then show ?case
  proof cases
    case 1
    with Cons.prems show ?thesis by (simp add: sock_simps str_simps eol_def)
  next
    case 2
    with Cons.prems show ?thesis
      by (cases s) (auto simp: sock_simps str_simps eol_def)
  next
    case 3
    with Cons show ?thesis by (simp add: sock_simps str_simps eol_def)
  qed
qed

lemma ReadLine_bytes:
  "ReadLine (rx_bytes s) [] =
     (if has_eol s
      then (size_to_int (Suc (length (line_of s))), line_of s @ [LF], rx_bytes (after_line s))
      else (0, s, []))"
  by (simp add: ReadLine_def ReadLine_loop_bytes)

text \<open>The general shape of a result, whatever errors the socket reports.\<close>

lemma ReadLine_loop_shape:
  assumes "ReadLine_loop ch out sk = (r, out', sk')" and "0 < r" and "ch \<noteq> LF"
  shows "\<exists>l. out' = out @ l @ [LF] \<and> (\<forall>c\<in>set l. \<not> eol c) \<and> length sk' < length sk \<and>
             length l < length sk"
  using assms
proof (induction "length sk" arbitrary: ch out sk rule: less_induct)
  case less
  show ?case
  proof (cases sk)
    case Nil
    with less.prems show ?thesis by (simp add: sock_simps)
  next
    case (Cons x xs)
    show ?thesis
    proof (cases x)
      case RxErr
      with Cons less.prems show ?thesis by (simp add: sock_simps)
    next
      case (RxByte c)
      consider "c = LF" | "c = CR" | "c \<noteq> LF" "c \<noteq> CR" by blast
      then show ?thesis
      proof cases
        case 1
        with Cons RxByte less.prems show ?thesis by (auto simp: sock_simps)
      next
        case 2
        with Cons RxByte ReadLine_loop_CR_any [OF less.prems(3), of out xs] less.prems(1)
        have "out' = out @ [LF]" "length sk' \<le> length xs" by auto
        with Cons show ?thesis by (intro exI [of _ "[]"]) simp
      next
        case 3
        with Cons RxByte less.prems
        have "ReadLine_loop c (out @ [c]) xs = (r, out', sk')" by (simp add: sock_simps)
        from less.hyps [OF _ this] Cons 3 less.prems(2) obtain l where
          "out' = (out @ [c]) @ l @ [LF]" "\<forall>c\<in>set l. \<not> eol c" "length sk' < length xs"
          "length l < length xs"
          by auto
        with Cons 3 show ?thesis by (intro exI [of _ "c # l"]) (auto simp: eol_def)
      qed
    qed
  qed
qed

lemma ReadLine_shape:
  assumes "ReadLine sk [] = (r, out, sk')" and "0 < r"
  obtains l where "out = l @ [LF]" and "\<forall>c\<in>set l. \<not> eol c" and "length sk' < length sk"
  using ReadLine_loop_shape [OF assms(1)[unfolded ReadLine_def] assms(2)] by auto

lemma ReadLine_le: "ReadLine sk [] = (r, out, sk') \<Longrightarrow> 0 < r \<Longrightarrow> length sk' < length sk"
  by (erule ReadLine_shape)

lemma ReadLine_loop_le: "length (snd (snd (ReadLine_loop ch out sk))) \<le> length sk"
proof (induction ch out sk rule: ReadLine_loop.induct)
  case (1 ch out sk)
  obtain s ch1 sk1 where r: "recv1 ch sk = (s, ch1, sk1)" by (metis prod_cases3)
  obtain ch2 sk2 where n: "norm_cr ch1 sk1 = (ch2, sk2)" by fastforce
  show ?case
  proof (cases "ch \<noteq> LF \<and> 0 < s")
    case True
    with 1 r n have "length (snd (snd (ReadLine_loop ch2 (out @ [ch2]) sk2))) \<le> length sk2" by simp
    with True r n recv1_le [OF r] norm_cr_le [OF n] show ?thesis by (subst ReadLine_loop.simps) simp
  next
    case False
    with r recv1_le [OF r] show ?thesis by (subst ReadLine_loop.simps) auto
  qed
qed

lemma ReadLine_any_le: "ReadLine sk out = (r, line, sk') \<Longrightarrow> length sk' \<le> length sk"
  using ReadLine_loop_le [of "CHR ''X''" out sk] by (simp add: ReadLine_def)

section \<open>CutString\<close>

text \<open>
  The two output parameters keep their old contents when the separator is missing, so they are
  arguments as well as results.
\<close>

definition CutString :: "bytes \<Rightarrow> bytes \<Rightarrow> bytes \<Rightarrow> bytes \<Rightarrow> bool \<times> bytes \<times> bytes" where
  "CutString target sub1 sub2 sep =
     (case str_find sep target of
        Some pos \<Rightarrow> (True, substr target 0 pos, substr_from target (pos + length sep))
      | None \<Rightarrow> (False, sub1, sub2))"

lemma CutString_True:
  assumes "CutString target sub1 sub2 sep = (True, a, b)"
  shows "target = a @ sep @ b"
proof -
  from assms obtain pos where pos: "str_find sep target = Some pos"
    and a: "a = take pos target" and b: "b = drop (pos + length sep) target"
    by (auto simp: CutString_def substr_def substr_from_def split: option.splits)
  from str_find_Some_prefix [OF pos] obtain t where t: "drop pos target = sep @ t"
    by (auto simp: is_prefix_iff)
  then have "drop (length sep) (drop pos target) = t" by simp
  then have "b = t" by (simp add: b add.commute)
  with t a show ?thesis by (metis append_take_drop_id)
qed

lemma CutString_False:
  "CutString target sub1 sub2 sep = (False, a, b) \<Longrightarrow> a = sub1 \<and> b = sub2"
  by (simp add: CutString_def split: option.splits)

lemma str_find_sep:
  "sep = c # cs \<Longrightarrow> c \<notin> set a \<Longrightarrow> str_find sep (a @ sep @ b) = Some (length a)"
proof (induction a)
  case Nil
  have "is_prefix (c # cs) ((c # cs) @ b)" unfolding is_prefix_iff by blast
  with Nil show ?case by simp
next
  case (Cons x xs)
  then show ?case by simp
qed

lemma CutString_sep:
  assumes "sep = c # cs" and "c \<notin> set a"
  shows "CutString (a @ sep @ b) sub1 sub2 sep = (True, a, b)"
  using str_find_sep [OF assms, of b]
  by (simp add: CutString_def substr_def substr_from_def)

lemma CutString_missing:
  "c \<in> set sep \<Longrightarrow> c \<notin> set target \<Longrightarrow> CutString target sub1 sub2 sep = (False, sub1, sub2)"
proof -
  assume c: "c \<in> set sep" "c \<notin> set target"
  have "str_find sep target = None"
  proof (rule ccontr)
    assume "str_find sep target \<noteq> None"
    then obtain n where "str_find sep target = Some n" by auto
    from str_find_Some_prefix [OF this] obtain t where "drop n target = sep @ t"
      by (auto simp: is_prefix_iff)
    then have "set sep \<subseteq> set target" by (metis set_append Un_upper1 set_drop_subset subset_trans)
    with c show False by blast
  qed
  then show ?thesis by (simp add: CutString_def)
qed

section \<open>Properties\<close>

text \<open>C26: each of the three line ends (\<open>\r\n\<close>, \<open>\n\<close>, and \<open>\r\<close> not followed by \<open>\n\<close>) ends the line: the
  result is the line with a single newline, its length, and the stream right after the line end.\<close>

theorem ReadLine_line_ends:
  assumes "\<forall>c\<in>set l. \<not> eol c" and "length l < 2 ^ 31 - 1"
    and "e = CRLF \<or> e = [LF] \<or> (e = [CR] \<and> (\<forall>t. s \<noteq> LF # t))"
  shows "ReadLine (rx_bytes (l @ e @ s)) [] = (int (Suc (length l)), l @ [LF], rx_bytes s)"
proof -
  from assms(3) obtain d t where dt: "e @ s = d # t" "eol d" "skip_eol (d # t) = s"
  proof (elim disjE conjE)
    assume "e = [CR]" "\<forall>t. s \<noteq> LF # t"
    then have "skip_eol (CR # s) = s" by (cases s) simp_all
    with \<open>e = [CR]\<close> that [of CR s] show ?thesis by (simp add: eol_def)
  qed (auto intro: that simp: eol_def)
  have "has_eol (l @ d # t)" using dt(2) by (simp add: has_eol_def)
  moreover have "line_of (l @ d # t) = l"
    using assms(1) dt(2) by (simp add: line_of_def takeWhile_stop)
  moreover have "after_line (l @ d # t) = s"
    using assms(1) dt(2,3) by (simp add: after_line_def dropWhile_stop del: skip_eol.simps)
  moreover have "size_to_int (Suc (length l)) = int (Suc (length l))"
    using assms(2) by (intro size_to_int_small) simp
  ultimately show ?thesis unfolding dt(1) ReadLine_bytes by simp
qed

theorem ReadLine_line_ends_witness:
  "ReadLine (rx_bytes (''ab'' @ [CR] @ ''cd'')) [] = (3, ''ab'' @ [LF], rx_bytes ''cd'')"
  using ReadLine_line_ends [of "''ab''" "[CR]" "''cd''"] by (simp add: eol_def)

text \<open>Whatever the socket delivers, errors included, a positive result of \<open>ReadLine\<close> comes with
  a line that ends in its only newline and holds no carriage return, and at least one event of the
  socket has been consumed.\<close>

lemma ReadLine_positive:
  assumes "ReadLine sk [] = (r, out, sk')" and "0 < r"
  shows "out \<noteq> [] \<and> last out = LF \<and> LF \<notin> set (butlast out) \<and> CR \<notin> set out \<and>
         length sk' < length sk"
proof -
  from assms obtain l where "out = l @ [LF]" "\<forall>c\<in>set l. \<not> eol c" "length sk' < length sk"
    by (rule ReadLine_shape)
  then show ?thesis by (auto simp: eol_def)
qed

text \<open>\<open>CutString\<close> cuts at the first occurrence of the separator and reports whether there is one;
  without one it leaves both outputs as they were.\<close>

lemma CutString_first:
  assumes "CutString target sub1 sub2 sep = (found, a, b)"
  shows "if found
         then target = a @ sep @ b \<and> (\<forall>k<length a. \<not> is_prefix sep (drop k target))
         else (\<forall>k. \<not> is_prefix sep (drop k target)) \<and> a = sub1 \<and> b = sub2"
proof (cases "str_find sep target")
  case None
  with assms str_find_None [OF None] show ?thesis by (simp add: CutString_def)
next
  case (Some pos)
  with assms have f: "found" and a: "a = take pos target"
    by (auto simp: CutString_def substr_def)
  from str_find_Some_prefix [OF Some] a have "length a = pos" by simp
  with str_find_first [OF Some] have first: "\<forall>k<length a. \<not> is_prefix sep (drop k target)" by simp
  from assms f have "CutString target sub1 sub2 sep = (True, a, b)" by simp
  then have split: "target = a @ sep @ b" by (rule CutString_True)
  show ?thesis unfolding if_P [OF f] by (intro conjI split first)
qed

end
