(* ===== verification/Protocol_Data.thy ===== *)
theory Protocol_Data
  imports Utill
begin

text \<open>
  The constants, tables and data of \<open>http/Protocol.hpp\<close>: the status codes and their descriptions,
  the content types, \<open>HttpRequest\<close>, \<open>HttpResponse\<close> and the fields of \<open>EndPoint\<close>. Record fields
  carry the prefix \<open>rq_\<close>, \<open>rs_\<close> or \<open>ep_\<close> of their class.
\<close>

section \<open>Constants\<close>

definition LINE_END :: bytes where "LINE_END = CRLF"
definition SEP :: bytes where "SEP = '': ''"
definition WEB_ROOT :: bytes where "WEB_ROOT = ''wwwroot''"
definition HOME_PAGE :: bytes where "HOME_PAGE = ''index.html''"
definition HTTP_VERSION :: bytes where "HTTP_VERSION = ''HTTP/1.0''"
definition PAGE_404 :: bytes where "PAGE_404 = ''404.html''"

definition OK :: int where "OK = 200"
definition BAD_REQUEST :: int where "BAD_REQUEST = 400"
definition NOT_FOUND :: int where "NOT_FOUND = 404"
definition SERVER_ERROR :: int where "SERVER_ERROR = 500"

lemmas code_defs = OK_def BAD_REQUEST_def NOT_FOUND_def SERVER_ERROR_def

section \<open>Tables\<close>

definition Code2Desc :: "int \<Rightarrow> bytes" where
  "Code2Desc code = (if code = 200 then ''OK'' else if code = 404 then ''Not Found'' else [])"

definition suffix2desc :: "(bytes \<times> bytes) list" where
  "suffix2desc =
     [(''.html'', ''text/html''),
      (''.css'', ''text/css''),
      (''.js'', ''application/javascript''),
      (''.jpg'', ''application/x-jpg''),
      (''.xml'', ''application/xml'')]"

definition Suffix2Desc :: "bytes \<Rightarrow> bytes" where
  "Suffix2Desc suffix =
     (case map_of suffix2desc suffix of Some t \<Rightarrow> t | None \<Rightarrow> ''text/html'')"

section \<open>Requests and responses\<close>

record HttpRequest =
  rq_request_line :: bytes
  rq_request_header :: "bytes list"
  rq_blank :: bytes
  rq_request_body :: bytes
  rq_method :: bytes
  rq_uri :: bytes
  rq_version :: bytes
  rq_header_kv :: "bytes \<rightharpoonup> bytes"
  rq_content_length :: int
  rq_path :: bytes
  rq_suffix :: bytes
  rq_query_string :: bytes
  rq_cgi :: bool
  rq_size :: int

text \<open>
  The constructor initialises \<open>content_length\<close> and \<open>cgi\<close> only: \<open>size\<close> starts as whatever the
  memory holds, here the argument \<open>junk\<close>.
\<close>

definition new_HttpRequest :: "int \<Rightarrow> HttpRequest" where
  "new_HttpRequest junk =
     \<lparr>rq_request_line = [], rq_request_header = [], rq_blank = [], rq_request_body = [],
      rq_method = [], rq_uri = [], rq_version = [], rq_header_kv = Map.empty,
      rq_content_length = 0, rq_path = [], rq_suffix = [], rq_query_string = [],
      rq_cgi = False, rq_size = junk\<rparr>"

record HttpResponse =
  rs_status_line :: bytes
  rs_response_header :: "bytes list"
  rs_blank :: bytes
  rs_response_body :: bytes
  rs_status_code :: int
  rs_fd :: int

definition new_HttpResponse :: HttpResponse where
  "new_HttpResponse =
     \<lparr>rs_status_line = [], rs_response_header = [], rs_blank = LINE_END, rs_response_body = [],
      rs_status_code = OK, rs_fd = -1\<rparr>"

section \<open>EndPoint\<close>

text \<open>
  \<open>ep_sock\<close> is the descriptor of the connection and \<open>ep_in\<close> what its peer is going to send.
\<close>

record EndPoint =
  ep_sock :: int
  ep_in :: rxs
  ep_request :: HttpRequest
  ep_response :: HttpResponse
  ep_stop :: bool

definition new_EndPoint :: "int \<Rightarrow> int \<Rightarrow> rxs \<Rightarrow> EndPoint" where
  "new_EndPoint junk sock sk =
     \<lparr>ep_sock = sock, ep_in = sk, ep_request = new_HttpRequest junk,
      ep_response = new_HttpResponse, ep_stop = False\<rparr>"

definition IsStop :: "EndPoint \<Rightarrow> bool" where
  "IsStop ep = ep_stop ep"

abbreviation upd_rq :: "(HttpRequest \<Rightarrow> HttpRequest) \<Rightarrow> EndPoint \<Rightarrow> EndPoint" where
  "upd_rq f ep \<equiv> ep\<lparr>ep_request := f (ep_request ep)\<rparr>"

abbreviation upd_rs :: "(HttpResponse \<Rightarrow> HttpResponse) \<Rightarrow> EndPoint \<Rightarrow> EndPoint" where
  "upd_rs f ep \<equiv> ep\<lparr>ep_response := f (ep_response ep)\<rparr>"

end
