(* ===== verification/Request.thy ===== *)
theory Request
  imports Protocol_Data
begin

text \<open>
  The first phase of \<open>EndPoint\<close> in \<open>http/Protocol.hpp\<close>: receiving the request line, the headers
  and the body, and parsing them. Each function returns the value the C++ member returns (the
  stop flag) with the updated object. The logging calls have no effect on the object and are not
  part of these definitions.
\<close>

section \<open>Request line and headers\<close>

definition RecvHttpRequestLine :: "EndPoint \<Rightarrow> bool \<times> EndPoint" where
  "RecvHttpRequestLine ep =
     (case ReadLine (ep_in ep) (rq_request_line (ep_request ep)) of (r, line, sk) \<Rightarrow>
        let ep' = (if 0 < r
                   then upd_rq (\<lambda>q. q\<lparr>rq_request_line := butlast line\<rparr>) (ep\<lparr>ep_in := sk\<rparr>)
                   else upd_rq (\<lambda>q. q\<lparr>rq_request_line := line\<rparr>) (ep\<lparr>ep_in := sk, ep_stop := True\<rparr>))
        in (ep_stop ep', ep'))"

function RecvHttpRequestHeader_loop :: "EndPoint \<Rightarrow> EndPoint" where
  "RecvHttpRequestHeader_loop ep =
     (case ReadLine (ep_in ep) [] of (r, line, sk) \<Rightarrow>
        if r \<le> 0 then ep\<lparr>ep_in := sk, ep_stop := True\<rparr>
        else if line = [LF] then upd_rq (\<lambda>q. q\<lparr>rq_blank := line\<rparr>) (ep\<lparr>ep_in := sk\<rparr>)
        else RecvHttpRequestHeader_loop
               (upd_rq (\<lambda>q. q\<lparr>rq_request_header := rq_request_header q @ [butlast line]\<rparr>)
                  (ep\<lparr>ep_in := sk\<rparr>)))"
  by pat_completeness auto
termination
  by (relation "measure (\<lambda>ep. length (ep_in ep))") (auto dest!: ReadLine_le [OF sym])

declare RecvHttpRequestHeader_loop.simps [simp del]

definition RecvHttpRequestHeader :: "EndPoint \<Rightarrow> bool \<times> EndPoint" where
  "RecvHttpRequestHeader ep = (let ep' = RecvHttpRequestHeader_loop ep in (ep_stop ep', ep'))"

section \<open>Parsing\<close>

definition ParseHttpRequestLine :: "EndPoint \<Rightarrow> EndPoint" where
  "ParseHttpRequestLine ep =
     (let ss0 = rq_request_line (ep_request ep);
          (method, ss1) = extract_word ss0;
          (uri, ss2) = extract_word ss1;
          (version, ss3) = extract_word ss2
      in upd_rq (\<lambda>q. q\<lparr>rq_method := map toupper method, rq_uri := uri, rq_version := version\<rparr>) ep)"

text \<open>The loop over the header lines; \<open>key\<close> and \<open>value\<close> live outside it.\<close>

fun ParseHttpRequestHeader_loop ::
  "bytes list \<Rightarrow> bytes \<Rightarrow> bytes \<Rightarrow> (bytes \<rightharpoonup> bytes) \<Rightarrow> (bytes \<rightharpoonup> bytes)" where
  "ParseHttpRequestHeader_loop [] key val kv = kv"
| "ParseHttpRequestHeader_loop (line # lines) key val kv =
     (case CutString line key val SEP of (found, key', val') \<Rightarrow>
        ParseHttpRequestHeader_loop lines key' val'
          (if found then map_insert kv key' val' else kv))"

definition ParseHttpRequestHeader :: "EndPoint \<Rightarrow> EndPoint" where
  "ParseHttpRequestHeader ep =
     upd_rq (\<lambda>q. q\<lparr>rq_header_kv :=
       ParseHttpRequestHeader_loop (rq_request_header q) [] [] (rq_header_kv q)\<rparr>) ep"

section \<open>Body\<close>

definition IsNeedRecvHttpRequestBody :: "EndPoint \<Rightarrow> bool \<times> EndPoint" where
  "IsNeedRecvHttpRequestBody ep =
     (if rq_method (ep_request ep) = ''POST'' then
        (case rq_header_kv (ep_request ep) ''Content-Length'' of
           Some v \<Rightarrow> (True, upd_rq (\<lambda>q. q\<lparr>rq_content_length := atoi (c_str v)\<rparr>) ep)
         | None \<Rightarrow> (False, ep))
      else (False, ep))"

text \<open>
  \<open>while (content_length)\<close>: the counter is a 32-bit \<open>int\<close>, so a negative length counts down through
  the whole range. The result says whether the loop was left by its \<open>break\<close>.
\<close>

function RecvBody_loop :: "int \<Rightarrow> bytes \<Rightarrow> rxs \<Rightarrow> bool \<times> bytes \<times> rxs" where
  "RecvBody_loop content_length body sk =
     (if content_length \<noteq> 0 then
        (case recv1 NUL sk of (s, ch, sk') \<Rightarrow>
           if 0 < s then RecvBody_loop (to_int32 (content_length - 1)) (body @ [ch]) sk'
           else (True, body, sk'))
      else (False, body, sk))"
  by pat_completeness auto
termination
  by (relation "measure (\<lambda>(n, body, sk). length sk)") (auto dest: recv1_shorter [OF sym])

declare RecvBody_loop.simps [simp del]

definition RecvHttpRequestBody :: "EndPoint \<Rightarrow> bool \<times> EndPoint" where
  "RecvHttpRequestBody ep =
     (case IsNeedRecvHttpRequestBody ep of (need, ep1) \<Rightarrow>
        if need then
          (case RecvBody_loop (rq_content_length (ep_request ep1))
                  (rq_request_body (ep_request ep1)) (ep_in ep1) of (broke, body, sk) \<Rightarrow>
             let ep2 = upd_rq (\<lambda>q. q\<lparr>rq_request_body := body\<rparr>)
                         (ep1\<lparr>ep_in := sk, ep_stop := (ep_stop ep1 \<or> broke)\<rparr>)
             in (ep_stop ep2, ep2))
        else (ep_stop ep1, ep1))"

definition RecvHttpRequest :: "EndPoint \<Rightarrow> EndPoint" where
  "RecvHttpRequest ep =
     (case RecvHttpRequestLine ep of (stop1, ep1) \<Rightarrow>
        if \<not> stop1 then
          (case RecvHttpRequestHeader ep1 of (stop2, ep2) \<Rightarrow>
             if \<not> stop2 then
               snd (RecvHttpRequestBody (ParseHttpRequestHeader (ParseHttpRequestLine ep2)))
             else ep2)
        else ep1)"

section \<open>Facts about the loops\<close>

lemma ReadLine_CRLF:
  assumes "\<forall>c\<in>set l. \<not> eol c" and "length l < 2 ^ 31 - 1"
  shows "ReadLine (rx_bytes (l @ CRLF @ s)) [] = (int (Suc (length l)), l @ [LF], rx_bytes s)"
proof -
  have "has_eol (l @ CRLF @ s)" by (simp add: has_eol_def eol_def)
  moreover have "line_of (l @ CRLF @ s) = l"
    using assms(1) by (simp add: line_of_def takeWhile_stop eol_def)
  moreover have "after_line (l @ CRLF @ s) = s"
    using assms(1) by (simp add: after_line_def dropWhile_stop eol_def)
  moreover have "size_to_int (Suc (length l)) = int (Suc (length l))"
    using assms(2) by (intro size_to_int_small) simp
  ultimately show ?thesis by (simp add: ReadLine_bytes del: rx_bytes_simps)
qed

definition wf_line :: "bytes \<Rightarrow> bool" where
  "wf_line l \<longleftrightarrow> l \<noteq> [] \<and> (\<forall>c\<in>set l. \<not> eol c) \<and> length l < 2 ^ 31 - 1"

definition print_lines :: "bytes list \<Rightarrow> bytes" where
  "print_lines ls = concat (map (\<lambda>l. l @ CRLF) ls)"

lemma print_lines_simps [simp]:
  "print_lines [] = []" "print_lines (l # ls) = l @ CRLF @ print_lines ls"
  by (simp_all add: print_lines_def)

lemma header_loop_lines:
  assumes "ep_in ep = rx_bytes (print_lines ls @ CRLF @ s)" and "\<forall>l\<in>set ls. wf_line l"
  shows "RecvHttpRequestHeader_loop ep =
     upd_rq (\<lambda>q. q\<lparr>rq_request_header := rq_request_header q @ ls, rq_blank := [LF]\<rparr>)
       (ep\<lparr>ep_in := rx_bytes s\<rparr>)"
  using assms
proof (induction ls arbitrary: ep)
  case Nil
  then have "ReadLine (ep_in ep) [] = (1, [LF], rx_bytes s)"
    using ReadLine_CRLF [of "[]" s] by simp
  then show ?case by (subst RecvHttpRequestHeader_loop.simps) simp
next
  case (Cons l ls)
  let ?ep = "upd_rq (\<lambda>q. q\<lparr>rq_request_header := rq_request_header q @ [l]\<rparr>)
       (ep\<lparr>ep_in := rx_bytes (print_lines ls @ CRLF @ s)\<rparr>)"
  from Cons.prems have "ReadLine (ep_in ep) [] =
      (int (Suc (length l)), l @ [LF], rx_bytes (print_lines ls @ CRLF @ s))"
    using ReadLine_CRLF [of l "print_lines ls @ CRLF @ s"] by (simp add: wf_line_def)
  moreover from Cons.prems have "l \<noteq> []" by (simp add: wf_line_def)
  ultimately have "RecvHttpRequestHeader_loop ep = RecvHttpRequestHeader_loop ?ep"
    by (subst RecvHttpRequestHeader_loop.simps) simp
  with Cons.IH [of ?ep] Cons.prems(2) show ?case by simp
qed

text \<open>The pairs a list of header lines denotes: the lines with a separator, cut at its first one.\<close>

definition header_pair :: "bytes \<Rightarrow> (bytes \<times> bytes) option" where
  "header_pair line = (case CutString line [] [] SEP of (found, k, v) \<Rightarrow>
     if found then Some (k, v) else None)"

definition header_pairs :: "bytes list \<Rightarrow> (bytes \<times> bytes) list" where
  "header_pairs lines = List.map_filter header_pair lines"

lemma header_pairs_simps [simp]:
  "header_pairs [] = []"
  "header_pairs (l # ls) =
     (case header_pair l of Some p \<Rightarrow> p # header_pairs ls | None \<Rightarrow> header_pairs ls)"
  unfolding header_pairs_def by (simp_all add: List.map_filter_simps)

lemma CutString_pair:
  "CutString line k v SEP =
     (case header_pair line of Some (a, b) \<Rightarrow> (True, a, b) | None \<Rightarrow> (False, k, v))"
  by (simp add: header_pair_def CutString_def split: option.split)

lemma parse_headers_map:
  "ParseHttpRequestHeader_loop lines k v kv = map_of (header_pairs lines) ++ kv"
proof (induction lines arbitrary: k v kv)
  case Nil
  then show ?case by simp
next
  case (Cons l ls)
  show ?case
  proof (cases "header_pair l")
    case None
    with Cons show ?thesis by (simp add: CutString_pair)
  next
    case (Some p)
    obtain a b where "p = (a, b)" by fastforce
    with Some Cons show ?thesis
      by (auto simp: CutString_pair fun_eq_iff map_add_def map_insert_apply split: option.split)
  qed
qed

lemma header_pair_print: "CHR '':'' \<notin> set k \<Longrightarrow> header_pair (k @ SEP @ v) = Some (k, v)"
  using CutString_sep [of SEP "CHR '':''" "'' ''" k v "[]" "[]"]
  by (simp add: header_pair_def SEP_def)

lemma header_pairs_print:
  "\<forall>(k, v)\<in>set kvs. CHR '':'' \<notin> set k \<Longrightarrow>
   header_pairs (map (\<lambda>(k, v). k @ SEP @ v) kvs) = kvs"
  by (induction kvs) (auto simp: header_pair_print)

text \<open>The body loop reads exactly \<open>content_length mod 2^32\<close> bytes, or stops at a failing call.\<close>

lemma RecvBody_loop_simps [sock_simps]:
  "RecvBody_loop 0 body sk = (False, body, sk)"
  "n \<noteq> 0 \<Longrightarrow> RecvBody_loop n body [] = (True, body, [])"
  "n \<noteq> 0 \<Longrightarrow> RecvBody_loop n body (RxErr # sk) = (True, body, sk)"
  "n \<noteq> 0 \<Longrightarrow> RecvBody_loop n body (RxByte c # sk) =
     RecvBody_loop (to_int32 (n - 1)) (body @ [c]) sk"
  by (subst RecvBody_loop.simps, simp)+

lemma mod32_step:
  assumes "(n::int) mod 2 ^ 32 \<noteq> 0"
  shows "to_int32 (n - 1) mod 2 ^ 32 = n mod 2 ^ 32 - 1"
  using pred_mod [of "2 ^ 32" n] assms to_int32_mod [of "n - 1"] by simp

lemma mod32_zero:
  assumes "- (2 ^ 31) \<le> (n::int)" and "n < 2 ^ 31"
  shows "n mod 2 ^ 32 = 0 \<longleftrightarrow> n = 0"
proof
  assume "n mod 2 ^ 32 = 0"
  then have "2 ^ 32 dvd n" by (simp only: dvd_eq_mod_eq_0)
  show "n = 0"
  proof (rule ccontr)
    assume "n \<noteq> 0"
    from dvd_imp_le_int [OF this \<open>2 ^ 32 dvd n\<close>] assms show False by simp
  qed
qed simp

lemma RecvBody_loop_spec:
  assumes "- (2 ^ 31) \<le> n" and "n < 2 ^ 31"
  shows "RecvBody_loop n body sk = (False, body', sk') \<longleftrightarrow>
    (\<exists>s. sk = rx_bytes s @ sk' \<and> body' = body @ s \<and> int (length s) = n mod 2 ^ 32)"
  using assms
proof (induction sk arbitrary: n body)
  case Nil
  show ?case
  proof (cases "n = 0")
    case True
    then show ?thesis by (auto simp: sock_simps rx_bytes_def)
  next
    case False
    with Nil mod32_zero [of n] show ?thesis by (auto simp: sock_simps rx_bytes_def)
  qed
next
  case (Cons x sk)
  show ?case
  proof (cases "n = 0")
    case True
    then show ?thesis by (auto simp: sock_simps)
  next
    case False
    with Cons.prems mod32_zero [of n] have nz: "n mod 2 ^ 32 \<noteq> 0" by simp
    show ?thesis
    proof (cases x)
      case RxErr
      with False nz show ?thesis
        by (auto simp: sock_simps rx_bytes_def Cons_eq_append_conv Cons_eq_map_conv)
    next
      case (RxByte c)
      let ?n = "to_int32 (n - 1)"
      have "RecvBody_loop n body (x # sk) = (False, body', sk') \<longleftrightarrow>
          (\<exists>s. sk = rx_bytes s @ sk' \<and> body' = (body @ [c]) @ s \<and> int (length s) = ?n mod 2 ^ 32)"
        using RxByte False Cons.IH [of ?n "body @ [c]"] to_int32_bounds [of "n - 1"]
        by (simp add: sock_simps)
      also have "\<dots> \<longleftrightarrow> (\<exists>s. sk = rx_bytes s @ sk' \<and> body' = body @ c # s \<and>
          int (length s) = n mod 2 ^ 32 - 1)"
        by (simp only: mod32_step [OF nz] append.assoc append_Cons append_Nil)
      also have "\<dots> \<longleftrightarrow> (\<exists>s. x # sk = rx_bytes s @ sk' \<and> body' = body @ s \<and>
          int (length s) = n mod 2 ^ 32)" (is "?L \<longleftrightarrow> ?R")
      proof
        assume ?L
        then obtain s where "sk = rx_bytes s @ sk'" "body' = body @ c # s"
          "int (length s) = n mod 2 ^ 32 - 1" by blast
        with RxByte show ?R by (intro exI [of _ "c # s"]) simp
      next
        assume ?R
        then obtain s where s: "x # sk = rx_bytes s @ sk'" "body' = body @ s"
          "int (length s) = n mod 2 ^ 32" by blast
        with nz obtain d t where "s = d # t" by (cases s) auto
        with s RxByte show ?L by (intro exI [of _ t]) auto
      qed
      finally show ?thesis .
    qed
  qed
qed

lemma RecvBody_loop_exact:
  assumes "int (length s) < 2 ^ 31"
  shows "RecvBody_loop (int (length s)) body (rx_bytes s @ sk) = (False, body @ s, sk)"
proof -
  from assms have "int (length s) mod 2 ^ 32 = int (length s)" by simp
  with RecvBody_loop_spec [of "int (length s)" body "rx_bytes s @ sk" "body @ s" sk] assms
  show ?thesis by auto
qed

section \<open>What receiving leaves alone\<close>

lemma header_loop_frame:
  "ep_response (RecvHttpRequestHeader_loop ep) = ep_response ep \<and>
   ep_sock (RecvHttpRequestHeader_loop ep) = ep_sock ep \<and>
   rq_request_body (ep_request (RecvHttpRequestHeader_loop ep)) = rq_request_body (ep_request ep) \<and>
   rq_cgi (ep_request (RecvHttpRequestHeader_loop ep)) = rq_cgi (ep_request ep) \<and>
   length (ep_in (RecvHttpRequestHeader_loop ep)) \<le> length (ep_in ep)"
proof (induction ep rule: RecvHttpRequestHeader_loop.induct)
  case (1 ep)
  obtain r line sk where r: "ReadLine (ep_in ep) [] = (r, line, sk)" by (metis prod_cases3)
  show ?case
  proof (cases "0 < r \<and> line \<noteq> [LF]")
    case True
    with 1 [OF r [symmetric] refl] ReadLine_any_le [OF r] show ?thesis
      by (subst (1 2 3 4 5) RecvHttpRequestHeader_loop.simps) (simp add: r)
  next
    case False
    with ReadLine_any_le [OF r] show ?thesis
      by (subst (1 2 3 4 5) RecvHttpRequestHeader_loop.simps) (auto simp: r)
  qed
qed

lemma nonneg_mod32:
  assumes "- (2 ^ 31) \<le> (n::int)" and "n < 2 ^ 31" and "n mod 2 ^ 32 < 2 ^ 31"
  shows "n mod 2 ^ 32 = n"
proof (cases "0 \<le> n")
  case True
  with assms show ?thesis by simp
next
  case False
  have "n mod 2 ^ 32 = (n + 2 ^ 32) mod 2 ^ 32" by simp
  also have "\<dots> = n + 2 ^ 32" using False assms(1) by (intro mod_pos_pos_trivial) simp_all
  finally show ?thesis using assms(1,3) by simp
qed

definition body_agrees :: "HttpRequest \<Rightarrow> bool" where
  "body_agrees q \<longleftrightarrow>
     (rq_method q = ''POST'' \<longrightarrow> rq_content_length q = int (length (rq_request_body q)))"

lemma body_received:
  assumes "RecvHttpRequestBody ep = (False, ep')" and "rq_request_body (ep_request ep) = []"
    and "rq_content_length (ep_request ep) = 0" and "int (length (ep_in ep)) < 2 ^ 31"
  shows "body_agrees (ep_request ep')"
proof (cases "IsNeedRecvHttpRequestBody ep")
  case (Pair need ep1)
  show ?thesis
  proof (cases need)
    case False
    with Pair assms show ?thesis
      by (auto simp: RecvHttpRequestBody_def IsNeedRecvHttpRequestBody_def body_agrees_def
          split: if_splits option.splits)
  next
    case True
    with Pair obtain v where
      ep1: "ep1 = upd_rq (\<lambda>q. q\<lparr>rq_content_length := atoi (c_str v)\<rparr>) ep"
      by (auto simp: IsNeedRecvHttpRequestBody_def split: if_splits option.splits)
    let ?n = "atoi (c_str v)"
    obtain broke b sk where r: "RecvBody_loop ?n [] (ep_in ep) = (broke, b, sk)"
      by (metis prod_cases3)
    from assms(1) Pair True ep1 r assms(2) have "\<not> broke" and
      ep': "ep_request ep' = (ep_request ep1)\<lparr>rq_request_body := b\<rparr>"
      by (auto simp: RecvHttpRequestBody_def Let_def)
    with r RecvBody_loop_spec [of ?n "[]"] atoi_bounds [of "c_str v"] obtain s where
      s: "ep_in ep = rx_bytes s @ sk" "b = s" "int (length s) = ?n mod 2 ^ 32" by auto
    with assms(4) have "?n mod 2 ^ 32 < 2 ^ 31" by simp
    with nonneg_mod32 [of ?n] atoi_bounds [of "c_str v"] have "?n mod 2 ^ 32 = ?n" by blast
    with s ep' ep1 show ?thesis by (simp add: body_agrees_def)
  qed
qed

lemma body_frame:
  "ep_response (snd (RecvHttpRequestBody ep)) = ep_response ep \<and>
   ep_sock (snd (RecvHttpRequestBody ep)) = ep_sock ep \<and>
   fst (RecvHttpRequestBody ep) = ep_stop (snd (RecvHttpRequestBody ep))"
  by (auto simp: RecvHttpRequestBody_def IsNeedRecvHttpRequestBody_def Let_def
      split: prod.splits option.splits)

lemma parse_frame:
  "ep_response (ParseHttpRequestHeader (ParseHttpRequestLine ep)) = ep_response ep"
  "ep_sock (ParseHttpRequestHeader (ParseHttpRequestLine ep)) = ep_sock ep"
  "ep_in (ParseHttpRequestHeader (ParseHttpRequestLine ep)) = ep_in ep"
  "rq_request_body (ep_request (ParseHttpRequestHeader (ParseHttpRequestLine ep))) =
     rq_request_body (ep_request ep)"
  "rq_content_length (ep_request (ParseHttpRequestHeader (ParseHttpRequestLine ep))) =
     rq_content_length (ep_request ep)"
  by (simp_all add: ParseHttpRequestHeader_def ParseHttpRequestLine_def Let_def split: prod.split)

lemma header_loop_length:
  "rq_content_length (ep_request (RecvHttpRequestHeader_loop ep)) = rq_content_length (ep_request ep)"
proof (induction ep rule: RecvHttpRequestHeader_loop.induct)
  case (1 ep)
  obtain r line sk where r: "ReadLine (ep_in ep) [] = (r, line, sk)" by (metis prod_cases3)
  show ?case
    by (cases "0 < r \<and> line \<noteq> [LF]";
        subst RecvHttpRequestHeader_loop.simps; use 1 [OF r [symmetric] refl] r in auto)
qed

lemma line_frame:
  assumes "RecvHttpRequestLine ep = (st, ep1)"
  shows "ep_response ep1 = ep_response ep" "ep_sock ep1 = ep_sock ep"
    "rq_request_body (ep_request ep1) = rq_request_body (ep_request ep)"
    "rq_content_length (ep_request ep1) = rq_content_length (ep_request ep)"
    "length (ep_in ep1) \<le> length (ep_in ep)" "st = ep_stop ep1"
  using assms
  by (auto simp: RecvHttpRequestLine_def Let_def split: prod.splits if_splits dest: ReadLine_any_le)

text \<open>
  What the later phases rely on: the response object and the descriptor are still those of the
  constructor, and the length of a POST agrees with its body.
\<close>

lemma received:
  fixes junk sock sk
  defines "ep \<equiv> RecvHttpRequest (new_EndPoint junk sock sk)"
  assumes "int (length sk) < 2 ^ 31"
  shows "ep_response ep = new_HttpResponse \<and> ep_sock ep = sock \<and>
         (\<not> IsStop ep \<longrightarrow> body_agrees (ep_request ep))"
proof -
  let ?e0 = "new_EndPoint junk sock sk"
  have e0: "ep_response ?e0 = new_HttpResponse" "ep_sock ?e0 = sock" "ep_in ?e0 = sk"
    "rq_request_body (ep_request ?e0) = []" "rq_content_length (ep_request ?e0) = 0"
    by (simp_all add: new_EndPoint_def new_HttpRequest_def)
  obtain st1 e1 where l: "RecvHttpRequestLine ?e0 = (st1, e1)" by fastforce
  note f1 = line_frame [OF l]
  show ?thesis
  proof (cases st1)
    case True
    with l f1 e0 show ?thesis by (simp add: ep_def RecvHttpRequest_def IsStop_def)
  next
    case False
    let ?e2 = "RecvHttpRequestHeader_loop e1"
    note f2 = header_loop_frame [of e1] header_loop_length [of e1]
    show ?thesis
    proof (cases "ep_stop ?e2")
      case True
      with False l f1 f2 e0 show ?thesis
        by (simp add: ep_def RecvHttpRequest_def RecvHttpRequestHeader_def IsStop_def)
    next
      case go: False
      let ?e3 = "ParseHttpRequestHeader (ParseHttpRequestLine ?e2)"
      have ep: "ep = snd (RecvHttpRequestBody ?e3)"
        using False go l by (simp add: ep_def RecvHttpRequest_def RecvHttpRequestHeader_def)
      have "body_agrees (ep_request ep)" if "\<not> ep_stop ep"
      proof (rule body_received)
        show "RecvHttpRequestBody ?e3 = (False, ep)"
          using that ep body_frame [of ?e3] by (cases "RecvHttpRequestBody ?e3") simp
      qed (use assms(2) f1 f2 e0 in \<open>simp_all add: parse_frame\<close>)
      with ep body_frame [of ?e3] f1 f2 e0 show ?thesis by (simp add: IsStop_def parse_frame)
    qed
  qed
qed

text \<open>The number of the descriptor plays no part in what is received.\<close>

lemma line_any_sock:
  "RecvHttpRequestLine (ep\<lparr>ep_sock := s\<rparr>) =
     (case RecvHttpRequestLine ep of (st, ep1) \<Rightarrow> (st, ep1\<lparr>ep_sock := s\<rparr>))"
  by (auto simp: RecvHttpRequestLine_def Let_def split: prod.split)

lemma sock_last:
  "ep\<lparr>ep_sock := s, ep_in := x\<rparr> = ep\<lparr>ep_in := x, ep_sock := s\<rparr>"
  "ep\<lparr>ep_sock := s, ep_request := q\<rparr> = ep\<lparr>ep_request := q, ep_sock := s\<rparr>"
  by simp_all

lemma header_loop_any_sock:
  "RecvHttpRequestHeader_loop (ep\<lparr>ep_sock := s\<rparr>) = (RecvHttpRequestHeader_loop ep)\<lparr>ep_sock := s\<rparr>"
proof (induction ep rule: RecvHttpRequestHeader_loop.induct)
  case (1 ep)
  obtain r line sk where r: "ReadLine (ep_in ep) [] = (r, line, sk)" by (metis prod_cases3)
  show ?case
  proof (cases "0 < r \<and> line \<noteq> [LF]")
    case True
    with 1 [OF r [symmetric] refl] show ?thesis
      by (subst (1 2) RecvHttpRequestHeader_loop.simps) (simp add: r sock_last)
  next
    case False
    then show ?thesis by (subst (1 2) RecvHttpRequestHeader_loop.simps) (auto simp: r)
  qed
qed

lemma parse_any_sock:
  "ParseHttpRequestHeader (ParseHttpRequestLine (ep\<lparr>ep_sock := s\<rparr>)) =
     (ParseHttpRequestHeader (ParseHttpRequestLine ep))\<lparr>ep_sock := s\<rparr>"
  by (simp add: ParseHttpRequestHeader_def ParseHttpRequestLine_def Let_def split: prod.split)

lemma body_any_sock:
  "RecvHttpRequestBody (ep\<lparr>ep_sock := s\<rparr>) =
     (case RecvHttpRequestBody ep of (st, ep1) \<Rightarrow> (st, ep1\<lparr>ep_sock := s\<rparr>))"
  by (auto simp: RecvHttpRequestBody_def IsNeedRecvHttpRequestBody_def Let_def
      split: prod.splits option.splits)

lemma recv_any_sock: "RecvHttpRequest (ep\<lparr>ep_sock := s\<rparr>) = (RecvHttpRequest ep)\<lparr>ep_sock := s\<rparr>"
  by (auto simp: RecvHttpRequest_def RecvHttpRequestHeader_def Let_def line_any_sock
      header_loop_any_sock parse_any_sock body_any_sock split: prod.splits)

lemma RecvHttpRequest_any_sock:
  "RecvHttpRequest (new_EndPoint junk sock rx) = (RecvHttpRequest (new_EndPoint junk s rx))\<lparr>ep_sock := sock\<rparr>"
  using recv_any_sock [where ep = "new_EndPoint junk s rx" and s = sock] by (simp add: new_EndPoint_def)

section \<open>Properties\<close>

text \<open>The wire form of a request.\<close>

definition print_request ::
  "bytes \<Rightarrow> bytes \<Rightarrow> bytes \<Rightarrow> (bytes \<times> bytes) list \<Rightarrow> bytes \<Rightarrow> bytes" where
  "print_request m u v kvs body =
     (m @ '' '' @ u @ '' '' @ v) @ CRLF @
     print_lines (map (\<lambda>(k, x). k @ SEP @ x) kvs) @ CRLF @ body"

definition wf_request :: "bytes \<Rightarrow> bytes \<Rightarrow> bytes \<Rightarrow> (bytes \<times> bytes) list \<Rightarrow> bool" where
  "wf_request m u v kvs \<longleftrightarrow>
     is_word m \<and> is_word u \<and> is_word v \<and> length (m @ u @ v) < 2 ^ 31 - 3 \<and>
     (\<forall>(k, x)\<in>set kvs. CHR '':'' \<notin> set k \<and> wf_line (k @ SEP @ x))"

lemma parse_line_words:
  assumes "is_word m" "is_word u" "is_word v"
    and "rq_request_line (ep_request ep) = m @ '' '' @ u @ '' '' @ v"
  shows "ParseHttpRequestLine ep =
    upd_rq (\<lambda>q. q\<lparr>rq_method := map toupper m, rq_uri := u, rq_version := v\<rparr>) ep"
  using assms
  by (simp add: ParseHttpRequestLine_def extract_word_sep extract_word_end)

lemma RecvHttpRequestLine_CRLF:
  assumes "ep_in ep = rx_bytes (l @ CRLF @ s)" and "rq_request_line (ep_request ep) = []"
    and "\<not> ep_stop ep" and "\<forall>c\<in>set l. \<not> eol c" and "length l < 2 ^ 31 - 1"
  shows "RecvHttpRequestLine ep =
    (False, upd_rq (\<lambda>q. q\<lparr>rq_request_line := l\<rparr>) (ep\<lparr>ep_in := rx_bytes s\<rparr>))"
  using assms ReadLine_CRLF [of l s] by (simp add: RecvHttpRequestLine_def del: rx_bytes_simps)

lemma is_word_no_eol: "is_word w \<Longrightarrow> c \<in> set w \<Longrightarrow> \<not> eol c"
  by (auto simp: is_word_def eol_def)

text \<open>What the parsed object looks like before the body is received.\<close>

definition parsed_head ::
  "EndPoint \<Rightarrow> bytes \<Rightarrow> bytes \<Rightarrow> bytes \<Rightarrow> (bytes \<times> bytes) list \<Rightarrow> rxs \<Rightarrow> EndPoint" where
  "parsed_head ep m u v kvs sk = upd_rq (\<lambda>q. q\<lparr>
     rq_request_line := m @ '' '' @ u @ '' '' @ v,
     rq_request_header := map (\<lambda>(k, x). k @ SEP @ x) kvs, rq_blank := [LF],
     rq_method := map toupper m, rq_uri := u, rq_version := v,
     rq_header_kv := map_of kvs\<rparr>) (ep\<lparr>ep_in := sk\<rparr>)"

lemma RecvHttpRequest_head:
  assumes "wf_request m u v kvs"
  shows "RecvHttpRequest (new_EndPoint junk sock (rx_bytes (print_request m u v kvs rest))) =
    snd (RecvHttpRequestBody
      (parsed_head (new_EndPoint junk sock []) m u v kvs (rx_bytes rest)))"
proof -
  let ?l = "m @ '' '' @ u @ '' '' @ v"
  let ?ls = "map (\<lambda>(k, x). k @ SEP @ x) kvs"
  let ?ep = "new_EndPoint junk sock (rx_bytes (print_request m u v kvs rest))"
  let ?ep1 = "upd_rq (\<lambda>q. q\<lparr>rq_request_line := ?l\<rparr>)
     (?ep\<lparr>ep_in := rx_bytes (print_lines ?ls @ CRLF @ rest)\<rparr>)"
  let ?ep2 = "upd_rq (\<lambda>q. q\<lparr>rq_request_line := ?l, rq_request_header := ?ls, rq_blank := [LF]\<rparr>)
     (new_EndPoint junk sock (rx_bytes rest))"
  have l: "\<forall>c\<in>set ?l. \<not> eol c"
    using assms by (auto simp: wf_request_def dest: is_word_no_eol) (auto simp: eol_def)
  have 1: "RecvHttpRequestLine ?ep = (False, ?ep1)"
    using assms
    by (intro RecvHttpRequestLine_CRLF l)
       (simp_all add: print_request_def new_EndPoint_def new_HttpRequest_def wf_request_def
          del: rx_bytes_simps)
  have "\<forall>l\<in>set ?ls. wf_line l" using assms by (auto simp: wf_request_def)
  from header_loop_lines [OF _ this, of ?ep1 rest]
  have 2: "RecvHttpRequestHeader ?ep1 = (False, ?ep2)"
    by (simp add: RecvHttpRequestHeader_def new_EndPoint_def new_HttpRequest_def del: rx_bytes_simps)
  have kv: "header_pairs ?ls = kvs" using assms by (intro header_pairs_print) (auto simp: wf_request_def)
  from assms have w: "is_word m" "is_word u" "is_word v" by (auto simp: wf_request_def)
  have 3: "ParseHttpRequestLine ?ep2 =
     upd_rq (\<lambda>q. q\<lparr>rq_method := map toupper m, rq_uri := u, rq_version := v\<rparr>) ?ep2"
    by (rule parse_line_words [OF w]) simp
  have 4: "ParseHttpRequestHeader (ParseHttpRequestLine ?ep2) =
     parsed_head (new_EndPoint junk sock []) m u v kvs (rx_bytes rest)"
    unfolding 3
    by (simp add: ParseHttpRequestHeader_def parse_headers_map kv parsed_head_def new_EndPoint_def
        new_HttpRequest_def del: rx_bytes_simps)
  show ?thesis by (simp only: RecvHttpRequest_def 1 2 4 prod.case not_False_eq_True if_True)
qed

text \<open>C10: receiving the wire form of a well-formed POST request recovers every part of it: method
  (in upper case), URI, version, the headers as a map whose first binding of a key wins, the length
  and the body; what follows the request stays on the socket.\<close>

theorem RecvHttpRequest_post_roundtrip:
  assumes "wf_request m u v kvs" and "map toupper m = ''POST''"
    and "map_of kvs ''Content-Length'' = Some (string_of_int (int (length body)))"
    and "int (length body) < 2 ^ 31"
    and "ep' = RecvHttpRequest (new_EndPoint junk sock
           (rx_bytes (print_request m u v kvs (body @ rest))))"
  shows "\<not> IsStop ep' \<and> rq_method (ep_request ep') = ''POST'' \<and> rq_uri (ep_request ep') = u \<and>
         rq_version (ep_request ep') = v \<and> rq_header_kv (ep_request ep') = map_of kvs \<and>
         rq_content_length (ep_request ep') = int (length body) \<and>
         rq_request_body (ep_request ep') = body \<and> ep_in ep' = rx_bytes rest"
  unfolding assms(5) RecvHttpRequest_head [OF assms(1)]
  using assms(2-4) RecvBody_loop_exact [OF assms(4), of "[]" "rx_bytes rest"]
  by (simp add: parsed_head_def RecvHttpRequestBody_def
      IsNeedRecvHttpRequestBody_def new_EndPoint_def new_HttpRequest_def IsStop_def
      c_str_id string_of_int_no_nul atoi_string_of_int)

theorem RecvHttpRequest_post_roundtrip_witness:
  "rq_request_body (ep_request (RecvHttpRequest (new_EndPoint 7 4 (rx_bytes
     (print_request ''post'' ''/t'' ''HTTP/1.0'' [(''Content-Length'', ''3'')] (''a=1'' @ ''zz'')))))) =
   ''a=1''"
proof -
  have 1: "wf_request ''post'' ''/t'' ''HTTP/1.0'' [(''Content-Length'', ''3'')]"
    by (simp add: wf_request_def is_word_def isspace_def wf_line_def eol_def SEP_def)
  have 2: "map toupper ''post'' = ''POST''" by code_simp
  have 3: "map_of [(''Content-Length'', ''3'')] ''Content-Length'' =
      Some (string_of_int (int (length ''a=1'')))" by code_simp
  have 4: "int (length ''a=1'') < 2 ^ 31" by simp
  from RecvHttpRequest_post_roundtrip [OF 1 2 3 4 refl, of 7 4 "''zz''"] show ?thesis by blast
qed

text \<open>Receiving the wire form of any other well-formed request (in particular a GET) recovers
  method, URI, version and headers and reads no body, whatever \<open>Content-Length\<close> says.\<close>

lemma RecvHttpRequest_get_roundtrip:
  assumes "wf_request m u v kvs" and "map toupper m \<noteq> ''POST''"
    and "ep' = RecvHttpRequest (new_EndPoint junk sock
           (rx_bytes (print_request m u v kvs rest)))"
  shows "\<not> IsStop ep' \<and> rq_method (ep_request ep') = map toupper m \<and> rq_uri (ep_request ep') = u \<and>
         rq_version (ep_request ep') = v \<and> rq_header_kv (ep_request ep') = map_of kvs \<and>
         rq_request_body (ep_request ep') = [] \<and> ep_in ep' = rx_bytes rest"
  unfolding assms(3) RecvHttpRequest_head [OF assms(1)]
  using assms(2)
  by (simp add: parsed_head_def RecvHttpRequestBody_def
      IsNeedRecvHttpRequestBody_def new_EndPoint_def new_HttpRequest_def IsStop_def)

text \<open>The body loop, on any socket: it finishes without setting the stop flag exactly when the
  next \<open>content_length mod 2^32\<close> events are bytes, and these are appended to the body. For a
  non-negative length this is the length itself; a negative one asks for more than two gigabytes.\<close>

lemma RecvBody_loop_reads:
  assumes "- (2 ^ 31) \<le> n" and "n < 2 ^ 31"
  shows "fst (RecvBody_loop n body sk) = False \<longleftrightarrow>
    (\<exists>s sk'. sk = rx_bytes s @ sk' \<and> int (length s) = n mod 2 ^ 32 \<and>
       RecvBody_loop n body sk = (False, body @ s, sk'))"
proof
  assume "fst (RecvBody_loop n body sk) = False"
  then obtain b sk' where "RecvBody_loop n body sk = (False, b, sk')"
    by (cases "RecvBody_loop n body sk") auto
  with RecvBody_loop_spec [OF assms] show "\<exists>s sk'. sk = rx_bytes s @ sk' \<and>
     int (length s) = n mod 2 ^ 32 \<and> RecvBody_loop n body sk = (False, body @ s, sk')"
    by (metis (no_types, lifting))
qed auto

text \<open>A POST whose \<open>Content-Length\<close> reads as a negative number is not rejected: unless the peer
  sends at least 2^31 bytes, the receiving phase ends with the stop flag, after everything the peer
  sends has been waited for and swallowed.\<close>

lemma negative_length_stops:
  assumes "rq_method (ep_request ep) = ''POST''"
    and "rq_header_kv (ep_request ep) ''Content-Length'' = Some v"
    and "atoi (c_str v) < 0" and "int (length (ep_in ep)) < 2 ^ 31"
  shows "fst (RecvHttpRequestBody ep)"
proof -
  let ?n = "atoi (c_str v)"
  obtain broke b sk where r: "RecvBody_loop ?n (rq_request_body (ep_request ep)) (ep_in ep) =
      (broke, b, sk)" by (cases "RecvBody_loop ?n (rq_request_body (ep_request ep)) (ep_in ep)") auto
  have "broke"
  proof (rule ccontr)
    assume "\<not> broke"
    with r RecvBody_loop_spec [of ?n] atoi_bounds [of "c_str v"] obtain s where
      s: "ep_in ep = rx_bytes s @ sk" "int (length s) = ?n mod 2 ^ 32" by auto
    have "?n mod 2 ^ 32 = (?n + 2 ^ 32) mod 2 ^ 32" by simp
    also have "\<dots> = ?n + 2 ^ 32"
      using assms(3) atoi_bounds [of "c_str v"] by (intro mod_pos_pos_trivial) simp_all
    finally show False using s assms(4) atoi_bounds [of "c_str v"] by simp
  qed
  with assms(1,2) r show ?thesis
    by (simp add: RecvHttpRequestBody_def IsNeedRecvHttpRequestBody_def)
qed

text \<open>Parsing the header lines yields the map of the lines cut at their first separator, the
  first line of a key winning; lines without the separator are ignored.\<close>

lemma ParseHttpRequestHeader_first_wins:
  "rq_header_kv (ep_request (ParseHttpRequestHeader ep)) =
     map_of (header_pairs (rq_request_header (ep_request ep))) ++ rq_header_kv (ep_request ep)"
  by (simp add: ParseHttpRequestHeader_def parse_headers_map)

end
