(* ===== verification/Kernel.thy ===== *)
theory Kernel
  imports Protocol_Data
begin

text \<open>
  What the server asks of the operating system, as a record that the handlers thread through:
  the process's descriptor table (with its limit), the file system as the answers it gives to
  \<open>stat\<close> and \<open>open\<close> for a path, the programs \<open>execl\<close> can start, the environment, the outcome of
  \<open>fork\<close> and \<open>waitpid\<close>, the results of the coming calls of \<open>write\<close> and \<open>send\<close>, and the bytes sent
  on the connection so far. All of it is arbitrary in the theorems; the functions below only state
  the documented behaviour of the calls: \<open>open\<close> and \<open>pipe\<close> take the lowest free descriptors and
  fail when the table is full, a path ends at its first NUL byte, a transfer moves at most what it
  is asked to move.
\<close>

section \<open>Types\<close>

record inode =
  st_mode :: "32 word"
  st_size :: int
  i_data :: bytes
  i_readable :: bool

datatype fd_obj = FdStd | FdSock | FdPipe | FdFile bytes

datatype exit_status = Exited nat | Signaled nat

text \<open>
  A program is run on an environment and on the bytes that reach its standard input, whose write
  end stays open: it finishes with an output and a status, or it waits for more input.
\<close>

datatype cgi_result = Finished bytes exit_status | Blocked

type_synonym environ = "bytes \<rightharpoonup> bytes"
type_synonym program = "environ \<Rightarrow> bytes \<Rightarrow> cgi_result"

record kernel =
  k_fds :: "(int \<times> fd_obj) list"
  k_max :: nat
  k_files :: "bytes \<rightharpoonup> inode"
  k_prog :: "bytes \<rightharpoonup> program"
  k_env :: environ
  k_fork_ok :: bool
  k_wait_ok :: bool
  k_writes :: "int list"
  k_sends :: "int list"
  k_wire :: bytes

section \<open>The descriptor table\<close>

definition free_fd :: "(int \<times> fd_obj) list \<Rightarrow> int" where
  "free_fd fds = hd (filter (\<lambda>n. n \<notin> fst ` set fds) (map int [0..<Suc (length fds)]))"

lemma free_fd_candidates:
  "filter (\<lambda>n. n \<notin> fst ` set fds) (map int [0..<Suc (length fds)]) \<noteq> []"
proof
  assume "filter (\<lambda>n. n \<notin> fst ` set fds) (map int [0..<Suc (length fds)]) = []"
  then have sub: "set (map int [0..<Suc (length fds)]) \<subseteq> fst ` set fds"
    by (auto simp only: filter_empty_conv)
  have "card (set (map int [0..<Suc (length fds)])) = Suc (length fds)"
    by (subst distinct_card) (auto simp: distinct_map)
  moreover have "card (fst ` set fds) \<le> length fds"
    by (metis card_length list.set_map length_map)
  ultimately show False using card_mono [OF _ sub] by simp
qed

lemma free_fd_fresh: "free_fd fds \<notin> fst ` set fds" and free_fd_nonneg: "0 \<le> free_fd fds"
proof -
  let ?c = "filter (\<lambda>n. n \<notin> fst ` set fds) (map int [0..<Suc (length fds)])"
  have mem: "free_fd fds \<in> set ?c"
    unfolding free_fd_def using free_fd_candidates by (rule hd_in_set)
  then show "free_fd fds \<notin> fst ` set fds" unfolding set_filter by blast
  from mem have "free_fd fds \<in> int ` set [0..<Suc (length fds)]"
    unfolding set_filter set_map by blast
  then show "0 \<le> free_fd fds" by auto
qed

lemma free_fd_pos:
  assumes "0 \<in> fst ` set fds"
  shows "0 < free_fd fds"
  using assms free_fd_fresh [of fds] free_fd_nonneg [of fds] by (cases "free_fd fds = 0") auto

definition k_close :: "int \<Rightarrow> kernel \<Rightarrow> kernel" where
  "k_close fd k = k\<lparr>k_fds := filter (\<lambda>p. fst p \<noteq> fd) (k_fds k)\<rparr>"

definition k_alloc :: "fd_obj \<Rightarrow> kernel \<Rightarrow> int \<times> kernel" where
  "k_alloc obj k = (let fd = free_fd (k_fds k) in (fd, k\<lparr>k_fds := (fd, obj) # k_fds k\<rparr>))"

definition k_stat :: "kernel \<Rightarrow> bytes \<Rightarrow> inode option" where
  "k_stat k path = k_files k (c_str path)"

definition k_open :: "bytes \<Rightarrow> kernel \<Rightarrow> int \<times> kernel" where
  "k_open path k =
     (case k_stat k path of
        Some st \<Rightarrow> if i_readable st \<and> length (k_fds k) < k_max k
                   then k_alloc (FdFile (c_str path)) k else (-1, k)
      | None \<Rightarrow> (-1, k))"

text \<open>\<open>pipe\<close> yields the read end and the write end, or fails without opening anything.\<close>

definition k_pipe :: "kernel \<Rightarrow> (int \<times> int) option \<times> kernel" where
  "k_pipe k =
     (if Suc (length (k_fds k)) < k_max k then
        (let (r, k1) = k_alloc FdPipe k; (w, k2) = k_alloc FdPipe k1 in (Some (r, w), k2))
      else (None, k))"

lemma k_close_fresh: "fd \<notin> fst ` set (k_fds k) \<Longrightarrow> k_close fd k = k"
  by (simp add: k_close_def filter_neq_id)

lemma k_close_alloc: "k_alloc obj k = (fd, k') \<Longrightarrow> k_close fd k' = k"
  using free_fd_fresh [of "k_fds k"] by (auto simp: k_alloc_def Let_def k_close_def filter_neq_id)

lemma k_close_comm: "k_close a (k_close b k) = k_close b (k_close a k)"
  by (simp add: k_close_def conj_commute)

section \<open>Transfers\<close>

text \<open>
  The result of a transfer of \<open>n\<close> bytes: the next outcome of the list, cut to \<open>n\<close>, negative
  meaning -1; when the list is used up, transfers are complete.
\<close>

fun xfer :: "int list \<Rightarrow> nat \<Rightarrow> int \<times> int list" where
  "xfer [] n = (int n, [])"
| "xfer (r # rs) n = ((if r < 0 then -1 else min r (int n)), rs)"

lemma xfer_le: "fst (xfer orc n) \<le> int n"
  by (cases "(orc, n)" rule: xfer.cases) auto

lemma xfer_ge: "-1 \<le> fst (xfer orc n)"
  by (cases "(orc, n)" rule: xfer.cases) auto

lemma xfer_cases:
  "xfer orc n = (r, orc') \<Longrightarrow>
   length orc' < length orc \<or> (orc = [] \<and> orc' = [] \<and> r = int n)"
  by (cases "(orc, n)" rule: xfer.cases) auto

lemma xfer_positive:
  "xfer orc n = (r, orc') \<Longrightarrow> \<forall>r\<in>set orc. 0 < r \<Longrightarrow> 0 < n \<Longrightarrow>
   0 < r \<and> r \<le> int n \<and> (\<forall>r\<in>set orc'. 0 < r)"
  by (cases orc) auto

lemma xfer_pos: "xfer orc n = (r, orc') \<Longrightarrow> 0 < r \<Longrightarrow> 0 < n"
  using xfer_le [of orc n] by auto

definition k_send :: "bytes \<Rightarrow> kernel \<Rightarrow> int \<times> kernel" where
  "k_send buf k = (case xfer (k_sends k) (length buf) of (r, orc) \<Rightarrow>
     (r, k\<lparr>k_sends := orc, k_wire := k_wire k @ take (nat r) buf\<rparr>))"

lemma k_send_full [step_simps]:
  "k_sends k = [] \<Longrightarrow> k_send buf k = (int (length buf), k\<lparr>k_wire := k_wire k @ buf\<rparr>)"
  by (simp add: k_send_def)

text \<open>\<open>sendfile\<close> from the start of a file moves at most \<open>0x7ffff000\<close> bytes.\<close>

definition sendfile_max :: nat where "sendfile_max = 0x7ffff000"

definition k_sendfile :: "int \<Rightarrow> nat \<Rightarrow> kernel \<Rightarrow> int \<times> kernel" where
  "k_sendfile fd count k =
     (case map_of (k_fds k) fd of
        Some (FdFile p) \<Rightarrow>
          (case k_files k p of
             Some st \<Rightarrow> k_send (take (min count sendfile_max) (i_data st)) k
           | None \<Rightarrow> (-1, k))
      | _ \<Rightarrow> (-1, k))"

end
