(* ===== verification/Cgi.thy ===== *)
theory Cgi
  imports Request Kernel
begin

text \<open>
  \<open>EndPoint::ProcessCgi\<close> of \<open>http/Protocol.hpp\<close>: two pipes, the fork, what the child is given
  (environment and standard input), what the parent collects, and the status code. A child that
  waits for more input than the parent writes never closes its output, so the parent's read never
  ends: the result is then \<open>None\<close>. The call is alone here and its pipes hold what is written to them;
  \<open>Cgi_Pipes\<close> has several calls at once, over pipes of a bounded capacity.
\<close>

section \<open>Writing the body to the child\<close>

function write_loop :: "bytes \<Rightarrow> int \<Rightarrow> nat \<Rightarrow> int list \<Rightarrow> bytes \<Rightarrow> bytes \<times> int list" where
  "write_loop body content_length sofar orc written =
     (if int sofar < content_length then
        (case xfer orc (length body - sofar) of (n, orc') \<Rightarrow>
           if 0 < n then
             write_loop body content_length (sofar + nat n) orc'
               (written @ take (nat n) (drop sofar body))
           else (written, orc'))
      else (written, orc))"
  by pat_completeness auto
termination
  by (relation "measure (\<lambda>(body, cl, sofar, orc, written). length body - sofar)")
     (auto dest!: xfer_pos [OF sym])

declare write_loop.simps [simp del]

section \<open>The child\<close>

definition child_env :: "HttpRequest \<Rightarrow> environ \<Rightarrow> environ" where
  "child_env q env =
     (let env1 = env(''METHOD'' \<mapsto> c_str (rq_method q))
      in if rq_method q = ''GET'' then env1(''QUERY_STRING'' \<mapsto> c_str (rq_query_string q))
         else if rq_method q = ''POST''
         then env1(''CONTENT_LENGTH'' \<mapsto> c_str (string_of_int (rq_content_length q)))
         else env1)"

text \<open>A failing \<open>execl\<close> returns, and the child calls \<open>exit(1)\<close>.\<close>

definition run_child :: "HttpRequest \<Rightarrow> kernel \<Rightarrow> bytes \<Rightarrow> cgi_result" where
  "run_child q k stdin =
     (case k_prog k (c_str (rq_path q)) of
        Some prog \<Rightarrow> prog (child_env q (k_env k)) stdin
      | None \<Rightarrow> Finished [] (Exited 1))"

definition wait_code :: "bool \<Rightarrow> exit_status \<Rightarrow> int" where
  "wait_code wait_ok status =
     (if wait_ok then
        (case status of
           Exited n \<Rightarrow> if n mod 256 = 0 then OK else BAD_REQUEST
         | Signaled _ \<Rightarrow> SERVER_ERROR)
      else OK)"

section \<open>ProcessCgi\<close>

text \<open>What the parent writes to the child: the body of a POST, nothing otherwise.\<close>

definition cgi_stdin :: "HttpRequest \<Rightarrow> kernel \<Rightarrow> bytes \<times> int list" where
  "cgi_stdin q k =
     (if rq_method q = ''POST''
      then write_loop (rq_request_body q) (rq_content_length q) 0 (k_writes k) []
      else ([], k_writes k))"

definition ProcessCgi :: "EndPoint \<Rightarrow> kernel \<Rightarrow> (int \<times> EndPoint \<times> kernel) option" where
  "ProcessCgi ep k =
     (let q = ep_request ep in
      case k_pipe k of
        (None, k1) \<Rightarrow> Some (SERVER_ERROR, ep, k1)
      | (Some (input0, input1), k1) \<Rightarrow>
          (case k_pipe k1 of
             (None, k2) \<Rightarrow> Some (SERVER_ERROR, ep, k2)
           | (Some (output0, output1), k2) \<Rightarrow>
               if \<not> k_fork_ok k2 then Some (404, ep, k2)
               else
                 (let k3 = k_close output0 (k_close input1 k2);
                      (stdin, orc) = cgi_stdin q k3;
                      k4 = k3\<lparr>k_writes := orc\<rparr>
                  in case run_child q k4 stdin of
                       Blocked \<Rightarrow> None
                     | Finished out status \<Rightarrow>
                         Some (wait_code (k_wait_ok k4) status,
                               upd_rs (\<lambda>r. r\<lparr>rs_response_body := rs_response_body r @ out\<rparr>) ep,
                               k_close output1 (k_close input0 k4)))))"

section \<open>Facts\<close>

lemma write_loop_prefix:
  "\<exists>n. fst (write_loop body cl sofar orc written) = written @ take n (drop sofar body)"
proof (induction body cl sofar orc written rule: write_loop.induct)
  case (1 body cl sofar orc written)
  obtain n orc' where x: "xfer orc (length body - sofar) = (n, orc')" by fastforce
  show ?case
  proof (cases "int sofar < cl \<and> 0 < n")
    case True
    with 1 [OF _ x [symmetric]] obtain m where "fst (write_loop body cl (sofar + nat n) orc'
        (written @ take (nat n) (drop sofar body))) =
        (written @ take (nat n) (drop sofar body)) @ take m (drop (sofar + nat n) body)"
      by blast
    also have "\<dots> = written @ take (nat n + m) (drop sofar body)"
      using take_plus_slice [of "nat n" "drop sofar body" m] by (simp add: add.commute)
    finally show ?thesis using True x by (subst write_loop.simps) auto
  next
    case False
    then show ?thesis
      by (intro exI [of _ 0], subst write_loop.simps) (auto simp: x)
  qed
qed

lemma write_loop_complete:
  "\<lbrakk>\<forall>r\<in>set orc. 0 < r; sofar \<le> length body; cl = int (length body)\<rbrakk> \<Longrightarrow>
   fst (write_loop body cl sofar orc written) = written @ drop sofar body"
proof (induction body cl sofar orc written rule: write_loop.induct)
  case (1 body cl sofar orc written)
  obtain n orc' where x: "xfer orc (length body - sofar) = (n, orc')" by fastforce
  show ?case
  proof (cases "sofar < length body")
    case True
    from xfer_positive [OF x "1.prems"(1)] True
    have n: "0 < n" "n \<le> int (length body - sofar)" and "\<forall>r\<in>set orc'. 0 < r" by simp_all
    with 1 x True have "fst (write_loop body cl (sofar + nat n) orc'
        (written @ take (nat n) (drop sofar body))) =
        (written @ take (nat n) (drop sofar body)) @ drop (sofar + nat n) body"
      by auto
    also have "\<dots> = written @ drop sofar body"
      by (metis append.assoc append_take_drop_id drop_drop add.commute)
    finally show ?thesis using True x n 1 by (subst write_loop.simps) auto
  next
    case False
    with 1 show ?thesis by (subst write_loop.simps) auto
  qed
qed

lemma write_loop_whole: "write_loop body cl 0 [] [] = (if 0 < cl then body else [], [])"
  by (subst write_loop.simps, simp, subst write_loop.simps) simp

lemma k_pipe_close:
  assumes "k_pipe k = (Some (r, w), k')"
  shows "k_close r (k_close w k') = k"
proof -
  obtain k1 where r: "k_alloc FdPipe k = (r, k1)" and w: "k_alloc FdPipe k1 = (w, k')"
    using assms by (auto simp: k_pipe_def Let_def split: if_splits prod.splits)
  from w have "k_close w k' = k1" by (rule k_close_alloc)
  with r show ?thesis by (simp add: k_close_alloc)
qed

lemma k_pipe_fields:
  assumes "k_pipe k = (p, k')"
  shows "k_fork_ok k' = k_fork_ok k" "k_wait_ok k' = k_wait_ok k" "k_prog k' = k_prog k"
    "k_env k' = k_env k" "k_writes k' = k_writes k" "k_files k' = k_files k"
    "k_max k' = k_max k" "k_sends k' = k_sends k" "k_wire k' = k_wire k"
  using assms by (auto simp: k_pipe_def k_alloc_def Let_def split: if_splits)

lemma k_pipe_length:
  "k_pipe k = (Some p, k') \<Longrightarrow> length (k_fds k') = length (k_fds k) + 2"
  by (auto simp: k_pipe_def k_alloc_def Let_def split: if_splits)

lemma k_pipe_Some: "Suc (length (k_fds k)) < k_max k \<Longrightarrow> \<exists>r w k'. k_pipe k = (Some (r, w), k')"
  by (auto simp: k_pipe_def k_alloc_def Let_def)

lemma k_close_fields [simp]:
  "k_fork_ok (k_close fd k) = k_fork_ok k" "k_wait_ok (k_close fd k) = k_wait_ok k"
  "k_prog (k_close fd k) = k_prog k" "k_env (k_close fd k) = k_env k"
  "k_writes (k_close fd k) = k_writes k" "k_files (k_close fd k) = k_files k"
  "k_max (k_close fd k) = k_max k" "k_sends (k_close fd k) = k_sends k"
  "k_wire (k_close fd k) = k_wire k"
  by (simp_all add: k_close_def)

lemma k_close_writes [simp]: "k_close fd (k\<lparr>k_writes := x\<rparr>) = (k_close fd k)\<lparr>k_writes := x\<rparr>"
  by (simp add: k_close_def)

lemma two_pipes:
  assumes "length (k_fds k) + 3 < k_max k"
  obtains i0 i1 o0 o1 k1 k2 where
    "k_pipe k = (Some (i0, i1), k1)" "k_pipe k1 = (Some (o0, o1), k2)"
    "k_close o1 (k_close i0 (k_close o0 (k_close i1 k2))) = k"
proof -
  from assms obtain i0 i1 k1 where 1: "k_pipe k = (Some (i0, i1), k1)"
    using k_pipe_Some [of k] by auto
  from 1 assms have "Suc (length (k_fds k1)) < k_max k1"
    using k_pipe_length [OF 1] k_pipe_fields [OF 1] by simp
  then obtain o0 o1 k2 where 2: "k_pipe k1 = (Some (o0, o1), k2)"
    using k_pipe_Some [of k1] by auto
  have "k_close o1 (k_close i0 (k_close o0 (k_close i1 k2))) =
        k_close i0 (k_close i1 (k_close o0 (k_close o1 k2)))"
    by (metis k_close_comm)
  also have "\<dots> = k" by (simp add: k_pipe_close [OF 2] k_pipe_close [OF 1])
  finally show ?thesis using that 1 2 by blast
qed

text \<open>
  The whole of \<open>ProcessCgi\<close> when the pipes can be opened and the fork succeeds: the descriptor
  table is unchanged and the result is the child's.
\<close>

lemma ProcessCgi_ok:
  assumes "length (k_fds k) + 3 < k_max k" and "k_fork_ok k"
    and "cgi_stdin (ep_request ep) k = (stdin, orc)"
  shows "ProcessCgi ep k =
    (case run_child (ep_request ep) k stdin of
       Blocked \<Rightarrow> None
     | Finished out status \<Rightarrow>
         Some (wait_code (k_wait_ok k) status,
               upd_rs (\<lambda>r. r\<lparr>rs_response_body := rs_response_body r @ out\<rparr>) ep,
               k\<lparr>k_writes := orc\<rparr>))"
proof -
  obtain i0 i1 o0 o1 k1 k2 where p: "k_pipe k = (Some (i0, i1), k1)"
    "k_pipe k1 = (Some (o0, o1), k2)"
    and c: "k_close o1 (k_close i0 (k_close o0 (k_close i1 k2))) = k"
    using two_pipes [OF assms(1)] by metis
  note f = k_pipe_fields [OF p(1)] k_pipe_fields [OF p(2)]
  have rc: "run_child q (k'\<lparr>k_writes := x\<rparr>) s = run_child q k s"
    if "k_prog k' = k_prog k" "k_env k' = k_env k" for q k' x s
    using that by (simp add: run_child_def cong: option.case_cong)
  have st: "cgi_stdin (ep_request ep) (k_close o0 (k_close i1 k2)) = (stdin, orc)"
    using assms(3) f by (simp add: cgi_stdin_def split: if_splits)
  show ?thesis
    using assms(2) f c
    by (simp add: ProcessCgi_def p Let_def st rc cong: cgi_result.case_cong)
qed

end
