(* ===== verification/Response.thy ===== *)
theory Response
  imports Cgi
begin

text \<open>
  The second and third phase of \<open>EndPoint\<close> in \<open>http/Protocol.hpp\<close>: choosing the resource and the
  mechanism, building the status line and the headers, and sending; and \<open>CallBack::HandlerRequest\<close>,
  which runs the three phases for one connection.
\<close>

section \<open>File modes\<close>

definition S_IFMT :: "32 word" where "S_IFMT = 0xF000"
definition S_IFDIR :: "32 word" where "S_IFDIR = 0x4000"

unbundle bit_operations_syntax

definition S_ISDIR :: "32 word \<Rightarrow> bool" where
  "S_ISDIR m \<longleftrightarrow> m AND S_IFMT = S_IFDIR"

text \<open>\<open>S_IXUSR\<close>, \<open>S_IXGRP\<close> and \<open>S_IXOTH\<close> are octal 0100, 0010 and 0001.\<close>

definition is_exec :: "32 word \<Rightarrow> bool" where
  "is_exec m \<longleftrightarrow> m AND 0x40 \<noteq> 0 \<or> m AND 0x08 \<noteq> 0 \<or> m AND 0x01 \<noteq> 0"

section \<open>Building the response\<close>

definition ProcessNonCgi :: "EndPoint \<Rightarrow> kernel \<Rightarrow> int \<times> EndPoint \<times> kernel" where
  "ProcessNonCgi ep k =
     (case k_open (rq_path (ep_request ep)) k of (fd, k') \<Rightarrow>
        let ep' = upd_rs (\<lambda>r. r\<lparr>rs_fd := fd\<rparr>) ep
        in if 0 \<le> fd then (OK, ep', k') else (NOT_FOUND, ep', k'))"

definition push_header :: "bytes \<Rightarrow> EndPoint \<Rightarrow> EndPoint" where
  "push_header line ep =
     upd_rs (\<lambda>r. r\<lparr>rs_response_header := rs_response_header r @ [line]\<rparr>) ep"

definition BuildOkResponse :: "EndPoint \<Rightarrow> EndPoint" where
  "BuildOkResponse ep =
     (let q = ep_request ep;
          ep1 = push_header (''Content-Type: '' @ Suffix2Desc (rq_suffix q) @ LINE_END) ep;
          len = (if rq_cgi q then int (length (rs_response_body (ep_response ep1))) else rq_size q)
      in push_header (''Content-Length: '' @ string_of_int len @ LINE_END) ep1)"

text \<open>
  The error page. \<open>stat\<close> cannot fail for a path that has just been opened. The header carries the
  64-bit \<open>st_size\<close>, the field \<open>size\<close> its truncation to an \<open>int\<close>.
\<close>

definition HandlerError :: "bytes \<Rightarrow> EndPoint \<Rightarrow> kernel \<Rightarrow> EndPoint \<times> kernel" where
  "HandlerError page ep k =
     (case k_open page k of (fd, k') \<Rightarrow>
        let ep1 = upd_rs (\<lambda>r. r\<lparr>rs_fd := fd\<rparr>) (upd_rq (\<lambda>q. q\<lparr>rq_cgi := False\<rparr>) ep)
        in if 0 < fd then
             (case k_stat k' page of
                Some st \<Rightarrow>
                  (push_header (''Content-Length: '' @ string_of_int (st_size st) @ LINE_END)
                    (push_header (''Content-Type: text/html'' @ LINE_END)
                      (upd_rq (\<lambda>q. q\<lparr>rq_size := to_int32 (st_size st)\<rparr>) ep1)), k')
              | None \<Rightarrow> (ep1, k'))
           else (ep1, k'))"

definition status_line :: "int \<Rightarrow> bytes" where
  "status_line code =
     HTTP_VERSION @ '' '' @ string_of_int code @ '' '' @ Code2Desc code @ LINE_END"

definition BuildHttpResponseHelper :: "EndPoint \<Rightarrow> kernel \<Rightarrow> EndPoint \<times> kernel" where
  "BuildHttpResponseHelper ep k =
     (let code = rs_status_code (ep_response ep);
          ep1 = upd_rs (\<lambda>r. r\<lparr>rs_status_line := rs_status_line r @ status_line code\<rparr>) ep;
          path = WEB_ROOT @ ''/''
      in if code = OK then (BuildOkResponse ep1, k)
         else if code = NOT_FOUND then HandlerError (path @ PAGE_404) ep1 k
         else if code = BAD_REQUEST then HandlerError (path @ PAGE_404) ep1 k
         else if code = SERVER_ERROR then HandlerError (path @ PAGE_404) ep1 k
         else (ep1, k))"

text \<open>From the URI to the path below the web root, and the CGI flag the URI and method imply.\<close>

definition ResolvePath :: "HttpRequest \<Rightarrow> HttpRequest" where
  "ResolvePath q =
     (let q1 =
        (if rq_method q = ''GET'' then
           (if str_find ''?'' (rq_uri q) \<noteq> None then
              (case CutString (rq_uri q) (rq_path q) (rq_query_string q) ''?'' of (_, p, s) \<Rightarrow>
                 q\<lparr>rq_path := p, rq_query_string := s, rq_cgi := True\<rparr>)
            else q\<lparr>rq_path := rq_uri q\<rparr>)
         else if rq_method q = ''POST'' then q\<lparr>rq_cgi := True, rq_path := rq_uri q\<rparr>
         else q);
        path = WEB_ROOT @ rq_path q1;
        path' = (if last path = CHR ''/'' then path @ HOME_PAGE else path)
      in q1\<lparr>rq_path := path'\<rparr>)"

text \<open>
  The \<open>stat\<close> of the resource: for a directory the home page below it is looked up again, without
  a check of the second \<open>stat\<close>, which leaves \<open>st\<close> as it was when it fails. \<open>None\<close> for a path that
  does not exist.
\<close>

definition LocateResource :: "HttpRequest \<Rightarrow> kernel \<Rightarrow> HttpRequest option" where
  "LocateResource q k =
     (case k_stat k (rq_path q) of
        None \<Rightarrow> None
      | Some st \<Rightarrow>
          (let (q1, st1) =
             (if S_ISDIR (st_mode st) then
                (let p = rq_path q @ ''/'' @ HOME_PAGE
                 in (q\<lparr>rq_path := p\<rparr>, case k_stat k p of Some st' \<Rightarrow> st' | None \<Rightarrow> st))
              else (q, st));
             q2 = (if is_exec (st_mode st1) then q1\<lparr>rq_cgi := True\<rparr> else q1)
           in Some (q2\<lparr>rq_size := to_int32 (st_size st1)\<rparr>)))"

definition rfind_dot :: "bytes \<Rightarrow> nat option" where
  "rfind_dot s = find_last_of ''.'' s"

definition FindSuffix :: "HttpRequest \<Rightarrow> HttpRequest" where
  "FindSuffix q =
     (case rfind_dot (rq_path q) of
        None \<Rightarrow> q\<lparr>rq_suffix := ''.html''\<rparr>
      | Some found \<Rightarrow> q\<lparr>rq_suffix := substr_from (rq_path q) found\<rparr>)"

definition set_code :: "int \<Rightarrow> EndPoint \<Rightarrow> EndPoint" where
  "set_code code ep = upd_rs (\<lambda>r. r\<lparr>rs_status_code := code\<rparr>) ep"

definition BuildHttpResponse :: "EndPoint \<Rightarrow> kernel \<Rightarrow> (EndPoint \<times> kernel) option" where
  "BuildHttpResponse ep k =
     (let q = ep_request ep in
      if rq_method q \<noteq> ''GET'' \<and> rq_method q \<noteq> ''POST''
      then Some (BuildHttpResponseHelper (set_code BAD_REQUEST ep) k)
      else
        (let q1 = ResolvePath q in
         case LocateResource q1 k of
           None \<Rightarrow> Some (BuildHttpResponseHelper (set_code NOT_FOUND (ep\<lparr>ep_request := q1\<rparr>)) k)
         | Some q2 \<Rightarrow>
             (let ep3 = ep\<lparr>ep_request := FindSuffix q2\<rparr> in
              if rq_cgi q2 then
                (case ProcessCgi ep3 k of
                   None \<Rightarrow> None
                 | Some (code, ep4, k') \<Rightarrow> Some (BuildHttpResponseHelper (set_code code ep4) k'))
              else
                (case ProcessNonCgi ep3 k of (code, ep4, k') \<Rightarrow>
                   Some (BuildHttpResponseHelper (set_code code ep4) k')))))"

section \<open>Sending\<close>

text \<open>
  The loop that sends the body of a CGI answer. \<open>size\<close> and \<open>total\<close> (here \<open>tot\<close>) are \<open>size_t\<close>: a
  failing \<open>send\<close> makes \<open>size\<close> the largest value of the type, which passes the test \<open>> 0\<close>.
\<close>

function send_loop :: "bytes \<Rightarrow> 64 word \<Rightarrow> int list \<Rightarrow> bytes \<Rightarrow> bytes \<times> int list" where
  "send_loop body tot orc wire =
     (if tot < of_nat (length body) then
        (case xfer orc (unat (of_nat (length body) - tot)) of (r, orc') \<Rightarrow>
           let size = word_of_int r :: 64 word
           in if 0 < size
              then send_loop body (tot + size) orc' (wire @ take (nat r) (drop (unat tot) body))
              else (wire @ take (nat r) (drop (unat tot) body), orc'))
      else (wire, orc))"
  by pat_completeness auto
termination
proof (relation "measures [\<lambda>(body, tot, orc, wire). length orc,
    \<lambda>(body, tot, orc, wire). unat (of_nat (length body) - tot)]", goal_cases)
  case (2 body tot orc wire x r orc')
  let ?left = "of_nat (length body) - tot"
  from 2(1) have "tot \<le> of_nat (length body)" by simp
  from unat_sub [OF this] 2(1) have "0 < unat ?left" by (simp add: word_less_nat_alt)
  with 2 xfer_cases [OF 2(2)[symmetric]] show ?case by auto
qed simp

declare send_loop.simps [simp del]

definition send_headers :: "bytes list \<Rightarrow> kernel \<Rightarrow> kernel" where
  "send_headers hs k = fold (\<lambda>h k. snd (k_send h k)) hs k"

text \<open>\<open>sendfile\<close> takes a \<open>size_t\<close>: a negative \<open>size\<close> is converted modulo 2^64.\<close>

definition SendHttpResponse :: "EndPoint \<Rightarrow> kernel \<Rightarrow> kernel" where
  "SendHttpResponse ep k =
     (let rs = ep_response ep;
          k1 = snd (k_send (rs_status_line rs) k);
          k2 = send_headers (rs_response_header rs) k1;
          k3 = snd (k_send (rs_blank rs) k2)
      in if rq_cgi (ep_request ep) then
           (case send_loop (rs_response_body rs) 0 (k_sends k3) (k_wire k3) of (wire, orc) \<Rightarrow>
              k3\<lparr>k_wire := wire, k_sends := orc\<rparr>)
         else k_close (rs_fd rs)
                (snd (k_sendfile (rs_fd rs) (nat (rq_size (ep_request ep) mod 2 ^ 64)) k3)))"

section \<open>One connection\<close>

text \<open>
  \<open>delete ep\<close> runs the destructor, which closes the connection. \<open>None\<close>: the worker never comes
  back, because the CGI program waits for input that is not coming.
\<close>

definition HandlerRequest :: "int \<Rightarrow> int \<Rightarrow> rxs \<Rightarrow> kernel \<Rightarrow> kernel option" where
  "HandlerRequest junk sock sk k =
     (let ep = RecvHttpRequest (new_EndPoint junk sock sk) in
      if \<not> IsStop ep then
        (case BuildHttpResponse ep k of
           None \<Rightarrow> None
         | Some (ep', k') \<Rightarrow> Some (k_close (ep_sock ep') (SendHttpResponse ep' k')))
      else Some (k_close (ep_sock ep) k))"

section \<open>Facts about sending\<close>

lemma send_loop_end [step_simps]:
  "\<not> tot < of_nat (length body) \<Longrightarrow> send_loop body tot orc wire = (wire, orc)"
  by (subst send_loop.simps) simp

lemma send_loop_fail [step_simps]:
  assumes "tot < of_nat (length body)" and "r < 0"
  shows "send_loop body tot (r # orc) wire = send_loop body (tot - 1) orc wire"
  using assms by (subst send_loop.simps) (simp add: Let_def word_gt_0)

lemma unat_length: "length body < 2 ^ 64 \<Longrightarrow> unat (of_nat (length body) :: 64 word) = length body"
  by (rule unat64_of_nat)

lemma send_loop_good [step_simps]:
  assumes "length body < 2 ^ 64" and "unat tot < length body" and "0 < n"
    and "n \<le> length body - unat tot"
  shows "xfer orc (length body - unat tot) = (int n, orc') \<Longrightarrow>
    send_loop body tot orc wire =
    send_loop body (tot + of_nat n) orc' (wire @ take n (drop (unat tot) body))"
proof -
  assume x: "xfer orc (length body - unat tot) = (int n, orc')"
  let ?L = "of_nat (length body) :: 64 word"
  from assms(1,2) have less: "tot < ?L" by (simp add: word_less_nat_alt unat_length)
  then have sub: "unat (?L - tot) = length body - unat tot"
    using assms(1) by (subst unat_sub) (simp_all add: unat_length)
  have "unat (of_nat n :: 64 word) = n" using assms by (intro unat64_of_nat) simp
  with assms(3) have "0 < (word_of_int (int n) :: 64 word)"
    by (simp add: word_less_nat_alt)
  with less sub x show ?thesis by (subst send_loop.simps) simp
qed

lemma send_loop_complete:
  assumes "length body < 2 ^ 64"
  shows "\<forall>r\<in>set orc. 0 < r \<Longrightarrow> unat tot \<le> length body \<Longrightarrow>
    fst (send_loop body tot orc wire) = wire @ drop (unat tot) body"
proof (induction "length body - unat tot" arbitrary: tot orc wire rule: less_induct)
  case less
  show ?case
  proof (cases "unat tot < length body")
    case True
    obtain r orc' where x: "xfer orc (length body - unat tot) = (r, orc')" by fastforce
    from xfer_positive [OF x less.prems(1)] True
    have r: "0 < r" "r \<le> int (length body - unat tot)" and orc': "\<forall>r\<in>set orc'. 0 < r"
      by simp_all
    define n where "n = nat r"
    with r have n: "int n = r" "0 < n" "n \<le> length body - unat tot" by auto
    have un: "unat (tot + of_nat n) = unat tot + n"
      using n assms True by (intro unat64_plus) linarith
    have "fst (send_loop body tot orc wire) =
        fst (send_loop body (tot + of_nat n) orc' (wire @ take n (drop (unat tot) body)))"
      using x n by (subst send_loop_good [OF assms True]) auto
    also have "\<dots> = (wire @ take n (drop (unat tot) body)) @ drop (unat tot + n) body"
      using less.hyps [of "tot + of_nat n" orc' "wire @ take n (drop (unat tot) body)"] n True un orc'
      by simp
    also have "\<dots> = wire @ drop (unat tot) body"
      by (metis append.assoc append_take_drop_id drop_drop add.commute)
    finally show ?thesis .
  next
    case False
    with less.prems assms show ?thesis
      by (subst send_loop_end) (simp_all add: word_less_nat_alt unat_length)
  qed
qed

lemma k_wire_sends [simp]: "k_sends k = [] \<Longrightarrow> k_sends (k\<lparr>k_wire := w\<rparr>) = []"
  by simp

lemma send_headers_full [step_simps]:
  "k_sends k = [] \<Longrightarrow> send_headers hs k = k\<lparr>k_wire := k_wire k @ concat hs\<rparr>"
  by (induction hs arbitrary: k) (simp_all add: send_headers_def k_send_full)

lemma send_loop_full:
  assumes "length body < 2 ^ 64"
  shows "send_loop body 0 [] wire = (wire @ body, [])"
proof (cases "body = []")
  case True
  then show ?thesis by (simp add: send_loop_end)
next
  case False
  have "send_loop body 0 [] wire = send_loop body (0 + of_nat (length body)) [] (wire @ body)"
    using False assms send_loop_good [of body 0 "length body" "[]" "[]" wire] by simp
  then show ?thesis by (simp add: send_loop_end)
qed

text \<open>The bytes of a response object that sends a body from memory or from a file.\<close>

definition head_bytes :: "HttpResponse \<Rightarrow> bytes" where
  "head_bytes rs = rs_status_line rs @ concat (rs_response_header rs) @ rs_blank rs"

lemma SendHttpResponse_cgi:
  assumes "k_sends k = []" and "rq_cgi (ep_request ep)"
    and "length (rs_response_body (ep_response ep)) < 2 ^ 64"
  shows "SendHttpResponse ep k =
    k\<lparr>k_wire := k_wire k @ head_bytes (ep_response ep) @ rs_response_body (ep_response ep)\<rparr>"
  using assms
  by (simp add: SendHttpResponse_def Let_def step_simps send_loop_full head_bytes_def)

definition consistent :: "inode \<Rightarrow> bool" where
  "consistent st \<longleftrightarrow> st_size st = int (length (i_data st)) \<and> length (i_data st) \<le> sendfile_max"

lemma consistent_size:
  "consistent st \<Longrightarrow> to_int32 (st_size st) = st_size st \<and>
     nat (st_size st mod 2 ^ 64) = length (i_data st)"
  by (simp add: consistent_def sendfile_max_def to_int32_id)

lemma SendHttpResponse_file:
  assumes "k_sends k = []" and "\<not> rq_cgi (ep_request ep)"
    and "map_of (k_fds k) (rs_fd (ep_response ep)) = Some (FdFile p)"
    and "k_files k p = Some st" and "consistent st"
    and "rq_size (ep_request ep) = st_size st"
  shows "SendHttpResponse ep k = k_close (rs_fd (ep_response ep))
    (k\<lparr>k_wire := k_wire k @ head_bytes (ep_response ep) @ i_data st\<rparr>)"
  using assms consistent_size [OF assms(5)]
  by (simp add: SendHttpResponse_def Let_def step_simps head_bytes_def k_sendfile_def
      consistent_def)

section \<open>What a response should be\<close>

text \<open>
  The specification: the answer to a request as a list of bytes, from the request, the files and
  the programs alone, without the response object, descriptors or partial transfers.
\<close>

definition error_page :: bytes where "error_page = WEB_ROOT @ ''/'' @ PAGE_404"

definition page_of :: "kernel \<Rightarrow> bytes \<Rightarrow> bytes" where
  "page_of k p = (case k_stat k p of Some st \<Rightarrow> i_data st | None \<Rightarrow> [])"

definition message :: "int \<Rightarrow> bytes \<Rightarrow> bytes \<Rightarrow> bytes" where
  "message code ctype body =
     status_line code @ ''Content-Type: '' @ ctype @ CRLF @
     ''Content-Length: '' @ string_of_int (int (length body)) @ CRLF @ CRLF @ body"

definition error_message :: "int \<Rightarrow> kernel \<Rightarrow> bytes" where
  "error_message code k = message code ''text/html'' (page_of k error_page)"

definition child_input :: "HttpRequest \<Rightarrow> bytes" where
  "child_input q = (if rq_method q = ''POST'' then rq_request_body q else [])"

definition respond :: "HttpRequest \<Rightarrow> kernel \<Rightarrow> bytes option" where
  "respond q k =
     (if rq_method q \<noteq> ''GET'' \<and> rq_method q \<noteq> ''POST'' then Some (error_message BAD_REQUEST k)
      else case LocateResource (ResolvePath q) k of
        None \<Rightarrow> Some (error_message NOT_FOUND k)
      | Some q2 \<Rightarrow>
          let ctype = Suffix2Desc (rq_suffix (FindSuffix q2)) in
          if rq_cgi q2 then
            (case run_child (FindSuffix q2) k (child_input q) of
               Blocked \<Rightarrow> None
             | Finished out status \<Rightarrow>
                 let code = wait_code True status
                 in Some (if code = OK then message OK ctype out else error_message code k))
          else
            (case k_stat k (rq_path q2) of
               Some st \<Rightarrow> Some (if i_readable st then message OK ctype (i_data st)
                              else error_message NOT_FOUND k)
             | None \<Rightarrow> Some (error_message NOT_FOUND k)))"

text \<open>
  An operating system in which nothing fails: complete transfers, free descriptors, standard input
  open, a readable error page, and files whose size fits an \<open>int\<close> and one \<open>sendfile\<close>.
\<close>

definition page_ok :: "kernel \<Rightarrow> bool" where
  "page_ok k \<longleftrightarrow> k_sends k = [] \<and> length (k_fds k) < k_max k \<and> 0 \<in> fst ` set (k_fds k) \<and>
     (case k_files k error_page of Some st \<Rightarrow> i_readable st \<and> consistent st | None \<Rightarrow> False)"

definition calm :: "kernel \<Rightarrow> bool" where
  "calm k \<longleftrightarrow> page_ok k \<and> (\<forall>r\<in>set (k_writes k). 0 < r) \<and> k_fork_ok k \<and> k_wait_ok k \<and>
     length (k_fds k) + 3 < k_max k \<and>
     (\<forall>p st. k_files k p = Some st \<longrightarrow> i_readable st \<longrightarrow> consistent st)"

definition served_method :: "HttpRequest \<Rightarrow> bool" where
  "served_method q \<longleftrightarrow> rq_method q = ''GET'' \<or> rq_method q = ''POST''"

text \<open>A program's output fits into memory.\<close>

definition small_result :: "cgi_result \<Rightarrow> bool" where
  "small_result r = (case r of Finished out status \<Rightarrow> length out < 2 ^ 64 | Blocked \<Rightarrow> True)"

definition output_fits :: "HttpRequest \<Rightarrow> kernel \<Rightarrow> bool" where
  "output_fits q k =
     (served_method q \<longrightarrow>
       (case LocateResource (ResolvePath q) k of
          None \<Rightarrow> True
        | Some q2 \<Rightarrow> rq_cgi q2 \<longrightarrow>
            small_result (run_child (FindSuffix q2) k (child_input (FindSuffix q2)))))"

section \<open>The response meets the specification\<close>

lemma error_page_c_str [simp]: "c_str error_page = error_page"
  by (simp add: c_str_id error_page_def WEB_ROOT_def PAGE_404_def)

lemma k_close_wire [simp]: "k_close fd (k\<lparr>k_wire := w\<rparr>) = (k_close fd k)\<lparr>k_wire := w\<rparr>"
  by (simp add: k_close_def)

lemma k_alloc_fields:
  assumes "k_alloc obj k = (fd, k')"
  shows "map_of (k_fds k') fd = Some obj" "k_files k' = k_files k" "k_sends k' = k_sends k"
    "k_wire k' = k_wire k" "fd = free_fd (k_fds k)"
  using assms by (auto simp: k_alloc_def Let_def)

definition blank_response :: "HttpResponse \<Rightarrow> bool" where
  "blank_response rs \<longleftrightarrow> rs_status_line rs = [] \<and> rs_response_header rs = [] \<and> rs_blank rs = CRLF"

text \<open>
  A response object that sends \<open>out\<close>, now or later: as long as the files are the same, and the
  descriptor of the body, when there is one, is still the file it is now, \<open>SendHttpResponse\<close> puts
  \<open>out\<close> on the wire and closes that descriptor. \<open>built\<close>: what the building phase leaves behind when
  it started in \<open>k\<close>, at most one open file more.
\<close>

definition sendable :: "kernel \<Rightarrow> EndPoint \<Rightarrow> bytes \<Rightarrow> bool" where
  "sendable k ep out \<longleftrightarrow>
     (\<forall>K. k_sends K = [] \<and> k_files K = k_files k \<and>
        (rq_cgi (ep_request ep) \<or>
         map_of (k_fds K) (rs_fd (ep_response ep)) = map_of (k_fds k) (rs_fd (ep_response ep))) \<longrightarrow>
        SendHttpResponse ep K =
          (if rq_cgi (ep_request ep) then K\<lparr>k_wire := k_wire K @ out\<rparr>
           else k_close (rs_fd (ep_response ep)) (K\<lparr>k_wire := k_wire K @ out\<rparr>)))"

definition built :: "kernel \<Rightarrow> EndPoint \<Rightarrow> kernel \<Rightarrow> bytes \<Rightarrow> bool" where
  "built k ep k' out \<longleftrightarrow> sendable k' ep out \<and>
     (if rq_cgi (ep_request ep) then k' = k
      else \<exists>p. k_alloc (FdFile p) k = (rs_fd (ep_response ep), k'))"

lemma built_sends:
  assumes "built k ep k' out" and "k_sends k = []"
  shows "SendHttpResponse ep k' = k\<lparr>k_wire := k_wire k @ out\<rparr>"
proof (cases "rq_cgi (ep_request ep)")
  case True
  with assms show ?thesis by (simp add: built_def sendable_def)
next
  case False
  with assms(1) obtain p where a: "k_alloc (FdFile p) k = (rs_fd (ep_response ep), k')"
    by (auto simp: built_def)
  from False assms k_alloc_fields [OF a] k_close_alloc [OF a] show ?thesis
    by (simp add: built_def sendable_def)
qed

lemma sendable_cgi:
  assumes "rq_cgi (ep_request ep)" and "length (rs_response_body (ep_response ep)) < 2 ^ 64"
  shows "sendable k ep (head_bytes (ep_response ep) @ rs_response_body (ep_response ep))"
  using assms by (simp add: sendable_def SendHttpResponse_cgi)

lemma sendable_file:
  assumes "\<not> rq_cgi (ep_request ep)" and "map_of (k_fds k) (rs_fd (ep_response ep)) = Some (FdFile p)"
    and "k_files k p = Some st" and "consistent st" and "rq_size (ep_request ep) = st_size st"
  shows "sendable k ep (head_bytes (ep_response ep) @ i_data st)"
  using assms by (simp add: sendable_def SendHttpResponse_file [where p = p and st = st])

lemma error_path:
  assumes "page_ok k" and "blank_response (ep_response ep)"
    and "code \<in> {BAD_REQUEST, NOT_FOUND, SERVER_ERROR}"
    and "BuildHttpResponseHelper (set_code code ep) k = (ep', k')"
  shows "built k ep' k' (error_message code k)"
proof -
  from assms(1) obtain st where st: "k_files k error_page = Some st" "i_readable st" "consistent st"
    and k: "k_sends k = []" "length (k_fds k) < k_max k" "0 \<in> fst ` set (k_fds k)"
    by (auto simp: page_ok_def split: option.splits)
  obtain fd k1 where a: "k_alloc (FdFile error_page) k = (fd, k1)" by fastforce
  note f = k_alloc_fields [OF a]
  have pos: "0 < fd" using f(5) free_fd_pos [OF k(3)] by simp
  have o: "k_open error_page k = (fd, k1)" using st k a by (simp add: k_open_def k_stat_def)
  have h: "BuildHttpResponseHelper (set_code code ep) k =
    HandlerError error_page (upd_rs (\<lambda>r. r\<lparr>rs_status_line := rs_status_line r @ status_line code\<rparr>)
       (set_code code ep)) k"
    using assms(3)
    by (auto simp: BuildHttpResponseHelper_def Let_def set_code_def code_defs error_page_def)
  have e: "ep' = push_header (''Content-Length: '' @ string_of_int (st_size st) @ LINE_END)
      (push_header (''Content-Type: text/html'' @ LINE_END)
        (upd_rq (\<lambda>q. q\<lparr>rq_cgi := False, rq_size := to_int32 (st_size st)\<rparr>)
          (upd_rs (\<lambda>r. r\<lparr>rs_status_code := code, rs_fd := fd,
             rs_status_line := rs_status_line r @ status_line code\<rparr>) ep)))" and "k' = k1"
    using assms(4) o pos st f(2) unfolding h HandlerError_def
    by (auto simp: Let_def k_stat_def set_code_def push_header_def)
  have "sendable k1 ep' (head_bytes (ep_response ep') @ i_data st)"
    using f st consistent_size [OF st(3)] e
    by (intro sendable_file [of ep' k1 error_page st]) (simp_all add: push_header_def)
  moreover have "head_bytes (ep_response ep') @ i_data st = error_message code k"
    using assms(2) st e
    by (simp add: head_bytes_def push_header_def blank_response_def error_message_def message_def
        LINE_END_def page_of_def k_stat_def consistent_def)
  ultimately show ?thesis using \<open>k' = k1\<close> e a by (auto simp: built_def push_header_def)
qed

lemma build_ok:
  assumes "blank_response (ep_response ep)" and "BuildHttpResponseHelper (set_code OK ep) k = (ep', k')"
  shows "k' = k" and "ep_request ep' = ep_request ep" and "rs_fd (ep_response ep') = rs_fd (ep_response ep)"
    and "rs_response_body (ep_response ep') = rs_response_body (ep_response ep)"
    and "head_bytes (ep_response ep') =
      status_line OK @ ''Content-Type: '' @ Suffix2Desc (rq_suffix (ep_request ep)) @ CRLF @
      ''Content-Length: '' @
      string_of_int (if rq_cgi (ep_request ep) then int (length (rs_response_body (ep_response ep)))
                     else rq_size (ep_request ep)) @ CRLF @ CRLF"
  using assms
  by (auto simp: BuildHttpResponseHelper_def BuildOkResponse_def Let_def set_code_def code_defs
      push_header_def head_bytes_def blank_response_def LINE_END_def)

lemma ok_cgi_path:
  assumes "page_ok k" and "blank_response (ep_response ep)" and "rq_cgi (ep_request ep)"
    and "length (rs_response_body (ep_response ep)) < 2 ^ 64"
    and "BuildHttpResponseHelper (set_code OK ep) k = (ep', k')"
  shows "built k ep' k'
    (message OK (Suffix2Desc (rq_suffix (ep_request ep))) (rs_response_body (ep_response ep)))"
  using assms build_ok [OF assms(2,5)] sendable_cgi [of ep' k]
  by (simp add: built_def message_def)

lemma ok_file_path:
  assumes "page_ok k" and "blank_response (ep_response ep)" and "\<not> rq_cgi (ep_request ep)"
    and "k_stat k (rq_path (ep_request ep)) = Some st" and "i_readable st" and "consistent st"
    and "rq_size (ep_request ep) = to_int32 (st_size st)"
    and "ProcessNonCgi ep k = (code, ep1, k1)"
    and "BuildHttpResponseHelper (set_code code ep1) k1 = (ep', k')"
  shows "built k ep' k' (message OK (Suffix2Desc (rq_suffix (ep_request ep))) (i_data st))"
proof -
  let ?p = "c_str (rq_path (ep_request ep))"
  obtain fd k2 where a: "k_alloc (FdFile ?p) k = (fd, k2)" by fastforce
  note f = k_alloc_fields [OF a]
  have "k_open (rq_path (ep_request ep)) k = (fd, k2)"
    using assms(1,4,5) a by (simp add: k_open_def page_ok_def)
  with assms(8) f(5) free_fd_nonneg [of "k_fds k"]
  have c: "code = OK" "k1 = k2" "ep1 = upd_rs (\<lambda>r. r\<lparr>rs_fd := fd\<rparr>) ep"
    by (auto simp: ProcessNonCgi_def Let_def)
  have b1: "blank_response (ep_response ep1)" using assms(2) c(3) by (simp add: blank_response_def)
  have h: "BuildHttpResponseHelper (set_code OK ep1) k2 = (ep', k')" using assms(9) c by simp
  note b = build_ok [OF b1 h]
  have "sendable k2 ep' (head_bytes (ep_response ep') @ i_data st)"
    using assms(3,4,6,7) f b c consistent_size [OF assms(6)]
    by (intro sendable_file [of ep' k2 ?p st]) (simp_all add: k_stat_def)
  moreover have "head_bytes (ep_response ep') @ i_data st =
     message OK (Suffix2Desc (rq_suffix (ep_request ep))) (i_data st)"
    using b(5) c(3) assms(3,6,7) consistent_size [OF assms(6)]
    by (simp add: message_def consistent_def)
  ultimately show ?thesis using a b c assms(3) by (auto simp: built_def)
qed

lemma not_found_path:
  assumes "page_ok k" and "blank_response (ep_response ep)"
    and "\<not> (\<exists>st. k_stat k (rq_path (ep_request ep)) = Some st \<and> i_readable st)"
    and "ProcessNonCgi ep k = (code, ep1, k1)"
    and "BuildHttpResponseHelper (set_code code ep1) k1 = (ep', k')"
  shows "built k ep' k' (error_message NOT_FOUND k)"
proof -
  have "k_open (rq_path (ep_request ep)) k = (-1, k)"
    using assms(3) by (auto simp: k_open_def split: option.split)
  with assms(4) have c: "code = NOT_FOUND" "k1 = k" "ep1 = upd_rs (\<lambda>r. r\<lparr>rs_fd := -1\<rparr>) ep"
    by (auto simp: ProcessNonCgi_def Let_def)
  with assms(2) have "blank_response (ep_response ep1)" by (simp add: blank_response_def)
  from error_path [OF assms(1) this _ assms(5)[unfolded c(1,2)]] show ?thesis by simp
qed

lemma LocateResource_size:
  assumes "LocateResource q k = Some q2" and "k_stat k (rq_path q2) = Some st"
  shows "rq_size q2 = to_int32 (st_size st)"
  using assms by (auto simp: LocateResource_def Let_def split: option.splits if_splits prod.splits)

lemma LocateResource_frame:
  assumes "LocateResource q k = Some q2"
  shows "rq_method q2 = rq_method q" "rq_request_body q2 = rq_request_body q"
    "rq_content_length q2 = rq_content_length q" "rq_query_string q2 = rq_query_string q"
  using assms by (auto simp: LocateResource_def Let_def split: option.splits if_splits prod.splits)

lemma FindSuffix_frame [simp]:
  "rq_method (FindSuffix q) = rq_method q" "rq_request_body (FindSuffix q) = rq_request_body q"
  "rq_content_length (FindSuffix q) = rq_content_length q" "rq_cgi (FindSuffix q) = rq_cgi q"
  "rq_path (FindSuffix q) = rq_path q" "rq_size (FindSuffix q) = rq_size q"
  "rq_query_string (FindSuffix q) = rq_query_string q"
  by (simp_all add: FindSuffix_def split: option.split)

lemma ResolvePath_frame [simp]:
  "rq_method (ResolvePath q) = rq_method q" "rq_request_body (ResolvePath q) = rq_request_body q"
  "rq_content_length (ResolvePath q) = rq_content_length q"
  by (simp_all add: ResolvePath_def Let_def CutString_def split: option.split prod.split)

lemma wait_code_range: "wait_code b st \<in> {OK, BAD_REQUEST, SERVER_ERROR}"
  by (simp add: wait_code_def split: exit_status.split)

lemma k_writes_same [simp]: "k_stat (k\<lparr>k_writes := w\<rparr>) p = k_stat k p"
  "page_ok (k\<lparr>k_writes := w\<rparr>) = page_ok k"
  "error_message c (k\<lparr>k_writes := w\<rparr>) = error_message c k"
  by (simp_all add: k_stat_def page_ok_def error_message_def page_of_def)

lemma calm_cgi_stdin:
  assumes "calm k" and "rq_method q = ''POST'' \<longrightarrow> rq_content_length q = int (length (rq_request_body q))"
  shows "fst (cgi_stdin q k) = child_input q"
  using assms write_loop_complete [of "k_writes k" 0 "rq_request_body q"]
  by (simp add: cgi_stdin_def child_input_def calm_def)

lemma cgi_stdin_rest: "k_writes k = [] \<Longrightarrow> snd (cgi_stdin q k) = []"
  by (simp add: cgi_stdin_def write_loop_whole)

lemma serve_cgi:
  assumes "calm k" and "ep_response ep = new_HttpResponse"
    and "rq_method (ep_request ep) = ''POST'' \<longrightarrow>
      rq_content_length (ep_request ep) = int (length (rq_request_body (ep_request ep)))"
    and "rq_cgi (ep_request ep)"
    and "small_result (run_child (ep_request ep) k (child_input (ep_request ep)))"
  shows "case ProcessCgi ep k of
      None \<Rightarrow> run_child (ep_request ep) k (child_input (ep_request ep)) = Blocked
    | Some (code, ep1, k1) \<Rightarrow> \<exists>out status orc.
        run_child (ep_request ep) k (child_input (ep_request ep)) = Finished out status \<and>
        code = wait_code True status \<and> (k_writes k = [] \<longrightarrow> orc = []) \<and>
        (case BuildHttpResponseHelper (set_code code ep1) k1 of (ep', k') \<Rightarrow>
          built (k\<lparr>k_writes := orc\<rparr>) ep' k'
            (if code = OK then message OK (Suffix2Desc (rq_suffix (ep_request ep))) out
             else error_message code k))"
proof -
  let ?q = "ep_request ep"
  obtain inp orc where io: "cgi_stdin ?q k = (inp, orc)" by fastforce
  with calm_cgi_stdin [OF assms(1,3)] have inp: "inp = child_input ?q" by simp
  have rest: "k_writes k = [] \<longrightarrow> orc = []" using cgi_stdin_rest [of k ?q] io by simp
  from assms(1) have k: "length (k_fds k) + 3 < k_max k" "k_fork_ok k" "k_wait_ok k" "page_ok k"
    by (simp_all add: calm_def)
  note p = ProcessCgi_ok [OF k(1,2) io, unfolded inp]
  show ?thesis
  proof (cases "run_child ?q k (child_input ?q)")
    case Blocked
    with p show ?thesis by simp
  next
    case (Finished out status)
    let ?c = "wait_code True status" and ?k1 = "k\<lparr>k_writes := orc\<rparr>"
    let ?ep1 = "upd_rs (\<lambda>r. r\<lparr>rs_response_body := rs_response_body r @ out\<rparr>) ep"
    obtain ep' k' where b: "BuildHttpResponseHelper (set_code ?c ?ep1) ?k1 = (ep', k')" by fastforce
    have blank: "blank_response (ep_response ?ep1)"
      using assms(2) by (simp add: blank_response_def new_HttpResponse_def LINE_END_def)
    have page: "page_ok ?k1" using k by simp
    have out: "length out < 2 ^ 64"
      using Finished assms(5) by (simp add: small_result_def)
    have "built ?k1 ep' k'
       (if ?c = OK then message OK (Suffix2Desc (rq_suffix ?q)) out else error_message ?c k)"
    proof (cases "?c = OK")
      case True
      have len: "length (rs_response_body (ep_response ?ep1)) < 2 ^ 64"
        using out assms(2) by (simp add: new_HttpResponse_def)
      have cgi: "rq_cgi (ep_request ?ep1)" using assms(4) by simp
      from ok_cgi_path [OF page blank cgi len b [unfolded True]] True assms(2) show ?thesis
        by (simp add: new_HttpResponse_def)
    next
      case False
      with wait_code_range [of True status]
      have c: "?c \<in> {BAD_REQUEST, NOT_FOUND, SERVER_ERROR}" by blast
      from error_path [OF page blank c b] False show ?thesis by simp
    qed
    with p Finished b k(3) rest show ?thesis by (auto intro!: exI [of _ orc])
  qed
qed

lemma serve_file:
  assumes "calm k" and "ep_response ep = new_HttpResponse" and "\<not> rq_cgi (ep_request ep)"
    and "\<And>st. k_stat k (rq_path (ep_request ep)) = Some st \<Longrightarrow>
      rq_size (ep_request ep) = to_int32 (st_size st)"
  shows "case ProcessNonCgi ep k of (code, ep1, k1) \<Rightarrow>
    (case BuildHttpResponseHelper (set_code code ep1) k1 of (ep', k') \<Rightarrow>
      built k ep' k'
        (case k_stat k (rq_path (ep_request ep)) of
           Some st \<Rightarrow> if i_readable st
             then message OK (Suffix2Desc (rq_suffix (ep_request ep))) (i_data st)
             else error_message NOT_FOUND k
         | None \<Rightarrow> error_message NOT_FOUND k))"
proof -
  obtain code ep1 k1 ep' k' where n: "ProcessNonCgi ep k = (code, ep1, k1)"
    and b: "BuildHttpResponseHelper (set_code code ep1) k1 = (ep', k')"
    by (metis prod_cases3 surj_pair)
  have blank: "blank_response (ep_response ep)"
    using assms(2) by (simp add: blank_response_def new_HttpResponse_def LINE_END_def)
  from assms(1) have page: "page_ok k" by (simp add: calm_def)
  show ?thesis
  proof (cases "\<exists>st. k_stat k (rq_path (ep_request ep)) = Some st \<and> i_readable st")
    case True
    then obtain st where st: "k_stat k (rq_path (ep_request ep)) = Some st" "i_readable st" by blast
    with assms(1) have "consistent st" by (auto simp: calm_def k_stat_def)
    from ok_file_path [OF page blank assms(3) st this assms(4)[OF st(1)] n b] n b st
    show ?thesis by simp
  next
    case False
    from not_found_path [OF page blank False n b] n b False show ?thesis
      by (auto split: option.split)
  qed
qed

lemma build_cases:
  "\<not> served_method (ep_request ep) \<Longrightarrow>
   BuildHttpResponse ep k = Some (BuildHttpResponseHelper (set_code BAD_REQUEST ep) k)"
  "served_method (ep_request ep) \<Longrightarrow> LocateResource (ResolvePath (ep_request ep)) k = None \<Longrightarrow>
   BuildHttpResponse ep k =
     Some (BuildHttpResponseHelper (set_code NOT_FOUND (upd_rq ResolvePath ep)) k)"
  "served_method (ep_request ep) \<Longrightarrow> LocateResource (ResolvePath (ep_request ep)) k = Some q2 \<Longrightarrow>
   rq_cgi q2 \<Longrightarrow> BuildHttpResponse ep k =
     map_option (\<lambda>(code, ep4, k'). BuildHttpResponseHelper (set_code code ep4) k')
       (ProcessCgi (ep\<lparr>ep_request := FindSuffix q2\<rparr>) k)"
  "served_method (ep_request ep) \<Longrightarrow> LocateResource (ResolvePath (ep_request ep)) k = Some q2 \<Longrightarrow>
   \<not> rq_cgi q2 \<Longrightarrow> BuildHttpResponse ep k =
     (case ProcessNonCgi (ep\<lparr>ep_request := FindSuffix q2\<rparr>) k of (code, ep4, k') \<Rightarrow>
        Some (BuildHttpResponseHelper (set_code code ep4) k'))"
  by (auto simp: BuildHttpResponse_def Let_def served_method_def split: option.split prod.split)

lemma respond_cases:
  "\<not> served_method q \<Longrightarrow> respond q k = Some (error_message BAD_REQUEST k)"
  "served_method q \<Longrightarrow> LocateResource (ResolvePath q) k = None \<Longrightarrow>
   respond q k = Some (error_message NOT_FOUND k)"
  "served_method q \<Longrightarrow> LocateResource (ResolvePath q) k = Some q2 \<Longrightarrow> rq_cgi q2 \<Longrightarrow>
   respond q k =
     (case run_child (FindSuffix q2) k (child_input (FindSuffix q2)) of
        Blocked \<Rightarrow> None
      | Finished out status \<Rightarrow>
          let code = wait_code True status
          in Some (if code = OK then message OK (Suffix2Desc (rq_suffix (FindSuffix q2))) out
                   else error_message code k))"
  "served_method q \<Longrightarrow> LocateResource (ResolvePath q) k = Some q2 \<Longrightarrow> \<not> rq_cgi q2 \<Longrightarrow>
   respond q k = Some
     (case k_stat k (rq_path q2) of
        Some st \<Rightarrow> if i_readable st
                   then message OK (Suffix2Desc (rq_suffix (FindSuffix q2))) (i_data st)
                   else error_message NOT_FOUND k
      | None \<Rightarrow> error_message NOT_FOUND k)"
  by (auto simp: respond_def served_method_def child_input_def Let_def
      dest: LocateResource_frame split: option.split)

lemma serve_built:
  assumes "calm k" and "ep_response ep = new_HttpResponse"
    and "rq_method (ep_request ep) = ''POST'' \<longrightarrow>
      rq_content_length (ep_request ep) = int (length (rq_request_body (ep_request ep)))"
    and "output_fits (ep_request ep) k"
  shows "case BuildHttpResponse ep k of
      None \<Rightarrow> respond (ep_request ep) k = None
    | Some (ep', k') \<Rightarrow> \<exists>out orc. respond (ep_request ep) k = Some out \<and>
        (k_writes k = [] \<longrightarrow> orc = []) \<and> built (k\<lparr>k_writes := orc\<rparr>) ep' k' out"
proof -
  let ?q = "ep_request ep"
  have blank: "blank_response (ep_response ep)"
    using assms(2) by (simp add: blank_response_def new_HttpResponse_def LINE_END_def)
  from assms(1) have page: "page_ok k" by (simp add: calm_def)
  have same: "k\<lparr>k_writes := k_writes k\<rparr> = k" by simp
  have err: "\<exists>out orc. Some (error_message c k) = Some out \<and>
      (k_writes k = [] \<longrightarrow> orc = []) \<and> built (k\<lparr>k_writes := orc\<rparr>) ep' k' out"
    if "BuildHttpResponseHelper (set_code c e) k = (ep', k')" "blank_response (ep_response e)"
      "c \<in> {BAD_REQUEST, NOT_FOUND, SERVER_ERROR}" for c e ep' k'
    using error_path [OF page that(2,3,1)] same by (intro exI [of _ "k_writes k"] exI conjI) simp_all
  show ?thesis
  proof (cases "served_method ?q")
    case False
    obtain ep' k' where b: "BuildHttpResponseHelper (set_code BAD_REQUEST ep) k = (ep', k')" by fastforce
    from err [OF b blank] b False show ?thesis by (simp add: build_cases respond_cases)
  next
    case True
    show ?thesis
    proof (cases "LocateResource (ResolvePath ?q) k")
      case None
      let ?e = "upd_rq ResolvePath ep"
      obtain ep' k' where b: "BuildHttpResponseHelper (set_code NOT_FOUND ?e) k = (ep', k')" by fastforce
      from err [OF b] blank b True None show ?thesis by (simp add: build_cases respond_cases)
    next
      case (Some q2)
      let ?e = "ep\<lparr>ep_request := FindSuffix q2\<rparr>"
      note bc = build_cases(3,4) [OF True Some] and rc = respond_cases(3,4) [OF True Some]
      show ?thesis
      proof (cases "rq_cgi q2")
        case cgi: True
        have "rq_method (ep_request ?e) = ''POST'' \<longrightarrow>
           rq_content_length (ep_request ?e) = int (length (rq_request_body (ep_request ?e)))"
          using assms(3) LocateResource_frame [OF Some] by simp
        moreover have "small_result (run_child (ep_request ?e) k (child_input (ep_request ?e)))"
          using assms(4) True Some cgi by (simp add: output_fits_def)
        ultimately show ?thesis using serve_cgi [OF assms(1), of ?e] assms(2) cgi
          by (auto simp: bc(1) [OF cgi] rc(1) [OF cgi] Let_def split: option.splits prod.splits)
      next
        case plain: False
        obtain code ep1 k1 ep' k' where n: "ProcessNonCgi ?e k = (code, ep1, k1)"
          and b: "BuildHttpResponseHelper (set_code code ep1) k1 = (ep', k')"
          by (metis prod_cases3 surj_pair)
        have "built k ep' k' (the (respond ?q k))"
          using serve_file [OF assms(1), of ?e] LocateResource_size [OF Some] plain assms(2) n b
          by (simp add: rc(2) [OF plain] cong: option.case_cong if_cong)
        then show ?thesis
          using same by (simp add: bc(2) [OF plain] rc(2) [OF plain] n b)
            (intro exI [of _ "k_writes k"], simp)
      qed
    qed
  qed
qed

lemma serve_spec:
  assumes "calm k" and "ep_response ep = new_HttpResponse" and "body_agrees (ep_request ep)"
    and "output_fits (ep_request ep) k"
  shows "case BuildHttpResponse ep k of
      None \<Rightarrow> respond (ep_request ep) k = None
    | Some (ep', k') \<Rightarrow> \<exists>out orc. respond (ep_request ep) k = Some out \<and>
        SendHttpResponse ep' k' = k\<lparr>k_writes := orc, k_wire := k_wire k @ out\<rparr>"
proof (cases "BuildHttpResponse ep k")
  case None
  with serve_built [OF assms(1,2) _ assms(4)] assms(3) show ?thesis by (simp add: body_agrees_def)
next
  case (Some x)
  obtain ep' k' where x: "x = (ep', k')" by fastforce
  with Some serve_built [OF assms(1,2) _ assms(4)] assms(3) obtain out orc where
    r: "respond (ep_request ep) k = Some out" and b: "built (k\<lparr>k_writes := orc\<rparr>) ep' k' out"
    by (auto simp: body_agrees_def)
  from assms(1) have "k_sends (k\<lparr>k_writes := orc\<rparr>) = []" by (simp add: calm_def page_ok_def)
  from built_sends [OF b this] Some x r show ?thesis by auto
qed

lemma builder_sock:
  assumes "BuildHttpResponse ep k = Some (ep', k')"
  shows "ep_sock ep' = ep_sock ep"
proof -
  have h: "ep_sock (fst (BuildHttpResponseHelper e k)) = ep_sock e" for e k
    by (auto simp: BuildHttpResponseHelper_def HandlerError_def BuildOkResponse_def push_header_def
        Let_def split: prod.split option.split)
  have c: "ep_sock e' = ep_sock e" if "ProcessCgi e k = Some (code, e', k')" for e e' k k' code
    using that by (auto simp: ProcessCgi_def Let_def split: prod.splits option.splits if_splits
        cgi_result.splits)
  have n: "ep_sock (fst (snd (ProcessNonCgi e k))) = ep_sock e" for e k
    by (auto simp: ProcessNonCgi_def Let_def split: prod.split)
  have s: "ep_sock (set_code code e) = ep_sock e" for code e by (simp add: set_code_def)
  let ?q1 = "ResolvePath (ep_request ep)"
  show ?thesis
  proof (cases "served_method (ep_request ep)")
    case False
    with assms h [of "set_code BAD_REQUEST ep" k] s show ?thesis by (simp add: build_cases)
  next
    case True
    show ?thesis
    proof (cases "LocateResource ?q1 k")
      case None
      with assms True h [of "set_code NOT_FOUND (upd_rq ResolvePath ep)" k] s show ?thesis
        by (simp add: build_cases)
    next
      case (Some q2)
      let ?e = "ep\<lparr>ep_request := FindSuffix q2\<rparr>"
      show ?thesis
      proof (cases "rq_cgi q2")
        case cgi: True
        with assms build_cases(3) [OF True Some] obtain code e1 k1
          where p: "ProcessCgi ?e k = Some (code, e1, k1)"
            and b: "BuildHttpResponseHelper (set_code code e1) k1 = (ep', k')" by auto
        with c [OF p] h [of "set_code code e1" k1] s show ?thesis by simp
      next
        case plain: False
        obtain code e1 k1 where p: "ProcessNonCgi ?e k = (code, e1, k1)" by (metis prod_cases3)
        with plain assms build_cases(4) [OF True Some]
        have b: "BuildHttpResponseHelper (set_code code e1) k1 = (ep', k')" by simp
        with p n [of ?e k] h [of "set_code code e1" k1] s show ?thesis by simp
      qed
    qed
  qed
qed

text \<open>The result of one connection, as a function of what arrives and of the operating system.\<close>

lemma handled:
  assumes "calm k" and "int (length sk) < 2 ^ 31"
    and "ep = RecvHttpRequest (new_EndPoint junk sock sk)" and "\<not> IsStop ep"
    and "output_fits (ep_request ep) k"
  shows "case respond (ep_request ep) k of
      None \<Rightarrow> HandlerRequest junk sock sk k = None
    | Some out \<Rightarrow> \<exists>orc. HandlerRequest junk sock sk k =
        Some (k_close sock (k\<lparr>k_writes := orc, k_wire := k_wire k @ out\<rparr>))"
proof -
  from received [OF assms(2), of junk sock] assms(3,4)
  have r: "ep_response ep = new_HttpResponse" "ep_sock ep = sock" "body_agrees (ep_request ep)"
    by simp_all
  have h: "HandlerRequest junk sock sk k = map_option (\<lambda>(ep', k').
      k_close (ep_sock ep') (SendHttpResponse ep' k')) (BuildHttpResponse ep k)"
    using assms(3,4) by (auto simp: HandlerRequest_def Let_def split: option.split)
  show ?thesis
  proof (cases "BuildHttpResponse ep k")
    case None
    with serve_spec [OF assms(1) r(1,3) assms(5)] h show ?thesis by simp
  next
    case (Some x)
    obtain ep' k' where x: "x = (ep', k')" by fastforce
    with Some serve_spec [OF assms(1) r(1,3) assms(5)] obtain out orc where
      "respond (ep_request ep) k = Some out"
      "SendHttpResponse ep' k' = k\<lparr>k_writes := orc, k_wire := k_wire k @ out\<rparr>"
      by auto
    moreover from builder_sock [of ep k ep' k'] Some x r(2) have "ep_sock ep' = sock" by simp
    ultimately show ?thesis using h Some x by auto
  qed
qed

section \<open>Paths\<close>

definition full_path :: "bytes \<Rightarrow> bytes" where
  "full_path p = (let p' = WEB_ROOT @ p in if last p' = CHR ''/'' then p' @ HOME_PAGE else p')"

lemma ResolvePath_get:
  "rq_method q = ''GET'' \<Longrightarrow> CHR ''?'' \<notin> set (rq_uri q) \<Longrightarrow>
   ResolvePath q = q\<lparr>rq_path := full_path (rq_uri q)\<rparr>"
  by (simp add: ResolvePath_def full_path_def Let_def str_find_char)

lemma ResolvePath_query:
  "rq_method q = ''GET'' \<Longrightarrow> rq_uri q = p @ ''?'' @ s \<Longrightarrow> CHR ''?'' \<notin> set p \<Longrightarrow>
   ResolvePath q = q\<lparr>rq_path := full_path p, rq_query_string := s, rq_cgi := True\<rparr>"
  using CutString_sep [of "''?''" "CHR ''?''" "[]" p s "rq_path q" "rq_query_string q"]
  by (simp add: ResolvePath_def full_path_def Let_def str_find_char)

lemma ResolvePath_post:
  "rq_method q = ''POST'' \<Longrightarrow> ResolvePath q = q\<lparr>rq_path := full_path (rq_uri q), rq_cgi := True\<rparr>"
  by (simp add: ResolvePath_def full_path_def Let_def)

lemma LocateResource_file:
  "k_stat k (rq_path q) = Some st \<Longrightarrow> \<not> S_ISDIR (st_mode st) \<Longrightarrow>
   LocateResource q k = Some (q\<lparr>rq_cgi := (rq_cgi q \<or> is_exec (st_mode st)),
     rq_size := to_int32 (st_size st)\<rparr>)"
  by (simp add: LocateResource_def Let_def)

definition suffix_of :: "bytes \<Rightarrow> bytes" where
  "suffix_of p = (case rfind_dot p of None \<Rightarrow> ''.html'' | Some n \<Rightarrow> drop n p)"

lemma FindSuffix_suffix: "rq_suffix (FindSuffix q) = suffix_of (rq_path q)"
  by (simp add: FindSuffix_def suffix_of_def substr_from_def split: option.split)

end
