(* ===== verification/Serving.thy ===== *)
theory Serving
  imports Response
begin

text \<open>
  The properties of one connection, from the bytes the client sends to the bytes it gets back:
  \<open>CallBack::HandlerRequest\<close> of \<open>http/Protocol.hpp\<close> on static files, CGI programs, missing
  resources, other methods and truncated requests; the descriptors it leaves open; and the loop
  that sends the body of a CGI answer.
\<close>

section \<open>From the wire to the specification\<close>

lemma received_request:
  assumes "wf_request m u v kvs" and "map toupper m \<noteq> ''POST''"
    and "ep = RecvHttpRequest (new_EndPoint junk sock (rx_bytes (print_request m u v kvs rest)))"
  shows "ep_request ep = (new_HttpRequest junk)\<lparr>
     rq_request_line := m @ '' '' @ u @ '' '' @ v,
     rq_request_header := map (\<lambda>(k, x). k @ SEP @ x) kvs, rq_blank := [LF],
     rq_method := map toupper m, rq_uri := u, rq_version := v, rq_header_kv := map_of kvs\<rparr>"
    and "\<not> IsStop ep"
  unfolding assms(3) RecvHttpRequest_head [OF assms(1)]
  using assms(2)
  by (simp_all add: parsed_head_def
      RecvHttpRequestBody_def IsNeedRecvHttpRequestBody_def new_EndPoint_def IsStop_def)

lemma received_post:
  assumes "wf_request m u v kvs" and "map toupper m = ''POST''"
    and "map_of kvs ''Content-Length'' = Some (string_of_int (int (length body)))"
    and "int (length body) < 2 ^ 31"
    and "ep = RecvHttpRequest (new_EndPoint junk sock
           (rx_bytes (print_request m u v kvs (body @ rest))))"
  shows "ep_request ep = (new_HttpRequest junk)\<lparr>
     rq_request_line := m @ '' '' @ u @ '' '' @ v,
     rq_request_header := map (\<lambda>(k, x). k @ SEP @ x) kvs, rq_blank := [LF],
     rq_method := ''POST'', rq_uri := u, rq_version := v, rq_header_kv := map_of kvs,
     rq_content_length := int (length body), rq_request_body := body\<rparr>"
    and "\<not> IsStop ep"
  unfolding assms(5) RecvHttpRequest_head [OF assms(1)]
  using assms(2-4) RecvBody_loop_exact [OF assms(4), of "[]" "rx_bytes rest"]
  by (simp_all add: parsed_head_def
      RecvHttpRequestBody_def IsNeedRecvHttpRequestBody_def new_EndPoint_def IsStop_def
      new_HttpRequest_def c_str_id string_of_int_no_nul atoi_string_of_int)

text \<open>One connection answered with the given bytes, and nothing else changed but the descriptor.\<close>

definition answers :: "int \<Rightarrow> int \<Rightarrow> bytes \<Rightarrow> kernel \<Rightarrow> bytes \<Rightarrow> bool" where
  "answers junk sock request k out \<longleftrightarrow>
     (\<exists>orc. HandlerRequest junk sock (rx_bytes request) k =
        Some (k_close sock (k\<lparr>k_writes := orc, k_wire := k_wire k @ out\<rparr>)))"

lemma answersI:
  assumes "calm k" and "int (length request) < 2 ^ 31"
    and "ep = RecvHttpRequest (new_EndPoint junk sock (rx_bytes request))" and "\<not> IsStop ep"
    and "respond (ep_request ep) k = Some out" and "output_fits (ep_request ep) k"
  shows "answers junk sock request k out"
  using handled [OF assms(1) _ assms(3,4,6)] assms(2,5) by (simp add: answers_def)

section \<open>A concrete operating system\<close>

text \<open>
  The instance the theorems of this theory are applied to: five open descriptors, an error page, a
  style sheet, a file beside the web root, a directory and an executable program that returns the
  first bytes of its query or of its input.
\<close>

definition demo_file :: "32 word \<Rightarrow> bytes \<Rightarrow> inode" where
  "demo_file m d = \<lparr>st_mode = m, st_size = int (length d), i_data = d, i_readable = True\<rparr>"

definition demo_prog :: program where
  "demo_prog env inp = (case env ''QUERY_STRING'' of
     Some s \<Rightarrow> if s = ''die'' then Finished [] (Signaled 8) else Finished (take 9 s) (Exited 0)
   | None \<Rightarrow> Finished (take 9 inp) (Exited 0))"

definition demo_kernel :: kernel where
  "demo_kernel = \<lparr>k_fds = [(0, FdStd), (1, FdStd), (2, FdStd), (3, FdSock), (4, FdSock)],
     k_max = 64,
     k_files = [''wwwroot/404.html'' \<mapsto> demo_file 0x81A4 ''gone'',
                ''wwwroot/a.css'' \<mapsto> demo_file 0x81A4 ''body{}'',
                ''wwwroot/../s'' \<mapsto> demo_file 0x81A4 ''key'',
                ''wwwroot/d'' \<mapsto> demo_file 0x41ED [],
                ''wwwroot/t'' \<mapsto> demo_file 0x81ED ''elf''],
     k_prog = [''wwwroot/t'' \<mapsto> demo_prog], k_env = Map.empty, k_fork_ok = True,
     k_wait_ok = True, k_writes = [], k_sends = [], k_wire = []\<rparr>"

lemma demo_consistent: "length d \<le> 9 \<Longrightarrow> consistent (demo_file m d)"
  by (simp add: demo_file_def consistent_def sendfile_max_def)

lemma demo_calm: "calm demo_kernel"
proof -
  have 1: "page_ok demo_kernel"
    using demo_consistent [of "''gone''" "0x81A4"]
    by (simp add: page_ok_def demo_kernel_def error_page_def WEB_ROOT_def PAGE_404_def)
       (simp add: demo_file_def)
  have 2: "k_files demo_kernel p = Some st \<Longrightarrow> consistent st" for p st
    by (auto simp: demo_kernel_def intro: demo_consistent split: if_splits)
  show ?thesis
    using 1 2 unfolding calm_def by (auto simp: demo_kernel_def)
qed

lemma demo_stat:
  "k_stat demo_kernel ''wwwroot/a.css'' = Some (demo_file 0x81A4 ''body{}'')"
  "k_stat demo_kernel ''wwwroot/../s'' = Some (demo_file 0x81A4 ''key'')"
  "k_stat demo_kernel ''wwwroot/d'' = Some (demo_file 0x41ED [])"
  "k_stat demo_kernel ''wwwroot/t'' = Some (demo_file 0x81ED ''elf'')"
  "k_stat demo_kernel ''wwwroot/none'' = None"
  "k_stat demo_kernel ''wwwroot/d/index.html'' = None"
  by (simp_all add: k_stat_def demo_kernel_def c_str_def)

lemma demo_progs:
  "k_prog demo_kernel ''wwwroot/t'' = Some demo_prog" "k_prog demo_kernel ''wwwroot/a.css'' = None"
  "k_prog demo_kernel ''wwwroot/d/index.html'' = None" "k_env demo_kernel = Map.empty"
  by (simp_all add: demo_kernel_def)

lemma demo_modes:
  "\<not> S_ISDIR (st_mode (demo_file 0x81A4 d))" "\<not> is_exec (st_mode (demo_file 0x81A4 d))"
  "S_ISDIR (st_mode (demo_file 0x41ED d))" "is_exec (st_mode (demo_file 0x41ED d))"
  "\<not> S_ISDIR (st_mode (demo_file 0x81ED d))" "is_exec (st_mode (demo_file 0x81ED d))"
  "i_readable (demo_file m d)" "i_data (demo_file m d) = d"
  by (simp_all add: demo_file_def S_ISDIR_def S_IFMT_def S_IFDIR_def is_exec_def)

lemma demo_paths:
  "full_path ''/a.css'' = ''wwwroot/a.css''" "full_path ''/d'' = ''wwwroot/d''"
  "full_path ''/t'' = ''wwwroot/t''" "full_path ''/none'' = ''wwwroot/none''"
  by (simp_all add: full_path_def WEB_ROOT_def Let_def)

lemma demo_wf:
  "is_word u \<Longrightarrow> length u < 100 \<Longrightarrow> wf_request ''GET'' u ''HTTP/1.0'' []"
  "is_word u \<Longrightarrow> length u < 100 \<Longrightarrow>
   wf_request ''POST'' u ''HTTP/1.0'' [(''Content-Length'', ''3'')]"
  "is_word u \<Longrightarrow> length u < 100 \<Longrightarrow> wf_request ''PUT'' u ''HTTP/1.0'' []"
  by (simp_all add: wf_request_def is_word_def isspace_def wf_line_def eol_def SEP_def)

lemma demo_upper:
  "toupper (CHR ''G'') = CHR ''G''" "toupper (CHR ''E'') = CHR ''E''" "toupper (CHR ''T'') = CHR ''T''"
  "toupper (CHR ''P'') = CHR ''P''" "toupper (CHR ''O'') = CHR ''O''" "toupper (CHR ''S'') = CHR ''S''"
  "toupper (CHR ''U'') = CHR ''U''"
  by code_simp+

lemma demo_three: "string_of_int (int (Suc (Suc (Suc 0)))) = ''3''"
  by code_simp

lemmas demo_facts = demo_stat demo_progs demo_modes demo_paths demo_wf demo_upper c_str_def
  is_word_def isspace_def print_request_def SEP_def

section \<open>Properties\<close>

text \<open>C1: a GET of a readable, non-executable file below the web root is answered, byte for byte,
  with status 200, the content type of the path's suffix, the length of the file and its contents;
  the connection is closed and every other descriptor is as before.\<close>

theorem get_static_file:
  assumes "calm k" and "wf_request m u v kvs" and "map toupper m = ''GET''"
    and "CHR ''?'' \<notin> set u" and "k_stat k (full_path u) = Some st"
    and "\<not> S_ISDIR (st_mode st)" and "\<not> is_exec (st_mode st)" and "i_readable st"
    and "int (length (print_request m u v kvs rest)) < 2 ^ 31"
  shows "answers junk sock (print_request m u v kvs rest) k
    (message OK (Suffix2Desc (suffix_of (full_path u))) (i_data st))"
proof -
  have m: "map toupper m \<noteq> ''POST''" using assms(3) by simp
  note r = received_request [OF assms(2) m refl, of junk sock rest]
  show ?thesis
    by (rule answersI [OF assms(1,9) refl r(2)], unfold r(1))
       (use assms in \<open>simp_all add: output_fits_def respond_cases served_method_def ResolvePath_get LocateResource_file
          FindSuffix_suffix new_HttpRequest_def\<close>)
qed

theorem get_static_file_witness:
  "answers 7 4 (print_request ''GET'' ''/a.css'' ''HTTP/1.0'' [] []) demo_kernel
     (message OK (Suffix2Desc (suffix_of (full_path ''/a.css'')))
       (i_data (demo_file 0x81A4 ''body{}'')))"
  by (rule get_static_file [OF demo_calm]) (simp_all add: demo_facts)

text \<open>C22: a GET whose path does not exist is answered with status 404 and the error page.\<close>

theorem get_missing:
  assumes "calm k" and "wf_request m u v kvs" and "map toupper m = ''GET''"
    and "CHR ''?'' \<notin> set u" and "k_stat k (full_path u) = None"
    and "int (length (print_request m u v kvs rest)) < 2 ^ 31"
  shows "answers junk sock (print_request m u v kvs rest) k (error_message NOT_FOUND k)"
proof -
  have m: "map toupper m \<noteq> ''POST''" using assms(3) by simp
  note r = received_request [OF assms(2) m refl, of junk sock rest]
  show ?thesis
    by (rule answersI [OF assms(1,6) refl r(2)], unfold r(1))
       (use assms in \<open>simp_all add: output_fits_def respond_cases served_method_def ResolvePath_get LocateResource_def\<close>)
qed

theorem get_missing_witness:
  "answers 7 4 (print_request ''GET'' ''/none'' ''HTTP/1.0'' [] []) demo_kernel
     (error_message NOT_FOUND demo_kernel)"
  by (rule get_missing [OF demo_calm]) (simp_all add: demo_facts)

text \<open>C2: a POST runs the program at its path with \<open>METHOD\<close> and \<open>CONTENT_LENGTH\<close> in the
  environment and exactly the body of the request on its standard input; when the program exits
  with 0, the answer is status 200 with its output and the length of that output.\<close>

theorem post_cgi:
  assumes "calm k" and "wf_request m u v kvs" and "map toupper m = ''POST''"
    and "map_of kvs ''Content-Length'' = Some (string_of_int (int (length body)))"
    and "k_stat k (full_path u) = Some st" and "\<not> S_ISDIR (st_mode st)"
    and "k_prog k (c_str (full_path u)) = Some prog"
    and "prog ((k_env k)(''METHOD'' \<mapsto> ''POST'',
           ''CONTENT_LENGTH'' \<mapsto> string_of_int (int (length body)))) body = Finished out (Exited 0)"
    and "length out < 2 ^ 64"
    and "int (length (print_request m u v kvs (body @ rest))) < 2 ^ 31"
  shows "answers junk sock (print_request m u v kvs (body @ rest)) k
    (message OK (Suffix2Desc (suffix_of (full_path u))) out)"
proof -
  have len: "int (length body) < 2 ^ 31" using assms(10) by (simp add: print_request_def)
  note r = received_post [OF assms(2-4) len refl, of junk sock rest]
  show ?thesis
    by (rule answersI [OF assms(1,10) refl r(2)], unfold r(1))
       (use assms(5-9) in \<open>simp_all add: output_fits_def respond_cases served_method_def ResolvePath_post
          LocateResource_file FindSuffix_suffix new_HttpRequest_def run_child_def small_result_def child_env_def
          child_input_def c_str_id string_of_int_no_nul wait_code_def\<close>)
qed

theorem post_cgi_witness:
  "answers 7 4 (print_request ''POST'' ''/t'' ''HTTP/1.0'' [(''Content-Length'', ''3'')] (''a=1'' @ []))
     demo_kernel (message OK (Suffix2Desc (suffix_of (full_path ''/t''))) ''a=1'')"
  by (rule post_cgi [OF demo_calm, where st = "demo_file 0x81ED ''elf''" and prog = demo_prog])
     (simp_all add: demo_three demo_facts demo_prog_def del: of_nat_Suc)

lemma get_query_answer:
  assumes "calm k" and "wf_request m u v kvs" and "map toupper m = ''GET''"
    and "u = p @ ''?'' @ s" and "CHR ''?'' \<notin> set p" and "NUL \<notin> set s"
    and "k_stat k (full_path p) = Some st" and "\<not> S_ISDIR (st_mode st)"
    and "k_prog k (c_str (full_path p)) = Some prog"
    and "prog ((k_env k)(''METHOD'' \<mapsto> ''GET'', ''QUERY_STRING'' \<mapsto> s)) [] = Finished out status"
    and "length out < 2 ^ 64"
    and "int (length (print_request m u v kvs rest)) < 2 ^ 31"
  shows "answers junk sock (print_request m u v kvs rest) k
    (case status of
       Exited n \<Rightarrow> if n mod 256 = 0 then message OK (Suffix2Desc (suffix_of (full_path p))) out
                   else error_message BAD_REQUEST k
     | Signaled _ \<Rightarrow> error_message SERVER_ERROR k)"
proof -
  have m: "map toupper m \<noteq> ''POST''" using assms(3) by simp
  note r = received_request [OF assms(2) m refl, of junk sock rest]
  show ?thesis
    by (rule answersI [OF assms(1,12) refl r(2)], unfold r(1))
       (use assms(3,5-11) assms(4) in \<open>simp_all add: output_fits_def respond_cases served_method_def
          ResolvePath_query LocateResource_file FindSuffix_suffix new_HttpRequest_def run_child_def
          small_result_def child_env_def child_input_def c_str_id wait_code_def Let_def code_defs
          split: exit_status.split\<close>)
qed

text \<open>C9: a GET with a query runs the program at its path with \<open>METHOD\<close> and \<open>QUERY_STRING\<close> in the
  environment and nothing on its standard input. Exit status 0 gives 200 with the output, any other
  exit status 400, death by a signal 500, the last two with the error page.\<close>

theorem get_cgi:
  assumes "calm k" and "wf_request m u v kvs" and "map toupper m = ''GET''"
    and "u = p @ ''?'' @ s" and "CHR ''?'' \<notin> set p" and "NUL \<notin> set s"
    and "k_stat k (full_path p) = Some st" and "\<not> S_ISDIR (st_mode st)"
    and "k_prog k (c_str (full_path p)) = Some prog"
    and "prog ((k_env k)(''METHOD'' \<mapsto> ''GET'', ''QUERY_STRING'' \<mapsto> s)) [] = Finished out status"
    and "length out < 2 ^ 64"
    and "int (length (print_request m u v kvs rest)) < 2 ^ 31"
  shows "answers junk sock (print_request m u v kvs rest) k
    (case status of
       Exited n \<Rightarrow> if n mod 256 = 0 then message OK (Suffix2Desc (suffix_of (full_path p))) out
                   else error_message BAD_REQUEST k
     | Signaled _ \<Rightarrow> error_message SERVER_ERROR k)"
  using assms by (rule get_query_answer)

theorem get_cgi_witness:
  "answers 7 4 (print_request ''GET'' ''/t?die'' ''HTTP/1.0'' [] []) demo_kernel
     (case Signaled 8 of
       Exited n \<Rightarrow> if n mod 256 = 0 then message OK (Suffix2Desc (suffix_of (full_path ''/t''))) []
                   else error_message BAD_REQUEST demo_kernel
     | Signaled _ \<Rightarrow> error_message SERVER_ERROR demo_kernel)"
  by (rule get_cgi [OF demo_calm, where s = "''die''" and prog = demo_prog
        and st = "demo_file 0x81ED ''elf''"])
     (simp_all add: demo_facts demo_prog_def)

text \<open>A GET with a query on an existing file that cannot be executed is answered with 400, not
  with the file: the query alone switches to the CGI mechanism and \<open>execl\<close> fails.\<close>

lemma query_on_plain_file:
  assumes "calm k" and "wf_request m u v kvs" and "map toupper m = ''GET''"
    and "u = p @ ''?'' @ s" and "CHR ''?'' \<notin> set p"
    and "k_stat k (full_path p) = Some st" and "\<not> S_ISDIR (st_mode st)"
    and "k_prog k (c_str (full_path p)) = None"
    and "int (length (print_request m u v kvs rest)) < 2 ^ 31"
  shows "answers junk sock (print_request m u v kvs rest) k (error_message BAD_REQUEST k)"
proof -
  have m: "map toupper m \<noteq> ''POST''" using assms(3) by simp
  note r = received_request [OF assms(2) m refl, of junk sock rest]
  show ?thesis
    by (rule answersI [OF assms(1,9) refl r(2)], unfold r(1))
       (use assms(3,5-8) assms(4) in \<open>simp_all add: output_fits_def respond_cases served_method_def ResolvePath_query
          LocateResource_file new_HttpRequest_def run_child_def small_result_def wait_code_def Let_def code_defs\<close>)
qed

text \<open>A request with any method but GET and POST is answered with the error page under a status
  line whose reason phrase is empty.\<close>

lemma other_method:
  assumes "calm k" and "wf_request m u v kvs"
    and "map toupper m \<noteq> ''GET''" and "map toupper m \<noteq> ''POST''"
    and "int (length (print_request m u v kvs rest)) < 2 ^ 31"
  shows "answers junk sock (print_request m u v kvs rest) k
    (''HTTP/1.0 400 '' @ CRLF @ ''Content-Type: text/html'' @ CRLF @ ''Content-Length: '' @
     string_of_int (int (length (page_of k error_page))) @ CRLF @ CRLF @ page_of k error_page)"
proof -
  note r = received_request [OF assms(2,4) refl, of junk sock rest]
  have s: "string_of_int 400 = ''400''" by code_simp
  show ?thesis
    by (rule answersI [OF assms(1,5) refl r(2)], unfold r(1))
       (use assms(3,4) s in \<open>simp_all add: output_fits_def respond_cases served_method_def error_message_def message_def
          status_line_def HTTP_VERSION_def Code2Desc_def code_defs LINE_END_def\<close>)
qed

lemma header_loop_truncated:
  assumes "ep_in ep = rx_bytes (print_lines ls @ part)" and "\<forall>l\<in>set ls. wf_line l"
    and "\<forall>c\<in>set part. \<not> eol c"
  shows "ep_stop (RecvHttpRequestHeader_loop ep) \<and>
         ep_sock (RecvHttpRequestHeader_loop ep) = ep_sock ep"
  using assms(1,2)
proof (induction ls arbitrary: ep)
  case Nil
  then have "ReadLine (ep_in ep) [] = (0, part, [])"
    using assms(3) by (simp add: ReadLine_bytes has_eol_def)
  then show ?case by (subst (1 2) RecvHttpRequestHeader_loop.simps) simp
next
  case (Cons l ls)
  let ?ep = "upd_rq (\<lambda>q. q\<lparr>rq_request_header := rq_request_header q @ [l]\<rparr>)
       (ep\<lparr>ep_in := rx_bytes (print_lines ls @ part)\<rparr>)"
  from Cons.prems have "ReadLine (ep_in ep) [] =
      (int (Suc (length l)), l @ [LF], rx_bytes (print_lines ls @ part))"
    using ReadLine_CRLF [of l "print_lines ls @ part"] by (simp add: wf_line_def)
  moreover from Cons.prems have "l \<noteq> []" by (simp add: wf_line_def)
  ultimately have "RecvHttpRequestHeader_loop ep = RecvHttpRequestHeader_loop ?ep"
    by (subst RecvHttpRequestHeader_loop.simps) simp
  with Cons.IH [of ?ep] Cons.prems(2) show ?case by simp
qed

text \<open>C21: a request whose connection ends before the blank line after the headers is not answered:
  nothing is sent and the connection is closed.\<close>

theorem truncated_request_unanswered:
  assumes "\<forall>l\<in>set (line # ls). wf_line l" and "\<forall>c\<in>set part. \<not> eol c"
    and "request = part \<or> request = line @ CRLF @ print_lines ls @ part"
  shows "HandlerRequest junk sock (rx_bytes request) k = Some (k_close sock k)"
proof -
  let ?e0 = "new_EndPoint junk sock (rx_bytes request)"
  have "IsStop (RecvHttpRequest ?e0) \<and> ep_sock (RecvHttpRequest ?e0) = sock"
    using assms(3)
  proof
    assume "request = part"
    then have "ReadLine (rx_bytes request) [] = (0, part, [])"
      using assms(2) by (simp add: ReadLine_bytes has_eol_def)
    then show ?thesis
      by (simp add: RecvHttpRequest_def RecvHttpRequestLine_def new_EndPoint_def new_HttpRequest_def
          IsStop_def)
  next
    assume r: "request = line @ CRLF @ print_lines ls @ part"
    have "RecvHttpRequestLine ?e0 = (False, upd_rq (\<lambda>q. q\<lparr>rq_request_line := line\<rparr>)
        (?e0\<lparr>ep_in := rx_bytes (print_lines ls @ part)\<rparr>))"
      using assms(1) r
      by (intro RecvHttpRequestLine_CRLF)
         (simp_all add: new_EndPoint_def new_HttpRequest_def wf_line_def del: rx_bytes_simps)
    with header_loop_truncated [OF _ _ assms(2), of "upd_rq (\<lambda>q. q\<lparr>rq_request_line := line\<rparr>)
        (?e0\<lparr>ep_in := rx_bytes (print_lines ls @ part)\<rparr>)" ls] assms(1)
    show ?thesis
      by (simp add: RecvHttpRequest_def RecvHttpRequestHeader_def IsStop_def Let_def
          del: rx_bytes_simps) (simp add: new_EndPoint_def)
  qed
  then show ?thesis by (simp add: HandlerRequest_def Let_def)
qed

theorem truncated_request_unanswered_witness:
  "HandlerRequest 7 4 (rx_bytes (''GET / HTTP/1.0'' @ CRLF @ print_lines [''Host: h''] @ ''Acc''))
     demo_kernel = Some (k_close 4 demo_kernel)"
  by (rule truncated_request_unanswered [where line = "''GET / HTTP/1.0''" and ls = "[''Host: h'']"
        and part = "''Acc''"])
     (simp_all add: wf_line_def eol_def)

text \<open>A directory without a home page, whose execute bit is set as directories' are, is answered
  with 400 and not with 404: the failing second \<open>stat\<close> leaves the mode of the directory in place,
  the request is taken for a CGI one, and \<open>execl\<close> fails.\<close>

lemma directory_without_home_page:
  assumes "calm k" and "wf_request m u v kvs" and "map toupper m = ''GET''"
    and "CHR ''?'' \<notin> set u" and "k_stat k (full_path u) = Some st"
    and "S_ISDIR (st_mode st)" and "is_exec (st_mode st)"
    and "k_stat k (full_path u @ ''/'' @ HOME_PAGE) = None"
    and "k_prog k (c_str (full_path u @ ''/'' @ HOME_PAGE)) = None"
    and "int (length (print_request m u v kvs rest)) < 2 ^ 31"
  shows "answers junk sock (print_request m u v kvs rest) k (error_message BAD_REQUEST k)"
proof -
  have m: "map toupper m \<noteq> ''POST''" using assms(3) by simp
  note r = received_request [OF assms(2) m refl, of junk sock rest]
  show ?thesis
    by (rule answersI [OF assms(1,10) refl r(2)], unfold r(1))
       (use assms(3-9) in \<open>simp_all add: output_fits_def respond_cases served_method_def ResolvePath_get
          LocateResource_def new_HttpRequest_def run_child_def small_result_def wait_code_def Let_def code_defs\<close>)
qed

text \<open>When the descriptor table is full, a file that exists and can be read is answered with 404, and as
  the error page cannot be opened either, the answer is the status line alone: no header, no body.\<close>

lemma full_table_answer:
  assumes "k_sends k = []" and full: "k_max k \<le> length (k_fds k)" and "-1 \<notin> fst ` set (k_fds k)"
    and "wf_request m u v kvs" and m: "map toupper m = ''GET''"
    and "CHR ''?'' \<notin> set u" and "k_stat k (full_path u) = Some st"
    and "\<not> S_ISDIR (st_mode st)" and "\<not> is_exec (st_mode st)"
    and len: "int (length (print_request m u v kvs rest)) < 2 ^ 31"
  shows "answers junk sock (print_request m u v kvs rest) k (status_line NOT_FOUND @ CRLF)"
proof -
  have m': "map toupper m \<noteq> ''POST''" using m by simp
  let ?ep = "RecvHttpRequest (new_EndPoint junk sock (rx_bytes (print_request m u v kvs rest)))"
  note r = received_request [OF assms(4) m' refl, of junk sock rest]
  have f: "ep_response ?ep = new_HttpResponse" "ep_sock ?ep = sock"
    using received [of "rx_bytes (print_request m u v kvs rest)" junk sock] len by simp_all
  let ?q = "(ResolvePath (ep_request ?ep))\<lparr>rq_size := to_int32 (st_size st)\<rparr>"
  let ?ep' = "upd_rs (\<lambda>r. r\<lparr>rs_status_line := status_line NOT_FOUND, rs_fd := -1,
      rs_status_code := NOT_FOUND\<rparr>) (?ep\<lparr>ep_request := (FindSuffix ?q)\<lparr>rq_cgi := False\<rparr>\<rparr>)"
  have served: "served_method (ep_request ?ep)" unfolding r(1) using m by (simp add: served_method_def)
  have q: "\<not> rq_cgi (ResolvePath (ep_request ?ep))"
    "rq_path (ResolvePath (ep_request ?ep)) = full_path u"
    unfolding r(1) using m assms(6) by (simp_all add: ResolvePath_get new_HttpRequest_def)
  then have l: "LocateResource (ResolvePath (ep_request ?ep)) k = Some ?q"
    using assms(7-9) LocateResource_file [of k "ResolvePath (ep_request ?ep)" st] by simp
  have closed: "k_open p k = (-1, k)" for p
    using full by (simp add: k_open_def split: option.split)
  have "BuildHttpResponse ?ep k = Some (?ep', k)"
    using q(1) f(1)
    by (subst build_cases(4) [OF served l])
       (simp_all add: ProcessNonCgi_def closed set_code_def BuildHttpResponseHelper_def HandlerError_def
         code_defs Let_def new_HttpResponse_def)
  moreover have "k_close (-1) k = k" using assms(3) by (rule k_close_fresh)
  moreover have "map_of (k_fds k) (-1) = None" using assms(3) by (simp add: map_of_eq_None_iff)
  ultimately have "HandlerRequest junk sock (rx_bytes (print_request m u v kvs rest)) k =
      Some (k_close sock (k\<lparr>k_wire := k_wire k @ status_line NOT_FOUND @ CRLF\<rparr>))"
    using r(2) f assms(1)
    by (simp add: HandlerRequest_def Let_def SendHttpResponse_def step_simps k_sendfile_def
        new_HttpResponse_def LINE_END_def)
  then show ?thesis unfolding answers_def by (intro exI [of _ "k_writes k"]) simp
qed

text \<open>The path is not confined to the web root: a GET of \<open>/../s\<close> is answered with the contents of
  the file \<open>wwwroot/../s\<close>.\<close>

lemma dotdot_served:
  assumes "calm k" and "wf_request m (''/../'' @ s) v kvs" and "map toupper m = ''GET''"
    and "CHR ''?'' \<notin> set s" and "s \<noteq> []" and "last s \<noteq> CHR ''/''"
    and "k_stat k (''wwwroot/../'' @ s) = Some st"
    and "\<not> S_ISDIR (st_mode st)" and "\<not> is_exec (st_mode st)" and "i_readable st"
    and "int (length (print_request m (''/../'' @ s) v kvs rest)) < 2 ^ 31"
  shows "\<exists>ctype. answers junk sock (print_request m (''/../'' @ s) v kvs rest) k
    (message OK ctype (i_data st))"
proof -
  have m: "map toupper m \<noteq> ''POST''" using assms(3) by simp
  note r = received_request [OF assms(2) m refl, of junk sock rest]
  have p: "full_path (''/../'' @ s) = ''wwwroot/../'' @ s"
    using assms(5,6) by (simp add: full_path_def WEB_ROOT_def Let_def)
  show ?thesis
    by (rule exI, rule answersI [OF assms(1,11) refl r(2)], unfold r(1))
       (use assms(3,4,7-10) p in \<open>simp_all add: output_fits_def respond_cases served_method_def ResolvePath_get
          LocateResource_file FindSuffix_suffix new_HttpRequest_def\<close>)
qed

text \<open>C14: when the operating system serves every call, a connection leaves the descriptor table as it
  was, without the descriptor of the connection.\<close>

theorem no_descriptor_leak:
  assumes "calm k" and "int (length sk) < 2 ^ 31" and "HandlerRequest junk sock sk k = Some k'"
    and "output_fits (ep_request (RecvHttpRequest (new_EndPoint junk sock sk))) k"
  shows "k_fds k' = filter (\<lambda>p. fst p \<noteq> sock) (k_fds k)"
proof (cases "IsStop (RecvHttpRequest (new_EndPoint junk sock sk))")
  case True
  with assms(3) received [OF assms(2), of junk sock] show ?thesis
    by (auto simp: HandlerRequest_def Let_def k_close_def)
next
  case False
  from handled [OF assms(1,2) refl False assms(4)] assms(3) show ?thesis
    by (auto simp: k_close_def split: option.splits)
qed

theorem no_descriptor_leak_witness:
  "\<exists>k'. HandlerRequest 7 4 (rx_bytes ''x'') demo_kernel = Some k' \<and>
     k_fds k' = filter (\<lambda>p. fst p \<noteq> 4) (k_fds demo_kernel)"
proof -
  have h: "HandlerRequest 7 4 (rx_bytes ''x'') demo_kernel = Some (k_close 4 demo_kernel)"
    by (simp add: HandlerRequest_def RecvHttpRequest_def RecvHttpRequestLine_def ReadLine_def
        sock_simps new_EndPoint_def new_HttpRequest_def IsStop_def)
  have l: "int (length (rx_bytes ''x'')) < 2 ^ 31" by simp
  have "output_fits (ep_request (RecvHttpRequest (new_EndPoint 7 4 (rx_bytes ''x'')))) demo_kernel"
    by (simp add: RecvHttpRequest_def RecvHttpRequestLine_def ReadLine_def sock_simps new_EndPoint_def
        new_HttpRequest_def IsStop_def output_fits_def served_method_def)
  from no_descriptor_leak [OF demo_calm l h this] h show ?thesis by blast
qed

text \<open>A message as the server should send it: one of the four statuses, a content type of the table, the
  length of the body, and the error page under every status but 200.\<close>

definition well_formed_answer :: "kernel \<Rightarrow> bytes \<Rightarrow> bool" where
  "well_formed_answer k out \<longleftrightarrow>
     (\<exists>code ctype body. out = message code ctype body \<and> code \<in> {OK, BAD_REQUEST, NOT_FOUND, SERVER_ERROR} \<and>
        ctype \<in> snd ` set suffix2desc \<and>
        (code \<noteq> OK \<longrightarrow> ctype = ''text/html'' \<and> body = page_of k error_page))"

lemma Suffix2Desc_type: "Suffix2Desc s \<in> snd ` set suffix2desc"
  by (simp add: Suffix2Desc_def suffix2desc_def)

lemma well_formed_error:
  "code \<in> {BAD_REQUEST, NOT_FOUND, SERVER_ERROR} \<Longrightarrow> well_formed_answer k (error_message code k)"
  unfolding well_formed_answer_def error_message_def
  by (intro exI [of _ code] exI [of _ "''text/html''"] exI [of _ "page_of k error_page"])
     (auto simp: suffix2desc_def)

lemma well_formed_ok: "well_formed_answer k (message OK (Suffix2Desc s) body)"
  unfolding well_formed_answer_def
  by (intro exI [of _ OK] exI [of _ "Suffix2Desc s"] exI [of _ body]) (simp add: Suffix2Desc_type)

lemma respond_well_formed:
  assumes "respond q k = Some out"
  shows "well_formed_answer k out"
proof (cases "served_method q")
  case False
  with assms show ?thesis by (auto simp: respond_cases intro: well_formed_error)
next
  case True
  show ?thesis
  proof (cases "LocateResource (ResolvePath q) k")
    case None
    with assms True show ?thesis by (auto simp: respond_cases intro: well_formed_error)
  next
    case (Some q2)
    have w: "well_formed_answer k (error_message (wait_code True st) k)" if "wait_code True st \<noteq> OK" for st
      using wait_code_range [of True st] that by (intro well_formed_error) auto
    show ?thesis
    proof (cases "rq_cgi q2")
      case cgi: True
      obtain out' st where f: "run_child (FindSuffix q2) k (child_input (FindSuffix q2)) = Finished out' st"
        using assms respond_cases(3) [OF True Some cgi] by (auto split: cgi_result.splits)
      with assms respond_cases(3) [OF True Some cgi]
      have "out = (if wait_code True st = OK then message OK (Suffix2Desc (rq_suffix (FindSuffix q2))) out'
          else error_message (wait_code True st) k)"
        by (simp add: Let_def)
      then show ?thesis using w [of st] well_formed_ok by (simp split: if_splits)
    next
      case plain: False
      have e: "well_formed_answer k (error_message NOT_FOUND k)" by (rule well_formed_error) simp
      from assms respond_cases(4) [OF True Some plain] show ?thesis
        using e by (auto split: option.splits if_splits intro: well_formed_ok)
    qed
  qed
qed

text \<open>C13: whatever bytes arrive, when the operating system serves every call, the server either sends nothing,
  and then the request was cut short, or a well-formed message: one of the statuses 200, 400, 404 and 500,
  a content type of the table, the length of the body, and the error page unless the status is 200.\<close>

theorem answer_well_formed:
  assumes "calm k" and "int (length sk) < 2 ^ 31" and "HandlerRequest junk sock sk k = Some k'"
    and "output_fits (ep_request (RecvHttpRequest (new_EndPoint junk sock sk))) k"
  shows "if IsStop (RecvHttpRequest (new_EndPoint junk sock sk)) then k_wire k' = k_wire k
    else \<exists>out. k_wire k' = k_wire k @ out \<and> well_formed_answer k out"
proof (cases "IsStop (RecvHttpRequest (new_EndPoint junk sock sk))")
  case True
  with assms(3) received [OF assms(2), of junk sock] show ?thesis
    by (auto simp: HandlerRequest_def Let_def k_close_def)
next
  case False
  from handled [OF assms(1,2) refl False assms(4)] assms(3) False show ?thesis
    by (auto simp: k_close_def split: option.splits dest: respond_well_formed)
qed

theorem answer_well_formed_witness:
  "\<exists>k' out. HandlerRequest 7 4 (rx_bytes (print_request ''PUT'' ''/t'' ''HTTP/1.0'' [] [])) demo_kernel = Some k' \<and>
     k_wire k' = k_wire demo_kernel @ out \<and> well_formed_answer demo_kernel out"
proof -
  let ?sk = "rx_bytes (print_request ''PUT'' ''/t'' ''HTTP/1.0'' [] [])"
  have u: "wf_request ''PUT'' ''/t'' ''HTTP/1.0'' []" and m: "map toupper ''PUT'' \<noteq> ''POST''"
    by (simp_all add: demo_facts)
  note r = received_request [OF u m refl, of 7 4 "[]"]
  have l: "int (length ?sk) < 2 ^ 31" by (simp add: demo_facts)
  have f: "output_fits (ep_request (RecvHttpRequest (new_EndPoint 7 4 ?sk))) demo_kernel"
    unfolding r(1) by (simp add: output_fits_def served_method_def demo_upper)
  have "respond (ep_request (RecvHttpRequest (new_EndPoint 7 4 ?sk))) demo_kernel \<noteq> None"
    unfolding r(1) by (simp add: respond_cases served_method_def demo_upper)
  then obtain k' where h: "HandlerRequest 7 4 ?sk demo_kernel = Some k'"
    using handled [OF demo_calm l refl r(2) f] by (auto split: option.splits)
  from answer_well_formed [OF demo_calm l h f] r(2) h show ?thesis by auto
qed

text \<open>The descriptors \<open>ProcessCgi\<close> leaves open when a call fails: none when the first pipe cannot
  be opened, the two of the first pipe when the second one cannot, and all four when the fork
  fails.\<close>

lemma ProcessCgi_leaks:
  assumes "ProcessCgi ep k = Some (code, ep', k')"
  shows "length (k_fds k') = length (k_fds k) +
    (if \<not> Suc (length (k_fds k)) < k_max k then 0
     else if \<not> length (k_fds k) + 3 < k_max k then 2
     else if \<not> k_fork_ok k then 4 else 0)"
proof -
  consider "\<not> Suc (length (k_fds k)) < k_max k"
    | "Suc (length (k_fds k)) < k_max k" "\<not> length (k_fds k) + 3 < k_max k"
    | "length (k_fds k) + 3 < k_max k" "\<not> k_fork_ok k"
    | "length (k_fds k) + 3 < k_max k" "k_fork_ok k" by blast
  then show ?thesis
  proof cases
    case 1
    with assms show ?thesis by (simp add: ProcessCgi_def k_pipe_def)
  next
    case 2
    then obtain r w k1 where p: "k_pipe k = (Some (r, w), k1)" using k_pipe_Some by blast
    with 2 k_pipe_length [OF p] k_pipe_fields [OF p] have "k_pipe k1 = (None, k1)"
      by (simp add: k_pipe_def)
    with assms p 2 k_pipe_length [OF p] show ?thesis by (simp add: ProcessCgi_def)
  next
    case 3
    then obtain i0 i1 o0 o1 k1 k2 where p: "k_pipe k = (Some (i0, i1), k1)"
      "k_pipe k1 = (Some (o0, o1), k2)" using two_pipes by metis
    with assms 3 k_pipe_length [OF p(1)] k_pipe_length [OF p(2)]
      k_pipe_fields [OF p(1)] k_pipe_fields [OF p(2)]
    show ?thesis by (simp add: ProcessCgi_def)
  next
    case 4
    obtain inp orc where "cgi_stdin (ep_request ep) k = (inp, orc)" by fastforce
    from ProcessCgi_ok [OF 4 this] assms 4 show ?thesis by (auto split: cgi_result.splits)
  qed
qed

text \<open>C25: however \<open>send\<close> cuts the transfers, as long as each moves at least one byte, the loop sends
  the whole body, once and in order.\<close>

theorem send_loop_sends_all:
  assumes "length body < 2 ^ 64" and "\<forall>r\<in>set orc. 0 < r"
  shows "fst (send_loop body 0 orc wire) = wire @ body"
  using send_loop_complete [OF assms, of 0 wire] by simp

theorem send_loop_sends_all_witness:
  "fst (send_loop ''abc'' 0 [1, 1] ''x'') = ''x'' @ ''abc''"
  by (rule send_loop_sends_all) simp_all

text \<open>After \<open>n\<close> bytes, a failing \<open>send\<close> does not end the loop: its -1 becomes the largest
  \<open>size_t\<close>, the count goes back by one, and when the next call succeeds the byte before is sent a
  second time.\<close>

lemma send_loop_error_repeats:
  assumes "length body < 2 ^ 64" and "0 < n" and "n < length body"
  shows "fst (send_loop body 0 [int n, -1] wire) = wire @ take n body @ drop (n - 1) body"
proof -
  have n: "n < 2 ^ 64" using assms by linarith
  have un: "unat (of_nat n :: 64 word) = n" using n by (rule unat64_of_nat)
  have less: "(of_nat n :: 64 word) < of_nat (length body)"
    using assms un by (simp add: word_less_nat_alt unat_length)
  have "xfer [int n, -1] (length body - unat (0 :: 64 word)) = (int n, [-1])" using assms by simp
  from send_loop_good [OF assms(1) _ _ _ this, of wire] assms
  have "send_loop body 0 [int n, -1] wire = send_loop body (of_nat n) [-1] (wire @ take n body)"
    by (cases "body = []") simp_all
  also have "\<dots> = send_loop body (of_nat n - 1) [] (wire @ take n body)"
    using less by (rule send_loop_fail) simp
  also have "of_nat n - 1 = (of_nat (n - 1) :: 64 word)" using assms(2) by (simp add: of_nat_diff)
  finally have loop: "send_loop body 0 [int n, -1] wire =
      send_loop body (of_nat (n - 1)) [] (wire @ take n body)" .
  have un1: "unat (of_nat (n - 1) :: 64 word) = n - 1" using n by (intro unat64_of_nat) linarith
  have "unat (of_nat (n - 1) :: 64 word) \<le> length body" unfolding un1 using assms(3) by linarith
  from send_loop_complete [OF assms(1) _ this, of "[]" "wire @ take n body"]
  show ?thesis unfolding loop un1 by simp
qed

text \<open>The size of a static file is kept in an \<open>int\<close>: for a file of 2 GiB or more (and less than 4)
  the \<open>Content-Length\<close> of the answer is negative.\<close>

lemma big_file_length:
  assumes "LocateResource q k = Some q2" and "k_stat k (rq_path q2) = Some st"
    and "2 ^ 31 \<le> st_size st" and "st_size st < 2 ^ 32" and "\<not> rq_cgi q2"
  shows "last (rs_response_header (ep_response (BuildOkResponse (ep\<lparr>ep_request := q2\<rparr>)))) =
    ''Content-Length: -'' @ string_of_nat (nat (2 ^ 32 - st_size st)) @ LINE_END"
proof -
  have "rq_size q2 = to_int32 (st_size st)" by (rule LocateResource_size [OF assms(1,2)])
  also have "\<dots> = st_size st - 2 ^ 32"
  proof -
    have "to_int32 (st_size st) = to_int32 (st_size st - 2 ^ 32)"
      unfolding to_int32_def signed_take_bit_eq_iff_take_bit_eq by (simp add: take_bit_eq_mod)
    also have "\<dots> = st_size st - 2 ^ 32" using assms(3,4) by (intro to_int32_id) simp_all
    finally show ?thesis .
  qed
  finally show ?thesis
    using assms(3-5) by (simp add: BuildOkResponse_def Let_def push_header_def string_of_int_def)
qed

end
