(* ===== verification/Cgi_Programs.thy ===== *)
theory Cgi_Programs
  imports Serving
begin

text \<open>
  The programs of \<open>http/cgi\<close>: \<open>GetQueryString\<close> and \<open>CutString\<close> of \<open>comm.hpp\<close>, \<open>test_cgi.cc\<close> and
  \<open>mysql_cgi.cc\<close>, as programs in the sense of the kernel model (environment and standard input to
  output and exit status), and the channel between the server and such a program as a locale. The
  MySQL client library is a parameter of \<open>mysql_cgi\<close>: whether the connection succeeds and the result
  of a query.
\<close>

section \<open>Running a program\<close>

text \<open>
  A part of a program returns, is killed by a signal (a null pointer from \<open>getenv\<close>, a division
  trap), or waits for input that does not come.
\<close>

datatype 'a run = Ret 'a | Kill nat | Wait

definition SIGABRT :: nat where "SIGABRT = 6"
definition SIGFPE :: nat where "SIGFPE = 8"
definition SIGSEGV :: nat where "SIGSEGV = 11"

section \<open>comm.hpp\<close>

text \<open>\<open>while (content_length)\<close> with one \<open>read\<close> of one byte per round; the counter is an \<open>int\<close>.\<close>

fun read_loop :: "int \<Rightarrow> bytes \<Rightarrow> bytes \<Rightarrow> bytes run" where
  "read_loop content_length acc [] = (if content_length \<noteq> 0 then Wait else Ret acc)"
| "read_loop content_length acc (c # inp) =
     (if content_length \<noteq> 0 then read_loop (to_int32 (content_length - 1)) (acc @ [c]) inp
      else Ret acc)"

definition GetQueryString :: "environ \<Rightarrow> bytes \<Rightarrow> (bool \<times> bytes) run" where
  "GetQueryString env inp =
     (case env ''METHOD'' of
        None \<Rightarrow> Kill SIGABRT
      | Some method \<Rightarrow>
          if method = ''GET'' then
            (case env ''QUERY_STRING'' of None \<Rightarrow> Kill SIGSEGV | Some s \<Rightarrow> Ret (True, s))
          else if method = ''POST'' then
            (case env ''CONTENT_LENGTH'' of
               None \<Rightarrow> Kill SIGSEGV
             | Some n \<Rightarrow>
                 (case read_loop (atoi n) [] inp of
                    Ret s \<Rightarrow> Ret (True, s) | Kill n \<Rightarrow> Kill n | Wait \<Rightarrow> Wait))
          else Ret (False, []))"

definition comm_CutString :: "bytes \<Rightarrow> bytes \<Rightarrow> bytes \<Rightarrow> bytes \<Rightarrow> bytes \<times> bytes" where
  "comm_CutString s sep out1 out2 =
     (case str_find sep s of
        Some pos \<Rightarrow> (substr s 0 pos, substr_from s (pos + length sep))
      | None \<Rightarrow> (out1, out2))"

section \<open>test\_cgi.cc\<close>

text \<open>C's \<open>/\<close> truncates; the processor traps on a zero divisor and on \<open>INT_MIN / -1\<close>.\<close>

definition c_div :: "int \<Rightarrow> int \<Rightarrow> int option" where
  "c_div x y =
     (if y = 0 \<or> (x = - (2 ^ 31) \<and> y = -1) then None else Some (sgn x * sgn y * (\<bar>x\<bar> div \<bar>y\<bar>)))"

definition cut_pair :: "bytes \<Rightarrow> bytes \<times> bytes" where
  "cut_pair s = comm_CutString s ''='' [] []"

definition test_row :: "bytes \<Rightarrow> bytes \<Rightarrow> bytes \<Rightarrow> bytes \<Rightarrow> bytes" where
  "test_row v1 op v2 res = ''<h3> '' @ v1 @ op @ v2 @ '' = '' @ res @ ''</h3>''"

definition test_lines :: "bytes \<times> bytes \<Rightarrow> bytes \<times> bytes \<Rightarrow> bytes" where
  "test_lines p1 p2 = fst p1 @ '' : '' @ snd p1 @ [LF] @ fst p2 @ '' : '' @ snd p2 @ [LF]"

definition html_head :: bytes where
  "html_head = ''<head><meta charset='' @ [CHR 0x22] @ ''utf-8'' @ [CHR 0x22] @ ''></head>''"

definition test_page :: "bytes \<Rightarrow> bytes \<Rightarrow> int \<Rightarrow> int \<Rightarrow> int \<Rightarrow> bytes" where
  "test_page v1 v2 x y quot =
     ''<html>'' @ html_head @ ''<body>'' @
     test_row v1 '' + '' v2 (string_of_int (to_int32 (x + y))) @
     test_row v1 '' - '' v2 (string_of_int (to_int32 (x - y))) @
     test_row v1 '' * '' v2 (string_of_int (to_int32 (x * y))) @
     test_row v1 '' / '' v2 (string_of_int quot) @
     ''</body>'' @ ''</html>''"

text \<open>
  The two lines at the start are flushed by \<open>std::endl\<close>; what follows them is still in the buffer
  when the division traps.
\<close>

definition test_main :: "bytes \<Rightarrow> cgi_result" where
  "test_main query_string =
     (let (str1, str2) = comm_CutString query_string ''&'' [] [];
          p1 = cut_pair str1;
          p2 = cut_pair str2;
          x = atoi (c_str (snd p1));
          y = atoi (c_str (snd p2))
      in case c_div x y of
           None \<Rightarrow> Finished (test_lines p1 p2) (Signaled SIGFPE)
         | Some quot \<Rightarrow>
             Finished (test_lines p1 p2 @ test_page (snd p1) (snd p2) x y quot) (Exited 0))"

definition test_cgi :: program where
  "test_cgi env inp =
     (case GetQueryString env inp of
        Ret (_, query_string) \<Rightarrow> test_main query_string
      | Kill n \<Rightarrow> Finished [] (Signaled n)
      | Wait \<Rightarrow> Blocked)"

section \<open>mysql\_cgi.cc\<close>

text \<open>
  The client library: whether \<open>mysql_real_connect\<close> yields a connection, and what \<open>mysql_query\<close>
  returns. The result is the function's, with the statements that reached the database.
\<close>

definition InsertSql :: "bool \<Rightarrow> (bytes \<Rightarrow> int) \<Rightarrow> bytes \<Rightarrow> bool \<times> bytes list" where
  "InsertSql connected query sql =
     (if \<not> connected then (1 \<noteq> (0::int), [])
      else (let ret = query (c_str sql) in (True, [c_str sql])))"

abbreviation quote :: bytes where "quote \<equiv> [CHR 0x27]"

definition insert_statement :: "bytes \<Rightarrow> bytes \<Rightarrow> bytes" where
  "insert_statement sql_name sql_passwd =
     ''insert into user(name, passwd) values ('' @ quote @ sql_name @ quote @ '','' @ quote @
     sql_passwd @ quote @ '')''"

text \<open>The page, whose message is UTF-8 text.\<close>

definition success_page :: bytes where
  "success_page = ''<html>'' @ html_head @ ''<body><h1>'' @
     [CHR 0xE6, CHR 0xB3, CHR 0xA8, CHR 0xE5, CHR 0x86, CHR 0x8C, CHR 0xE6, CHR 0x88, CHR 0x90,
      CHR 0xE5, CHR 0x8A, CHR 0x9F, CHR ''!''] @ ''</h1></body>''"

definition form_values :: "bytes \<Rightarrow> bytes \<times> bytes" where
  "form_values query_string =
     (let (name, passwd) = comm_CutString query_string ''&'' [] []
      in (snd (cut_pair name), snd (cut_pair passwd)))"

definition mysql_main :: "bool \<Rightarrow> (bytes \<Rightarrow> int) \<Rightarrow> bytes \<Rightarrow> bytes \<times> bytes list" where
  "mysql_main connected query query_string =
     (let (sql_name, sql_passwd) = form_values query_string;
          (inserted, stmts) = InsertSql connected query (insert_statement sql_name sql_passwd)
      in (if inserted then success_page else [], stmts))"

definition mysql_cgi :: "bool \<Rightarrow> (bytes \<Rightarrow> int) \<Rightarrow> program" where
  "mysql_cgi connected query env inp =
     (case GetQueryString env inp of
        Ret (got, query_string) \<Rightarrow>
          Finished (if got then fst (mysql_main connected query query_string) else []) (Exited 0)
      | Kill n \<Rightarrow> Finished [] (Signaled n)
      | Wait \<Rightarrow> Blocked)"

section \<open>The channel between the server and its programs\<close>

text \<open>
  What a CGI program relies on: the data of the request, the query of a GET or the body of a POST,
  comes out of its environment and standard input as the server put it in.
\<close>

definition form_data :: "HttpRequest \<Rightarrow> bytes" where
  "form_data q = (if rq_method q = ''GET'' then rq_query_string q else rq_request_body q)"

definition sendable :: "HttpRequest \<Rightarrow> bool" where
  "sendable q \<longleftrightarrow> (rq_method q = ''GET'' \<and> NUL \<notin> set (rq_query_string q)) \<or>
     (rq_method q = ''POST'' \<and> body_agrees q \<and> int (length (rq_request_body q)) < 2 ^ 31)"

locale cgi_channel =
  fixes put_env :: "HttpRequest \<Rightarrow> environ \<Rightarrow> environ"
    and put_input :: "HttpRequest \<Rightarrow> bytes"
    and get :: "environ \<Rightarrow> bytes \<Rightarrow> (bool \<times> bytes) run"
  assumes get_put: "sendable q \<Longrightarrow> get (put_env q env) (put_input q) = Ret (True, form_data q)"
begin

lemma received_by:
  assumes "sendable q"
    and "prog = (\<lambda>env inp. case get env inp of Ret (got, s) \<Rightarrow> f got s
                             | Kill n \<Rightarrow> Finished [] (Signaled n) | Wait \<Rightarrow> Blocked)"
  shows "prog (put_env q env) (put_input q) = f True (form_data q)"
  using assms by (simp add: get_put)

lemma not_blocked: "sendable q \<Longrightarrow> get (put_env q env) (put_input q) \<noteq> Wait"
  by (simp add: get_put)

end

lemma read_loop_spec:
  assumes "- (2 ^ 31) \<le> n" and "n < 2 ^ 31"
  shows "read_loop n acc inp =
    (if n mod 2 ^ 32 \<le> int (length inp) then Ret (acc @ take (nat (n mod 2 ^ 32)) inp) else Wait)"
  using assms
proof (induction n acc inp rule: read_loop.induct)
  case (1 n acc)
  with mod32_zero [of n] pos_mod_sign [of "2 ^ 32" n] show ?case by auto
next
  case (2 n acc c inp)
  show ?case
  proof (cases "n = 0")
    case False
    with 2 mod32_zero [of n] have nz: "n mod 2 ^ 32 \<noteq> 0" by simp
    let ?m = "n mod 2 ^ 32"
    have pos: "0 < ?m" using nz pos_mod_sign [of "2 ^ 32" n] by simp
    have "read_loop n acc (c # inp) = (if ?m - 1 \<le> int (length inp)
        then Ret ((acc @ [c]) @ take (nat (?m - 1)) inp) else Wait)"
      using 2 False to_int32_bounds [of "n - 1"] mod32_step [OF nz] by simp
    moreover have "nat ?m = Suc (nat (?m - 1))" using pos by simp
    ultimately show ?thesis by auto
  qed simp
qed

lemma read_loop_exact:
  "int (length s) < 2 ^ 31 \<Longrightarrow> read_loop (int (length s)) [] s = Ret s"
  using read_loop_spec [of "int (length s)" "[]" s] by simp

interpretation cgi: cgi_channel child_env child_input GetQueryString
proof
  fix q env
  assume s: "sendable q"
  show "GetQueryString (child_env q env) (child_input q) = Ret (True, form_data q)"
  proof (cases "rq_method q = ''GET''")
    case True
    with s show ?thesis
      by (simp add: sendable_def GetQueryString_def child_env_def Let_def form_data_def c_str_id)
  next
    case False
    with s have m: "rq_method q = ''POST''" and b: "int (length (rq_request_body q)) < 2 ^ 31"
      and n: "rq_content_length q = int (length (rq_request_body q))"
      by (auto simp: sendable_def body_agrees_def)
    have "atoi (c_str (string_of_int (rq_content_length q))) = int (length (rq_request_body q))"
      using b n by (simp add: c_str_id string_of_int_no_nul atoi_string_of_int)
    then show ?thesis
      using m read_loop_exact [OF b]
      by (simp add: GetQueryString_def child_env_def Let_def form_data_def child_input_def c_str_id)
  qed
qed

section \<open>Facts about the test program\<close>

lemma comm_CutString_sep:
  "sep = c # cs \<Longrightarrow> c \<notin> set a \<Longrightarrow> comm_CutString (a @ sep @ b) sep o1 o2 = (a, b)"
  using str_find_sep [of sep c cs a b]
  by (simp add: comm_CutString_def substr_def substr_from_def)

lemma string_of_int_chars:
  "c \<in> set (string_of_int n) \<Longrightarrow> isdigit c \<or> c = CHR ''-''"
  using string_of_nat_digits by (auto simp: string_of_int_def split: if_splits)

lemma string_of_int_no_sep: "CHR ''&'' \<notin> set (string_of_int n)" "CHR ''='' \<notin> set (string_of_int n)"
  by (auto dest: string_of_int_chars simp: isdigit_def)

definition test_form :: "bytes \<Rightarrow> int \<Rightarrow> bytes \<Rightarrow> int \<Rightarrow> bytes" where
  "test_form n1 x n2 y = (n1 @ ''='' @ string_of_int x) @ ''&'' @ (n2 @ ''='' @ string_of_int y)"

definition plain_name :: "bytes \<Rightarrow> bool" where
  "plain_name n \<longleftrightarrow> CHR ''='' \<notin> set n \<and> CHR ''&'' \<notin> set n \<and> NUL \<notin> set n"

definition in_int :: "int \<Rightarrow> bool" where
  "in_int n \<longleftrightarrow> - (2 ^ 31) \<le> n \<and> n < 2 ^ 31"

lemma test_main_form:
  assumes "plain_name n1" "plain_name n2" "in_int x" "in_int y"
  shows "test_main (test_form n1 x n2 y) =
    (let p1 = (n1, string_of_int x); p2 = (n2, string_of_int y) in
     case c_div x y of
       None \<Rightarrow> Finished (test_lines p1 p2) (Signaled SIGFPE)
     | Some quot \<Rightarrow> Finished (test_lines p1 p2 @ test_page (snd p1) (snd p2) x y quot) (Exited 0))"
proof -
  have "CHR ''&'' \<notin> set (n1 @ ''='' @ string_of_int x)"
    using assms(1) string_of_int_no_sep by (simp add: plain_name_def)
  from comm_CutString_sep [OF _ this, of "''&''" "[]"]
  have 1: "comm_CutString (test_form n1 x n2 y) ''&'' [] [] =
      (n1 @ ''='' @ string_of_int x, n2 @ ''='' @ string_of_int y)"
    by (simp add: test_form_def)
  have 2: "cut_pair (n @ ''='' @ s) = (n, s)" if "plain_name n" for n s
    using that comm_CutString_sep [of "''=''" "CHR ''=''" "[]" n s "[]" "[]"]
    by (simp add: cut_pair_def plain_name_def)
  have 3: "atoi (c_str (string_of_int z)) = z" if "in_int z" for z
    using that by (simp add: in_int_def c_str_id string_of_int_no_nul atoi_string_of_int)
  show ?thesis
    unfolding test_main_def 1 Let_def prod.case 2 [OF assms(1)] 2 [OF assms(2)] fst_conv snd_conv
      3 [OF assms(3)] 3 [OF assms(4)] ..
qed

lemma test_form_no_nul:
  "plain_name n1 \<Longrightarrow> plain_name n2 \<Longrightarrow> NUL \<notin> set (test_form n1 x n2 y)"
  by (simp add: test_form_def plain_name_def string_of_int_no_nul)

lemma test_cgi_get:
  assumes "NUL \<notin> set s"
  shows "test_cgi (env(''METHOD'' \<mapsto> ''GET'', ''QUERY_STRING'' \<mapsto> s)) [] = test_main s"
  by (simp add: test_cgi_def GetQueryString_def)

lemma string_of_nat_length: "length (string_of_nat n) \<le> Suc n"
proof (induction n rule: string_of_nat.induct)
  case (1 n)
  show ?case
  proof (cases "n < 10")
    case True
    then show ?thesis by (subst string_of_nat.simps) simp
  next
    case False
    with 1 have "length (string_of_nat (n div 10)) \<le> Suc (n div 10)" by simp
    moreover have "Suc (n div 10) \<le> n" using False by linarith
    ultimately show ?thesis using False by (subst string_of_nat.simps) simp
  qed
qed

lemma string_of_int_length: "\<bar>n\<bar> \<le> 2 ^ 31 \<Longrightarrow> length (string_of_int n) \<le> 2 ^ 31 + 2"
  using string_of_nat_length [of "nat (- n)"] string_of_nat_length [of "nat n"]
  by (auto simp: string_of_int_def intro: order_trans)

lemma c_div_bound:
  assumes "c_div x y = Some quot" and "in_int x"
  shows "\<bar>quot\<bar> \<le> 2 ^ 31"
proof -
  from assms have y: "y \<noteq> 0" and q: "quot = sgn x * sgn y * (\<bar>x\<bar> div \<bar>y\<bar>)"
    by (auto simp: c_div_def split: if_splits)
  have "\<bar>quot\<bar> \<le> \<bar>x\<bar> div \<bar>y\<bar>" by (simp add: q abs_mult abs_sgn_eq pos_imp_zdiv_nonneg_iff)
  also have "\<dots> \<le> \<bar>x\<bar>" using y zdiv_mono2 [of "\<bar>x\<bar>" 1 "\<bar>y\<bar>"] by simp
  also have "\<dots> \<le> 2 ^ 31" using assms(2) by (auto simp: in_int_def)
  finally show ?thesis .
qed

lemma test_output_length:
  assumes "in_int x" and "in_int y" and "length n1 < 2 ^ 31" and "length n2 < 2 ^ 31"
  shows "length (test_lines (n1, string_of_int x) (n2, string_of_int y)) < 2 ^ 40"
    and "c_div x y = Some quot \<Longrightarrow> length (test_page (string_of_int x) (string_of_int y) x y quot) < 2 ^ 40"
proof -
  have b: "length (string_of_int z) \<le> 2 ^ 31 + 2" if "in_int z" for z
    using that by (intro string_of_int_length) (auto simp: in_int_def)
  have w: "length (string_of_int (to_int32 z)) \<le> 2 ^ 31 + 2" for z
    using to_int32_bounds [of z] by (intro string_of_int_length) auto
  note xy = b [OF assms(1)] b [OF assms(2)]
  show "length (test_lines (n1, string_of_int x) (n2, string_of_int y)) < 2 ^ 40"
    using xy assms(3,4) by (simp add: test_lines_def)
  assume "c_div x y = Some quot"
  from string_of_int_length [OF c_div_bound [OF this assms(1)]]
  show "length (test_page (string_of_int x) (string_of_int y) x y quot) < 2 ^ 40"
    using xy w [of "x + y"] w [of "x - y"] w [of "x * y"]
    by (simp add: test_page_def test_row_def html_head_def)
qed

section \<open>Properties\<close>

text \<open>C23: the data of a request reaches the program unchanged: \<open>GetQueryString\<close>, run on the environment
  and the input the server prepares, returns the query of a GET and the body of a POST.\<close>

theorem form_data_reaches_program:
  assumes "sendable q"
  shows "GetQueryString (child_env q env) (child_input q) = Ret (True, form_data q)"
  using assms by (rule cgi.get_put)

theorem form_data_reaches_program_witness:
  "GetQueryString (child_env ((new_HttpRequest 0)\<lparr>rq_method := ''POST'', rq_content_length := 3,
      rq_request_body := ''a=1''\<rparr>) Map.empty)
     (child_input ((new_HttpRequest 0)\<lparr>rq_method := ''POST'', rq_content_length := 3,
      rq_request_body := ''a=1''\<rparr>)) = Ret (True, ''a=1'')"
  using form_data_reaches_program [of "(new_HttpRequest 0)\<lparr>rq_method := ''POST'',
      rq_content_length := 3, rq_request_body := ''a=1''\<rparr>" Map.empty]
  by (simp add: sendable_def body_agrees_def form_data_def)

definition sum_kernel :: kernel where
  "sum_kernel = demo_kernel\<lparr>k_prog := [''wwwroot/t'' \<mapsto> test_cgi]\<rparr>"

text \<open>C24: with \<open>test_cgi\<close> at the path, a GET of a form with two numbers is answered with the page that
  shows their sum, difference, product and truncated quotient; a zero divisor (or \<open>INT_MIN / -1\<close>)
  kills the program, and the client gets status 500 with the error page.\<close>

theorem test_cgi_answer:
  assumes "calm k" and "wf_request m (p @ ''?'' @ test_form n1 x n2 y) v kvs"
    and "map toupper m = ''GET''" and "CHR ''?'' \<notin> set p"
    and "plain_name n1" and "plain_name n2" and "in_int x" and "in_int y"
    and "k_stat k (full_path p) = Some st" and "\<not> S_ISDIR (st_mode st)"
    and "k_prog k (c_str (full_path p)) = Some test_cgi"
    and "int (length (print_request m (p @ ''?'' @ test_form n1 x n2 y) v kvs rest)) < 2 ^ 31"
  shows "answers junk sock (print_request m (p @ ''?'' @ test_form n1 x n2 y) v kvs rest) k
    (case c_div x y of
       Some quot \<Rightarrow> message OK (Suffix2Desc (suffix_of (full_path p)))
         (test_lines (n1, string_of_int x) (n2, string_of_int y) @
          test_page (string_of_int x) (string_of_int y) x y quot)
     | None \<Rightarrow> error_message SERVER_ERROR k)"
proof -
  note nul = test_form_no_nul [OF assms(5,6), of x y]
  note g = get_query_answer [OF assms(1-3) refl assms(4) nul assms(9-11) _ _ assms(12)]
  note run = test_cgi_get [OF nul, of "k_env k", unfolded test_main_form [OF assms(5-8)] Let_def]
  have "length n1 < 2 ^ 31" "length n2 < 2 ^ 31"
    using assms(12) by (simp_all add: print_request_def test_form_def)
  note len = test_output_length [OF assms(7,8) this]
  show ?thesis
  proof (cases "c_div x y")
    case None
    from g [OF run [unfolded None option.case]] len(1) None show ?thesis by simp
  next
    case (Some quot)
    from g [OF run [unfolded Some option.case]] len(1) len(2) [OF Some] Some show ?thesis by simp
  qed
qed

theorem test_cgi_answer_witness:
  "answers 7 4 (print_request ''GET'' (''/t'' @ ''?'' @ test_form ''a'' 7 ''b'' (-2)) ''HTTP/1.0'' [] [])
     sum_kernel
    (case c_div 7 (-2) of
       Some quot \<Rightarrow> message OK (Suffix2Desc (suffix_of (full_path ''/t'')))
         (test_lines (''a'', string_of_int 7) (''b'', string_of_int (-2)) @
          test_page (string_of_int 7) (string_of_int (-2)) 7 (-2) quot)
     | None \<Rightarrow> error_message SERVER_ERROR sum_kernel)"
proof -
  have calm: "calm sum_kernel"
    using demo_calm by (simp add: calm_def sum_kernel_def page_ok_def k_stat_def)
  have form: "test_form ''a'' 7 ''b'' (-2) = ''a=7&b=-2''" by code_simp
  have stat: "k_stat sum_kernel p = k_stat demo_kernel p" for p
    by (simp add: k_stat_def sum_kernel_def)
  show ?thesis
    by (rule test_cgi_answer [OF calm, where st = "demo_file 0x81ED ''elf''"])
       (simp_all add: form stat demo_facts plain_name_def in_int_def, simp add: sum_kernel_def)
qed

text \<open>\<open>mysql_cgi\<close> tells the client that the registration succeeded even when it could not connect
  to the database and no statement was executed, because \<open>InsertSql\<close> returns 1 on that path.\<close>

lemma mysql_reports_success_without_connection:
  assumes "GetQueryString env inp = Ret (True, s)"
  shows "mysql_cgi False query env inp = Finished success_page (Exited 0) \<and>
         snd (mysql_main False query s) = []"
  using assms by (simp add: mysql_cgi_def mysql_main_def InsertSql_def Let_def split: prod.split)

text \<open>The form values enter the SQL text as they are: a name that contains a quote can take over the
  place of the password, so two different registrations execute the same statement.\<close>

lemma insert_statement_injection:
  "insert_statement (a @ quote @ '','' @ quote @ b) c = insert_statement a (b @ quote @ '','' @ quote @ c)"
  by (simp add: insert_statement_def)

end
