(* ===== verification/Cgi_Pipes.thy ===== *)
theory Cgi_Pipes
  imports Cgi
begin

text \<open>
  \<open>ProcessCgi\<close> of \<open>http/Protocol.hpp\<close> once more, now with the calls of several threads running at the
  same time, each with its child process, system call by system call. \<open>Cgi\<close> gives the child its
  whole input at once and takes its whole output; here the two pipes have a capacity, a byte is written
  when there is room and read when there is one, and the end of a file is seen when nobody holds the
  write end any more. A fork copies all descriptors of the server, those of the other calls included,
  and the mutex of the logger as it is at that moment. The theorems say when the result is the one
  of \<open>Cgi\<close>, and when a call never returns.
\<close>

section \<open>Programs\<close>

text \<open>
  A program as the calls it makes: it writes a byte, reads one (\<open>None\<close> at the end of the file), or
  exits.
\<close>

datatype prog = Exit exit_status | Put char prog | Get "char option \<Rightarrow> prog"

fun then_out :: "bytes \<Rightarrow> cgi_result \<Rightarrow> cgi_result" where
  "then_out w (Finished out st) = Finished (w @ out) st"
| "then_out w Blocked = Blocked"

text \<open>What it does on an input whose write end stays open.\<close>

fun run_prog :: "prog \<Rightarrow> bytes \<Rightarrow> cgi_result" where
  "run_prog (Exit st) inp = Finished [] st"
| "run_prog (Put b p) inp = then_out [b] (run_prog p inp)"
| "run_prog (Get f) [] = Blocked"
| "run_prog (Get f) (b # bs) = run_prog (f (Some b)) bs"

fun cost :: "prog \<Rightarrow> bytes \<Rightarrow> nat" where
  "cost (Exit st) inp = 1"
| "cost (Put b p) inp = Suc (cost p inp)"
| "cost (Get f) [] = 0"
| "cost (Get f) (b # bs) = Suc (cost (f (Some b)) bs)"

section \<open>States\<close>

text \<open>
  The ends of the two pipes of call \<open>i\<close>, as the code names them from the side of the parent: \<open>input\<close> carries
  the output of the child, \<open>output\<close> its input.
\<close>

datatype pipe_end = In_R nat | In_W nat | Out_R nat | Out_W nat

text \<open>The parent: what it does next.\<close>

datatype parent_pc = P_Start | P_Log | P_Pipe | P_Pipe2 | P_Fork | P_Close | P_Close2 | P_Write
  | P_Read | P_Wait | P_Free int | P_Free2 int | P_Return int | P_Failed int

datatype child_pc = C_None | C_Close | C_Close2 | C_Env | C_Run prog | C_Exited exit_status

text \<open>A call of \<open>ProcessCgi\<close>: the request, and the program its path names.\<close>

record cgi_call =
  cc_request :: HttpRequest
  cc_prog :: prog

text \<open>What its loop writes to the child if every write succeeds.\<close>

definition cc_input :: "cgi_call \<Rightarrow> bytes" where
  "cc_input K =
     (let q = cc_request K
      in if rq_method q = ''POST'' \<and> 0 < rq_content_length q then rq_request_body q else [])"

text \<open>
  \<open>cl_sent\<close> is the variable \<open>total\<close>, \<open>cl_body\<close> what was appended to \<open>response_body\<close>; \<open>cl_ends\<close> are the
  descriptors of the child, \<open>cl_locked\<close> its copy of the logger's mutex; \<open>cl_input\<close> and \<open>cl_output\<close> are
  the bytes in the two pipes.
\<close>

record call_state =
  cl_pc :: parent_pc
  cl_sent :: nat
  cl_body :: bytes
  cl_child :: child_pc
  cl_ends :: "pipe_end set"
  cl_locked :: bool
  cl_input :: bytes
  cl_output :: bytes

text \<open>All calls, the descriptors of the server, and who holds the mutex of its logger.\<close>

record cgi_sys =
  cs_calls :: "nat \<Rightarrow> call_state"
  cs_ends :: "pipe_end set"
  cs_log :: "nat option"

definition new_call :: call_state where
  "new_call = \<lparr>cl_pc = P_Start, cl_sent = 0, cl_body = [], cl_child = C_None, cl_ends = {},
     cl_locked = False, cl_input = [], cl_output = []\<rparr>"

definition new_sys :: cgi_sys where
  "new_sys = \<lparr>cs_calls = (\<lambda>_. new_call), cs_ends = {}, cs_log = None\<rparr>"

definition cgi_init :: "cgi_sys \<Rightarrow> bool" where
  "cgi_init s \<longleftrightarrow> s = new_sys"

definition logs_env :: "HttpRequest \<Rightarrow> bool" where
  "logs_env q \<longleftrightarrow> rq_method q = ''GET'' \<or> rq_method q = ''POST''"

section \<open>Steps\<close>

text \<open>
  A step of call \<open>i\<close>, of its parent or of its child. \<open>opn\<close> says which ends some process holds, \<open>lck\<close>
  whether the logger's mutex is locked, \<open>E\<close> are the descriptors of the server. The messages \<open>ERROR\<close> of
  the three failures take the mutex for a moment, those of the child use its copy. The one call of
  \<open>write\<close> with the whole body is modelled by its bytes, since a blocking \<open>write\<close> to a pipe waits for room
  for the rest; it fails when nobody can read (\<open>SIGPIPE\<close> is ignored). The descriptors 0 and 1 of the
  child are duplicates of \<open>Out_R i\<close> and \<open>In_W i\<close>, which it holds until it exits; the parent holds \<open>In_R i\<close>
  until it has waited, so a program can always write. \<open>waitpid\<close> on a child of one's own succeeds.
\<close>

inductive call_step ::
  "nat \<Rightarrow> cgi_call \<Rightarrow> nat \<Rightarrow> (pipe_end \<Rightarrow> bool) \<Rightarrow> bool \<Rightarrow>
   call_state \<Rightarrow> pipe_end set \<Rightarrow> call_state \<Rightarrow> pipe_end set \<Rightarrow> bool"
  for cap :: nat and K :: cgi_call and i :: nat and opn :: "pipe_end \<Rightarrow> bool" and lck :: bool where
  pipe_input: "cl_pc c = P_Pipe \<Longrightarrow>
    call_step cap K i opn lck c E (c\<lparr>cl_pc := P_Pipe2\<rparr>) (E \<union> {In_R i, In_W i})"
| pipe_input_error: "cl_pc c = P_Pipe \<Longrightarrow> \<not> lck \<Longrightarrow>
    call_step cap K i opn lck c E (c\<lparr>cl_pc := P_Failed SERVER_ERROR\<rparr>) E"
| pipe_output: "cl_pc c = P_Pipe2 \<Longrightarrow>
    call_step cap K i opn lck c E (c\<lparr>cl_pc := P_Fork\<rparr>) (E \<union> {Out_R i, Out_W i})"
| pipe_output_error: "cl_pc c = P_Pipe2 \<Longrightarrow> \<not> lck \<Longrightarrow>
    call_step cap K i opn lck c E (c\<lparr>cl_pc := P_Failed SERVER_ERROR\<rparr>) E"
| fork: "cl_pc c = P_Fork \<Longrightarrow>
    call_step cap K i opn lck c E
      (c\<lparr>cl_pc := P_Close, cl_child := C_Close, cl_ends := E, cl_locked := lck\<rparr>) E"
| fork_error: "cl_pc c = P_Fork \<Longrightarrow> \<not> lck \<Longrightarrow>
    call_step cap K i opn lck c E (c\<lparr>cl_pc := P_Failed 404\<rparr>) E"
| child_close_input: "cl_child c = C_Close \<Longrightarrow>
    call_step cap K i opn lck c E (c\<lparr>cl_child := C_Close2, cl_ends := cl_ends c - {In_R i}\<rparr>) E"
| child_close_output: "cl_child c = C_Close2 \<Longrightarrow>
    call_step cap K i opn lck c E (c\<lparr>cl_child := C_Env, cl_ends := cl_ends c - {Out_W i}\<rparr>) E"
| child_exec: "cl_child c = C_Env \<Longrightarrow> logs_env (cc_request K) \<longrightarrow> \<not> cl_locked c \<Longrightarrow>
    call_step cap K i opn lck c E (c\<lparr>cl_child := C_Run (cc_prog K)\<rparr>) E"
| close_input: "cl_pc c = P_Close \<Longrightarrow>
    call_step cap K i opn lck c E (c\<lparr>cl_pc := P_Close2\<rparr>) (E - {In_W i})"
| close_output: "cl_pc c = P_Close2 \<Longrightarrow>
    call_step cap K i opn lck c E (c\<lparr>cl_pc := P_Write\<rparr>) (E - {Out_R i})"
| write_byte: "cl_pc c = P_Write \<Longrightarrow> cl_sent c < length (cc_input K) \<Longrightarrow>
    length (cl_output c) < cap \<Longrightarrow> opn (Out_R i) \<Longrightarrow>
    call_step cap K i opn lck c E
      (c\<lparr>cl_sent := Suc (cl_sent c), cl_output := cl_output c @ [cc_input K ! cl_sent c]\<rparr>) E"
| write_error: "cl_pc c = P_Write \<Longrightarrow> cl_sent c < length (cc_input K) \<Longrightarrow> \<not> opn (Out_R i) \<Longrightarrow>
    call_step cap K i opn lck c E (c\<lparr>cl_pc := P_Read\<rparr>) E"
| write_end: "cl_pc c = P_Write \<Longrightarrow> \<not> cl_sent c < length (cc_input K) \<Longrightarrow>
    call_step cap K i opn lck c E (c\<lparr>cl_pc := P_Read\<rparr>) E"
| read_byte: "cl_pc c = P_Read \<Longrightarrow> cl_input c = b # bs \<Longrightarrow>
    call_step cap K i opn lck c E (c\<lparr>cl_body := cl_body c @ [b], cl_input := bs\<rparr>) E"
| read_end: "cl_pc c = P_Read \<Longrightarrow> cl_input c = [] \<Longrightarrow> \<not> opn (In_W i) \<Longrightarrow>
    call_step cap K i opn lck c E (c\<lparr>cl_pc := P_Wait\<rparr>) E"
| wait_child: "cl_pc c = P_Wait \<Longrightarrow> cl_child c = C_Exited st \<Longrightarrow>
    call_step cap K i opn lck c E (c\<lparr>cl_pc := P_Free (wait_code True st)\<rparr>) E"
| free_input: "cl_pc c = P_Free code \<Longrightarrow>
    call_step cap K i opn lck c E (c\<lparr>cl_pc := P_Free2 code\<rparr>) (E - {In_R i})"
| free_output: "cl_pc c = P_Free2 code \<Longrightarrow>
    call_step cap K i opn lck c E (c\<lparr>cl_pc := P_Return code\<rparr>) (E - {Out_W i})"
| child_put: "cl_child c = C_Run (Put b p) \<Longrightarrow> length (cl_input c) < cap \<Longrightarrow>
    call_step cap K i opn lck c E (c\<lparr>cl_child := C_Run p, cl_input := cl_input c @ [b]\<rparr>) E"
| child_get: "cl_child c = C_Run (Get f) \<Longrightarrow> cl_output c = b # bs \<Longrightarrow>
    call_step cap K i opn lck c E (c\<lparr>cl_child := C_Run (f (Some b)), cl_output := bs\<rparr>) E"
| child_get_end: "cl_child c = C_Run (Get f) \<Longrightarrow> cl_output c = [] \<Longrightarrow> \<not> opn (Out_W i) \<Longrightarrow>
    call_step cap K i opn lck c E (c\<lparr>cl_child := C_Run (f None)\<rparr>) E"
| child_exit: "cl_child c = C_Run (Exit st) \<Longrightarrow>
    call_step cap K i opn lck c E (c\<lparr>cl_child := C_Exited st, cl_ends := {}\<rparr>) E"

definition open_end :: "cgi_call list \<Rightarrow> cgi_sys \<Rightarrow> pipe_end \<Rightarrow> bool" where
  "open_end calls s e \<longleftrightarrow>
     e \<in> cs_ends s \<or> (\<exists>j<length calls. e \<in> cl_ends (cs_calls s j))"

definition set_call :: "nat \<Rightarrow> call_state \<Rightarrow> cgi_sys \<Rightarrow> cgi_sys" where
  "set_call i c s = s\<lparr>cs_calls := (cs_calls s)(i := c)\<rparr>"

text \<open>A step of the system: one of a call, or the message a call logs first, under the logger's mutex.\<close>

inductive cgi_step :: "nat \<Rightarrow> cgi_call list \<Rightarrow> cgi_sys \<Rightarrow> cgi_sys \<Rightarrow> bool"
  for cap :: nat and calls :: "cgi_call list" where
  log_begin: "i < length calls \<Longrightarrow> cl_pc (cs_calls s i) = P_Start \<Longrightarrow> cs_log s = None \<Longrightarrow>
    cgi_step cap calls s
      ((set_call i ((cs_calls s i)\<lparr>cl_pc := P_Log\<rparr>) s)\<lparr>cs_log := Some i\<rparr>)"
| log_end: "i < length calls \<Longrightarrow> cl_pc (cs_calls s i) = P_Log \<Longrightarrow>
    cgi_step cap calls s
      ((set_call i ((cs_calls s i)\<lparr>cl_pc := P_Pipe\<rparr>) s)\<lparr>cs_log := None\<rparr>)"
| call: "i < length calls \<Longrightarrow>
    call_step cap (calls ! i) i (open_end calls s) (cs_log s \<noteq> None) (cs_calls s i) (cs_ends s) c E \<Longrightarrow>
    cgi_step cap calls s ((set_call i c s)\<lparr>cs_ends := E\<rparr>)"

section \<open>The invariant\<close>

lemma then_out_Nil [simp]: "then_out [] r = r"
  by (cases r) simp_all

lemma then_out_append [simp]: "then_out v (then_out w r) = then_out (v @ w) r"
  by (cases r) simp_all

lemma then_out_Finished: "then_out w r = Finished out st \<longleftrightarrow> (\<exists>o'. r = Finished o' st \<and> out = w @ o')"
  by (cases r) auto

lemma then_out_Blocked [simp]: "then_out w r = Blocked \<longleftrightarrow> r = Blocked"
  by (cases r) auto

fun alive :: "child_pc \<Rightarrow> bool" where
  "alive C_None = False"
| "alive (C_Exited st) = False"
| "alive _ = True"

text \<open>What the child still has to run.\<close>

fun rest_prog :: "prog \<Rightarrow> child_pc \<Rightarrow> prog" where
  "rest_prog P (C_Run p) = p"
| "rest_prog P (C_Exited st) = Exit st"
| "rest_prog P _ = P"

text \<open>The bytes: nothing is lost between the program and the response body, nor between the request body
  and the program.\<close>

definition data_ok :: "cgi_call \<Rightarrow> call_state \<Rightarrow> bool" where
  "data_ok K c \<longleftrightarrow>
     run_prog (cc_prog K) (cc_input K) =
       then_out (cl_body c @ cl_input c)
         (run_prog (rest_prog (cc_prog K) (cl_child c)) (cl_output c @ drop (cl_sent c) (cc_input K))) \<and>
     length (cl_output c) \<le> cl_sent c \<and> cl_sent c \<le> length (cc_input K)"

text \<open>The child at each point of the parent.\<close>

fun phase_ok :: "cgi_call \<Rightarrow> call_state \<Rightarrow> parent_pc \<Rightarrow> bool" where
  "phase_ok K c P_Close \<longleftrightarrow> cl_child c \<noteq> C_None"
| "phase_ok K c P_Close2 \<longleftrightarrow> cl_child c \<noteq> C_None"
| "phase_ok K c P_Write \<longleftrightarrow> cl_child c \<noteq> C_None"
| "phase_ok K c P_Read \<longleftrightarrow> cl_child c \<noteq> C_None \<and> (alive (cl_child c) \<longrightarrow> cl_sent c = length (cc_input K))"
| "phase_ok K c P_Wait \<longleftrightarrow> (\<exists>st. cl_child c = C_Exited st) \<and> cl_input c = []"
| "phase_ok K c (P_Free code) \<longleftrightarrow>
     (\<exists>st. cl_child c = C_Exited st \<and> code = wait_code True st) \<and> cl_input c = []"
| "phase_ok K c (P_Free2 code) \<longleftrightarrow>
     (\<exists>st. cl_child c = C_Exited st \<and> code = wait_code True st) \<and> cl_input c = []"
| "phase_ok K c (P_Return code) \<longleftrightarrow>
     (\<exists>st. cl_child c = C_Exited st \<and> code = wait_code True st) \<and> cl_input c = []"
| "phase_ok K c (P_Failed code) \<longleftrightarrow> cl_child c = C_None \<and> code \<in> {SERVER_ERROR, 404}"
| "phase_ok K c _ \<longleftrightarrow> cl_child c = C_None"

text \<open>Who holds which end.\<close>

definition ends_ok :: "pipe_end set \<Rightarrow> nat \<Rightarrow> call_state \<Rightarrow> bool" where
  "ends_ok E i c \<longleftrightarrow>
     (cl_pc c \<in> {P_Pipe2, P_Fork, P_Close} \<longrightarrow> In_W i \<in> E) \<and>
     (cl_pc c \<in> {P_Close2, P_Write, P_Read} \<longrightarrow> In_W i \<notin> E) \<and>
     (cl_pc c \<in> {P_Fork, P_Close, P_Close2} \<longrightarrow> Out_R i \<in> E) \<and>
     (cl_pc c \<in> {P_Fork, P_Close, P_Close2, P_Write, P_Read} \<longrightarrow> Out_W i \<in> E) \<and>
     (if alive (cl_child c) then In_W i \<in> cl_ends c \<and> Out_R i \<in> cl_ends c else cl_ends c = {})"

definition call_ok :: "pipe_end set \<Rightarrow> nat \<Rightarrow> cgi_call \<Rightarrow> call_state \<Rightarrow> bool" where
  "call_ok E i K c \<longleftrightarrow> data_ok K c \<and> phase_ok K c (cl_pc c) \<and> ends_ok E i c"

text \<open>The ends of one call; a step of another call leaves them to the server as they are.\<close>

definition ends_of :: "nat \<Rightarrow> pipe_end set" where
  "ends_of i = {In_R i, In_W i, Out_R i, Out_W i}"

definition cgi_inv :: "cgi_call list \<Rightarrow> cgi_sys \<Rightarrow> bool" where
  "cgi_inv calls s \<longleftrightarrow>
     (\<forall>i<length calls. call_ok (cs_ends s) i (calls ! i) (cs_calls s i)) \<and>
     (\<forall>i. cs_log s = Some i \<longrightarrow> i < length calls \<and> cl_pc (cs_calls s i) = P_Log)"

definition same_ends :: "nat \<Rightarrow> pipe_end set \<Rightarrow> pipe_end set \<Rightarrow> bool" where
  "same_ends i E E' \<longleftrightarrow> (\<forall>e\<in>ends_of i. e \<in> E' \<longleftrightarrow> e \<in> E)"

lemma call_ok_frame: "same_ends i E E' \<Longrightarrow> call_ok E' i K c = call_ok E i K c"
  by (simp add: call_ok_def ends_ok_def same_ends_def ends_of_def)

lemma call_step_frame:
  assumes "call_step cap K i opn lck c E c' E'" and "j \<noteq> i"
  shows "same_ends j E E'"
  using assms by (cases rule: call_step.cases) (simp_all add: same_ends_def ends_of_def)

lemma data_ok_step:
  assumes "call_step cap K i opn lck c E c' E'" and "call_ok E i K c" and "\<forall>e\<in>E. opn e"
  shows "data_ok K c'"
  using assms
proof (induction rule: call_step.induct)
  case (write_byte c E)
  then have "drop (cl_sent c) (cc_input K) = cc_input K ! cl_sent c # drop (Suc (cl_sent c)) (cc_input K)"
    by (metis Cons_nth_drop_Suc)
  with write_byte show ?case by (simp add: call_ok_def data_ok_def)
next
  case (child_get_end c f E)
  then have "cl_pc c \<in> {P_Close, P_Close2, P_Write, P_Read}"
    by (cases "cl_pc c") (auto simp: call_ok_def)
  with child_get_end have "Out_W i \<in> E" by (auto simp: call_ok_def ends_ok_def)
  with assms(3) child_get_end show ?case by blast
qed (auto simp: call_ok_def data_ok_def)

lemma phase_ok_step:
  assumes "call_step cap K i opn lck c E c' E'" and "call_ok E i K c" and "\<forall>e\<in>E. opn e"
    and "\<forall>e\<in>cl_ends c. opn e"
  shows "phase_ok K c' (cl_pc c')"
  using assms
proof (cases rule: call_step.cases)
  case write_error
  with assms have "\<not> alive (cl_child c)" by (auto simp: call_ok_def ends_ok_def)
  with write_error assms(2) show ?thesis by (simp add: call_ok_def)
next
  case write_end
  with assms(2) show ?thesis by (auto simp: call_ok_def data_ok_def)
next
  case read_end
  with assms have "\<not> alive (cl_child c)" by (auto simp: call_ok_def ends_ok_def)
  with read_end assms(2) show ?thesis by (cases "cl_child c") (auto simp: call_ok_def)
qed (cases "cl_pc c"; simp add: call_ok_def)+

lemma ends_ok_step:
  assumes "call_step cap K i opn lck c E c' E'" and "call_ok E i K c"
  shows "ends_ok E' i c'"
  using assms
proof (cases rule: call_step.cases)
  case fork
  with assms(2) show ?thesis by (simp add: call_ok_def ends_ok_def)
next
  case write_error
  with assms(2) show ?thesis by (simp add: call_ok_def ends_ok_def)
qed (simp_all add: call_ok_def ends_ok_def)

lemma call_ok_step:
  assumes "call_step cap K i opn lck c E c' E'" and "call_ok E i K c" and "\<forall>e\<in>E. opn e"
    and "\<forall>e\<in>cl_ends c. opn e"
  shows "call_ok E' i K c'"
  using data_ok_step [OF assms(1-3)] phase_ok_step [OF assms] ends_ok_step [OF assms(1,2)]
  by (simp add: call_ok_def)

lemma new_call_ok: "call_ok {} i K new_call"
  by (simp add: call_ok_def data_ok_def ends_ok_def new_call_def)

lemma cgi_inv_init: "cgi_init s \<Longrightarrow> cgi_inv calls s"
  by (simp add: cgi_init_def new_sys_def cgi_inv_def new_call_ok)

lemma open_own:
  "\<forall>e\<in>cs_ends s. open_end calls s e"
  "i < length calls \<Longrightarrow> \<forall>e\<in>cl_ends (cs_calls s i). open_end calls s e"
  by (auto simp: open_end_def)

lemma call_ok_log:
  "call_ok E i K c \<Longrightarrow> cl_pc c = P_Start \<Longrightarrow> call_ok E i K (c\<lparr>cl_pc := P_Log\<rparr>)"
  "call_ok E i K c \<Longrightarrow> cl_pc c = P_Log \<Longrightarrow> call_ok E i K (c\<lparr>cl_pc := P_Pipe\<rparr>)"
  by (simp_all add: call_ok_def data_ok_def ends_ok_def)

lemma call_step_not_log:
  "call_step cap K i opn lck c E c' E' \<Longrightarrow> cl_pc c = P_Log \<Longrightarrow> call_ok E i K c \<Longrightarrow> False"
  by (erule call_step.cases) (simp_all add: call_ok_def)

lemma cgi_inv_step:
  assumes "cgi_inv calls s" and "cgi_step cap calls s t"
  shows "cgi_inv calls t"
  using assms(2)
proof (cases rule: cgi_step.cases)
  case (log_begin i)
  with assms(1) call_ok_log(1) show ?thesis by (simp add: cgi_inv_def set_call_def)
next
  case (log_end i)
  with assms(1) call_ok_log(2) show ?thesis by (simp add: cgi_inv_def set_call_def)
next
  case (call i c E)
  let ?s = "cs_calls s"
  from call assms(1) have ok: "call_ok (cs_ends s) i (calls ! i) (?s i)" by (simp add: cgi_inv_def)
  have "call_ok E j (calls ! j) (((?s)(i := c)) j)" if j: "j < length calls" for j
  proof (cases "j = i")
    case True
    with call_ok_step [OF call(3) ok open_own(1) open_own(2) [OF call(2)]] show ?thesis by simp
  next
    case False
    with call_step_frame [OF call(3) False] assms(1) j show ?thesis
      by (simp add: call_ok_frame cgi_inv_def)
  qed
  moreover have "cs_log s \<noteq> Some i"
    using call_step_not_log [OF call(3) _ ok] assms(1) by (auto simp: cgi_inv_def)
  ultimately show ?thesis using call(1) assms(1) by (auto simp: cgi_inv_def set_call_def)
qed

interpretation cgi_sys: invariant_system cgi_init "cgi_step cap calls" "cgi_inv calls" for cap calls
  by unfold_locales (fact cgi_inv_init, fact cgi_inv_step)

lemmas cgi_reached = cgi_sys.reachable_inv

section \<open>All runs are finite\<close>

fun parent_work :: "parent_pc \<Rightarrow> nat" where
  "parent_work P_Start = 12"
| "parent_work P_Log = 11"
| "parent_work P_Pipe = 10"
| "parent_work P_Pipe2 = 9"
| "parent_work P_Fork = 8"
| "parent_work P_Close = 7"
| "parent_work P_Close2 = 6"
| "parent_work P_Write = 5"
| "parent_work P_Read = 4"
| "parent_work P_Wait = 3"
| "parent_work (P_Free code) = 2"
| "parent_work (P_Free2 code) = 1"
| "parent_work _ = 0"

fun child_work :: "child_pc \<Rightarrow> nat" where
  "child_work C_None = 4"
| "child_work C_Close = 3"
| "child_work C_Close2 = 2"
| "child_work C_Env = 1"
| "child_work _ = 0"

fun rest_cost :: "prog \<Rightarrow> child_pc \<Rightarrow> bytes \<Rightarrow> nat" where
  "rest_cost P (C_Run p) rem = cost p rem"
| "rest_cost P (C_Exited st) rem = 0"
| "rest_cost P _ rem = cost P rem"

definition call_work :: "cgi_call \<Rightarrow> call_state \<Rightarrow> nat" where
  "call_work K c = parent_work (cl_pc c) + child_work (cl_child c) +
     2 * rest_cost (cc_prog K) (cl_child c) (cl_output c @ drop (cl_sent c) (cc_input K)) +
     (length (cc_input K) - cl_sent c) + length (cl_input c)"

definition cgi_work :: "cgi_call list \<Rightarrow> cgi_sys \<Rightarrow> nat" where
  "cgi_work calls s = (\<Sum>i<length calls. call_work (calls ! i) (cs_calls s i))"

lemma call_step_work:
  assumes "call_step cap K i opn lck c E c' E'" and "call_ok E i K c" and "\<forall>e\<in>E. opn e"
  shows "call_work K c' < call_work K c"
  using assms
proof (cases rule: call_step.cases)
  case fork
  with assms(2) show ?thesis by (simp add: call_ok_def call_work_def)
next
  case write_byte
  then have "drop (cl_sent c) (cc_input K) = cc_input K ! cl_sent c # drop (Suc (cl_sent c)) (cc_input K)"
    by (metis Cons_nth_drop_Suc)
  with write_byte show ?thesis
    by (auto simp: call_work_def)
next
  case (child_get_end f)
  then have "cl_pc c \<in> {P_Close, P_Close2, P_Write, P_Read}"
    using assms(2) by (cases "cl_pc c") (auto simp: call_ok_def)
  with assms(2) child_get_end have "Out_W i \<in> E" by (auto simp: call_ok_def ends_ok_def)
  with assms(3) child_get_end show ?thesis by blast
qed (simp_all add: call_work_def)

lemma cgi_work_call:
  assumes "i < length calls" and "call_work (calls ! i) c < call_work (calls ! i) (cs_calls s i)"
  shows "cgi_work calls (set_call i c s) < cgi_work calls s"
  unfolding cgi_work_def
  by (rule sum_strict_mono_ex1) (use assms in \<open>auto simp: set_call_def intro!: bexI [of _ i]\<close>)

lemma cgi_work_views [simp]:
  "cgi_work calls (s\<lparr>cs_log := l\<rparr>) = cgi_work calls s" "cgi_work calls (s\<lparr>cs_ends := E\<rparr>) = cgi_work calls s"
  by (simp_all add: cgi_work_def)

lemma cgi_step_work:
  assumes "cgi_inv calls s" and "cgi_step cap calls s t"
  shows "cgi_work calls t < cgi_work calls s"
  using assms(2)
proof (cases rule: cgi_step.cases)
  case (log_begin i)
  then have "call_work (calls ! i) ((cs_calls s i)\<lparr>cl_pc := P_Log\<rparr>) < call_work (calls ! i) (cs_calls s i)"
    by (simp add: call_work_def)
  with log_begin(1,2) show ?thesis by (simp add: cgi_work_call)
next
  case (log_end i)
  then have "call_work (calls ! i) ((cs_calls s i)\<lparr>cl_pc := P_Pipe\<rparr>) < call_work (calls ! i) (cs_calls s i)"
    by (simp add: call_work_def)
  with log_end(1,2) show ?thesis by (simp add: cgi_work_call)
next
  case (call i c E)
  with assms(1) have "call_ok (cs_ends s) i (calls ! i) (cs_calls s i)" by (simp add: cgi_inv_def)
  from call_step_work [OF call(3) this open_own(1)] call(1,2) show ?thesis by (simp add: cgi_work_call)
qed

lemma cgi_run_work:
  "(cgi_step cap calls ^^ n) s t \<Longrightarrow> cgi_inv calls s \<Longrightarrow> cgi_inv calls t \<and> n + cgi_work calls t \<le> cgi_work calls s"
proof (induction n arbitrary: t)
  case (Suc n)
  then obtain u where u: "(cgi_step cap calls ^^ n) s u" "cgi_step cap calls u t" by auto
  with Suc.IH [of u] Suc.prems(2) have i: "cgi_inv calls u" "n + cgi_work calls u \<le> cgi_work calls s" by auto
  with cgi_step_work [OF i(1) u(2)] cgi_inv_step [OF i(1) u(2)] show ?case by simp
qed simp

section \<open>When no step is possible\<close>

text \<open>A child that waits for the mutex of the logger, which it has inherited locked: nobody unlocks its copy.\<close>

definition waits_for_log :: "cgi_call \<Rightarrow> call_state \<Rightarrow> bool" where
  "waits_for_log K c \<longleftrightarrow> cl_child c = C_Env \<and> logs_env (cc_request K) \<and> cl_locked c"

text \<open>A call that has come back: with an error before the fork, or with what the program wrote and the
  code of its status.\<close>

definition finished_right :: "cgi_call \<Rightarrow> call_state \<Rightarrow> bool" where
  "finished_right K c \<longleftrightarrow>
     cl_pc c = P_Failed SERVER_ERROR \<or> cl_pc c = P_Failed 404 \<or>
     (\<exists>out st. run_prog (cc_prog K) (cc_input K) = Finished out st \<and> cl_body c = out \<and>
        cl_pc c = P_Return (wait_code True st))"

lemma returned_right:
  assumes "call_ok E i K c" and "cl_pc c = P_Return code"
  shows "\<exists>st. run_prog (cc_prog K) (cc_input K) = Finished (cl_body c) st \<and> code = wait_code True st"
  using assms by (auto simp: call_ok_def data_ok_def)

text \<open>A parent that cannot move, with room for its input, reads or waits, or is finished.\<close>

lemma stuck_parent:
  assumes "call_ok E i K c" and "length (cc_input K) \<le> cap"
    and "\<And>c' E'. \<not> call_step cap K i opn lck c E c' E'"
  shows "cl_pc c \<in> {P_Start, P_Log, P_Read, P_Wait} \<or> finished_right K c"
proof (cases "cl_pc c")
  case P_Pipe
  with pipe_input assms(3) show ?thesis by blast
next
  case P_Pipe2
  with pipe_output assms(3) show ?thesis by blast
next
  case P_Fork
  with fork assms(3) show ?thesis by blast
next
  case P_Close
  with close_input assms(3) show ?thesis by blast
next
  case P_Close2
  with close_output assms(3) show ?thesis by blast
next
  case P_Write
  have "length (cl_output c) < cap" if "cl_sent c < length (cc_input K)"
    using assms(1,2) that by (simp add: call_ok_def data_ok_def)
  with P_Write write_byte write_error write_end assms(3) show ?thesis by meson
next
  case (P_Free code)
  with free_input assms(3) show ?thesis by blast
next
  case (P_Free2 code)
  with free_output assms(3) show ?thesis by blast
next
  case (P_Return code)
  with returned_right [OF assms(1)] show ?thesis by (auto simp: finished_right_def)
next
  case (P_Failed code)
  with assms(1) show ?thesis by (auto simp: call_ok_def finished_right_def)
qed simp_all

text \<open>Nor can its child: it has exited, or waits for the logger.\<close>

lemma stuck_child:
  assumes "call_ok E i K c" and "0 < cap" and "run_prog (cc_prog K) (cc_input K) \<noteq> Blocked"
    and "alive (cl_child c) \<longrightarrow> cl_pc c = P_Read"
    and "\<And>c' E'. \<not> call_step cap K i opn lck c E c' E'"
  shows "alive (cl_child c) \<longrightarrow> waits_for_log K c"
proof
  assume a: "alive (cl_child c)"
  with assms(4) have r: "cl_pc c = P_Read" by blast
  with assms(1) a have sent: "cl_sent c = length (cc_input K)" by (simp add: call_ok_def)
  have empty: "cl_input c = []" using read_byte [OF r] assms(5) by (cases "cl_input c") blast+
  show "waits_for_log K c"
  proof (cases "cl_child c")
    case C_Close
    with child_close_input assms(5) show ?thesis by blast
  next
    case C_Close2
    with child_close_output assms(5) show ?thesis by blast
  next
    case C_Env
    with child_exec assms(5) show ?thesis unfolding waits_for_log_def by blast
  next
    case (C_Run p)
    show ?thesis
    proof (cases p)
      case (Exit st)
      with C_Run child_exit assms(5) show ?thesis by blast
    next
      case (Put b p')
      with C_Run child_put [of c b p' cap] empty assms(2,5) show ?thesis by fastforce
    next
      case (Get f)
      with C_Run child_get [of c f] assms(5) have "cl_output c = []" by (cases "cl_output c") blast+
      with assms(1,3) sent C_Run Get show ?thesis by (simp add: call_ok_def data_ok_def)
    qed
  qed (use a in simp_all)
qed

lemma cgi_stuck:
  assumes "cgi_inv calls s" and "0 < cap"
    and room: "\<forall>K\<in>set calls. length (cc_input K) \<le> cap \<and> run_prog (cc_prog K) (cc_input K) \<noteq> Blocked"
    and stuck: "\<And>t. \<not> cgi_step cap calls s t"
    and log: "\<forall>i<length calls. \<not> waits_for_log (calls ! i) (cs_calls s i)"
  shows "\<forall>i<length calls. finished_right (calls ! i) (cs_calls s i)"
proof -
  let ?c = "cs_calls s"
  have ok: "call_ok (cs_ends s) i (calls ! i) (?c i)" if "i < length calls" for i
    using assms(1) that by (simp add: cgi_inv_def)
  have still: "\<not> call_step cap (calls ! i) i (open_end calls s) (cs_log s \<noteq> None) (?c i) (cs_ends s) c E"
    if "i < length calls" for i c E
    using call [OF that] stuck by blast
  have unlocked: "cs_log s = None"
    using assms(1) log_end stuck unfolding cgi_inv_def by (meson not_Some_eq)
  have parent: "cl_pc (?c i) \<in> {P_Read, P_Wait} \<or> finished_right (calls ! i) (?c i)"
    if i: "i < length calls" for i
  proof -
    have "length (cc_input (calls ! i)) \<le> cap" using room i by simp
    from stuck_parent [OF ok [OF i] this still [OF i]] show ?thesis
      using log_begin [OF i] log_end [OF i] unlocked stuck by blast
  qed
  have child: "\<not> alive (cl_child (?c i))" if i: "i < length calls" for i
  proof -
    have "run_prog (cc_prog (calls ! i)) (cc_input (calls ! i)) \<noteq> Blocked" using room i by simp
    moreover have "alive (cl_child (?c i)) \<longrightarrow> cl_pc (?c i) = P_Read"
      using parent [OF i] ok [OF i] by (auto simp: finished_right_def call_ok_def)
    ultimately show ?thesis using stuck_child [OF ok [OF i] assms(2) _ _ still [OF i]] log i by blast
  qed
  then have gone: "cl_ends (?c i) = {}" if "i < length calls" for i
    using ok [OF that] that by (simp add: call_ok_def ends_ok_def)
  show ?thesis
  proof (intro allI impI, rule ccontr)
    fix i assume i: "i < length calls" and n: "\<not> finished_right (calls ! i) (?c i)"
    with parent consider "cl_pc (?c i) = P_Read" | "cl_pc (?c i) = P_Wait" by blast
    then show False
    proof cases
      case 1
      then have "\<not> open_end calls s (In_W i)"
        using gone ok [OF i] by (simp add: open_end_def call_ok_def ends_ok_def)
      with 1 still [OF i] read_byte read_end show False by (cases "cl_input (?c i)") blast+
    next
      case 2
      then obtain st where "cl_child (?c i) = C_Exited st" using ok [OF i] by (auto simp: call_ok_def)
      with 2 still [OF i] wait_child show False by blast
    qed
  qed
qed

text \<open>A call alone never inherits the mutex locked.\<close>

definition alone_ok :: "cgi_call list \<Rightarrow> cgi_sys \<Rightarrow> bool" where
  "alone_ok calls s \<longleftrightarrow> cgi_inv calls s \<and> (length calls = 1 \<longrightarrow> \<not> cl_locked (cs_calls s 0))"

lemma call_step_locked:
  assumes "call_step cap K i opn lck c E c' E'" and "cl_locked c'"
  shows "cl_locked c \<or> (lck \<and> cl_pc c = P_Fork)"
  using assms by (cases rule: call_step.cases) simp_all

lemma alone_ok_step:
  assumes "alone_ok calls s" and "cgi_step cap calls s t"
  shows "alone_ok calls t"
proof -
  from assms(1) have inv: "cgi_inv calls s" by (simp add: alone_ok_def)
  have "\<not> cl_locked (cs_calls t 0)" if one: "length calls = 1"
    using assms(2)
  proof (cases rule: cgi_step.cases)
    case (call i c E)
    with one have i: "i = 0" by simp
    have "\<not> cl_locked (cs_calls s 0)" using assms(1) one by (simp add: alone_ok_def)
    moreover have "cs_log s = None" if "cl_pc (cs_calls s 0) = P_Fork"
    proof (rule ccontr)
      assume "cs_log s \<noteq> None"
      then obtain j where "cs_log s = Some j" by blast
      with inv have "j < length calls" "cl_pc (cs_calls s j) = P_Log" by (auto simp: cgi_inv_def)
      with that one show False by simp
    qed
    ultimately have "\<not> cl_locked c" using call_step_locked [OF call(3)] i by blast
    with call(1) i show ?thesis by (simp add: set_call_def)
  qed (use assms(1) one in \<open>simp_all add: alone_ok_def set_call_def\<close>)
  with cgi_inv_step [OF inv assms(2)] show ?thesis by (simp add: alone_ok_def)
qed

interpretation cgi_alone: invariant_system cgi_init "cgi_step cap calls" "alone_ok calls" for cap calls
  by unfold_locales (simp add: alone_ok_def cgi_inv_init, simp add: cgi_init_def new_sys_def
      new_call_def, fact alone_ok_step)

section \<open>The calls of Cgi\<close>

text \<open>The programs a kernel can start, each depending on its environment; a path that names none makes
  \<open>execl\<close> fail, and the child exits with 1.\<close>

type_synonym programs = "bytes \<rightharpoonup> (environ \<Rightarrow> prog)"

definition k_progs :: "programs \<Rightarrow> (bytes \<rightharpoonup> program)" where
  "k_progs progs path = map_option (\<lambda>pr env. run_prog (pr env)) (progs path)"

definition cgi_call_of :: "programs \<Rightarrow> kernel \<Rightarrow> HttpRequest \<Rightarrow> cgi_call" where
  "cgi_call_of progs k q = \<lparr>cc_request = q, cc_prog =
     (case progs (c_str (rq_path q)) of
        Some pr \<Rightarrow> pr (child_env q (k_env k))
      | None \<Rightarrow> Exit (Exited 1))\<rparr>"

lemma cgi_stdin_whole:
  "k_writes k = [] \<Longrightarrow> cgi_stdin q k = (cc_input (cgi_call_of progs k q), [])"
  by (simp add: cgi_stdin_def cgi_call_of_def cc_input_def Let_def write_loop_whole)

lemma run_child_whole:
  "k_prog k = k_progs progs \<Longrightarrow> run_child q k inp = run_prog (cc_prog (cgi_call_of progs k q)) inp"
  by (simp add: run_child_def cgi_call_of_def k_progs_def split: option.splits)

section \<open>Calls that never return\<close>

text \<open>A child that will never exit: it waits for the logger's mutex, or for input when there is none left.\<close>

definition waits_for_input :: "cgi_call \<Rightarrow> call_state \<Rightarrow> bool" where
  "waits_for_input K c \<longleftrightarrow> (\<exists>f. cl_child c = C_Run (Get f)) \<and> cl_output c = [] \<and> cl_pc c = P_Read"

definition hung :: "cgi_call \<Rightarrow> call_state \<Rightarrow> bool" where
  "hung K c \<longleftrightarrow> waits_for_log K c \<or> waits_for_input K c"

lemma waits_for_log_step:
  assumes "call_step cap K i opn lck c E c' E'" and "call_ok E i K c" and "waits_for_log K c"
  shows "waits_for_log K c' \<and> cl_ends c' = cl_ends c"
  using assms(1)
proof (cases rule: call_step.cases)
  case fork
  with assms(2,3) show ?thesis by (simp add: waits_for_log_def call_ok_def)
qed (use assms(3) in \<open>simp_all add: waits_for_log_def\<close>)

lemma waits_for_input_step:
  assumes "call_step cap K i opn lck c E c' E'" and "call_ok E i K c" and "\<forall>e\<in>E. opn e"
    and "opn (In_W i)" and "waits_for_input K c"
  shows "waits_for_input K c' \<and> cl_ends c' = cl_ends c"
proof -
  from assms(5) obtain f where c: "cl_child c = C_Run (Get f)" "cl_output c = []" "cl_pc c = P_Read"
    by (auto simp: waits_for_input_def)
  with assms(2,3) have "opn (Out_W i)" by (simp add: call_ok_def ends_ok_def)
  with assms(1,4) c show ?thesis
    by (cases rule: call_step.cases) (simp_all add: waits_for_input_def)
qed

lemma hung_call_step:
  assumes "call_step cap K i opn lck c E c' E'" and "call_ok E i K c" and "\<forall>e\<in>E. opn e"
    and "opn (In_W i)" and "hung K c"
  shows "hung K c' \<and> cl_ends c' = cl_ends c"
  using waits_for_log_step [OF assms(1,2)] waits_for_input_step [OF assms(1-4)] assms(5)
  unfolding hung_def by blast

text \<open>Whoever it inherited the write end from keeps reading.\<close>

definition held_up :: "cgi_call list \<Rightarrow> nat \<Rightarrow> nat \<Rightarrow> cgi_sys \<Rightarrow> bool" where
  "held_up calls i j s \<longleftrightarrow> cgi_inv calls s \<and> hung (calls ! j) (cs_calls s j) \<and>
     In_W i \<in> cl_ends (cs_calls s j) \<and> cl_pc (cs_calls s i) = P_Read"

lemma hung_alive: "hung K c \<Longrightarrow> alive (cl_child c)"
  by (auto simp: hung_def waits_for_log_def waits_for_input_def)

lemma alive_started:
  assumes "call_ok E i K c" and "alive (cl_child c)"
  shows "In_W i \<in> cl_ends c" "cl_pc c \<noteq> P_Start" "cl_pc c \<noteq> P_Log"
proof -
  show "In_W i \<in> cl_ends c" using assms by (simp add: call_ok_def ends_ok_def)
  show "cl_pc c \<noteq> P_Start" "cl_pc c \<noteq> P_Log" using assms by (auto simp: call_ok_def)
qed

lemma held_up_step:
  assumes "held_up calls i j s" and "cgi_step cap calls s t" and ij: "i < length calls" "j < length calls"
  shows "held_up calls i j t"
proof -
  let ?c = "cs_calls s"
  from assms(1) have inv: "cgi_inv calls s" and h: "hung (calls ! j) (?c j)"
    and w: "In_W i \<in> cl_ends (?c j)" and r: "cl_pc (?c i) = P_Read"
    by (simp_all add: held_up_def)
  from inv ij have ok: "call_ok (cs_ends s) j (calls ! j) (?c j)" by (simp add: cgi_inv_def)
  note own = alive_started(1) [OF ok hung_alive [OF h]] and log = alive_started(2,3) [OF ok hung_alive [OF h]]
  have inv': "cgi_inv calls t" by (rule cgi_inv_step [OF inv assms(2)])
  from assms(2) show ?thesis
  proof (cases rule: cgi_step.cases)
    case (log_begin m)
    with log r have "m \<noteq> j" "m \<noteq> i" by auto
    with log_begin h w r inv' show ?thesis by (simp add: held_up_def set_call_def)
  next
    case (log_end m)
    with log r have "m \<noteq> j" "m \<noteq> i" by auto
    with log_end h w r inv' show ?thesis by (simp add: held_up_def set_call_def)
  next
    case (call m c E)
    have opn: "open_end calls s (In_W i)" "open_end calls s (In_W j)"
      using w own ij by (auto simp: open_end_def)
    have "hung (calls ! j) (cs_calls t j) \<and> cl_ends (cs_calls t j) = cl_ends (?c j)"
    proof (cases "m = j")
      case True
      with hung_call_step [OF call(3) [unfolded True] ok open_own(1) opn(2) h] call(1)
      show ?thesis by (simp add: set_call_def)
    next
      case False
      with call(1) h show ?thesis by (simp add: set_call_def)
    qed
    moreover have "cl_pc (cs_calls t i) = P_Read"
    proof (cases "m = i")
      case True
      with call(3) r opn(1) have "cl_pc c = P_Read" by (cases rule: call_step.cases) auto
      with True call(1) show ?thesis by (simp add: set_call_def)
    next
      case False
      with call(1) r show ?thesis by (simp add: set_call_def)
    qed
    ultimately show ?thesis using w inv' by (simp add: held_up_def)
  qed
qed

text \<open>A program that writes \<open>w\<close> before it does anything else.\<close>

fun puts :: "bytes \<Rightarrow> prog \<Rightarrow> prog" where
  "puts [] p = p"
| "puts (b # w) p = Put b (puts w p)"

text \<open>Both write: neither pipe is emptied.\<close>

definition both_write :: "nat \<Rightarrow> cgi_call \<Rightarrow> bytes \<Rightarrow> prog \<Rightarrow> call_state \<Rightarrow> bool" where
  "both_write cap K w p c \<longleftrightarrow>
     cl_pc c \<notin> {P_Read, P_Wait} \<and> (\<forall>code. cl_pc c \<notin> {P_Free code, P_Free2 code, P_Return code}) \<and>
     length (cl_output c) = cl_sent c \<and> cl_sent c \<le> cap \<and> length (cl_input c) \<le> cap \<and>
     (\<forall>q. cl_child c = C_Run q \<longrightarrow> q = puts (drop (length (cl_input c)) w) p) \<and>
     (\<forall>st. cl_child c \<noteq> C_Exited st) \<and>
     (cl_child c \<in> {C_None, C_Close, C_Close2, C_Env} \<longrightarrow> cl_input c = [])"

lemma puts_drop:
  "n < length w \<Longrightarrow> puts (drop n w) p = Put (w ! n) (puts (drop (Suc n) w) p)"
  by (metis Cons_nth_drop_Suc puts.simps(2))

lemma both_write_call:
  assumes "call_step cap K i opn lck c E c' E'" and "call_ok E i K c" and "\<forall>e\<in>cl_ends c. opn e"
    and "cc_prog K = puts w p" and "cap < length w" and "cap < length (cc_input K)"
    and "both_write cap K w p c"
  shows "both_write cap K w p c'"
proof -
  have put: "\<exists>b q. x = Put b q \<and> q = puts (drop (Suc (length (cl_input c))) w) p"
    if "cl_child c = C_Run x" for x
  proof -
    from assms(7) that have "x = puts (drop (length (cl_input c)) w) p" "length (cl_input c) \<le> cap"
      by (simp_all add: both_write_def)
    with assms(5) puts_drop [of "length (cl_input c)" w p] show ?thesis by auto
  qed
  from assms(1) show ?thesis
  proof (cases rule: call_step.cases)
    case write_error
    with assms(2,3) have "\<not> alive (cl_child c)" by (auto simp: call_ok_def ends_ok_def)
    with assms(2,7) write_error show ?thesis by (cases "cl_child c") (auto simp: call_ok_def both_write_def)
  next
    case write_end
    with assms(6,7) show ?thesis by (simp add: both_write_def)
  next
    case (child_put b q)
    with put assms(7) show ?thesis by (auto simp: both_write_def)
  next
    case (child_get f b bs)
    with put show ?thesis by blast
  next
    case (child_get_end f)
    with put show ?thesis by blast
  next
    case (child_exit st)
    with put show ?thesis by blast
  next
    case fork
    with assms(2,7) show ?thesis by (simp add: call_ok_def both_write_def)
  next
    case child_exec
    with assms(4,7) show ?thesis by (simp add: both_write_def)
  qed (use assms(7) in \<open>simp_all add: both_write_def\<close>)
qed

definition stalled :: "nat \<Rightarrow> cgi_call list \<Rightarrow> nat \<Rightarrow> bytes \<Rightarrow> prog \<Rightarrow> cgi_sys \<Rightarrow> bool" where
  "stalled cap calls i w p s \<longleftrightarrow> cgi_inv calls s \<and>
     (i < length calls \<and> cc_prog (calls ! i) = puts w p \<and> cap < length w \<and>
        cap < length (cc_input (calls ! i)) \<longrightarrow>
      both_write cap (calls ! i) w p (cs_calls s i))"

lemma stalled_step:
  assumes "stalled cap calls i w p s" and "cgi_step cap calls s t"
  shows "stalled cap calls i w p t"
proof -
  from assms(1) have inv: "cgi_inv calls s" by (simp add: stalled_def)
  have "both_write cap (calls ! i) w p (cs_calls t i)"
    if i: "i < length calls" and big: "cc_prog (calls ! i) = puts w p" "cap < length w"
      "cap < length (cc_input (calls ! i))"
  proof -
    have b: "both_write cap (calls ! i) w p (cs_calls s i)" using assms(1) i big by (simp add: stalled_def)
    have ok: "call_ok (cs_ends s) i (calls ! i) (cs_calls s i)" using inv i by (simp add: cgi_inv_def)
    from assms(2) show ?thesis
    proof (cases rule: cgi_step.cases)
      case (call m c E)
      show ?thesis
      proof (cases "m = i")
        case True
        from both_write_call [OF call(3) [unfolded True] ok open_own(2) [OF i] big b] True call(1)
        show ?thesis by (simp add: set_call_def)
      next
        case False
        with call(1) b show ?thesis by (simp add: set_call_def)
      qed
    qed (use b in \<open>auto simp: set_call_def both_write_def\<close>)
  qed
  with cgi_inv_step [OF inv assms(2)] show ?thesis by (simp add: stalled_def)
qed

interpretation cgi_stall: invariant_system cgi_init "cgi_step cap calls" "stalled cap calls i w p"
  for cap calls i w p
  by unfold_locales (simp add: stalled_def cgi_inv_init, simp add: cgi_init_def new_sys_def
      new_call_def both_write_def, fact stalled_step)

section \<open>Two calls\<close>

text \<open>Steps that need nothing of the other calls, and runs of them.\<close>

definition quiet :: "nat \<Rightarrow> cgi_call list \<Rightarrow> nat \<Rightarrow> bool \<Rightarrow> call_state \<times> pipe_end set \<Rightarrow>
    call_state \<times> pipe_end set \<Rightarrow> bool" where
  "quiet cap calls i lck x y \<longleftrightarrow>
     (\<forall>opn. call_step cap (calls ! i) i opn lck (fst x) (snd x) (fst y) (snd y))"

definition put_call :: "nat \<Rightarrow> call_state \<times> pipe_end set \<Rightarrow> cgi_sys \<Rightarrow> cgi_sys" where
  "put_call i x s = (set_call i (fst x) s)\<lparr>cs_ends := snd x\<rparr>"

lemma quiet_run:
  assumes "(quiet cap calls i lck)\<^sup>*\<^sup>* x y" and "i < length calls" and "lck = (cs_log s \<noteq> None)"
    and "x = (cs_calls s i, cs_ends s)" and "reachable cgi_init (cgi_step cap calls) s"
  shows "reachable cgi_init (cgi_step cap calls) (put_call i y s)"
  using assms(1)
proof (induction rule: rtranclp_induct)
  case base
  have "put_call i x s = s" using assms(4) by (simp add: put_call_def set_call_def)
  with assms(5) show ?case by simp
next
  case (step y z)
  let ?s = "put_call i y s"
  have "call_step cap (calls ! i) i (open_end calls ?s) (cs_log ?s \<noteq> None) (cs_calls ?s i) (cs_ends ?s)
      (fst z) (snd z)"
    using step.hyps(2) assms(3) by (simp add: quiet_def put_call_def set_call_def)
  from call [OF assms(2) this] have "cgi_step cap calls ?s (put_call i z s)"
    by (simp add: put_call_def set_call_def)
  with step.IH show ?case by (rule reach_step)
qed

text \<open>A GET, up to the reading of the output: nothing but the mutex of the logger can stop it.\<close>

definition at :: "parent_pc \<Rightarrow> child_pc \<Rightarrow> pipe_end set \<Rightarrow> bool \<Rightarrow> call_state" where
  "at pc ch en l = new_call\<lparr>cl_pc := pc, cl_child := ch, cl_ends := en, cl_locked := l\<rparr>"

lemma at_simps [simp]:
  "cl_pc (at pc ch en l) = pc" "cl_child (at pc ch en l) = ch" "cl_ends (at pc ch en l) = en"
  "cl_locked (at pc ch en l) = l" "cl_sent (at pc ch en l) = 0" "cl_body (at pc ch en l) = []"
  "cl_input (at pc ch en l) = []" "cl_output (at pc ch en l) = []"
  "(at pc ch en l)\<lparr>cl_pc := pc'\<rparr> = at pc' ch en l"
  "(at pc ch en l)\<lparr>cl_child := ch'\<rparr> = at pc ch' en l"
  "(at pc ch en l)\<lparr>cl_ends := en'\<rparr> = at pc ch en' l"
  "(at pc ch en l)\<lparr>cl_locked := l'\<rparr> = at pc ch en l'"
  by (simp_all add: at_def new_call_def)

lemma new_call_at: "new_call = at P_Start C_None {} False"
  by (simp add: at_def new_call_def)

definition get_call :: "prog \<Rightarrow> cgi_call" where
  "get_call P = \<lparr>cc_request = (new_HttpRequest 0)\<lparr>rq_method := ''GET''\<rparr>, cc_prog = P\<rparr>"

lemma get_call_simps [simp]: "cc_input (get_call P) = []" "cc_prog (get_call P) = P"
  "logs_env (cc_request (get_call P))"
  by (simp_all add: get_call_def cc_input_def logs_env_def)

lemma quiet_step:
  "(\<And>opn. call_step cap (calls ! i) i opn lck c E c' E') \<Longrightarrow> (quiet cap calls i lck)\<^sup>*\<^sup>* x (c, E) \<Longrightarrow>
   (quiet cap calls i lck)\<^sup>*\<^sup>* x (c', E')"
  by (erule rtranclp.rtrancl_into_rtrancl) (simp add: quiet_def)

lemma quiet_one:
  "(\<And>opn. call_step cap (calls ! i) i opn lck c E c' E') \<Longrightarrow> (quiet cap calls i lck)\<^sup>*\<^sup>* (c, E) (c', E')"
  by (rule r_into_rtranclp) (simp add: quiet_def)

lemma fork_run:
  assumes "calls ! i = get_call P"
  shows "(quiet cap calls i lck)\<^sup>*\<^sup>* (at P_Pipe2 C_None {} False, E)
    (at P_Read C_Env (E \<union> {Out_R i, Out_W i} - {In_R i} - {Out_W i}) lck,
      E \<union> {Out_R i, Out_W i} - {In_W i} - {Out_R i})"
proof -
  let ?q = "(quiet cap calls i lck)\<^sup>*\<^sup>* (at P_Pipe2 C_None {} False, E)"
  let ?E = "E \<union> {Out_R i, Out_W i}"
  note st = quiet_step [rotated, where calls = calls and i = i]
  have "?q (at P_Pipe2 C_None {} False, E)" by simp
  then have "?q (at P_Fork C_None {} False, ?E)"
    by (rule st) (use pipe_output [of "at P_Pipe2 C_None {} False"] in simp)
  then have "?q (at P_Close C_Close ?E lck, ?E)"
    by (rule st) (use fork [of "at P_Fork C_None {} False" _ _ _ _ lck] in simp)
  then have "?q (at P_Close C_Close2 (?E - {In_R i}) lck, ?E)"
    by (rule st) (use child_close_input [of "at P_Close C_Close ?E lck"] in simp)
  then have "?q (at P_Close C_Env (?E - {In_R i} - {Out_W i}) lck, ?E)"
    by (rule st) (use child_close_output [of "at P_Close C_Close2 (?E - {In_R i}) lck"] in simp)
  then have "?q (at P_Close2 C_Env (?E - {In_R i} - {Out_W i}) lck, ?E - {In_W i})"
    by (rule st) (use close_input [of "at P_Close C_Env (?E - {In_R i} - {Out_W i}) lck"] in simp)
  then have "?q (at P_Write C_Env (?E - {In_R i} - {Out_W i}) lck, ?E - {In_W i} - {Out_R i})"
    by (rule st) (use close_output [of "at P_Close2 C_Env (?E - {In_R i} - {Out_W i}) lck"] in simp)
  then show ?thesis
    by (rule st) (use write_end [of "at P_Write C_Env (?E - {In_R i} - {Out_W i}) lck" "get_call P"] assms
      in simp)
qed

text \<open>The same for the whole system, from its message to its first pipe and from there to its child.\<close>

lemma put_call_simps [simp]:
  "cs_calls (put_call i x s) j = (if j = i then fst x else cs_calls s j)"
  "cs_ends (put_call i x s) = snd x" "cs_log (put_call i x s) = cs_log s"
  by (simp_all add: put_call_def set_call_def)

lemma opened_run:
  assumes "reachable cgi_init (cgi_step cap calls) s" and i: "i < length calls" and l: "cs_log s = None"
    and c: "cs_calls s i = at P_Start C_None {} False"
  shows "reachable cgi_init (cgi_step cap calls)
    (put_call i (at P_Pipe2 C_None {} False, cs_ends s \<union> {In_R i, In_W i}) s)"
proof -
  let ?r = "reachable cgi_init (cgi_step cap calls)"
  let ?s1 = "(set_call i (at P_Log C_None {} False) s)\<lparr>cs_log := Some i\<rparr>"
  let ?s2 = "put_call i (at P_Pipe C_None {} False, cs_ends s) s"
  have "cgi_step cap calls s ?s1" using log_begin [OF i _ l] c by simp
  with assms(1) have 1: "?r ?s1" by (rule reach_step)
  have "(set_call i (at P_Pipe C_None {} False) ?s1)\<lparr>cs_log := None\<rparr> = ?s2"
    using l by (simp add: set_call_def put_call_def)
  then have "cgi_step cap calls ?s1 ?s2" using log_end [OF i, of ?s1] by (simp add: set_call_def)
  with 1 have 2: "?r ?s2" by (rule reach_step)
  have "(quiet cap calls i (cs_log ?s2 \<noteq> None))\<^sup>*\<^sup>* (at P_Pipe C_None {} False, cs_ends s)
      (at P_Pipe2 C_None {} False, cs_ends s \<union> {In_R i, In_W i})"
    by (rule quiet_one) (use pipe_input [of "at P_Pipe C_None {} False"] in simp)
  from quiet_run [OF this i refl _ 2] show ?thesis by (simp add: put_call_def set_call_def)
qed

lemma forked_run:
  assumes "reachable cgi_init (cgi_step cap calls) s" and "i < length calls"
    and "calls ! i = get_call P" and "cs_calls s i = at P_Pipe2 C_None {} False"
  shows "reachable cgi_init (cgi_step cap calls)
    (put_call i (at P_Read C_Env (cs_ends s \<union> {Out_R i, Out_W i} - {In_R i} - {Out_W i}) (cs_log s \<noteq> None),
      cs_ends s \<union> {Out_R i, Out_W i} - {In_W i} - {Out_R i}) s)"
  by (rule quiet_run [OF fork_run [OF assms(3)] assms(2) refl _ assms(1)]) (simp add: assms(4))

lemma exec_run:
  assumes "reachable cgi_init (cgi_step cap calls) s" and "i < length calls"
    and "calls ! i = get_call P" and "cs_calls s i = at P_Read C_Env en False"
  shows "reachable cgi_init (cgi_step cap calls) (put_call i (at P_Read (C_Run P) en False, cs_ends s) s)"
proof (rule quiet_run [OF _ assms(2) refl _ assms(1)])
  show "(quiet cap calls i (cs_log s \<noteq> None))\<^sup>*\<^sup>* (at P_Read C_Env en False, cs_ends s)
      (at P_Read (C_Run P) en False, cs_ends s)"
    by (rule quiet_one) (use child_exec [of "at P_Read C_Env en False" "get_call P"] assms(3) in simp)
qed (simp add: assms(4))

lemma exit_run:
  assumes "reachable cgi_init (cgi_step cap calls) s" and "i < length calls"
    and "cs_calls s i = at P_Read (C_Run (Exit st)) en False"
  shows "reachable cgi_init (cgi_step cap calls) (put_call i (at P_Read (C_Exited st) {} False, cs_ends s) s)"
proof (rule quiet_run [OF _ assms(2) refl _ assms(1)])
  show "(quiet cap calls i (cs_log s \<noteq> None))\<^sup>*\<^sup>* (at P_Read (C_Run (Exit st)) en False, cs_ends s)
      (at P_Read (C_Exited st) {} False, cs_ends s)"
    by (rule quiet_one) (use child_exit [of "at P_Read (C_Run (Exit st)) en False" st] in simp)
qed (simp add: assms(3))

text \<open>Two GETs: a program that exits at once, and one that waits for a byte.\<close>

definition quick_and_reader :: "cgi_call list" where
  "quick_and_reader = [get_call (Exit (Exited 0)), get_call (Get (\<lambda>_. Exit (Exited 0)))]"

lemma two_calls [simp]:
  "length quick_and_reader = 2" "quick_and_reader ! 0 = get_call (Exit (Exited 0))"
  "quick_and_reader ! Suc 0 = get_call (Get (\<lambda>_. Exit (Exited 0)))"
  by (simp_all add: quick_and_reader_def)

abbreviation two_reach :: "cgi_sys \<Rightarrow> bool" where
  "two_reach \<equiv> reachable cgi_init (cgi_step 65536 quick_and_reader)"

lemma two_start: "two_reach new_sys"
  by (rule reach_init) (simp add: cgi_init_def)

lemma new_sys_simps [simp]:
  "cs_calls new_sys i = at P_Start C_None {} False" "cs_ends new_sys = {}" "cs_log new_sys = None"
  by (simp_all add: new_sys_def new_call_at)

text \<open>The second forks between the first pipe of the first and its close.\<close>

lemma inherited_state:
  "\<exists>s. two_reach s \<and> cl_pc (cs_calls s 0) = P_Read \<and> cl_child (cs_calls s 0) = C_Exited (Exited 0) \<and>
     hung (quick_and_reader ! 1) (cs_calls s 1) \<and> In_W 0 \<in> cl_ends (cs_calls s 1)"
proof -
  let ?reader = "Get (\<lambda>_. Exit (Exited 0))"
  let ?en = "\<lambda>i s. cs_ends s \<union> {Out_R i, Out_W i} - {In_R i} - {Out_W i}"
  let ?own = "\<lambda>i s. cs_ends s \<union> {Out_R i, Out_W i} - {In_W i} - {Out_R i}"
  let ?s1 = "put_call 0 (at P_Pipe2 C_None {} False, cs_ends new_sys \<union> {In_R 0, In_W 0}) new_sys"
  let ?s2 = "put_call 1 (at P_Pipe2 C_None {} False, cs_ends ?s1 \<union> {In_R 1, In_W 1}) ?s1"
  let ?s3 = "put_call 1 (at P_Read C_Env (?en 1 ?s2) False, ?own 1 ?s2) ?s2"
  let ?s4 = "put_call 1 (at P_Read (C_Run ?reader) (?en 1 ?s2) False, cs_ends ?s3) ?s3"
  let ?s5 = "put_call 0 (at P_Read C_Env (?en 0 ?s4) False, ?own 0 ?s4) ?s4"
  let ?s6 = "put_call 0 (at P_Read (C_Run (Exit (Exited 0))) (?en 0 ?s4) False, cs_ends ?s5) ?s5"
  let ?s7 = "put_call 0 (at P_Read (C_Exited (Exited 0)) {} False, cs_ends ?s6) ?s6"
  have "two_reach ?s1" by (rule opened_run [OF two_start]) simp_all
  then have "two_reach ?s2" by (rule opened_run) simp_all
  from forked_run [OF this, of 1] have "two_reach ?s3" by simp
  then have "two_reach ?s4" by (rule exec_run) simp_all
  from forked_run [OF this, of 0] have "two_reach ?s5" by simp
  then have "two_reach ?s6" by (rule exec_run) simp_all
  then have "two_reach ?s7" by (rule exit_run) simp_all
  then show ?thesis
    by (intro exI [of _ ?s7]) (simp add: hung_def waits_for_input_def)
qed

text \<open>The second forks while the first holds the mutex of the logger.\<close>

lemma locked_state:
  "\<exists>s. two_reach s \<and> cl_pc (cs_calls s 1) = P_Read \<and> waits_for_log (quick_and_reader ! 1) (cs_calls s 1) \<and>
     In_W 1 \<in> cl_ends (cs_calls s 1)"
proof -
  let ?s1 = "put_call 1 (at P_Pipe2 C_None {} False, cs_ends new_sys \<union> {In_R 1, In_W 1}) new_sys"
  let ?s2 = "(set_call 0 (at P_Log C_None {} False) ?s1)\<lparr>cs_log := Some 0\<rparr>"
  let ?s3 = "put_call 1 (at P_Read C_Env (cs_ends ?s2 \<union> {Out_R 1, Out_W 1} - {In_R 1} - {Out_W 1}) True,
    cs_ends ?s2 \<union> {Out_R 1, Out_W 1} - {In_W 1} - {Out_R 1}) ?s2"
  have 1: "two_reach ?s1" by (rule opened_run [OF two_start]) simp_all
  have "cgi_step 65536 quick_and_reader ?s1 ?s2" using log_begin [of 0 quick_and_reader ?s1] by simp
  with 1 have 2: "two_reach ?s2" by (rule reach_step)
  from forked_run [OF this, of 1] have "two_reach ?s3" by (simp add: set_call_def)
  then show ?thesis
    by (intro exI [of _ ?s3]) (simp add: waits_for_log_def set_call_def)
qed

section \<open>Properties\<close>

text \<open>C7: whatever other calls do at the same time, however small the pipes are and whenever the threads
  and the programs run, a call that comes back with a code has in its response body what the program writes
  on the body of the request, and the code of its status: it is the result of the sequential \<open>ProcessCgi\<close> of
  \<open>Cgi\<close>, with no byte lost, repeated or taken from another call.\<close>

theorem concurrent_cgi_same:
  assumes "reachable cgi_init (cgi_step cap calls) s" and "i < length calls"
    and "cl_pc (cs_calls s i) = P_Return code"
    and "calls ! i = cgi_call_of progs k (ep_request ep)"
    and "k_prog k = k_progs progs" and "k_writes k = []" and "k_wait_ok k" and "k_fork_ok k"
    and "length (k_fds k) + 3 < k_max k"
  shows "ProcessCgi ep k =
    Some (code, upd_rs (\<lambda>r. r\<lparr>rs_response_body := rs_response_body r @ cl_body (cs_calls s i)\<rparr>) ep, k)"
proof -
  let ?K = "calls ! i"
  have "call_ok (cs_ends s) i ?K (cs_calls s i)"
    using cgi_reached [OF assms(1)] assms(2) by (simp add: cgi_inv_def)
  from returned_right [OF this assms(3)] obtain st where
    "run_prog (cc_prog ?K) (cc_input ?K) = Finished (cl_body (cs_calls s i)) st" "code = wait_code True st"
    by blast
  moreover have "k\<lparr>k_writes := []\<rparr> = k" using assms(6) by (cases k) simp
  ultimately show ?thesis
    using ProcessCgi_ok [OF assms(9,8) cgi_stdin_whole [OF assms(6), where progs = progs]] assms(4,7)
      run_child_whole [OF assms(5)] by simp
qed

text \<open>One GET whose program writes a byte and exits, run to its end.\<close>

definition one_call :: "cgi_call list" where
  "one_call = [get_call (Put CHR ''x'' (Exit (Exited 0)))]"

abbreviation one_reach :: "cgi_sys \<Rightarrow> bool" where
  "one_reach \<equiv> reachable cgi_init (cgi_step 1 one_call)"

lemma one_call_simps [simp]:
  "length one_call = 1" "one_call ! 0 = get_call (Put CHR ''x'' (Exit (Exited 0)))"
  by (simp_all add: one_call_def)

lemma returned_state:
  "\<exists>s. one_reach s \<and> cl_pc (cs_calls s 0) = P_Return OK \<and> cl_body (cs_calls s 0) = ''x''"
proof -
  let ?en = "\<lambda>i s. cs_ends s \<union> {Out_R i, Out_W i} - {In_R i} - {Out_W i}"
  let ?s1 = "put_call 0 (at P_Pipe2 C_None {} False, cs_ends new_sys \<union> {In_R 0, In_W 0}) new_sys"
  let ?s2 = "put_call 0 (at P_Read C_Env (?en 0 ?s1) False,
    cs_ends ?s1 \<union> {Out_R 0, Out_W 0} - {In_W 0} - {Out_R 0}) ?s1"
  let ?c3 = "at P_Read (C_Run (Put CHR ''x'' (Exit (Exited 0)))) (?en 0 ?s1) False"
  let ?s3 = "put_call 0 (?c3, cs_ends ?s2) ?s2"
  let ?c4 = "?c3\<lparr>cl_child := C_Run (Exit (Exited 0)), cl_input := ''x''\<rparr>"
  let ?c5 = "?c4\<lparr>cl_child := C_Exited (Exited 0), cl_ends := {}\<rparr>"
  let ?c6 = "?c5\<lparr>cl_body := ''x'', cl_input := []\<rparr>"
  let ?s6 = "put_call 0 (?c6, cs_ends ?s2) ?s3"
  let ?c7 = "?c6\<lparr>cl_pc := P_Wait\<rparr>"
  let ?s7 = "put_call 0 (?c7, cs_ends ?s2) ?s6"
  let ?c8 = "?c7\<lparr>cl_pc := P_Free OK\<rparr>"
  let ?c9 = "?c8\<lparr>cl_pc := P_Free2 OK\<rparr>"
  let ?c10 = "?c9\<lparr>cl_pc := P_Return OK\<rparr>"
  let ?q = "(quiet 1 one_call 0 False)\<^sup>*\<^sup>*"
  have "one_reach new_sys" by (rule reach_init) (simp add: cgi_init_def)
  then have "one_reach ?s1" by (rule opened_run) simp_all
  from forked_run [OF this, of 0] have "one_reach ?s2" by simp
  then have 3: "one_reach ?s3" by (rule exec_run) simp_all
  have "?q (?c3, cs_ends ?s2) (?c4, cs_ends ?s2)"
    by (rule quiet_one) (use child_put [of ?c3 "CHR ''x''" "Exit (Exited 0)" 1] in simp)
  moreover have "?q (?c4, cs_ends ?s2) (?c5, cs_ends ?s2)"
    by (rule quiet_one) (use child_exit [of ?c4 "Exited 0"] in simp)
  moreover have "?q (?c5, cs_ends ?s2) (?c6, cs_ends ?s2)"
    by (rule quiet_one) (use read_byte [of ?c5 "CHR ''x''" "[]"] in simp)
  ultimately have "?q (?c3, cs_ends ?s2) (?c6, cs_ends ?s2)" by (meson rtranclp_trans)
  from quiet_run [OF this _ _ _ 3] have 6: "one_reach ?s6" by simp
  have "cgi_step 1 one_call ?s6 ?s7"
    using call [of 0 one_call 1 ?s6 ?c7 "cs_ends ?s2"] read_end [of ?c6]
    by (simp add: open_end_def put_call_def set_call_def)
  with 6 have 7: "one_reach ?s7" by (rule reach_step)
  have "?q (?c7, cs_ends ?s2) (?c8, cs_ends ?s2)"
    by (rule quiet_one) (use wait_child [of ?c7 "Exited 0"] in \<open>simp add: wait_code_def\<close>)
  moreover have "?q (?c8, cs_ends ?s2) (?c9, cs_ends ?s2 - {In_R 0})"
    by (rule quiet_one) (use free_input [of ?c8 OK] in simp)
  moreover have "?q (?c9, cs_ends ?s2 - {In_R 0}) (?c10, cs_ends ?s2 - {In_R 0} - {Out_W 0})"
    by (rule quiet_one) (use free_output [of ?c9 OK] in simp)
  ultimately have "?q (?c7, cs_ends ?s2) (?c10, cs_ends ?s2 - {In_R 0} - {Out_W 0})"
    by (meson rtranclp_trans)
  from quiet_run [OF this _ _ _ 7] show ?thesis
    by (intro exI [of _ "put_call 0 (?c10, cs_ends ?s2 - {In_R 0} - {Out_W 0}) ?s7"]) simp
qed

definition x_progs :: programs where
  "x_progs = [[] \<mapsto> (\<lambda>_. Put CHR ''x'' (Exit (Exited 0)))]"

definition x_kernel :: kernel where
  "x_kernel = \<lparr>k_fds = [], k_max = 9, k_files = Map.empty, k_prog = k_progs x_progs, k_env = Map.empty,
     k_fork_ok = True, k_wait_ok = True, k_writes = [], k_sends = [], k_wire = []\<rparr>"

definition x_endpoint :: EndPoint where
  "x_endpoint = (new_EndPoint 0 7 [])\<lparr>ep_request := cc_request (one_call ! 0)\<rparr>"

theorem concurrent_cgi_same_witness:
  "ProcessCgi x_endpoint x_kernel =
     Some (OK, upd_rs (\<lambda>r. r\<lparr>rs_response_body := rs_response_body r @ ''x''\<rparr>) x_endpoint, x_kernel)"
proof -
  obtain s where s: "one_reach s" "cl_pc (cs_calls s 0) = P_Return OK" "cl_body (cs_calls s 0) = ''x''"
    using returned_state by blast
  have "one_call ! 0 = cgi_call_of x_progs x_kernel (ep_request x_endpoint)"
    by (simp add: cgi_call_of_def x_progs_def x_endpoint_def get_call_def new_HttpRequest_def c_str_def)
  from concurrent_cgi_same [OF s(1) _ s(2) this] s(3) show ?thesis by (simp add: x_kernel_def)
qed

text \<open>C8: if the pipes can hold the bodies and every program exits on its input, the calls return: no run of the
  system is longer than the work of its state, and when no step is possible any more, every call has come
  back, with an error before the fork or with the output and the code of its program. The one exception
  is a child that inherited the mutex of the logger locked, which takes a second call.\<close>

theorem cgi_calls_return:
  assumes "reachable cgi_init (cgi_step cap calls) s" and "0 < cap"
    and "\<forall>K\<in>set calls. length (cc_input K) \<le> cap \<and> run_prog (cc_prog K) (cc_input K) \<noteq> Blocked"
  shows "(\<forall>n t. (cgi_step cap calls ^^ n) s t \<longrightarrow> n \<le> cgi_work calls s) \<and>
    (\<forall>t. (cgi_step cap calls)\<^sup>*\<^sup>* s t \<and> (\<forall>u. \<not> cgi_step cap calls t u) \<longrightarrow>
      (\<forall>i<length calls. finished_right (calls ! i) (cs_calls t i)) \<or>
      1 < length calls \<and> (\<exists>i<length calls. waits_for_log (calls ! i) (cs_calls t i)))"
proof (intro conjI allI impI)
  have inv: "cgi_inv calls s" by (rule cgi_reached [OF assms(1)])
  show "n \<le> cgi_work calls s" if "(cgi_step cap calls ^^ n) s t" for n t
    using cgi_run_work [OF that inv] by simp
  fix t assume t: "(cgi_step cap calls)\<^sup>*\<^sup>* s t \<and> (\<forall>u. \<not> cgi_step cap calls t u)"
  have ok: "alone_ok calls t"
    by (rule cgi_alone.reachable_inv_steps [OF _ cgi_alone.reachable_inv [OF assms(1)]]) (use t in blast)
  then have "cgi_inv calls t" by (simp add: alone_ok_def)
  note stuck = cgi_stuck [OF this assms(2,3)]
  show "(\<forall>i<length calls. finished_right (calls ! i) (cs_calls t i)) \<or>
      1 < length calls \<and> (\<exists>i<length calls. waits_for_log (calls ! i) (cs_calls t i))"
  proof (cases "\<exists>i<length calls. waits_for_log (calls ! i) (cs_calls t i)")
    case True
    then obtain i where i: "i < length calls" "cl_locked (cs_calls t i)" by (auto simp: waits_for_log_def)
    with ok have "length calls \<noteq> 1" by (auto simp: alone_ok_def)
    with i(1) have "1 < length calls" by linarith
    with True show ?thesis by blast
  next
    case False
    with stuck t show ?thesis by blast
  qed
qed

theorem cgi_calls_return_witness:
  "{n. \<exists>t. (cgi_step 1 one_call ^^ n) new_sys t} \<subseteq> {..20}"
proof -
  have r: "one_reach new_sys" by (rule reach_init) (simp add: cgi_init_def)
  have h: "\<forall>K\<in>set one_call. length (cc_input K) \<le> 1 \<and> run_prog (cc_prog K) (cc_input K) \<noteq> Blocked"
    by (simp add: one_call_def)
  have "cgi_work one_call new_sys = 20" by (simp add: cgi_work_def call_work_def)
  with cgi_calls_return [OF r _ h] show ?thesis by auto
qed

text \<open>C19: the pipes are created without close-on-exec, so a child forked between the first pipe of another call
  and the close of its write end keeps that end; if this child never exits, the other call reads for
  ever, although its own program may have exited long ago. The child of the call itself is the case
  \<open>i = j\<close>: then it waits for the logger.\<close>

theorem inherited_end_hangs:
  assumes "reachable cgi_init (cgi_step cap calls) s" and "i < length calls" and "j < length calls"
    and "hung (calls ! j) (cs_calls s j)" and "In_W i \<in> cl_ends (cs_calls s j)"
    and "cl_pc (cs_calls s i) = P_Read" and "(cgi_step cap calls)\<^sup>*\<^sup>* s t"
  shows "cl_pc (cs_calls t i) = P_Read"
proof -
  have "held_up calls i j s" using assms(4-6) cgi_reached [OF assms(1)] by (simp add: held_up_def)
  with assms(7) have "held_up calls i j t"
    by (induction rule: rtranclp_induct) (blast intro: held_up_step [OF _ _ assms(2,3)])+
  then show ?thesis by (simp add: held_up_def)
qed

theorem inherited_end_hangs_witness:
  "\<exists>s. two_reach s \<and> cl_child (cs_calls s 0) = C_Exited (Exited 0) \<and>
     (\<lambda>t. cl_pc (cs_calls t 0)) ` {t. (cgi_step 65536 quick_and_reader)\<^sup>*\<^sup>* s t} = {P_Read}"
proof -
  obtain s where s: "two_reach s" "cl_pc (cs_calls s 0) = P_Read" "cl_child (cs_calls s 0) = C_Exited (Exited 0)"
    "hung (quick_and_reader ! 1) (cs_calls s 1)" "In_W 0 \<in> cl_ends (cs_calls s 1)"
    using inherited_state by blast
  from inherited_end_hangs [OF s(1) _ _ s(4,5,2)] s(1,3) show ?thesis
    by (intro exI [of _ s]) (auto simp: image_iff)
qed

text \<open>A call whose child inherited the mutex locked never returns either.\<close>

lemma forked_while_logging_hangs:
  "\<exists>s. two_reach s \<and> waits_for_log (quick_and_reader ! 1) (cs_calls s 1) \<and>
     (\<forall>t. (cgi_step 65536 quick_and_reader)\<^sup>*\<^sup>* s t \<longrightarrow> held_up quick_and_reader 1 1 t)"
proof -
  obtain s where s: "two_reach s" "cl_pc (cs_calls s 1) = P_Read"
    "waits_for_log (quick_and_reader ! 1) (cs_calls s 1)" "In_W 1 \<in> cl_ends (cs_calls s 1)"
    using locked_state by blast
  then have h: "held_up quick_and_reader 1 1 s"
    using cgi_reached [OF s(1)] by (simp add: held_up_def hung_def)
  have "held_up quick_and_reader 1 1 t" if "(cgi_step 65536 quick_and_reader)\<^sup>*\<^sup>* s t" for t
    using that h
  proof (induction rule: rtranclp_induct)
    case (step t u)
    from held_up_step [OF step.IH [OF step.prems] step.hyps(2)] show ?case by simp
  qed
  with s show ?thesis by blast
qed


definition echo_call :: cgi_call where
  "echo_call = \<lparr>cc_request = (new_HttpRequest 0)\<lparr>rq_method := ''POST'', rq_content_length := 2,
     rq_request_body := ''ab''\<rparr>, cc_prog = puts ''<html>'' (Get (\<lambda>_. Exit (Exited 0)))\<rparr>"


end
