(* ===== verification/Pool.thy ===== *)
theory Pool
  imports Prelude "HOL-Library.Multiset"
begin

text \<open>
  \<open>ThreadPool\<close> of \<open>http/ThreadPool.hpp\<close> as a step relation: the threads of \<open>ThreadRoutine\<close>, and the
  threads that call \<open>PushTask\<close>. A task is the descriptor of its connection. The queue is read and
  written under the mutex only, so each critical section is one step; \<open>PushTask\<close> signals after it has
  released the mutex, so the signal is a step of its own. \<open>returns\<close> says which tasks \<open>ProcessOn\<close> comes
  back from, \<open>spur\<close> allows spurious wakeups.
\<close>

section \<open>States\<close>

definition NUM :: nat where "NUM = 6"

text \<open>A thread: about to take the mutex; blocked in \<open>ThreadWait\<close>; woken; processing a task.\<close>

datatype thread = T_Lock | T_Blocked | T_Woken | T_Run int

record pool =
  tp_threads :: "thread list"
  tp_queue :: "int list"
  tp_signals :: nat
  tp_pushed :: "int list"
  tp_taken :: "int list"
  tp_done :: "int list"

text \<open>
  \<open>InitThreadPool\<close>: the results of \<open>pthread_create\<close> say how many threads there are; the first failure
  ends the loop.
\<close>

definition InitThreadPool :: "bool list \<Rightarrow> thread list \<times> bool" where
  "InitThreadPool creates =
     (replicate (length (takeWhile id creates)) T_Lock, \<forall>c\<in>set creates. c)"

definition new_ThreadPool :: "bool list \<Rightarrow> pool" where
  "new_ThreadPool creates = \<lparr>tp_threads = fst (InitThreadPool creates), tp_queue = [],
     tp_signals = 0, tp_pushed = [], tp_taken = [], tp_done = []\<rparr>"

definition pool_init :: "nat \<Rightarrow> pool \<Rightarrow> bool" where
  "pool_init n s \<longleftrightarrow> (\<exists>creates. length creates = n \<and> s = new_ThreadPool creates)"

definition ready :: "thread \<Rightarrow> bool" where
  "ready t \<longleftrightarrow> t = T_Lock \<or> t = T_Woken"

section \<open>Steps\<close>

text \<open>The steps of the pool itself.\<close>

inductive pool_step :: "(int \<Rightarrow> bool) \<Rightarrow> pool \<Rightarrow> pool \<Rightarrow> bool" for returns :: "int \<Rightarrow> bool" where
  take_task: "i < length (tp_threads s) \<Longrightarrow> ready (tp_threads s ! i) \<Longrightarrow> tp_queue s = t # q \<Longrightarrow>
    pool_step returns s (s\<lparr>tp_threads := (tp_threads s)[i := T_Run t], tp_queue := q,
      tp_taken := tp_taken s @ [t]\<rparr>)"
| thread_wait: "i < length (tp_threads s) \<Longrightarrow> ready (tp_threads s ! i) \<Longrightarrow> tp_queue s = [] \<Longrightarrow>
    pool_step returns s (s\<lparr>tp_threads := (tp_threads s)[i := T_Blocked]\<rparr>)"
| task_done: "i < length (tp_threads s) \<Longrightarrow> tp_threads s ! i = T_Run t \<Longrightarrow> returns t \<Longrightarrow>
    pool_step returns s (s\<lparr>tp_threads := (tp_threads s)[i := T_Lock], tp_done := tp_done s @ [t]\<rparr>)"
| wakeup: "0 < tp_signals s \<Longrightarrow> i < length (tp_threads s) \<Longrightarrow> tp_threads s ! i = T_Blocked \<Longrightarrow>
    pool_step returns s (s\<lparr>tp_threads := (tp_threads s)[i := T_Woken], tp_signals := tp_signals s - 1\<rparr>)"
| wakeup_none: "0 < tp_signals s \<Longrightarrow> T_Blocked \<notin> set (tp_threads s) \<Longrightarrow>
    pool_step returns s (s\<lparr>tp_signals := tp_signals s - 1\<rparr>)"

text \<open>The first half of \<open>PushTask\<close>, up to the release of the mutex.\<close>

definition push_task :: "int \<Rightarrow> pool \<Rightarrow> pool" where
  "push_task t s = s\<lparr>tp_queue := tp_queue s @ [t], tp_signals := tp_signals s + 1,
     tp_pushed := tp_pushed s @ [t]\<rparr>"

inductive pool_moves :: "(int \<Rightarrow> bool) \<Rightarrow> bool \<Rightarrow> pool \<Rightarrow> pool \<Rightarrow> bool"
  for returns :: "int \<Rightarrow> bool" and spur :: bool where
  own_step: "pool_step returns s t \<Longrightarrow> pool_moves returns spur s t"
| PushTask: "pool_moves returns spur s (push_task t s)"
| spurious: "spur \<Longrightarrow> i < length (tp_threads s) \<Longrightarrow> tp_threads s ! i = T_Blocked \<Longrightarrow>
    pool_moves returns spur s (s\<lparr>tp_threads := (tp_threads s)[i := T_Woken]\<rparr>)"

inductive_cases pool_stepE: "pool_step returns s t"
inductive_cases pool_movesE: "pool_moves returns spur s t"

section \<open>The invariant\<close>

fun running :: "thread \<Rightarrow> int list" where
  "running (T_Run t) = [t]"
| "running _ = []"

definition run_tasks :: "pool \<Rightarrow> int multiset" where
  "run_tasks s = (\<Sum>t\<leftarrow>tp_threads s. mset (running t))"

definition ready_threads :: "pool \<Rightarrow> nat" where
  "ready_threads s = (\<Sum>t\<leftarrow>tp_threads s. if ready t then 1 else 0)"

definition pool_inv :: "pool \<Rightarrow> bool" where
  "pool_inv s \<longleftrightarrow> tp_pushed s = tp_taken s @ tp_queue s \<and>
     mset (tp_taken s) = mset (tp_done s) + run_tasks s \<and>
     (T_Blocked \<in> set (tp_threads s) \<longrightarrow> length (tp_queue s) \<le> tp_signals s + ready_threads s)"

lemma ready_simps [simp]: "ready T_Lock" "ready T_Woken" "\<not> ready T_Blocked" "\<not> ready (T_Run t)"
  by (simp_all add: ready_def)

lemma ready_idle: "ready t \<Longrightarrow> running t = []"
  by (auto simp: ready_def)

lemma blocked_update: "T_Blocked \<in> set (xs[i := x]) \<Longrightarrow> x \<noteq> T_Blocked \<Longrightarrow> T_Blocked \<in> set xs"
  using set_update_subset_insert [of xs i x] by blast

text \<open>What changes when one thread does.\<close>

lemma run_update:
  "i < length (tp_threads s) \<Longrightarrow>
   run_tasks (s\<lparr>tp_threads := (tp_threads s)[i := x]\<rparr>) + mset (running (tp_threads s ! i)) =
     run_tasks s + mset (running x)"
  using update_sum [of i "tp_threads s" "\<lambda>t. mset (running t)" x] unfolding run_tasks_def by simp

lemma ready_update:
  "i < length (tp_threads s) \<Longrightarrow>
   ready_threads (s\<lparr>tp_threads := (tp_threads s)[i := x]\<rparr>) + (if ready (tp_threads s ! i) then 1 else 0) =
     ready_threads s + (if ready x then 1 else 0)"
  using update_sum [of i "tp_threads s" "\<lambda>t. if ready t then 1 else 0 :: nat" x]
  unfolding ready_threads_def by simp

lemma pool_views [simp]:
  "run_tasks (s\<lparr>tp_queue := q\<rparr>) = run_tasks s" "run_tasks (s\<lparr>tp_signals := n\<rparr>) = run_tasks s"
  "run_tasks (s\<lparr>tp_pushed := l\<rparr>) = run_tasks s" "run_tasks (s\<lparr>tp_taken := l\<rparr>) = run_tasks s"
  "run_tasks (s\<lparr>tp_done := l\<rparr>) = run_tasks s"
  "ready_threads (s\<lparr>tp_queue := q\<rparr>) = ready_threads s"
  "ready_threads (s\<lparr>tp_signals := n\<rparr>) = ready_threads s"
  "ready_threads (s\<lparr>tp_pushed := l\<rparr>) = ready_threads s"
  "ready_threads (s\<lparr>tp_taken := l\<rparr>) = ready_threads s"
  "ready_threads (s\<lparr>tp_done := l\<rparr>) = ready_threads s"
  by (simp_all add: run_tasks_def ready_threads_def)

lemma sum_replicate_empty: "sum_list (replicate n {#}) = {#}"
  by (induction n) simp_all

lemma pool_inv_init: "pool_init n s \<Longrightarrow> pool_inv s"
  by (auto simp: pool_init_def new_ThreadPool_def pool_inv_def InitThreadPool_def run_tasks_def
      sum_replicate_empty)

lemma pool_inv_own:
  assumes "pool_step returns s t" and "pool_inv s"
  shows "pool_inv t"
  using assms
proof (cases rule: pool_step.cases)
  case (take_task i x q)
  with assms(2) run_update [of i s "T_Run x"] ready_update [of i s "T_Run x"] ready_idle
  show ?thesis
    by (auto simp: pool_inv_def dest: blocked_update)
next
  case (thread_wait i)
  with assms(2) run_update [of i s T_Blocked] ready_idle show ?thesis by (simp add: pool_inv_def)
next
  case (task_done i x)
  with assms(2) run_update [of i s T_Lock] ready_update [of i s T_Lock] show ?thesis
    by (auto simp: pool_inv_def dest: blocked_update)
next
  case (wakeup i)
  with assms(2) run_update [of i s T_Woken] ready_update [of i s T_Woken] nth_mem [of i "tp_threads s"]
  show ?thesis by (auto simp: pool_inv_def dest: blocked_update)
next
  case wakeup_none
  with assms(2) show ?thesis by (simp add: pool_inv_def)
qed

lemma pool_inv_step:
  assumes "pool_inv s" and "pool_moves returns spur s t"
  shows "pool_inv t"
  using assms(2,1)
proof (cases rule: pool_moves.cases)
  case own_step
  then show ?thesis using assms(1) by (rule pool_inv_own)
next
  case (PushTask x)
  with assms(1) show ?thesis by (auto simp: pool_inv_def push_task_def)
next
  case (spurious i)
  with assms(1) run_update [of i s T_Woken] ready_update [of i s T_Woken] nth_mem [of i "tp_threads s"]
  show ?thesis by (auto simp: pool_inv_def dest: blocked_update)
qed

interpretation pool_sys: invariant_system "pool_init n" "pool_moves returns spur" pool_inv
  for n returns spur
  by unfold_locales (fact pool_inv_init, fact pool_inv_step)

lemmas pool_reached = pool_sys.reachable_inv

section \<open>The pool comes to rest\<close>

fun weight :: "thread \<Rightarrow> nat" where
  "weight T_Lock = 1"
| "weight T_Woken = 1"
| "weight T_Blocked = 0"
| "weight (T_Run t) = 2"

definition pool_work :: "pool \<Rightarrow> nat" where
  "pool_work s = 2 * tp_signals s + 2 * length (tp_queue s) + (\<Sum>t\<leftarrow>tp_threads s. weight t)"

lemma ready_weight: "ready t \<Longrightarrow> weight t = 1"
  by (auto simp: ready_def)

lemma pool_step_work:
  assumes "pool_step returns s t"
  shows "pool_work t < pool_work s"
  using assms
proof (cases rule: pool_step.cases)
  case (take_task i x q)
  with update_sum [of i "tp_threads s" weight "T_Run x"] ready_weight show ?thesis
    by (simp add: pool_work_def)
next
  case (thread_wait i)
  with update_sum [of i "tp_threads s" weight T_Blocked] ready_weight show ?thesis
    by (simp add: pool_work_def)
next
  case (task_done i x)
  with update_sum [of i "tp_threads s" weight T_Lock] show ?thesis by (simp add: pool_work_def)
next
  case (wakeup i)
  with update_sum [of i "tp_threads s" weight T_Woken] show ?thesis by (simp add: pool_work_def)
next
  case wakeup_none
  then show ?thesis by (simp add: pool_work_def)
qed

lemma pool_run_work: "(pool_step returns ^^ n) s t \<Longrightarrow> n + pool_work t \<le> pool_work s"
proof (induction n arbitrary: t)
  case (Suc n)
  then obtain u where "(pool_step returns ^^ n) s u" "pool_step returns u t" by auto
  with Suc.IH [of u] pool_step_work [of returns u t] show ?case by simp
qed simp

lemma pool_inv_run: "(pool_step returns)\<^sup>*\<^sup>* s t \<Longrightarrow> pool_inv s \<Longrightarrow> pool_inv t"
  by (induction rule: rtranclp_induct) (blast intro: pool_inv_own)+

lemma pool_run_frame:
  "(pool_step returns)\<^sup>*\<^sup>* s t \<Longrightarrow> tp_pushed t = tp_pushed s \<and> length (tp_threads t) = length (tp_threads s)"
proof (induction rule: rtranclp_induct)
  case (step t u)
  from step(2) have "tp_pushed u = tp_pushed t \<and> length (tp_threads u) = length (tp_threads t)"
    by (cases rule: pool_step.cases) simp_all
  with step(3) show ?case by simp
qed simp

lemma run_tasks_thread: "t \<in># run_tasks s \<longleftrightarrow> T_Run t \<in> set (tp_threads s)"
proof -
  have "t \<in># (\<Sum>x\<leftarrow>xs. mset (running x)) \<longleftrightarrow> T_Run t \<in> set xs" for xs
  proof (induction xs)
    case (Cons x xs)
    then show ?case by (cases x) auto
  qed simp
  then show ?thesis by (simp add: run_tasks_def)
qed

lemma run_tasks_full:
  assumes "\<forall>x\<in>set (tp_threads s). \<exists>t. x = T_Run t"
  shows "size (run_tasks s) = length (tp_threads s)"
proof -
  have "\<forall>x\<in>set xs. \<exists>t. x = T_Run t \<Longrightarrow> size (\<Sum>x\<leftarrow>xs. mset (running x)) = length xs" for xs
    by (induction xs) auto
  with assms show ?thesis by (simp add: run_tasks_def)
qed

text \<open>
  A pool that cannot go on although fewer tasks are being processed than it has threads: nothing is
  queued, and the tasks being processed do not return.
\<close>

lemma pool_stuck_busy:
  assumes "pool_inv s" and "size (run_tasks s) < length (tp_threads s)"
    and "\<And>t. \<not> pool_step returns s t"
  shows "tp_queue s = [] \<and> (\<forall>t. T_Run t \<in> set (tp_threads s) \<longrightarrow> \<not> returns t)"
proof -
  have nth: "\<exists>i<length (tp_threads s). tp_threads s ! i = x" if "x \<in> set (tp_threads s)" for x
    using that by (meson in_set_conv_nth)
  have sig: "tp_signals s = 0"
    using wakeup [of s] wakeup_none [of s returns] nth [of T_Blocked] assms(3)
    by (cases "T_Blocked \<in> set (tp_threads s)") blast+
  have ready: "\<not> ready x" if "x \<in> set (tp_threads s)" for x
    using nth [OF that] take_task [of _ s] thread_wait [of _ s] assms(3)
    by (cases "tp_queue s") blast+
  have "ready_threads s = 0"
    using ready by (auto simp: ready_threads_def sum_list_eq_0_iff)
  moreover obtain x where "x \<in> set (tp_threads s)" "\<forall>t. x \<noteq> T_Run t"
    using run_tasks_full [of s] assms(2) by auto
  moreover from this have "x = T_Blocked" using ready [of x] by (cases x rule: thread.exhaust) auto
  ultimately have "tp_queue s = []" using assms(1) sig by (simp add: pool_inv_def)
  moreover have "\<not> returns t" if "T_Run t \<in> set (tp_threads s)" for t
    using nth [OF that] task_done [of _ s t returns] assms(3) by blast
  ultimately show ?thesis by blast
qed

lemma pool_stuck:
  assumes "pool_inv s" and "tp_threads s \<noteq> []" and "\<And>t. T_Run t \<in> set (tp_threads s) \<Longrightarrow> returns t"
    and "\<And>t. \<not> pool_step returns s t"
  shows "tp_queue s = [] \<and> run_tasks s = {#}"
proof -
  have "T_Run t \<notin> set (tp_threads s)" for t
  proof
    assume t: "T_Run t \<in> set (tp_threads s)"
    then obtain i where "i < length (tp_threads s)" "tp_threads s ! i = T_Run t"
      by (meson in_set_conv_nth)
    with task_done [of i s t returns] assms(3) [OF t] assms(4) show False by blast
  qed
  then have "run_tasks s = {#}" using run_tasks_thread [of _ s] by (metis multiset_nonemptyE)
  with pool_stuck_busy [OF assms(1) _ assms(4)] assms(2) show ?thesis by simp
qed

text \<open>The tasks in the threads have been pushed, and no task is in two threads.\<close>

lemma run_pushed:
  assumes "pool_inv p" and "T_Run t \<in> set (tp_threads p)"
  shows "t \<in> set (tp_pushed p)"
proof -
  have "t \<in># run_tasks p" using assms(2) by (simp add: run_tasks_thread)
  moreover from assms(1) have taken: "mset (tp_taken p) = mset (tp_done p) + run_tasks p"
    by (simp add: pool_inv_def)
  ultimately have "t \<in># mset (tp_taken p)" unfolding taken by simp
  moreover have "tp_pushed p = tp_taken p @ tp_queue p" using assms(1) by (simp add: pool_inv_def)
  ultimately show ?thesis by simp
qed

lemma run_tasks_once:
  assumes "pool_inv p" and "distinct (tp_pushed p)"
  shows "size (run_tasks p) = card {t. T_Run t \<in> set (tp_threads p)}"
proof -
  have "run_tasks p \<subseteq># mset (tp_pushed p)"
    using assms(1) unfolding pool_inv_def by (metis mset_append mset_subset_eq_add_left
      mset_subset_eq_add_right subset_mset.order_trans)
  then have "count (run_tasks p) t \<le> count (mset (tp_pushed p)) t" for t by (rule mset_subset_eq_count)
  also have "count (mset (tp_pushed p)) t \<le> 1" for t
    using assms(2) by (simp add: distinct_count_atmost_1)
  finally have "count (run_tasks p) t \<le> 1" for t .
  then have "run_tasks p = mset_set (set_mset (run_tasks p))"
    by (intro multiset_eqI) (metis count_mset_set(1,3) finite_set_mset count_eq_zero_iff le_SucE le_zero_eq One_nat_def)
  then have "size (run_tasks p) = card (set_mset (run_tasks p))" by (metis size_mset_set)
  also have "set_mset (run_tasks p) = {t. T_Run t \<in> set (tp_threads p)}"
    using run_tasks_thread [of _ p] by blast
  finally show ?thesis .
qed

lemma pool_rests:
  assumes "pool_inv s" and "tp_threads s \<noteq> []" and "\<forall>t. returns t"
  shows "\<exists>t. (pool_step returns)\<^sup>*\<^sup>* s t \<and> tp_queue t = [] \<and> run_tasks t = {#}"
  using assms
proof (induction "pool_work s" arbitrary: s rule: less_induct)
  case less
  show ?case
  proof (cases "\<exists>u. pool_step returns s u")
    case True
    then obtain u where u: "pool_step returns s u" by blast
    have "tp_threads u \<noteq> []"
      using pool_run_frame [OF r_into_rtranclp [of "pool_step returns", OF u]] less.prems(2) by auto
    from less.hyps [OF pool_step_work [OF u] pool_inv_own [OF u less.prems(1)] this less.prems(3)] u
    show ?thesis by (meson converse_rtranclp_into_rtranclp)
  next
    case False
    with pool_stuck [OF less.prems(1,2)] less.prems(3) show ?thesis by blast
  qed
qed

section \<open>Properties\<close>

text \<open>Every task pushed is either still queued or was taken by exactly one thread, in the order of the
  pushes, and is processed once; whatever the interleaving, and with spurious wakeups.\<close>

lemma pool_takes_each_once:
  assumes "reachable (pool_init n) (pool_moves returns spur) s"
  shows "tp_pushed s = tp_taken s @ tp_queue s \<and> mset (tp_taken s) = mset (tp_done s) + run_tasks s"
  using pool_reached [OF assms] by (simp add: pool_inv_def)

definition idle_pool :: pool where
  "idle_pool = new_ThreadPool (replicate NUM True)"

lemma idle_reachable: "reachable (pool_init NUM) (pool_moves returns spur) idle_pool"
  by (rule reach_init) (auto simp: pool_init_def idle_pool_def intro: exI [of _ "replicate NUM True"])

lemma busy_reachable: "reachable (pool_init NUM) (pool_moves returns spur) (push_task 4 idle_pool)"
  using idle_reachable PushTask by (rule reach_step)

text \<open>No wakeup is lost although \<open>PushTask\<close> signals outside the mutex: while any thread sleeps, every
  queued task has a signal to come or a thread that is awake and about to look at the queue.\<close>

lemma pool_no_lost_wakeup:
  assumes "reachable (pool_init n) (pool_moves returns spur) s" and "T_Blocked \<in> set (tp_threads s)"
  shows "length (tp_queue s) \<le> tp_signals s + ready_threads s"
  using pool_reached [OF assms(1)] assms(2) by (simp add: pool_inv_def)

text \<open>With at least one thread and tasks that all return, the pool alone finishes: its runs are bounded,
  and there is one after which the queue is empty and every pushed task has been processed.\<close>

lemma pool_finishes:
  assumes "reachable (pool_init n) (pool_moves returns spur) s" and "tp_threads s \<noteq> []"
    and "\<forall>t. returns t"
  shows "(\<exists>t. (pool_step returns)\<^sup>*\<^sup>* s t \<and> tp_queue t = [] \<and> mset (tp_done t) = mset (tp_pushed s)) \<and>
    (\<forall>k t. (pool_step returns ^^ k) s t \<longrightarrow> k \<le> pool_work s)"
proof -
  have inv: "pool_inv s" by (rule pool_reached [OF assms(1)])
  from pool_rests [OF this assms(2,3)] obtain t where t: "(pool_step returns)\<^sup>*\<^sup>* s t"
    "tp_queue t = []" "run_tasks t = {#}" by blast
  have "mset (tp_done t) = mset (tp_pushed s)"
    using pool_inv_run [OF t(1) inv] pool_run_frame [OF t(1)] t(2,3) by (simp add: pool_inv_def)
  with t pool_run_work show ?thesis by (meson add_leD1)
qed

text \<open>When every thread processes a task that never returns, as a request for a program that waits for
  input that does not come, no task is taken any more, whatever is pushed.\<close>

lemma pool_starves:
  assumes "\<forall>x\<in>set (tp_threads s). \<exists>t. x = T_Run t \<and> \<not> returns t"
    and "(pool_moves returns spur)\<^sup>*\<^sup>* s u"
  shows "tp_threads u = tp_threads s \<and> tp_taken u = tp_taken s \<and> tp_done u = tp_done s"
  using assms(2)
proof (induction rule: rtranclp_induct)
  case (step t u)
  have stuck: "\<exists>y. tp_threads t ! i = T_Run y \<and> \<not> returns y" if "i < length (tp_threads t)" for i
    using assms(1) step.IH that by simp
  from step.hyps(2) have "tp_threads u = tp_threads t \<and> tp_taken u = tp_taken t \<and> tp_done u = tp_done t"
  proof (cases rule: pool_moves.cases)
    case own_step
    then show ?thesis
      by (cases rule: pool_step.cases) (use stuck in \<open>force+\<close>)
  next
    case (spurious i)
    with stuck [of i] show ?thesis by auto
  qed (simp add: push_task_def)
  with step.IH show ?case by simp
qed simp

end
