(* ===== verification/Server.thy ===== *)
theory Server
  imports Serving Pool "HOL-Library.Word"
begin

text \<open>
  The start of the program and its accept loop: \<open>http/main.cc\<close>, \<open>http/HttpServer.hpp\<close>,
  \<open>http/TcpServer.hpp\<close>, \<open>http/Task.hpp\<close>, and the double-checked \<open>getinstance\<close> that \<open>TcpServer\<close> and
  \<open>ThreadPool\<close> share, as a step relation of the threads that call it.
\<close>

unbundle bit_operations_syntax

section \<open>TcpServer\<close>

definition BACKLOG :: int where "BACKLOG = 5"
definition PORT :: int where "PORT = 8081"

record TcpServer =
  ts_port :: int
  ts_listen_sock :: int

definition new_TcpServer :: "int \<Rightarrow> TcpServer" where
  "new_TcpServer port = \<lparr>ts_port = port, ts_listen_sock = -1\<rparr>"

record sockaddr_in =
  sin_family :: int
  sin_port :: "16 word"
  sin_addr :: "32 word"

text \<open>\<open>htons\<close> on a little-endian machine: the \<open>int\<close> is converted to 16 bits, and its bytes are swapped.\<close>

definition swap16 :: "16 word \<Rightarrow> 16 word" where
  "swap16 w = (push_bit 8 w OR drop_bit 8 w)"

definition htons :: "int \<Rightarrow> 16 word" where
  "htons port = swap16 (of_int port)"

text \<open>The results of the system calls.\<close>

record net =
  nt_socket :: int
  nt_bind :: "int \<Rightarrow> sockaddr_in \<Rightarrow> int"
  nt_listen :: "int \<Rightarrow> int \<Rightarrow> int"

text \<open>Each step returns the changed server, or the status the program exits with.\<close>

definition Socket :: "net \<Rightarrow> TcpServer \<Rightarrow> nat + TcpServer" where
  "Socket n ts = (if nt_socket n < 0 then Inl 1 else Inr (ts\<lparr>ts_listen_sock := nt_socket n\<rparr>))"

definition local_addr :: "int \<Rightarrow> sockaddr_in" where
  "local_addr port = \<lparr>sin_family = 2, sin_port = htons port, sin_addr = 0\<rparr>"

definition Bind :: "net \<Rightarrow> TcpServer \<Rightarrow> nat + TcpServer" where
  "Bind n ts = (if nt_bind n (ts_listen_sock ts) (local_addr (ts_port ts)) < 0 then Inl 2 else Inr ts)"

definition Listen :: "net \<Rightarrow> TcpServer \<Rightarrow> nat + TcpServer" where
  "Listen n ts = (if nt_listen n (ts_listen_sock ts) BACKLOG < 0 then Inl 3 else Inr ts)"

definition InitServer :: "net \<Rightarrow> TcpServer \<Rightarrow> nat + TcpServer" where
  "InitServer n ts =
     (case Socket n ts of
        Inl c \<Rightarrow> Inl c
      | Inr ts1 \<Rightarrow> (case Bind n ts1 of Inl c \<Rightarrow> Inl c | Inr ts2 \<Rightarrow> Listen n ts2))"

section \<open>The double-checked getinstance\<close>

text \<open>
  A thread: at the first test of the pointer; waiting for the mutex; at the second test; constructed
  and published, initialising; about to release the mutex; returned.
\<close>

datatype get_pc = G_Check | G_Lock | G_Recheck | G_Init | G_Unlock | G_Return

record 'a single =
  si_instance :: "'a option"
  si_made :: nat
  si_holder :: "nat option"
  si_ready :: bool
  si_pcs :: "get_pc list"

definition single_init :: "nat \<Rightarrow> 'a single \<Rightarrow> bool" where
  "single_init n s \<longleftrightarrow> s = \<lparr>si_instance = None, si_made = 0, si_holder = None, si_ready = False,
     si_pcs = replicate n G_Check\<rparr>"

text \<open>
  \<open>init x\<close> is the object after its initialisation, \<open>None\<close> when that ends the program.
\<close>

inductive get_step :: "'a \<Rightarrow> ('a \<Rightarrow> 'a option) \<Rightarrow> 'a single \<Rightarrow> 'a single \<Rightarrow> bool"
  for new :: 'a and init :: "'a \<Rightarrow> 'a option" where
  check_set: "i < length (si_pcs s) \<Longrightarrow> si_pcs s ! i = G_Check \<Longrightarrow> si_instance s = Some x \<Longrightarrow>
    get_step new init s (s\<lparr>si_pcs := (si_pcs s)[i := G_Return]\<rparr>)"
| check_null: "i < length (si_pcs s) \<Longrightarrow> si_pcs s ! i = G_Check \<Longrightarrow> si_instance s = None \<Longrightarrow>
    get_step new init s (s\<lparr>si_pcs := (si_pcs s)[i := G_Lock]\<rparr>)"
| lock: "i < length (si_pcs s) \<Longrightarrow> si_pcs s ! i = G_Lock \<Longrightarrow> si_holder s = None \<Longrightarrow>
    get_step new init s (s\<lparr>si_holder := Some i, si_pcs := (si_pcs s)[i := G_Recheck]\<rparr>)"
| construct: "i < length (si_pcs s) \<Longrightarrow> si_pcs s ! i = G_Recheck \<Longrightarrow> si_instance s = None \<Longrightarrow>
    get_step new init s (s\<lparr>si_instance := Some new, si_made := si_made s + 1,
      si_pcs := (si_pcs s)[i := G_Init]\<rparr>)"
| found: "i < length (si_pcs s) \<Longrightarrow> si_pcs s ! i = G_Recheck \<Longrightarrow> si_instance s = Some x \<Longrightarrow>
    get_step new init s (s\<lparr>si_pcs := (si_pcs s)[i := G_Unlock]\<rparr>)"
| initialise: "i < length (si_pcs s) \<Longrightarrow> si_pcs s ! i = G_Init \<Longrightarrow> si_instance s = Some x \<Longrightarrow>
    init x = Some y \<Longrightarrow>
    get_step new init s (s\<lparr>si_instance := Some y, si_ready := True, si_pcs := (si_pcs s)[i := G_Unlock]\<rparr>)"
| unlock: "i < length (si_pcs s) \<Longrightarrow> si_pcs s ! i = G_Unlock \<Longrightarrow>
    get_step new init s (s\<lparr>si_holder := None, si_pcs := (si_pcs s)[i := G_Return]\<rparr>)"

inductive_cases get_stepE: "get_step new init s t"

definition holding :: "get_pc \<Rightarrow> bool" where
  "holding pc \<longleftrightarrow> pc = G_Recheck \<or> pc = G_Init \<or> pc = G_Unlock"

text \<open>
  The mutex has the holder it should have, the object is made at most once, and while it is not ready
  the thread that made it still holds the mutex.
\<close>

definition single_inv :: "'a \<Rightarrow> ('a \<Rightarrow> 'a option) \<Rightarrow> 'a single \<Rightarrow> bool" where
  "single_inv new init s \<longleftrightarrow>
     (\<forall>i<length (si_pcs s). holding (si_pcs s ! i) \<longleftrightarrow> si_holder s = Some i) \<and>
     (\<forall>i. si_holder s = Some i \<longrightarrow> i < length (si_pcs s)) \<and>
     si_made s = (if si_instance s = None then 0 else 1) \<and>
     (\<forall>i<length (si_pcs s). si_pcs s ! i \<in> {G_Init, G_Unlock, G_Return} \<longrightarrow> si_instance s \<noteq> None) \<and>
     (if si_ready s then si_instance s = init new \<and> si_instance s \<noteq> None \<and>
        (\<forall>i<length (si_pcs s). si_pcs s ! i \<noteq> G_Init)
      else si_instance s = None \<or>
        (si_instance s = Some new \<and> (\<exists>i<length (si_pcs s). si_pcs s ! i = G_Init)))"

lemma single_inv_init: "single_init n s \<Longrightarrow> single_inv new init s"
  by (simp add: single_init_def single_inv_def holding_def)

lemma single_holder:
  "single_inv new init s \<Longrightarrow> i < length (si_pcs s) \<Longrightarrow> holding (si_pcs s ! i) \<Longrightarrow>
   j < length (si_pcs s) \<Longrightarrow> holding (si_pcs s ! j) \<Longrightarrow> j = i"
  by (auto simp: single_inv_def)

lemma single_inv_step:
  assumes "single_inv new init s" and "get_step new init s t"
  shows "single_inv new init t"
  using assms(2,1)
proof (cases rule: get_step.cases)
  case (check_set i x)
  with assms(1) show ?thesis
    by (auto simp: single_inv_def nth_list_update holding_def split: if_splits)
next
  case (check_null i)
  with assms(1) show ?thesis
    by (auto simp: single_inv_def nth_list_update holding_def split: if_splits)
next
  case (lock i)
  with assms(1) show ?thesis
    by (auto simp: single_inv_def nth_list_update holding_def split: if_splits)
next
  case (construct i)
  with assms(1) show ?thesis
    by (auto simp: single_inv_def nth_list_update holding_def split: if_splits)
next
  case (found i x)
  have "si_pcs s ! j \<noteq> G_Init" if j: "j < length (si_pcs s)" for j
  proof
    assume g: "si_pcs s ! j = G_Init"
    with single_holder [OF assms(1), of i j] found j have "j = i" by (simp add: holding_def)
    with g found show False by simp
  qed
  with found assms(1) show ?thesis
    by (auto simp: single_inv_def nth_list_update holding_def split: if_splits)
next
  case (initialise i x y)
  have "si_pcs s ! j \<noteq> G_Init" if "j < length (si_pcs s)" "j \<noteq> i" for j
    using single_holder [OF assms(1), of i j] initialise that by (auto simp: holding_def)
  with initialise assms(1) show ?thesis
    by (auto simp: single_inv_def nth_list_update holding_def split: if_splits)
next
  case (unlock i)
  have "\<not> holding (si_pcs s ! j)" if "j < length (si_pcs s)" "j \<noteq> i" for j
    using single_holder [OF assms(1), of i j] unlock that by (auto simp: holding_def)
  moreover from this have "si_pcs s ! j \<noteq> G_Init" if "j < length (si_pcs s)" for j
    using unlock(3) that by (cases "j = i") (auto simp: holding_def)
  ultimately show ?thesis using unlock assms(1)
    by (auto simp: single_inv_def nth_list_update holding_def split: if_splits)
qed

interpretation single_sys: invariant_system "single_init n" "get_step new init" "single_inv new init"
  for n new init
  by unfold_locales (fact single_inv_init, fact single_inv_step)

lemma get_step_threads: "get_step new init s t \<Longrightarrow> length (si_pcs t) = length (si_pcs s)"
  by (erule get_stepE) simp_all

lemma reachable_threads:
  "reachable (single_init n) (get_step new init) s \<Longrightarrow> length (si_pcs s) = n"
  by (induction rule: reachable.induct) (auto simp: single_init_def get_step_threads)

text \<open>The two classes that use it.\<close>

definition TcpServer_getinstance :: "net \<Rightarrow> int \<Rightarrow> TcpServer single \<Rightarrow> TcpServer single \<Rightarrow> bool" where
  "TcpServer_getinstance n port =
     get_step (new_TcpServer port)
       (\<lambda>ts. case InitServer n ts of Inl c \<Rightarrow> None | Inr ts' \<Rightarrow> Some ts')"

text \<open>The result of \<open>InitThreadPool\<close> is not looked at.\<close>

definition ThreadPool_getinstance :: "bool list \<Rightarrow> pool single \<Rightarrow> pool single \<Rightarrow> bool" where
  "ThreadPool_getinstance creates =
     get_step (new_ThreadPool []) (\<lambda>tp. Some (tp\<lparr>tp_threads := fst (InitThreadPool creates)\<rparr>))"

section \<open>The program\<close>

definition Task_ProcessOn :: "int \<Rightarrow> rxs \<Rightarrow> kernel \<Rightarrow> int \<Rightarrow> kernel option" where
  "Task_ProcessOn junk sk k sock = HandlerRequest junk sock sk k"

text \<open>The tasks the accept loop pushes, given the results of \<open>accept\<close>.\<close>

fun Loop :: "int list \<Rightarrow> int list" where
  "Loop [] = []"
| "Loop (sock # socks) = (if sock < 0 then Loop socks else sock # Loop socks)"

datatype outcome = Exit nat bytes | Serving TcpServer

definition Usage :: "bytes \<Rightarrow> bytes" where
  "Usage proc = ''Usage:'' @ [LF, CHR 0x09] @ proc @ '' port'' @ [LF]"

definition main :: "bytes list \<Rightarrow> net \<Rightarrow> outcome" where
  "main argv n =
     (if length argv \<noteq> 2 then Exit 4 (Usage (hd argv))
      else (let port = atoi (c_str (argv ! 1))
            in case InitServer n (new_TcpServer port) of
                 Inl c \<Rightarrow> Exit c [] | Inr ts \<Rightarrow> Serving ts))"

section \<open>Facts\<close>

lemma swap16_swap16: "swap16 (swap16 w) = w"
  unfolding swap16_def by (rule bit_word_eqI) (auto simp: bit_simps)

lemma InitServer_cases:
  "InitServer n (new_TcpServer port) =
     (if nt_socket n < 0 then Inl 1
      else if nt_bind n (nt_socket n) (local_addr port) < 0 then Inl 2
      else if nt_listen n (nt_socket n) BACKLOG < 0 then Inl 3
      else Inr \<lparr>ts_port = port, ts_listen_sock = nt_socket n\<rparr>)"
  by (simp add: InitServer_def Socket_def Bind_def Listen_def new_TcpServer_def)

lemma Loop_filter: "Loop socks = filter (\<lambda>s. 0 \<le> s) socks"
  by (induction socks) auto

lemmas single_reached = single_sys.reachable_inv

section \<open>Properties\<close>

text \<open>C27: started with the decimal text of a port, the program listens on exactly that port: the bytes in
  \<open>sin_port\<close>, read in network order, are the port modulo 65536; the exit status is 1, 2 or 3 when
  \<open>socket\<close>, \<open>bind\<close> or \<open>listen\<close> fails, in this order.\<close>

theorem main_starts:
  assumes "- (2 ^ 31) \<le> port" and "port < 2 ^ 31"
  shows "main [proc, string_of_int port] n =
     (if nt_socket n < 0 then Exit 1 []
      else if nt_bind n (nt_socket n) (local_addr port) < 0 then Exit 2 []
      else if nt_listen n (nt_socket n) BACKLOG < 0 then Exit 3 []
      else Serving \<lparr>ts_port = port, ts_listen_sock = nt_socket n\<rparr>) \<and>
    uint (swap16 (sin_port (local_addr port))) = port mod 65536"
proof -
  have "atoi (c_str (string_of_int port)) = port"
    using assms by (simp add: c_str_id string_of_int_no_nul atoi_string_of_int)
  moreover have "uint (swap16 (sin_port (local_addr port))) = port mod 65536"
    by (simp add: local_addr_def htons_def swap16_swap16 uint_word_of_int)
  ultimately show ?thesis by (simp add: main_def InitServer_cases)
qed

theorem main_starts_witness:
  "uint (swap16 (sin_port (local_addr 73617))) = 8081"
  using main_starts [of 73617 "''httpserver''" undefined] by simp

text \<open>C28: however many threads call \<open>getinstance\<close> and however they interleave, at most one object is
  made, and whoever returns gets it.\<close>

theorem getinstance_makes_one:
  assumes "reachable (single_init n) (get_step new init) s" and "i < n"
  shows "si_made s \<le> 1 \<and> (si_pcs s ! i = G_Return \<longrightarrow> si_instance s \<noteq> None)"
  using single_reached [OF assms(1)] reachable_threads [OF assms(1)] assms(2)
  by (auto simp: single_inv_def)

text \<open>Two threads that call \<open>ThreadPool::getinstance\<close>, up to the construction by the first.\<close>

definition pool_get :: "pool single \<Rightarrow> pool single \<Rightarrow> bool" where
  "pool_get = ThreadPool_getinstance (replicate NUM True)"

definition pool_single :: "get_pc list \<Rightarrow> nat option \<Rightarrow> pool option \<Rightarrow> pool single" where
  "pool_single pcs holder inst = \<lparr>si_instance = inst, si_made = (if inst = None then 0 else 1),
     si_holder = holder, si_ready = False, si_pcs = pcs\<rparr>"

lemma pool_single_published:
  "reachable (single_init 2) pool_get (pool_single [G_Init, G_Check] (Some 0) (Some (new_ThreadPool [])))"
proof -
  note defs = pool_get_def ThreadPool_getinstance_def
  have 0: "reachable (single_init 2) pool_get (pool_single [G_Check, G_Check] None None)"
    by (rule reach_init) (simp add: single_init_def pool_single_def numeral_2_eq_2)
  have "pool_get (pool_single [G_Check, G_Check] None None)
      ((pool_single [G_Check, G_Check] None None)\<lparr>si_pcs := [G_Check, G_Check][0 := G_Lock]\<rparr>)"
    unfolding defs using check_null [of 0 "pool_single [G_Check, G_Check] None None"]
    by (simp add: pool_single_def)
  from reach_step [OF 0 this]
  have 1: "reachable (single_init 2) pool_get (pool_single [G_Lock, G_Check] None None)"
    by (simp add: pool_single_def)
  have "pool_get (pool_single [G_Lock, G_Check] None None)
      ((pool_single [G_Lock, G_Check] None None)\<lparr>si_holder := Some 0,
         si_pcs := [G_Lock, G_Check][0 := G_Recheck]\<rparr>)"
    unfolding defs using lock [of 0 "pool_single [G_Lock, G_Check] None None"]
    by (simp add: pool_single_def)
  from reach_step [OF 1 this]
  have 2: "reachable (single_init 2) pool_get (pool_single [G_Recheck, G_Check] (Some 0) None)"
    by (simp add: pool_single_def)
  have "pool_get (pool_single [G_Recheck, G_Check] (Some 0) None)
      (pool_single [G_Init, G_Check] (Some 0) (Some (new_ThreadPool [])))"
    unfolding defs using construct [of 0 "pool_single [G_Recheck, G_Check] (Some 0) None"]
    by (simp add: pool_single_def)
  from reach_step [OF 2 this] show ?thesis .
qed

theorem getinstance_makes_one_witness:
  "si_made (pool_single [G_Init, G_Check] (Some 0) (Some (new_ThreadPool []))) \<le> 1"
  using getinstance_makes_one [OF pool_single_published [unfolded pool_get_def ThreadPool_getinstance_def],
      of 0] by simp

text \<open>The pointer is published before the object is initialised: a second thread can return from
  \<open>ThreadPool::getinstance\<close> with a pool that has no thread yet.\<close>

lemma getinstance_returns_early:
  "\<exists>s tp. reachable (single_init 2) pool_get s \<and> si_pcs s ! 1 = G_Return \<and>
     si_instance s = Some tp \<and> tp_threads tp = []"
proof -
  let ?s = "pool_single [G_Init, G_Check] (Some 0) (Some (new_ThreadPool []))"
  let ?t = "?s\<lparr>si_pcs := [G_Init, G_Check][1 := G_Return]\<rparr>"
  have "pool_get ?s ?t"
    unfolding pool_get_def ThreadPool_getinstance_def using check_set [of 1 ?s]
    by (simp add: pool_single_def)
  from reach_step [OF pool_single_published this] have "reachable (single_init 2) pool_get ?t" .
  then show ?thesis
    by (intro exI [of _ ?t] exI [of _ "new_ThreadPool []"])
       (simp add: pool_single_def new_ThreadPool_def InitThreadPool_def)
qed

text \<open>With a single calling thread, as in this program, \<open>getinstance\<close> returns the initialised object.\<close>

lemma getinstance_single_thread:
  assumes "reachable (single_init 1) (get_step new init) s" and "si_pcs s = [G_Return]"
  shows "si_instance s = init new \<and> si_instance s \<noteq> None"
  using single_reached [OF assms(1)] assms(2) by (auto simp: single_inv_def split: if_splits)

text \<open>Every accepted connection is served exactly once: when the accept loop has pushed what \<open>accept\<close>
  returned, and every request returns, the pool can finish, and then the tasks processed are the
  non-negative descriptors \<open>accept\<close> returned, each once.\<close>

lemma accepted_all_served:
  assumes "reachable (pool_init n) (pool_moves returns spur) s" and "tp_threads s \<noteq> []"
    and "returns = (\<lambda>sock. Task_ProcessOn junk (sk sock) k sock \<noteq> None)"
    and "\<forall>sock. \<exists>k'. Task_ProcessOn junk (sk sock) k sock = Some k'"
    and "tp_pushed s = Loop socks"
  shows "\<exists>t. (pool_step returns)\<^sup>*\<^sup>* s t \<and> tp_queue t = [] \<and>
    mset (tp_done t) = mset (filter (\<lambda>c. 0 \<le> c) socks)"
proof -
  have ret: "\<forall>t. returns t" using assms(3,4) by auto
  have inv: "pool_inv s" by (rule pool_reached [OF assms(1)])
  from pool_rests [OF this assms(2) ret] obtain t where t: "(pool_step returns)\<^sup>*\<^sup>* s t"
    "tp_queue t = []" "run_tasks t = {#}" by blast
  moreover have "mset (tp_done t) = mset (Loop socks)"
    using pool_inv_run [OF t(1) inv] pool_run_frame [OF t(1)] t(2,3) assms(5) by (simp add: pool_inv_def)
  ultimately show ?thesis by (metis Loop_filter)
qed

lemma garbage_handled: "Task_ProcessOn junk (rx_bytes ''x'') k sock = Some (k_close sock k)"
  by (simp add: Task_ProcessOn_def HandlerRequest_def RecvHttpRequest_def RecvHttpRequestLine_def
      ReadLine_def sock_simps new_EndPoint_def new_HttpRequest_def IsStop_def)

end
