(* ===== verification/Concurrent_Server.thy ===== *)
theory Concurrent_Server
  imports Server
begin

text \<open>
  The whole server: the accept loop of \<open>http/HttpServer.hpp\<close>, the threads of \<open>http/ThreadPool.hpp\<close> and
  the handlers of \<open>http/Protocol.hpp\<close> running at the same time on one descriptor table. Descriptor
  numbers are given out and used again while other connections are in progress; the sequential
  theories say what one connection gets when it has the process to itself, this one that it gets the
  same among the others.
\<close>

section \<open>A handler in stages\<close>

text \<open>
  \<open>HandlerRequest\<close>, cut where other threads can change the descriptor table: before it has received,
  after it has received, built and sent, and after the destructor of \<open>EndPoint\<close>. A client that stays
  connected without sending the rest of its request (\<open>None\<close>) keeps its handler in \<open>recv\<close>, a program that
  never answers keeps it in \<open>BuildHttpResponse\<close>.
\<close>

datatype stage = St_Recv | St_Build EndPoint | St_Send EndPoint | St_Close EndPoint | St_Done

fun handle :: "int \<Rightarrow> rxs option \<Rightarrow> int \<Rightarrow> stage \<Rightarrow> kernel \<Rightarrow> (stage \<times> kernel) option" where
  "handle junk rx sock St_Recv k =
     (case rx of
        None \<Rightarrow> None
      | Some sk \<Rightarrow>
          let ep = RecvHttpRequest (new_EndPoint junk sock sk)
          in Some (if \<not> IsStop ep then St_Build ep else St_Close ep, k))"
| "handle junk rx sock (St_Build ep) k =
     (case BuildHttpResponse ep k of None \<Rightarrow> None | Some (ep', k') \<Rightarrow> Some (St_Send ep', k'))"
| "handle junk rx sock (St_Send ep) k = Some (St_Close ep, SendHttpResponse ep k)"
| "handle junk rx sock (St_Close ep) k = Some (St_Done, k_close (ep_sock ep) k)"
| "handle junk rx sock St_Done k = None"

fun is_done :: "stage \<Rightarrow> bool" where
  "is_done St_Done = True"
| "is_done _ = False"

fun run_stages :: "nat \<Rightarrow> int \<Rightarrow> rxs option \<Rightarrow> int \<Rightarrow> stage \<times> kernel \<Rightarrow> (stage \<times> kernel) option" where
  "run_stages 0 junk rx sock x = Some x"
| "run_stages (Suc n) junk rx sock (st, k) =
     (if is_done st then Some (st, k)
      else case handle junk rx sock st k of None \<Rightarrow> None | Some y \<Rightarrow> run_stages n junk rx sock y)"

text \<open>Without other threads, the stages are the handler.\<close>

lemma stages_alone:
  "run_stages 4 junk (Some sk) sock (St_Recv, k) =
     map_option (\<lambda>k'. (St_Done, k')) (HandlerRequest junk sock sk k)"
proof (cases "IsStop (RecvHttpRequest (new_EndPoint junk sock sk))")
  case True
  then show ?thesis by (simp add: numeral_eq_Suc HandlerRequest_def Let_def)
next
  case False
  then show ?thesis
    by (cases "BuildHttpResponse (RecvHttpRequest (new_EndPoint junk sock sk)) k")
       (auto simp: numeral_eq_Suc HandlerRequest_def Let_def)
qed

section \<open>The states of the server\<close>

text \<open>
  The accept loop is about to call \<open>accept\<close>, or about to push the task of the connection it has just
  accepted. Connections are numbered in the order in which they are accepted; a task of the pool is
  the number of its connection, and \<open>sv_sock\<close> holds the \<open>sock\<close> member of the task. \<open>sv_conn\<close> is the
  connection behind an open descriptor, \<open>sv_wire\<close> what has been sent to a client, \<open>sv_fails\<close> how
  many calls of \<open>accept\<close> are still going to fail.
\<close>

datatype accept_pc = M_Accept | M_Push nat

record server =
  sv_main :: accept_pc
  sv_next :: nat
  sv_fails :: nat
  sv_pool :: pool
  sv_sock :: "nat \<Rightarrow> int"
  sv_stage :: "nat \<Rightarrow> stage"
  sv_kernel :: kernel
  sv_conn :: "int \<rightharpoonup> nat"
  sv_wire :: "nat \<Rightarrow> bytes"

text \<open>
  A client: the uninitialised member of its \<open>HttpRequest\<close>, and what \<open>recv\<close> returns on its connection
  until the client closes it, \<open>None\<close> when a call of \<open>recv\<close> never returns.
\<close>

type_synonym client = "int \<times> rxs option"

definition start_server :: "bool list \<Rightarrow> nat \<Rightarrow> kernel \<Rightarrow> server" where
  "start_server creates fails k =
     \<lparr>sv_main = M_Accept, sv_next = 0, sv_fails = fails, sv_pool = new_ThreadPool creates,
      sv_sock = (\<lambda>_. -1), sv_stage = (\<lambda>_. St_Recv), sv_kernel = k, sv_conn = Map.empty,
      sv_wire = (\<lambda>_. [])\<rparr>"

definition server_init :: "kernel \<Rightarrow> server \<Rightarrow> bool" where
  "server_init k s \<longleftrightarrow> (\<exists>creates fails. s = start_server creates fails k)"

definition input_of :: "client list \<Rightarrow> server \<Rightarrow> nat \<Rightarrow> rxs option" where
  "input_of clients s c =
     (case sv_conn s (sv_sock s c) of Some d \<Rightarrow> snd (clients ! d) | None \<Rightarrow> Some [])"

text \<open>The descriptor a stage sends to, and where its bytes arrive.\<close>

fun stage_fd :: "int \<Rightarrow> stage \<Rightarrow> int" where
  "stage_fd sock (St_Send ep) = ep_sock ep"
| "stage_fd sock _ = sock"

definition deliver :: "int \<Rightarrow> bytes \<Rightarrow> server \<Rightarrow> nat \<Rightarrow> bytes" where
  "deliver fd out s =
     (case sv_conn s fd of Some d \<Rightarrow> (sv_wire s)(d := sv_wire s d @ out) | None \<Rightarrow> sv_wire s)"

section \<open>Steps\<close>

text \<open>\<open>accept\<close> returns the lowest free descriptor; it fails when the table is full, or when it does.\<close>

definition accepted :: "server \<Rightarrow> server" where
  "accepted s =
     (case k_alloc FdSock (sv_kernel s) of (fd, k) \<Rightarrow>
        s\<lparr>sv_main := M_Push (sv_next s), sv_next := Suc (sv_next s),
          sv_sock := (sv_sock s)(sv_next s := fd), sv_kernel := k,
          sv_conn := (sv_conn s)(fd \<mapsto> sv_next s)\<rparr>)"

text \<open>One stage of connection \<open>c\<close>; the connections behind descriptors it has closed are gone.\<close>

definition advanced :: "nat \<Rightarrow> stage \<Rightarrow> kernel \<Rightarrow> server \<Rightarrow> server" where
  "advanced c st k s =
     s\<lparr>sv_stage := (sv_stage s)(c := st), sv_kernel := k\<lparr>k_wire := []\<rparr>,
       sv_conn := sv_conn s |` (fst ` set (k_fds k)),
       sv_wire := deliver (stage_fd (sv_sock s c) (sv_stage s c)) (k_wire k) s\<rparr>"

abbreviation finished :: "server \<Rightarrow> int \<Rightarrow> bool" where
  "finished s t \<equiv> is_done (sv_stage s (nat t))"

inductive server_step :: "client list \<Rightarrow> server \<Rightarrow> server \<Rightarrow> bool" for clients :: "client list" where
  accept: "sv_main s = M_Accept \<Longrightarrow> sv_next s < length clients \<Longrightarrow>
    length (k_fds (sv_kernel s)) < k_max (sv_kernel s) \<Longrightarrow> server_step clients s (accepted s)"
| accept_fails: "sv_main s = M_Accept \<Longrightarrow> sv_fails s = Suc n \<Longrightarrow>
    server_step clients s (s\<lparr>sv_fails := n\<rparr>)"
| push: "sv_main s = M_Push c \<Longrightarrow>
    server_step clients s (s\<lparr>sv_main := M_Accept, sv_pool := push_task (int c) (sv_pool s)\<rparr>)"
| pool: "pool_step (finished s) (sv_pool s) p \<Longrightarrow> server_step clients s (s\<lparr>sv_pool := p\<rparr>)"
| handler: "T_Run (int c) \<in> set (tp_threads (sv_pool s)) \<Longrightarrow>
    handle (fst (clients ! c)) (input_of clients s c) (sv_sock s c) (sv_stage s c) (sv_kernel s) =
      Some (st, k) \<Longrightarrow>
    server_step clients s (advanced c st k s)"

inductive_cases server_stepE: "server_step clients s t"

section \<open>What a client should get\<close>

text \<open>
  The answer to a client in the initial kernel: nothing when its request is not received, and \<open>None\<close>
  when it stays silent or its program never comes back. It is what the client gets from a handler that
  runs alone.
\<close>

definition received_by :: "client \<Rightarrow> int \<Rightarrow> EndPoint" where
  "received_by cl sock = RecvHttpRequest (new_EndPoint (fst cl) sock (the (snd cl)))"

definition reply :: "client \<Rightarrow> kernel \<Rightarrow> bytes option" where
  "reply cl k =
     (if snd cl = None then None
      else let ep = received_by cl 0 in if IsStop ep then Some [] else respond (ep_request ep) k)"

definition client_fits :: "kernel \<Rightarrow> client \<Rightarrow> bool" where
  "client_fits k cl \<longleftrightarrow> snd cl = None \<or>
     int (length (the (snd cl))) < 2 ^ 31 \<and> output_fits (ep_request (received_by cl 0)) k"

definition alone :: "client \<Rightarrow> kernel \<Rightarrow> bytes \<Rightarrow> bool" where
  "alone cl k out \<longleftrightarrow>
     (\<exists>sk. snd cl = Some sk \<and>
        (\<forall>sock. \<exists>k'. HandlerRequest (fst cl) sock sk k = Some k' \<and> k_wire k' = out))"

text \<open>Room for every connection to have its socket and a file open.\<close>

definition roomy :: "nat \<Rightarrow> kernel \<Rightarrow> bool" where
  "roomy n k \<longleftrightarrow> calm k \<and> k_writes k = [] \<and> k_wire k = [] \<and> distinct (map fst (k_fds k)) \<and>
     length (k_fds k) + 2 * n + 3 < k_max k"

lemma received_by_sock:
  shows "ep_request (received_by cl sock) = ep_request (received_by cl 0)"
    and "IsStop (received_by cl sock) = IsStop (received_by cl 0)"
proof -
  have "received_by cl sock = (received_by cl 0)\<lparr>ep_sock := sock\<rparr>"
    unfolding received_by_def by (rule RecvHttpRequest_any_sock)
  then show "ep_request (received_by cl sock) = ep_request (received_by cl 0)"
    and "IsStop (received_by cl sock) = IsStop (received_by cl 0)" by (simp_all add: IsStop_def)
qed

lemma reply_alone:
  assumes "roomy n k" and "client_fits k cl" and "reply cl k = Some out"
  shows "alone cl k out"
proof -
  from assms(3) obtain sk where sk: "snd cl = Some sk" by (auto simp: reply_def split: if_splits)
  from assms(1) have calm: "calm k" and wire: "k_wire k = []" by (simp_all add: roomy_def)
  have "\<exists>k'. HandlerRequest (fst cl) sock sk k = Some k' \<and> k_wire k' = out" for sock
  proof -
    let ?ep = "received_by cl sock"
    have ep: "?ep = RecvHttpRequest (new_EndPoint (fst cl) sock sk)" by (simp add: received_by_def sk)
    from assms(2) have fits: "int (length sk) < 2 ^ 31" "output_fits (ep_request ?ep) k"
      by (simp_all add: client_fits_def received_by_sock [of cl sock] sk)
    show ?thesis
    proof (cases "IsStop ?ep")
      case True
      with assms(3) wire sk show ?thesis
        by (simp add: reply_def received_by_sock [of cl sock] HandlerRequest_def Let_def flip: ep)
    next
      case False
      with assms(3) sk have "respond (ep_request ?ep) k = Some out"
        by (simp add: reply_def received_by_sock [of cl sock])
      with handled [OF calm fits(1) ep False fits(2)] wire show ?thesis by auto
    qed
  qed
  with sk show ?thesis by (auto simp: alone_def)
qed

section \<open>The descriptor table, counted\<close>

text \<open>The open descriptors as a multiset; an invariant of the table is a sum of what its users hold.\<close>

definition keys :: "kernel \<Rightarrow> int multiset" where
  "keys k = mset (map fst (k_fds k))"

abbreviation distinct_keys :: "kernel \<Rightarrow> bool" where
  "distinct_keys k \<equiv> distinct (map fst (k_fds k))"

definition restricted :: "int multiset \<Rightarrow> kernel \<Rightarrow> (int \<times> fd_obj) list" where
  "restricted B k = filter (\<lambda>p. fst p \<in># B) (k_fds k)"

lemma keys_once: "distinct_keys k \<Longrightarrow> count (keys k) fd \<le> 1"
  by (simp add: keys_def distinct_count_atmost_1)

lemma keys_set: "fst ` set (k_fds k) = set_mset (keys k)"
  by (simp add: keys_def)

lemma alloc_counted:
  assumes "k_alloc obj k = (fd, k')"
  shows "keys k' = add_mset fd (keys k)" and "distinct_keys k \<Longrightarrow> distinct_keys k'"
    and "B \<subseteq># keys k \<Longrightarrow> restricted B k' = restricted B k"
    and "k' = k\<lparr>k_fds := k_fds k'\<rparr>" and "fd \<notin># keys k"
proof -
  have fresh: "fd \<notin> fst ` set (k_fds k)" using k_alloc_fields(5) [OF assms] free_fd_fresh by simp
  then show new: "fd \<notin># keys k" by (simp add: keys_def)
  from assms fresh show "keys k' = add_mset fd (keys k)" and "k' = k\<lparr>k_fds := k_fds k'\<rparr>"
    and "distinct_keys k \<Longrightarrow> distinct_keys k'"
    by (auto simp: k_alloc_def Let_def keys_def)
  show "restricted B k' = restricted B k" if "B \<subseteq># keys k"
  proof -
    have "fd \<notin># B" using new that by (meson mset_subset_eqD)
    with assms show ?thesis by (auto simp: k_alloc_def Let_def restricted_def)
  qed
qed

lemma distinct_not_rest:
  assumes "distinct xs" and "mset xs = add_mset x M"
  shows "x \<notin># M"
proof
  assume "x \<in># M"
  then have "2 \<le> count (mset xs) x" by (simp only: assms(2)) (simp add: Suc_le_eq)
  moreover have "count (mset xs) x \<le> 1" using assms(1) by (simp add: distinct_count_atmost_1)
  ultimately show False by simp
qed

lemma distinct_filter_mset:
  assumes "distinct (map fst xs)" and m: "mset (map fst xs) = add_mset x M"
  shows "mset (map fst (filter (\<lambda>p. fst p \<noteq> x) xs)) = M"
proof -
  have "mset (map fst (filter (\<lambda>p. fst p \<noteq> x) xs)) = filter_mset (\<lambda>y. y \<noteq> x) (mset (map fst xs))"
    by (induction xs) auto
  also have "\<dots> = filter_mset (\<lambda>y. y \<noteq> x) M" by (simp only: m) simp
  also have "\<dots> = M"
    using distinct_not_rest [OF assms] by (auto simp: filter_mset_eq_conv)
  finally show ?thesis .
qed

lemma close_counted:
  assumes "distinct_keys k" and "keys k = add_mset fd M"
  shows "keys (k_close fd k) = M" and "distinct_keys (k_close fd k)"
    and "B \<subseteq># M \<Longrightarrow> restricted B (k_close fd k) = restricted B k"
    and "k_close fd k = k\<lparr>k_fds := k_fds (k_close fd k)\<rparr>"
proof -
  show "keys (k_close fd k) = M"
    using distinct_filter_mset [OF assms(1) assms(2)[unfolded keys_def]] by (simp add: keys_def k_close_def)
  show "distinct_keys (k_close fd k)"
    using assms(1) by (simp add: k_close_def distinct_map_filter)
  show "restricted B (k_close fd k) = restricted B k" if "B \<subseteq># M"
  proof -
    have "fd \<notin># B" using distinct_not_rest [OF assms(1) assms(2)[unfolded keys_def]] that by (meson mset_subset_eqD)
    then show ?thesis by (auto simp: restricted_def k_close_def intro!: filter_cong)
  qed
qed (simp add: k_close_def)

lemma restricted_keys: "restricted (keys k) k = k_fds k"
  by (auto simp: restricted_def keys_def filter_id_conv)

text \<open>What a restriction to \<open>B\<close> leaves the same is the same for each descriptor of \<open>B\<close>.\<close>

lemma restricted_map_of:
  assumes "restricted B k = restricted B k'" and "fd \<in># B"
  shows "map_of (k_fds k) fd = map_of (k_fds k') fd"
proof -
  have m: "map_of (filter (\<lambda>p. fst p \<in># B) xs) fd = map_of xs fd" for xs :: "(int \<times> fd_obj) list"
    using assms(2) by (induction xs) auto
  from assms(1) show ?thesis unfolding restricted_def using m by metis
qed

lemma restricted_mono:
  assumes "restricted B k = restricted B k'" and "A \<subseteq># B"
  shows "restricted A k = restricted A k'"
proof -
  have f: "restricted A K = filter (\<lambda>p. fst p \<in># A) (restricted B K)" for K
    using assms(2) by (auto simp: restricted_def intro!: filter_cong dest: mset_subset_eqD)
  show ?thesis unfolding f assms(1) ..
qed

section \<open>The same answer in every state of the table\<close>

definition agrees :: "kernel \<Rightarrow> kernel \<Rightarrow> bool" where
  "agrees k K \<longleftrightarrow> K = k\<lparr>k_fds := k_fds K\<rparr>"

lemma k_stat_fds [simp]: "k_stat (k\<lparr>k_fds := f\<rparr>) p = k_stat k p"
  by (simp add: k_stat_def)

lemma LocateResource_fds [simp]: "LocateResource q (k\<lparr>k_fds := f\<rparr>) = LocateResource q k"
  unfolding LocateResource_def k_stat_fds ..

lemma run_child_fds [simp]: "run_child q (k\<lparr>k_fds := f\<rparr>) s = run_child q k s"
  by (simp add: run_child_def cong: option.case_cong)

lemma error_message_fds [simp]: "error_message c (k\<lparr>k_fds := f\<rparr>) = error_message c k"
  by (simp add: error_message_def page_of_def)

lemma respond_fds [simp]: "respond q (k\<lparr>k_fds := f\<rparr>) = respond q k"
  unfolding respond_def k_stat_fds LocateResource_fds run_child_fds error_message_fds ..

lemma output_fits_fds [simp]: "output_fits q (k\<lparr>k_fds := f\<rparr>) = output_fits q k"
  unfolding output_fits_def LocateResource_fds run_child_fds ..

lemma calm_fds:
  assumes "calm k" and "0 \<in> fst ` set f" and "length f + 3 < k_max k"
  shows "calm (k\<lparr>k_fds := f\<rparr>)"
  using assms by (simp add: calm_def page_ok_def)

lemma agrees_facts:
  assumes "agrees k K"
  shows "respond q K = respond q k" "output_fits q K = output_fits q k" "k_writes K = k_writes k"
    "k_wire K = k_wire k" "k_sends K = k_sends k" "k_files K = k_files k" "k_max K = k_max k"
  by (subst assms [unfolded agrees_def], simp)+

lemma agrees_trans: "agrees k K \<Longrightarrow> K' = K\<lparr>k_fds := f\<rparr> \<Longrightarrow> agrees k K'"
proof -
  assume a: "agrees k K" and b: "K' = K\<lparr>k_fds := f\<rparr>"
  have "K' = k\<lparr>k_fds := f\<rparr>" by (subst b, subst a [unfolded agrees_def], simp)
  then show "agrees k K'" by (simp add: agrees_def)
qed

lemma calm_agrees:
  assumes "calm k" and "agrees k K" and "keys k \<subseteq># keys K" and "length (k_fds K) + 3 < k_max k"
  shows "calm K"
proof -
  from assms(1) have "0 \<in># keys k" by (auto simp: calm_def page_ok_def keys_set)
  with assms(3) have "0 \<in> fst ` set (k_fds K)" by (simp add: keys_set mset_subset_eqD)
  from calm_fds [OF assms(1) this assms(4)] show ?thesis using assms(2) by (simp add: agrees_def)
qed

section \<open>One stage among the others\<close>

text \<open>The descriptors a handler holds in each stage, and what is known about it.\<close>

fun held :: "int \<Rightarrow> stage \<Rightarrow> int multiset" where
  "held sock St_Done = {#}"
| "held sock (St_Send ep) =
     add_mset sock (if rq_cgi (ep_request ep) then {#} else {#rs_fd (ep_response ep)#})"
| "held sock _ = {#sock#}"

fun stage_ok :: "kernel \<Rightarrow> client \<Rightarrow> kernel \<Rightarrow> int \<Rightarrow> bytes \<Rightarrow> stage \<Rightarrow> bool" where
  "stage_ok k0 cl K sock w St_Recv = (w = [])"
| "stage_ok k0 cl K sock w (St_Build ep) =
     (w = [] \<and> snd cl \<noteq> None \<and> ep = received_by cl sock \<and> \<not> IsStop ep)"
| "stage_ok k0 cl K sock w (St_Send ep) =
     (w = [] \<and> ep_sock ep = sock \<and> (\<exists>out. reply cl k0 = Some out \<and> sendable K ep out))"
| "stage_ok k0 cl K sock w (St_Close ep) = (ep_sock ep = sock \<and> reply cl k0 = Some w)"
| "stage_ok k0 cl K sock w St_Done = (reply cl k0 = Some w)"

lemma sendable_frame:
  assumes "sendable K ep out" and "k_files K' = k_files K"
    and "rq_cgi (ep_request ep) \<or>
      map_of (k_fds K') (rs_fd (ep_response ep)) = map_of (k_fds K) (rs_fd (ep_response ep))"
  shows "sendable K' ep out"
  using assms unfolding sendable_def by auto

lemma stage_ok_frame:
  assumes "stage_ok k0 cl K sock w st" and "agrees k0 K" and "agrees k0 K'"
    and "restricted B K' = restricted B K" and "held sock st \<subseteq># B"
  shows "stage_ok k0 cl K' sock w st"
proof (cases st)
  case (St_Send ep)
  have "map_of (k_fds K') (rs_fd (ep_response ep)) = map_of (k_fds K) (rs_fd (ep_response ep))"
    if "\<not> rq_cgi (ep_request ep)"
    using assms(5) St_Send that by (intro restricted_map_of [OF assms(4)]) (auto dest: mset_subset_eqD)
  moreover have "k_files K' = k_files K" using assms(2,3) by (simp add: agrees_facts)
  ultimately show ?thesis using assms(1) St_Send sendable_frame [of K ep _ K'] by auto
qed (use assms(1) in simp_all)

text \<open>
  What one stage does to the table: \<open>B\<close> are the descriptors of everything else. It keeps them, gives
  up or takes only its own, and moves the connection towards its answer.
\<close>

definition stage_moves :: "kernel \<Rightarrow> client \<Rightarrow> int multiset \<Rightarrow> kernel \<Rightarrow> int \<Rightarrow> bytes \<Rightarrow> stage \<Rightarrow> kernel \<Rightarrow> bool" where
  "stage_moves k0 cl B K sock w st k \<longleftrightarrow>
     (let K' = k\<lparr>k_wire := []\<rparr>
      in agrees k0 K' \<and> distinct_keys K' \<and> keys K' = B + held sock st \<and>
         restricted B K' = restricted B K \<and> stage_ok k0 cl K' sock (w @ k_wire k) st)"

lemma stage_movesI:
  assumes "agrees k0 K'" "distinct_keys K'" "keys K' = B + held sock st"
    "restricted B K' = restricted B K" "stage_ok k0 cl K' sock (w @ out) st"
    "k = K'\<lparr>k_wire := out\<rparr>" "k_wire K' = []"
  shows "stage_moves k0 cl B K sock w st k"
proof -
  have "k\<lparr>k_wire := []\<rparr> = K'" using assms(6,7) by simp
  moreover have "k_wire k = out" using assms(6) by simp
  ultimately show ?thesis using assms(1-5) by (simp add: stage_moves_def)
qed

text \<open>The building phase in a table that other connections have changed.\<close>

lemma build_here:
  assumes ep: "ep = received_by cl sock" "\<not> IsStop ep" "snd cl \<noteq> None"
    and K: "agrees k0 K" "calm K" and k0: "k_writes k0 = []" and fits: "client_fits k0 cl"
  shows "case BuildHttpResponse ep K of
      None \<Rightarrow> reply cl k0 = None
    | Some (ep', k) \<Rightarrow> \<exists>out. reply cl k0 = Some out \<and> built K ep' k out \<and> ep_sock ep' = sock"
proof -
  from ep(3) obtain sk where sk: "snd cl = Some sk" by blast
  have r: "ep_response ep = new_HttpResponse" "ep_sock ep = sock" "body_agrees (ep_request ep)"
    using received [of sk "fst cl" sock] fits ep sk by (simp_all add: client_fits_def received_by_def)
  have o: "output_fits (ep_request ep) K"
    using fits K(1) ep(1) sk received_by_sock(1) [of cl sock] by (simp add: agrees_facts client_fits_def)
  have reply: "reply cl k0 = respond (ep_request ep) K"
    using K(1) ep sk received_by_sock [of cl sock] by (simp add: reply_def agrees_facts)
  have orc: "K\<lparr>k_writes := orc\<rparr> = K" if "k_writes K = [] \<longrightarrow> orc = []" for orc
    using that K(1) k0 by (simp add: agrees_facts)
  show ?thesis
    using serve_built [OF K(2) r(1) _ o] r(2,3) reply builder_sock [of ep K] orc
    by (cases "BuildHttpResponse ep K") (auto simp: body_agrees_def)
qed

lemma handle_moves:
  assumes h: "handle (fst cl) (snd cl) sock st K = Some (st', k)"
    and k0: "k_writes k0 = []" "k_wire k0 = []" "k_sends k0 = []" and fits: "client_fits k0 cl"
    and K: "agrees k0 K" "distinct_keys K" "keys K = B + held sock st" "calm K"
    and st: "stage_ok k0 cl K sock w st"
  shows "stage_moves k0 cl B K sock w st' k \<and> stage_fd sock st = sock"
proof (cases st)
  case St_Recv
  let ?ep = "received_by cl sock"
  from h St_Recv obtain sk where sk: "snd cl = Some sk" by (auto split: option.splits)
  have k: "k = K" and st': "st' = (if \<not> IsStop ?ep then St_Build ?ep else St_Close ?ep)"
    using h St_Recv sk by (auto simp: Let_def received_by_def)
  have "ep_sock ?ep = sock"
    using received [of "the (snd cl)" "fst cl" sock] fits sk by (simp add: client_fits_def received_by_def)
  moreover have "reply cl k0 = Some []" if "IsStop ?ep"
    using that received_by_sock(2) [of cl sock] sk by (simp add: reply_def)
  ultimately have "stage_ok k0 cl K sock (w @ []) st'"
    using st St_Recv st' sk by simp
  moreover have "held sock st' = held sock st" using St_Recv st' by simp
  ultimately have "stage_moves k0 cl B K sock w st' k"
    using K k0 k by (intro stage_movesI [where K' = K and out = "[]"]) (simp_all add: agrees_facts)
  then show ?thesis using St_Recv by simp
next
  case (St_Build ep)
  obtain ep' where b: "BuildHttpResponse ep K = Some (ep', k)" and st': "st' = St_Send ep'"
    using h St_Build by (auto split: option.splits)
  have ep: "ep = received_by cl sock" "\<not> IsStop ep" "snd cl \<noteq> None" and w: "w = []"
    using st St_Build by auto
  from build_here [OF ep(1-3) K(1,4) k0(1) fits] b obtain out where
    reply: "reply cl k0 = Some out" and built: "built K ep' k out" and sock: "ep_sock ep' = sock" by auto
  have held: "keys K = add_mset sock B" using K(3) St_Build by simp
  have "stage_moves k0 cl B K sock w st' k"
  proof (cases "rq_cgi (ep_request ep')")
    case True
    with built have "k = K" "sendable K ep' out" by (auto simp: built_def)
    with True K k0 st' reply sock w held show ?thesis
      by (intro stage_movesI [where K' = K and out = "[]"]) (auto simp: agrees_facts)
  next
    case False
    with built obtain p where a: "k_alloc (FdFile p) K = (rs_fd (ep_response ep'), k)"
      and s: "sendable k ep' out" by (auto simp: built_def)
    have "B \<subseteq># keys K" using held by (simp add: subset_mset.less_imp_le)
    note ac = alloc_counted [OF a]
    have "agrees k0 k" using agrees_trans [OF K(1) ac(4)] .
    with ac(1) ac(2) [OF K(2)] ac(3) [OF \<open>B \<subseteq># keys K\<close>] False k0 st' reply sock w held s
    show ?thesis by (intro stage_movesI [where K' = k and out = "[]"]) (auto simp: agrees_facts)
  qed
  then show ?thesis using St_Build by simp
next
  case (St_Send ep)
  obtain out where out: "reply cl k0 = Some out" "sendable K ep out" and sock: "ep_sock ep = sock"
    and w: "w = []" using st St_Send by auto
  have k: "k = SendHttpResponse ep K" and st': "st' = St_Close ep" using h St_Send by simp_all
  have "k_sends K = []" "k_wire K = []" using K(1) k0 by (simp_all add: agrees_facts)
  with out(2) have send: "k = (if rq_cgi (ep_request ep) then K\<lparr>k_wire := out\<rparr>
      else (k_close (rs_fd (ep_response ep)) K)\<lparr>k_wire := out\<rparr>)"
    unfolding k sendable_def by auto
  have "stage_moves k0 cl B K sock w st' k"
  proof (cases "rq_cgi (ep_request ep)")
    case True
    with K k0 st' send out sock w St_Send show ?thesis
      by (intro stage_movesI [of k0 K]) (simp_all add: agrees_facts)
  next
    case False
    let ?k = "k_close (rs_fd (ep_response ep)) K"
    have "keys K = add_mset (rs_fd (ep_response ep)) (add_mset sock B)"
      using K(3) St_Send False by (simp add: add_mset_commute)
    note cc = close_counted [OF K(2) this]
    have "B \<subseteq># add_mset sock B" by (simp add: subset_mset.less_imp_le)
    have "agrees k0 ?k" using agrees_trans [OF K(1) cc(4)] .
    with cc(1,2) cc(3) [OF \<open>B \<subseteq># add_mset sock B\<close>] False k0 st' send out sock w \<open>k_wire K = []\<close>
    show ?thesis by (intro stage_movesI [of k0 ?k]) (simp_all add: agrees_facts)
  qed
  then show ?thesis using St_Send sock by simp
next
  case (St_Close ep)
  have sock: "ep_sock ep = sock" and w: "reply cl k0 = Some w" using st St_Close by simp_all
  have k: "k = k_close sock K" and st': "st' = St_Done" using h St_Close sock by simp_all
  have "keys K = add_mset sock B" using K(3) St_Close by simp
  note cc = close_counted [OF K(2) this]
  have "agrees k0 k" unfolding k using agrees_trans [OF K(1) cc(4)] .
  moreover have "k_wire K = []" using K(1) k0 by (simp add: agrees_facts)
  ultimately have "stage_moves k0 cl B K sock w st' k"
    using cc(1,2) cc(3) [of B] k st' w
    by (intro stage_movesI [where K' = k and out = "[]"]) (auto simp: agrees_facts)
  then show ?thesis using St_Close by simp
next
  case St_Done
  with h show ?thesis by simp
qed

section \<open>The invariant\<close>

abbreviation held_by :: "server \<Rightarrow> nat \<Rightarrow> int multiset" where
  "held_by s c \<equiv> held (sv_sock s c) (sv_stage s c)"

definition holds :: "server \<Rightarrow> int multiset" where
  "holds s = (\<Sum>c < sv_next s. held_by s c)"

text \<open>The kernel is the initial one but for the descriptors the accepted connections hold.\<close>

definition fds_inv :: "kernel \<Rightarrow> server \<Rightarrow> bool" where
  "fds_inv k0 s \<longleftrightarrow> agrees k0 (sv_kernel s) \<and> distinct_keys (sv_kernel s) \<and>
     keys (sv_kernel s) = keys k0 + holds s \<and> restricted (keys k0) (sv_kernel s) = k_fds k0"

text \<open>A descriptor leads to a connection exactly while that connection has not been closed.\<close>

definition conn_inv :: "server \<Rightarrow> bool" where
  "conn_inv s \<longleftrightarrow> (\<forall>f d. sv_conn s f = Some d \<longleftrightarrow>
     d < sv_next s \<and> \<not> is_done (sv_stage s d) \<and> sv_sock s d = f)"

definition stages_inv :: "kernel \<Rightarrow> client list \<Rightarrow> server \<Rightarrow> bool" where
  "stages_inv k0 clients s \<longleftrightarrow> sv_next s \<le> length clients \<and>
     (\<forall>c < sv_next s. stage_ok k0 (clients ! c) (sv_kernel s) (sv_sock s c) (sv_wire s c) (sv_stage s c)) \<and>
     (\<forall>c\<ge>sv_next s. sv_stage s c = St_Recv \<and> sv_wire s c = [])"

definition pushed_all :: "nat \<Rightarrow> pool \<Rightarrow> bool" where
  "pushed_all n p \<longleftrightarrow> tp_pushed p = map int [0..<n]"

fun pushing :: "accept_pc \<Rightarrow> nat \<Rightarrow> pool \<Rightarrow> bool" where
  "pushing M_Accept n p = pushed_all n p"
| "pushing (M_Push c) n p = (pushed_all c p \<and> n = Suc c)"

definition queue_inv :: "server \<Rightarrow> bool" where
  "queue_inv s \<longleftrightarrow> pool_inv (sv_pool s) \<and>
     pushing (sv_main s) (sv_next s) (sv_pool s) \<and>
     (\<forall>t\<in>set (tp_done (sv_pool s)). finished s t)"

definition server_inv :: "kernel \<Rightarrow> client list \<Rightarrow> server \<Rightarrow> bool" where
  "server_inv k0 clients s \<longleftrightarrow>
     fds_inv k0 s \<and> conn_inv s \<and> stages_inv k0 clients s \<and> queue_inv s"

text \<open>The conditions on the kernel and the clients the invariant is proved under.\<close>

definition served :: "kernel \<Rightarrow> client list \<Rightarrow> bool" where
  "served k0 clients \<longleftrightarrow> roomy (length clients) k0 \<and> (\<forall>cl\<in>set clients. client_fits k0 cl)"

lemma held_size: "size (held sock st) \<le> 2"
  by (cases "(sock, st)" rule: held.cases) simp_all

lemma held_sock: "\<not> is_done st \<Longrightarrow> sock \<in># held sock st"
  by (cases "(sock, st)" rule: held.cases) simp_all

lemma held_done: "is_done st \<Longrightarrow> held sock st = {#}"
  by (cases "(sock, st)" rule: held.cases) simp_all

lemma size_sum: "size (\<Sum>c < n. f c) = (\<Sum>c < n. size (f c))" 
  for n :: nat and f :: "nat \<Rightarrow> 'a multiset"
  by (induction n) simp_all

lemma holds_size: "size (holds s) \<le> 2 * sv_next s"
proof -
  have "size (holds s) = (\<Sum>c < sv_next s. size (held_by s c))"
    unfolding holds_def by (rule size_sum)
  also have "\<dots> \<le> (\<Sum>c < sv_next s. 2)" by (rule sum_mono) (rule held_size)
  finally show ?thesis by simp
qed

lemma holds_split: "c < sv_next s \<Longrightarrow> holds s = (\<Sum>d\<in>{..<sv_next s} - {c}. held_by s d) + held_by s c"
  unfolding holds_def by (subst sum.remove [of _ c]) simp_all

lemma held_subset: "d < n \<Longrightarrow> d \<noteq> c \<Longrightarrow> f d \<subseteq># (\<Sum>d\<in>{..<n} - {c}. f d)" for f :: "nat \<Rightarrow> 'a multiset"
  by (subst sum.remove [of _ d]) simp_all

lemma keys_length: "size (keys k) = length (k_fds k)"
  by (simp add: keys_def)

lemma table_room:
  assumes "fds_inv k0 s" and "stages_inv k0 clients s" and "roomy (length clients) k0"
  shows "length (k_fds (sv_kernel s)) + 3 < k_max k0" and "calm (sv_kernel s)"
proof -
  have "length (k_fds (sv_kernel s)) = length (k_fds k0) + size (holds s)"
    using assms(1) by (simp add: fds_inv_def flip: keys_length)
  with holds_size [of s] assms(2,3) show room: "length (k_fds (sv_kernel s)) + 3 < k_max k0"
    by (simp add: stages_inv_def roomy_def)
  show "calm (sv_kernel s)"
    by (rule calm_agrees [OF _ _ _ room]) (use assms(1,3) in \<open>simp_all add: fds_inv_def roomy_def\<close>)
qed

text \<open>The tasks in the threads are connections that have been accepted.\<close>

lemma running_accepted:
  assumes "queue_inv s" and "T_Run (int c) \<in> set (tp_threads (sv_pool s))"
  shows "c < sv_next s"
  using run_pushed [OF _ assms(2)] assms(1)
  by (cases "sv_main s") (auto simp: queue_inv_def pushed_all_def)

subsection \<open>A stage of a handler keeps it\<close>

definition others :: "kernel \<Rightarrow> server \<Rightarrow> nat \<Rightarrow> int multiset" where
  "others k0 s c = keys k0 + (\<Sum>d\<in>{..<sv_next s} - {c}. held_by s d)"

text \<open>A running handler: its connection is open, and its stage only touches what it holds.\<close>

lemma handler_facts:
  assumes inv: "server_inv k0 clients s" and ok: "served k0 clients"
    and run: "T_Run (int c) \<in> set (tp_threads (sv_pool s))"
    and h: "handle (fst (clients ! c)) (input_of clients s c) (sv_sock s c) (sv_stage s c) (sv_kernel s) =
      Some (st, k)"
  shows "c < sv_next s" and "\<not> is_done (sv_stage s c)"
    and "stage_moves k0 (clients ! c) (others k0 s c) (sv_kernel s) (sv_sock s c) (sv_wire s c) st k"
    and "deliver (stage_fd (sv_sock s c) (sv_stage s c)) (k_wire k) s =
      (sv_wire s)(c := sv_wire s c @ k_wire k)"
    and "keys (sv_kernel s) = others k0 s c + held_by s c"
proof -
  from inv have i: "fds_inv k0 s" "conn_inv s" "stages_inv k0 clients s" "queue_inv s"
    by (simp_all add: server_inv_def)
  show c: "c < sv_next s" using running_accepted [OF i(4) run] .
  show nd: "\<not> is_done (sv_stage s c)" using h by (cases "sv_stage s c") simp_all
  have conn: "sv_conn s (sv_sock s c) = Some c" using i(2) c nd by (simp add: conn_inv_def)
  then have input: "input_of clients s c = snd (clients ! c)" by (simp add: input_of_def)
  from i(3) c have "c < length clients" by (simp add: stages_inv_def)
  then have cl: "client_fits k0 (clients ! c)" using ok by (simp add: served_def)
  have roomy: "roomy (length clients) k0" using ok by (simp add: served_def)
  then have k0: "k_writes k0 = []" "k_wire k0 = []" "k_sends k0 = []"
    by (simp_all add: roomy_def calm_def page_ok_def)
  show keys: "keys (sv_kernel s) = others k0 s c + held_by s c"
    using i(1) holds_split [OF c] by (simp add: fds_inv_def others_def)
  have "stage_ok k0 (clients ! c) (sv_kernel s) (sv_sock s c) (sv_wire s c) (sv_stage s c)"
    using i(3) c by (simp add: stages_inv_def)
  moreover have "agrees k0 (sv_kernel s)" "distinct_keys (sv_kernel s)"
    using i(1) by (simp_all add: fds_inv_def)
  ultimately have m: "stage_moves k0 (clients ! c) (others k0 s c) (sv_kernel s) (sv_sock s c)
      (sv_wire s c) st k \<and> stage_fd (sv_sock s c) (sv_stage s c) = sv_sock s c"
    using handle_moves [OF h [unfolded input] k0 cl _ _ keys table_room(2) [OF i(1,3) roomy]] by blast
  then show "stage_moves k0 (clients ! c) (others k0 s c) (sv_kernel s) (sv_sock s c) (sv_wire s c) st k"
    by blast
  from m conn show "deliver (stage_fd (sv_sock s c) (sv_stage s c)) (k_wire k) s =
      (sv_wire s)(c := sv_wire s c @ k_wire k)" by (simp add: deliver_def)
qed

lemma others_advanced: "others k0 (advanced c st k s) c = others k0 s c"
  by (simp add: others_def advanced_def)

lemma advanced_views [simp]:
  "sv_next (advanced c st k s) = sv_next s" "sv_sock (advanced c st k s) = sv_sock s"
  "sv_pool (advanced c st k s) = sv_pool s" "sv_main (advanced c st k s) = sv_main s"
  "sv_kernel (advanced c st k s) = k\<lparr>k_wire := []\<rparr>"
  "sv_stage (advanced c st k s) = (sv_stage s)(c := st)" "sv_fails (advanced c st k s) = sv_fails s"
  by (simp_all add: advanced_def)

lemma others_held: "d < sv_next s \<Longrightarrow> d \<noteq> c \<Longrightarrow> held_by s d \<subseteq># others k0 s c"
  unfolding others_def using held_subset [of d "sv_next s" c "held_by s"]
  by (metis subset_mset.add_increasing subset_mset.zero_le)

lemma advanced_inv:
  assumes inv: "server_inv k0 clients s" and ok: "served k0 clients"
    and run: "T_Run (int c) \<in> set (tp_threads (sv_pool s))"
    and h: "handle (fst (clients ! c)) (input_of clients s c) (sv_sock s c) (sv_stage s c) (sv_kernel s) =
      Some (st, k)"
  shows "server_inv k0 clients (advanced c st k s)"
proof -
  note f = handler_facts [OF assms]
  from inv have i: "fds_inv k0 s" "conn_inv s" "stages_inv k0 clients s" "queue_inv s"
    by (simp_all add: server_inv_def)
  let ?K = "k\<lparr>k_wire := []\<rparr>" and ?B = "others k0 s c" and ?t = "advanced c st k s"
  from f(3) have m: "agrees k0 ?K" "distinct_keys ?K" "keys ?K = ?B + held (sv_sock s c) st"
    "restricted ?B ?K = restricted ?B (sv_kernel s)"
    "stage_ok k0 (clients ! c) ?K (sv_sock s c) (sv_wire s c @ k_wire k) st"
    by (simp_all add: stage_moves_def Let_def)
  have base: "keys k0 \<subseteq># ?B" by (simp add: others_def)
  have "fds_inv k0 ?t"
  proof -
    have "keys k0 + holds ?t = ?B + held (sv_sock s c) st"
      using holds_split [of c ?t] f(1) by (simp add: others_def)
    with m i(1) restricted_mono [OF m(4) base] show ?thesis by (simp add: fds_inv_def)
  qed
  moreover have "conn_inv ?t"
  proof -
    have gone: "sv_sock s c \<notin># ?B"
    proof
      assume "sv_sock s c \<in># ?B"
      moreover have "sv_sock s c \<in># held_by s c" using f(2) by (rule held_sock)
      ultimately have "2 \<le> count (keys (sv_kernel s)) (sv_sock s c)"
        unfolding f(5) by (simp add: Suc_le_eq flip: count_greater_zero_iff)
      moreover have "count (keys (sv_kernel s)) (sv_sock s c) \<le> 1"
        by (rule keys_once) (use i(1) in \<open>simp add: fds_inv_def\<close>)
      ultimately show False by simp
    qed
    have "sv_sock s d \<in># keys ?K \<longleftrightarrow> \<not> is_done (((sv_stage s)(c := st)) d)"
      if d: "d < sv_next s" "\<not> is_done (sv_stage s d)" for d
    proof (cases "d = c")
      case True
      then show ?thesis using m(3) gone held_sock [of st "sv_sock s c"] held_done [of st "sv_sock s c"]
        by (cases "is_done st") simp_all
    next
      case False
      with others_held [OF d(1) False] held_sock [OF d(2)] m(3) d(2) show ?thesis
        by (auto dest: mset_subset_eqD)
    qed
    moreover have "sv_conn ?t = sv_conn s |` set_mset (keys ?K)"
      by (simp add: advanced_def flip: keys_set)
    ultimately show ?thesis
      using i(2) f(1,2) unfolding conn_inv_def by (auto simp: restrict_map_def split: if_splits)
  qed
  moreover have "stages_inv k0 clients ?t"
  proof -
    have "stage_ok k0 (clients ! d) ?K (sv_sock s d) (sv_wire s d) (sv_stage s d)"
      if d: "d < sv_next s" "d \<noteq> c" for d
      by (rule stage_ok_frame [OF _ _ m(1,4) others_held [OF d]])
        (use i(1,3) d in \<open>simp_all add: stages_inv_def fds_inv_def\<close>)
    moreover have "sv_wire ?t = (sv_wire s)(c := sv_wire s c @ k_wire k)"
      using f(4) by (simp add: advanced_def)
    ultimately show ?thesis using i(3) m(5) f(1) by (simp add: stages_inv_def)
  qed
  moreover have "queue_inv ?t" using i(4) f(2) by (auto simp: queue_inv_def)
  ultimately show ?thesis by (simp add: server_inv_def)
qed

subsection \<open>So do the other steps\<close>

lemma accepted_inv:
  assumes inv: "server_inv k0 clients s" and m: "sv_main s = M_Accept" "sv_next s < length clients"
  shows "server_inv k0 clients (accepted s)"
proof -
  from inv have i: "fds_inv k0 s" "conn_inv s" "stages_inv k0 clients s" "queue_inv s"
    by (simp_all add: server_inv_def)
  let ?n = "sv_next s"
  obtain fd k where a: "k_alloc FdSock (sv_kernel s) = (fd, k)" by fastforce
  note ac = alloc_counted [OF a]
  have t: "accepted s = s\<lparr>sv_main := M_Push ?n, sv_next := Suc ?n, sv_sock := (sv_sock s)(?n := fd),
      sv_kernel := k, sv_conn := (sv_conn s)(fd \<mapsto> ?n)\<rparr>" (is "_ = ?t")
    by (simp add: accepted_def a)
  have n: "sv_stage s ?n = St_Recv" "sv_wire s ?n = []" using i(3) by (simp_all add: stages_inv_def)
  have "(\<Sum>d\<in>{..<?n}. held_by ?t d) = holds s"
    unfolding holds_def by (rule sum.cong) simp_all
  then have sum: "holds ?t = add_mset fd (holds s)"
    using n(1) by (simp add: holds_def)
  have sub: "held_by s d \<subseteq># keys (sv_kernel s)" if "d < ?n" for d
    using i(1) others_held [of d s ?n k0] that holds_split [OF that]
    by (simp add: fds_inv_def)
  have "fds_inv k0 ?t"
    using i(1) ac(1) ac(2) ac(3) [of "keys k0"] agrees_trans [OF _ ac(4), of k0] sum
    by (simp add: fds_inv_def)
  moreover have "conn_inv ?t"
  proof -
    have "sv_sock s d \<noteq> fd" if "d < ?n" "\<not> is_done (sv_stage s d)" for d
      using held_sock [OF that(2)] sub [OF that(1)] ac(5) by (auto dest: mset_subset_eqD)
    with i(2) n(1) show ?thesis by (auto simp: conn_inv_def less_Suc_eq)
  qed
  moreover have "stages_inv k0 clients ?t"
  proof -
    have "stage_ok k0 (clients ! d) k (sv_sock s d) (sv_wire s d) (sv_stage s d)" if d: "d < ?n" for d
      by (rule stage_ok_frame [OF _ _ _ ac(3) [OF subset_mset.order_refl] sub [OF d]])
        (use i(1,3) d agrees_trans [OF _ ac(4), of k0] in \<open>simp_all add: stages_inv_def fds_inv_def\<close>)
    then show ?thesis using i(3) n m(2) by (auto simp: stages_inv_def less_Suc_eq)
  qed
  moreover have "queue_inv ?t" using i(4) m(1) by (simp add: queue_inv_def)
  ultimately show ?thesis unfolding t by (simp add: server_inv_def)
qed

text \<open>Steps that leave the connections alone.\<close>

lemma queue_only:
  assumes "server_inv k0 clients s" and "queue_inv (s\<lparr>sv_main := m, sv_pool := p, sv_fails := n\<rparr>)"
  shows "server_inv k0 clients (s\<lparr>sv_main := m, sv_pool := p, sv_fails := n\<rparr>)"
  using assms by (simp add: server_inv_def fds_inv_def conn_inv_def stages_inv_def holds_def)

lemma pool_step_done:
  assumes "pool_step returns p q" and "t \<in> set (tp_done q)"
  shows "t \<in> set (tp_done p) \<or> returns t"
  using assms by (cases rule: pool_step.cases) auto

lemma pool_step_pushed:
  assumes "pool_step returns p q"
  shows "tp_pushed q = tp_pushed p"
  using assms by (cases rule: pool_step.cases) auto

lemma server_inv_step:
  assumes inv: "server_inv k0 clients s" and ok: "served k0 clients" and step: "server_step clients s t"
  shows "server_inv k0 clients t"
  using step
proof (cases rule: server_step.cases)
  case accept
  with accepted_inv [OF inv] show ?thesis by simp
next
  case (accept_fails n)
  have "queue_inv (s\<lparr>sv_main := sv_main s, sv_pool := sv_pool s, sv_fails := n\<rparr>)"
    using inv by (simp add: server_inv_def queue_inv_def)
  from queue_only [OF inv this] accept_fails(1) show ?thesis by simp
next
  case (push c)
  let ?p = "push_task (int c) (sv_pool s)"
  have q: "queue_inv s" using inv by (simp add: server_inv_def)
  have "pool_inv ?p"
    using pool_inv_step [of "sv_pool s" "\<lambda>_. True" True ?p] PushTask q by (simp add: queue_inv_def)
  then have "queue_inv (s\<lparr>sv_main := M_Accept, sv_pool := ?p, sv_fails := sv_fails s\<rparr>)"
    using q push(2) by (simp add: queue_inv_def push_task_def pushed_all_def)
  from queue_only [OF inv this] push(1) show ?thesis by simp
next
  case (pool p)
  have q: "queue_inv s" using inv by (simp add: server_inv_def)
  have "queue_inv (s\<lparr>sv_main := sv_main s, sv_pool := p, sv_fails := sv_fails s\<rparr>)"
    using q pool_inv_own [OF pool(2)] pool_step_pushed [OF pool(2)] pool_step_done [OF pool(2)]
    by (cases "sv_main s") (auto simp: queue_inv_def pushed_all_def)
  from queue_only [OF inv this] pool(1) show ?thesis by simp
next
  case (handler c st k)
  with advanced_inv [OF inv ok] show ?thesis by simp
qed

lemma server_inv_init:
  assumes "server_init k0 s" and "served k0 clients"
  shows "server_inv k0 clients s"
proof -
  from assms(1) obtain creates fails where s: "s = start_server creates fails k0"
    by (auto simp: server_init_def)
  have "agrees k0 k0" by (simp add: agrees_def)
  moreover have "restricted (keys k0) k0 = k_fds k0" by (rule restricted_keys)
  moreover have "pool_inv (new_ThreadPool creates)"
    by (rule pool_inv_init) (auto simp: pool_init_def)
  ultimately show ?thesis using assms(2)
    by (simp add: s start_server_def server_inv_def fds_inv_def conn_inv_def stages_inv_def queue_inv_def
        holds_def pushed_all_def served_def roomy_def new_ThreadPool_def)
qed

text \<open>A server whose clients the kernel has no room for stays in the interface with the trivial invariant.\<close>

interpretation server_sys: invariant_system "server_init k0" "server_step clients"
  "\<lambda>s. served k0 clients \<longrightarrow> server_inv k0 clients s" for k0 clients
  by unfold_locales (blast intro: server_inv_init server_inv_step)+

lemma server_reached:
  assumes "reachable (server_init k0) (server_step clients) s" and "served k0 clients"
  shows "server_inv k0 clients s"
  using server_sys.reachable_inv [OF assms(1)] assms(2) by blast

section \<open>The server comes to rest\<close>

fun stage_work :: "stage \<Rightarrow> nat" where
  "stage_work St_Recv = 4"
| "stage_work (St_Build ep) = 3"
| "stage_work (St_Send ep) = 2"
| "stage_work (St_Close ep) = 1"
| "stage_work St_Done = 0"

fun main_work :: "accept_pc \<Rightarrow> nat" where
  "main_work M_Accept = 0"
| "main_work (M_Push c) = 5"

definition server_work :: "nat \<Rightarrow> server \<Rightarrow> nat" where
  "server_work n s = pool_work (sv_pool s) + (\<Sum>c<n. stage_work (sv_stage s c)) + sv_fails s +
     main_work (sv_main s) + 6 * (n - sv_next s)"

lemma handle_work: "handle junk rx sock st k = Some (st', k') \<Longrightarrow> stage_work st' < stage_work st"
  by (cases st) (auto simp: Let_def split: option.splits if_splits)

lemma stages_work:
  fixes n :: nat
  assumes "c < n" and "stage_work st < stage_work (f c)"
  shows "(\<Sum>d<n. stage_work ((f(c := st)) d)) < (\<Sum>d<n. stage_work (f d))"
  by (rule sum_strict_mono_ex1) (use assms in auto)

lemma server_step_work:
  assumes "server_inv k0 clients s" and "server_step clients s t"
  shows "server_work (length clients) t < server_work (length clients) s"
  using assms(2)
proof (cases rule: server_step.cases)
  case accept
  then show ?thesis by (simp add: server_work_def accepted_def split: prod.split)
next
  case (accept_fails n)
  then show ?thesis by (simp add: server_work_def)
next
  case (push c)
  then show ?thesis by (simp add: server_work_def push_task_def pool_work_def)
next
  case (pool p)
  with pool_step_work [OF pool(2)] show ?thesis by (simp add: server_work_def)
next
  case (handler c st k)
  from assms(1) have "c < sv_next s" "sv_next s \<le> length clients"
    using running_accepted [OF _ handler(2)] by (simp_all add: server_inv_def stages_inv_def)
  then have "c < length clients" by simp
  from stages_work [where f = "sv_stage s" and c = c, OF this handle_work [OF handler(3)]] handler(1)
  show ?thesis
    by (simp add: server_work_def)
qed

lemma server_run_inv:
  assumes "server_inv k0 clients s" and "served k0 clients"
  shows "(server_step clients ^^ k) s t \<Longrightarrow> server_inv k0 clients t"
proof (induction k arbitrary: t)
  case (Suc k)
  then show ?case using server_inv_step [OF _ assms(2)] by auto
qed (use assms(1) in simp)

lemma server_run_work:
  assumes "server_inv k0 clients s" and "served k0 clients"
  shows "(server_step clients ^^ k) s t \<Longrightarrow>
    k + server_work (length clients) t \<le> server_work (length clients) s"
proof (induction k arbitrary: t)
  case (Suc k)
  then obtain u where u: "(server_step clients ^^ k) s u" "server_step clients u t" by auto
  with Suc.IH [of u] server_step_work [OF server_run_inv [OF assms u(1)] u(2)] show ?case by simp
qed simp

lemma pool_step_length:
  assumes "pool_step returns p q"
  shows "length (tp_threads q) = length (tp_threads p)"
  using assms by (cases rule: pool_step.cases) auto

lemma server_threads:
  assumes "server_step clients s t"
  shows "length (tp_threads (sv_pool t)) = length (tp_threads (sv_pool s))"
  using assms
  by (cases rule: server_step.cases)
    (auto simp: accepted_def push_task_def pool_step_length split: prod.split)

lemma server_run_threads:
  "(server_step clients ^^ k) s t \<Longrightarrow>
   length (tp_threads (sv_pool t)) = length (tp_threads (sv_pool s))"
proof (induction k arbitrary: t)
  case (Suc k)
  then obtain u where "(server_step clients ^^ k) s u" "server_step clients u t" by auto
  with Suc.IH [of u] server_threads [of clients u t] show ?case by simp
qed simp

text \<open>
  The clients that keep a thread for ever. A server that has come to rest has accepted everybody and
  answered all the others as if they were alone; one more descriptor is open for each of those clients,
  and without them the kernel is what it was at the start.
\<close>

definition hung :: "kernel \<Rightarrow> client list \<Rightarrow> client list" where
  "hung k clients = filter (\<lambda>cl. reply cl k = None) clients"

definition all_served :: "kernel \<Rightarrow> client list \<Rightarrow> server \<Rightarrow> bool" where
  "all_served k0 clients s \<longleftrightarrow> sv_next s = length clients \<and>
     (\<forall>c<length clients. reply (clients ! c) k0 \<noteq> None \<longrightarrow>
        is_done (sv_stage s c) \<and> alone (clients ! c) k0 (sv_wire s c)) \<and>
     length (k_fds (sv_kernel s)) = length (k_fds k0) + length (hung k0 clients) \<and>
     (hung k0 clients = [] \<longrightarrow> sv_kernel s = k0)"

text \<open>A handler is stuck only with a silent client or a program that never answers.\<close>

lemma handle_enabled:
  assumes st: "stage_ok k0 cl K sock w st" and "\<not> is_done st" and K: "agrees k0 K" "calm K"
    and k0: "k_writes k0 = []" and fits: "client_fits k0 cl" and "reply cl k0 \<noteq> None"
  shows "\<exists>st' k. handle (fst cl) (snd cl) sock st K = Some (st', k)"
proof (cases st)
  case St_Recv
  with assms(7) show ?thesis by (cases "snd cl") (simp_all add: reply_def Let_def)
next
  case (St_Build ep)
  have ep: "ep = received_by cl sock" "\<not> IsStop ep" "snd cl \<noteq> None" using st St_Build by auto
  from build_here [OF ep K k0 fits] assms(7) have "BuildHttpResponse ep K \<noteq> None" by (auto split: option.splits)
  then show ?thesis using St_Build by auto
qed (use assms(2) in \<open>auto simp: Let_def\<close>)

lemma running_client:
  assumes "queue_inv s" and "T_Run t \<in> set (tp_threads (sv_pool s))"
  obtains c where "t = int c" and "c < sv_next s"
proof -
  from run_pushed [OF _ assms(2)] assms(1) have "t \<in> set (tp_pushed (sv_pool s))"
    by (simp add: queue_inv_def)
  with assms(1) that show ?thesis
    by (cases "sv_main s") (auto simp: queue_inv_def pushed_all_def)
qed

text \<open>In a server that cannot go on, the threads that are not asleep have the hung clients.\<close>

lemma stuck_running:
  assumes inv: "server_inv k0 clients s" and ok: "served k0 clients"
    and stuck: "\<And>t. \<not> server_step clients s t"
    and run: "T_Run (int c) \<in> set (tp_threads (sv_pool s))"
  shows "reply (clients ! c) k0 = None"
proof (rule ccontr)
  assume answer: "reply (clients ! c) k0 \<noteq> None"
  from inv have i: "fds_inv k0 s" "conn_inv s" "stages_inv k0 clients s" "queue_inv s"
    by (simp_all add: server_inv_def)
  have c: "c < sv_next s" using running_accepted [OF i(4) run] .
  have roomy: "roomy (length clients) k0" using ok by (simp add: served_def)
  from c i(3) have cl: "client_fits k0 (clients ! c)" using ok by (simp add: served_def stages_inv_def)
  show False
  proof (cases "is_done (sv_stage s c)")
    case True
    obtain i where "i < length (tp_threads (sv_pool s))" "tp_threads (sv_pool s) ! i = T_Run (int c)"
      using run by (meson in_set_conv_nth)
    with task_done [of i "sv_pool s" "int c" "finished s"] True pool [of s] stuck show False by auto
  next
    case False
    have "sv_conn s (sv_sock s c) = Some c" using i(2) c False by (simp add: conn_inv_def)
    then have input: "input_of clients s c = snd (clients ! c)" by (simp add: input_of_def)
    have "stage_ok k0 (clients ! c) (sv_kernel s) (sv_sock s c) (sv_wire s c) (sv_stage s c)"
      using i(3) c by (simp add: stages_inv_def)
    then have "\<exists>st k. handle (fst (clients ! c)) (snd (clients ! c)) (sv_sock s c) (sv_stage s c)
        (sv_kernel s) = Some (st, k)"
      by (rule handle_enabled [OF _ False _ table_room(2) [OF i(1,3) roomy] _ cl answer])
        (use i(1) roomy in \<open>simp_all add: fds_inv_def roomy_def\<close>)
    with handler [OF run] input stuck show False by metis
  qed
qed

lemma hung_count: "length (hung k clients) = card {c. c < length clients \<and> reply (clients ! c) k = None}"
  by (simp add: hung_def length_filter_conv_card)

lemma stuck_queue:
  assumes inv: "server_inv k0 clients s" and ok: "served k0 clients"
    and threads: "length (hung k0 clients) < length (tp_threads (sv_pool s))"
    and stuck: "\<And>t. \<not> server_step clients s t"
  shows "tp_queue (sv_pool s) = []"
proof -
  from inv have q: "queue_inv s" and n: "sv_next s \<le> length clients"
    by (simp_all add: server_inv_def stages_inv_def)
  let ?run = "{t. T_Run t \<in> set (tp_threads (sv_pool s))}"
    and ?hung = "{c. c < length clients \<and> reply (clients ! c) k0 = None}"
  have "distinct (tp_pushed (sv_pool s))"
    using q by (cases "sv_main s") (simp_all add: queue_inv_def pushed_all_def distinct_map)
  then have "size (run_tasks (sv_pool s)) = card ?run"
    using run_tasks_once q by (simp add: queue_inv_def)
  also have "card ?run \<le> card (int ` ?hung)"
  proof (rule card_mono)
    show "?run \<subseteq> int ` ?hung"
    proof
      fix t
      assume "t \<in> ?run"
      then have t: "T_Run t \<in> set (tp_threads (sv_pool s))" by simp
      from running_client [OF q t] obtain c where c: "t = int c" "c < sv_next s" .
      with stuck_running [OF inv ok stuck, of c] t n show "t \<in> int ` ?hung" by auto
    qed
  qed simp
  also have "\<dots> = length (hung k0 clients)" by (simp add: card_image hung_count)
  finally have "size (run_tasks (sv_pool s)) < length (tp_threads (sv_pool s))" using threads by simp
  moreover have "\<not> pool_step (finished s) (sv_pool s) p" for p using pool stuck by blast
  ultimately show ?thesis using pool_stuck_busy [of "sv_pool s" "finished s"] q
    by (simp add: queue_inv_def)
qed

lemma server_stuck:
  assumes inv: "server_inv k0 clients s" and ok: "served k0 clients"
    and threads: "length (hung k0 clients) < length (tp_threads (sv_pool s))"
    and stuck: "\<And>t. \<not> server_step clients s t"
  shows "all_served k0 clients s"
proof -
  from inv have i: "fds_inv k0 s" "conn_inv s" "stages_inv k0 clients s" "queue_inv s"
    by (simp_all add: server_inv_def)
  have roomy: "roomy (length clients) k0" using ok by (simp add: served_def)
  have main: "sv_main s = M_Accept" using stuck push by (cases "sv_main s") blast+
  have "k_max (sv_kernel s) = k_max k0" using i(1) by (simp add: fds_inv_def agrees_facts)
  then have full: "\<not> sv_next s < length clients"
    using accept [OF main] table_room(1) [OF i(1,3) roomy] stuck by (metis add_lessD1)
  have next_: "sv_next s = length clients" using i(3) full by (simp add: stages_inv_def)
  have "pool_inv (sv_pool s)" "tp_pushed (sv_pool s) = map int [0..<sv_next s]"
    using i(4) main by (simp_all add: queue_inv_def pushed_all_def)
  then have taken: "mset (tp_done (sv_pool s)) + run_tasks (sv_pool s) = mset (map int [0..<sv_next s])"
    using stuck_queue [OF assms] by (simp add: pool_inv_def)
  have closed: "is_done (sv_stage s c)" if c: "c < length clients" "reply (clients ! c) k0 \<noteq> None" for c
  proof -
    have "int c \<in># mset (tp_done (sv_pool s)) + run_tasks (sv_pool s)"
      unfolding taken using c next_ by simp
    moreover have "int c \<notin># run_tasks (sv_pool s)"
      using stuck_running [OF inv ok stuck, of c] c(2) by (auto simp: run_tasks_thread)
    moreover have "\<forall>t\<in>set (tp_done (sv_pool s)). finished s t" using i(4) by (simp add: queue_inv_def)
    ultimately have "finished s (int c)" by (meson in_multiset_in_set union_iff)
    then show ?thesis by simp
  qed
  have ok_c: "stage_ok k0 (clients ! c) (sv_kernel s) (sv_sock s c) (sv_wire s c) (sv_stage s c)"
    if "c < length clients" for c using i(3) next_ that by (simp add: stages_inv_def)
  have alone: "alone (clients ! c) k0 (sv_wire s c)"
    if c: "c < length clients" "reply (clients ! c) k0 \<noteq> None" for c
  proof (rule reply_alone [OF roomy])
    show "client_fits k0 (clients ! c)" using ok c by (simp add: served_def)
    show "reply (clients ! c) k0 = Some (sv_wire s c)"
      using closed [OF c] ok_c [OF c(1)] by (cases "sv_stage s c") simp_all
  qed
  have one: "size (held_by s c) = (if reply (clients ! c) k0 = None then 1 else 0)"
    if "c < length clients" for c
  proof (cases "reply (clients ! c) k0 = None")
    case True
    with ok_c [OF that] show ?thesis by (cases "sv_stage s c") auto
  next
    case False
    with closed [OF that] show ?thesis by (simp add: held_done)
  qed
  have "size (holds s) = (\<Sum>c < length clients. if reply (clients ! c) k0 = None then 1 else 0)"
    unfolding holds_def size_sum next_ by (rule sum.cong) (use one in simp_all)
  also have "\<dots> = length (hung k0 clients)"
    by (simp add: hung_count sum.If_cases) (auto intro: arg_cong [where f = card])
  finally have held: "size (holds s) = length (hung k0 clients)" .
  have keys: "keys (sv_kernel s) = keys k0 + holds s" using i(1) by (simp add: fds_inv_def)
  then have "length (k_fds (sv_kernel s)) = length (k_fds k0) + length (hung k0 clients)"
    using held by (simp flip: keys_length)
  moreover have "sv_kernel s = k0" if "hung k0 clients = []"
  proof -
    from that held have "holds s = {#}" by simp
    with keys have "restricted (keys k0) (sv_kernel s) = k_fds (sv_kernel s)"
      using restricted_keys [of "sv_kernel s"] by simp
    then have "k_fds (sv_kernel s) = k_fds k0" using i(1) by (simp add: fds_inv_def)
    then show ?thesis using i(1) by (simp add: fds_inv_def agrees_def)
  qed
  ultimately show ?thesis using next_ closed alone by (simp add: all_served_def)
qed

lemma server_rests:
  assumes "server_inv k0 clients s" and "served k0 clients"
    and "length (hung k0 clients) < length (tp_threads (sv_pool s))"
  shows "\<exists>t. (server_step clients)\<^sup>*\<^sup>* s t \<and> all_served k0 clients t"
  using assms(1,3)
proof (induction "server_work (length clients) s" arbitrary: s rule: less_induct)
  case less
  show ?case
  proof (cases "\<exists>u. server_step clients s u")
    case True
    then obtain u where u: "server_step clients s u" by blast
    have "length (hung k0 clients) < length (tp_threads (sv_pool u))"
      using server_threads [OF u] less.prems(2) by simp
    from less.hyps [OF server_step_work [OF less.prems(1) u]
        server_inv_step [OF less.prems(1) assms(2) u] this] u
    show ?thesis by (meson converse_rtranclp_into_rtranclp)
  next
    case False
    with server_stuck [OF less.prems(1) assms(2) less.prems(2)] show ?thesis by blast
  qed
qed

section \<open>All threads taken\<close>

abbreviation all_hung :: "kernel \<Rightarrow> client list \<Rightarrow> server \<Rightarrow> bool" where
  "all_hung k0 clients s \<equiv>
     set (tp_threads (sv_pool s)) \<subseteq> (\<lambda>c. T_Run (int c)) ` {c. reply (clients ! c) k0 = None}"

text \<open>The handler of a hung client receives, if anything, and sends nothing.\<close>

lemma hung_handler:
  assumes inv: "server_inv k0 clients s" and ok: "served k0 clients"
    and run: "T_Run (int c) \<in> set (tp_threads (sv_pool s))"
    and h: "handle (fst (clients ! c)) (input_of clients s c) (sv_sock s c) (sv_stage s c) (sv_kernel s) =
      Some (st, k)"
    and hung: "reply (clients ! c) k0 = None"
  shows "sv_wire (advanced c st k s) = sv_wire s"
proof -
  note f = handler_facts [OF inv ok run h]
  from f(3) have m: "stage_ok k0 (clients ! c) (k\<lparr>k_wire := []\<rparr>) (sv_sock s c)
      (sv_wire s c @ k_wire k) st" by (simp add: stage_moves_def Let_def)
  with hung have "sv_wire s c @ k_wire k = []" by (cases st) auto
  then show ?thesis using f(4) by (simp add: advanced_def fun_upd_idem)
qed

lemma hung_not_finished:
  assumes "server_inv k0 clients s" and "reply (clients ! c) k0 = None"
    and "T_Run (int c) \<in> set (tp_threads (sv_pool s))"
  shows "\<not> finished s (int c)"
proof -
  from assms(1) have i: "stages_inv k0 clients s" "queue_inv s" by (simp_all add: server_inv_def)
  from i(1) running_accepted [OF i(2) assms(3)]
  have "stage_ok k0 (clients ! c) (sv_kernel s) (sv_sock s c) (sv_wire s c) (sv_stage s c)"
    by (simp add: stages_inv_def)
  with assms(2) show ?thesis by (cases "sv_stage s c") auto
qed

lemma starved_step:
  assumes inv: "server_inv k0 clients s" and ok: "served k0 clients" and all: "all_hung k0 clients s"
    and step: "server_step clients s t"
  shows "sv_wire t = sv_wire s \<and> tp_taken (sv_pool t) = tp_taken (sv_pool s) \<and>
    tp_threads (sv_pool t) = tp_threads (sv_pool s)"
  using step
proof (cases rule: server_step.cases)
  case (pool p)
  have thread: "\<exists>c. tp_threads (sv_pool s) ! i = T_Run (int c) \<and> \<not> finished s (int c)"
    if "i < length (tp_threads (sv_pool s))" for i
    using all hung_not_finished [OF inv] nth_mem [OF that] by (auto simp: subset_iff image_iff)
  from pool(2) have "tp_taken p = tp_taken (sv_pool s) \<and> tp_threads p = tp_threads (sv_pool s)"
    by (cases rule: pool_step.cases) (use thread in force)+
  with pool(1) show ?thesis by simp
next
  case (handler c st k)
  from all handler(2) have "reply (clients ! c) k0 = None" by (auto simp: subset_iff image_iff)
  from hung_handler [OF inv ok handler(2,3) this] handler(1) show ?thesis by simp
qed (simp_all add: accepted_def push_task_def split: prod.split)

section \<open>Properties\<close>


text \<open>
  Three clients: a GET of the style sheet, one that sends a single byte and closes the connection, and one
  that never sends anything.
\<close>

definition demo_clients :: "client list" where
  "demo_clients = [(7, Some (rx_bytes (print_request ''GET'' ''/a.css'' ''HTTP/1.0'' [] []))), (3, Some (rx_bytes ''x'')),
     (5, None)]"

lemma demo_get:
  fixes cl :: client
  defines "cl \<equiv> (7, Some (rx_bytes (print_request ''GET'' ''/a.css'' ''HTTP/1.0'' [] [])))"
  shows "client_fits demo_kernel cl" and "reply cl demo_kernel \<noteq> None"
proof -
  have wf: "wf_request ''GET'' ''/a.css'' ''HTTP/1.0'' []" by (simp add: demo_facts)
  have m: "map toupper ''GET'' \<noteq> ''POST''" by (simp add: demo_upper)
  note r = received_request [OF wf m refl, of 7 0 "[]"]
  have rb: "received_by cl 0 = RecvHttpRequest (new_EndPoint 7 0
      (rx_bytes (print_request ''GET'' ''/a.css'' ''HTTP/1.0'' [] [])))"
    by (simp add: received_by_def cl_def)
  have len: "int (length (the (snd cl))) < 2 ^ 31" by (simp add: cl_def print_request_def)
  have "output_fits (ep_request (received_by cl 0)) demo_kernel"
    unfolding rb r(1) by (simp add: output_fits_def served_method_def ResolvePath_get LocateResource_file
        new_HttpRequest_def demo_facts)
  with len show "client_fits demo_kernel cl" by (simp add: client_fits_def)
  have "respond (ep_request (received_by cl 0)) demo_kernel \<noteq> None"
    unfolding rb r(1) by (simp add: respond_cases served_method_def ResolvePath_get LocateResource_file
        new_HttpRequest_def demo_facts)
  then show "reply cl demo_kernel \<noteq> None" by (simp add: reply_def Let_def cl_def)
qed

lemma demo_byte:
  fixes cl :: client
  defines "cl \<equiv> (3, Some (rx_bytes ''x''))"
  shows "client_fits demo_kernel cl" and "reply cl demo_kernel \<noteq> None"
  by (simp_all add: cl_def client_fits_def reply_def received_by_def RecvHttpRequest_def
      RecvHttpRequestLine_def ReadLine_def sock_simps new_EndPoint_def new_HttpRequest_def IsStop_def
      output_fits_def served_method_def)

lemma demo_silent: "client_fits demo_kernel (n, None)"
  by (simp add: client_fits_def)

lemma demo_served: "served demo_kernel demo_clients"
  and demo_hung: "hung demo_kernel demo_clients = [(5, None)]"
  using demo_get demo_byte demo_silent demo_calm
  by (simp_all add: served_def roomy_def demo_clients_def hung_def reply_def) (simp add: demo_kernel_def)

abbreviation demo_start :: server where
  "demo_start \<equiv> start_server [True, True] 1 demo_kernel"

lemma demo_start_reached: "reachable (server_init demo_kernel) (server_step demo_clients) demo_start"
  by (rule reach_init) (auto simp: server_init_def)

lemma demo_threads: "length (hung demo_kernel demo_clients) < length (tp_threads (sv_pool demo_start))"
  by (simp add: demo_hung start_server_def new_ThreadPool_def InitThreadPool_def)

lemma reachable_steps:
  assumes "reachable init step s" and "step\<^sup>*\<^sup>* s t"
  shows "reachable init step t"
  using assms(2) by (induction rule: rtranclp_induct) (use assms(1) in \<open>blast intro: reach_step\<close>)+




text \<open>C5: the bound is sharp: once every thread has a client that stays silent, or a program that never
  answers, no other client is ever sent anything and no further task is taken, whoever connects and
  whatever the server still does.\<close>

theorem concurrent_starves:
  assumes "reachable (server_init k) (server_step clients) s" and "served k clients"
    and "set (tp_threads (sv_pool s)) \<subseteq> (\<lambda>c. T_Run (int c)) ` {c. reply (clients ! c) k = None}"
    and "(server_step clients)\<^sup>*\<^sup>* s t"
  shows "sv_wire t = sv_wire s \<and> tp_taken (sv_pool t) = tp_taken (sv_pool s)"
proof -
  have "server_inv k clients t \<and> sv_wire t = sv_wire s \<and> tp_taken (sv_pool t) = tp_taken (sv_pool s) \<and>
      tp_threads (sv_pool t) = tp_threads (sv_pool s)"
    using assms(4)
  proof (induction rule: rtranclp_induct)
    case base
    with server_reached [OF assms(1,2)] show ?case by simp
  next
    case (step t u)
    with starved_step [OF _ assms(2) _ step.hyps(2)] server_inv_step [OF _ assms(2) step.hyps(2)] assms(3)
    show ?case by simp
  qed
  then show ?thesis by simp
qed

text \<open>One thread, which has taken the connection of the silent client; a GET may come any time.\<close>

definition slow_clients :: "client list" where
  "slow_clients = [(5, None), hd demo_clients]"

lemma slow_served: "served demo_kernel slow_clients"
  using demo_get(1) demo_silent demo_calm
  by (simp add: served_def roomy_def slow_clients_def demo_clients_def) (simp add: demo_kernel_def)

lemma slow_reached:
  "\<exists>s. reachable (server_init demo_kernel) (server_step slow_clients) s \<and>
     tp_threads (sv_pool s) = [T_Run 0] \<and> sv_wire s = (\<lambda>_. [])"
proof -
  let ?step = "server_step slow_clients" and ?s0 = "start_server [True] 0 demo_kernel"
  let ?s1 = "accepted ?s0"
  let ?s2 = "?s1\<lparr>sv_main := M_Accept, sv_pool := push_task (int 0) (sv_pool ?s1)\<rparr>"
  let ?p = "sv_pool ?s2"
  let ?s3 = "?s2\<lparr>sv_pool := ?p\<lparr>tp_threads := (tp_threads ?p)[0 := T_Run 0], tp_queue := [],
      tp_taken := tp_taken ?p @ [0]\<rparr>\<rparr>"
  have views: "sv_main ?s1 = M_Push 0" "sv_pool ?s1 = new_ThreadPool [True]" "sv_wire ?s1 = (\<lambda>_. [])"
    by (simp_all add: accepted_def start_server_def split: prod.split)
  have r0: "reachable (server_init demo_kernel) ?step ?s0"
    by (rule reach_init) (auto simp: server_init_def)
  have 1: "?step ?s0 ?s1"
    by (rule accept) (simp_all add: start_server_def slow_clients_def demo_kernel_def)
  have 2: "?step ?s1 ?s2" by (rule push) (rule views(1))
  have p: "tp_threads ?p = [T_Lock]" "tp_queue ?p = [0]"
    by (simp_all add: views push_task_def new_ThreadPool_def InitThreadPool_def)
  have 3: "?step ?s2 ?s3"
    by (rule pool, rule take_task)
      (simp_all add: views push_task_def new_ThreadPool_def InitThreadPool_def)
  from r0 1 2 3 have "reachable (server_init demo_kernel) ?step ?s3" by (blast intro: reach_step)
  moreover have "tp_threads (sv_pool ?s3) = [T_Run 0]" "sv_wire ?s3 = (\<lambda>_. [])"
    by (simp_all add: views push_task_def new_ThreadPool_def InitThreadPool_def)
  ultimately show ?thesis by blast
qed

theorem concurrent_starves_witness:
  "\<exists>s. tp_threads (sv_pool s) = [T_Run 0] \<and>
     {t. (server_step slow_clients)\<^sup>*\<^sup>* s t} \<subseteq> {t. sv_wire t 1 = []}"
proof -
  obtain s where s: "reachable (server_init demo_kernel) (server_step slow_clients) s"
    "tp_threads (sv_pool s) = [T_Run 0]" "sv_wire s = (\<lambda>_. [])" using slow_reached by blast
  have "reply (slow_clients ! 0) demo_kernel = None" by (simp add: slow_clients_def reply_def)
  then have "set (tp_threads (sv_pool s)) \<subseteq>
      (\<lambda>c. T_Run (int c)) ` {c. reply (slow_clients ! c) demo_kernel = None}"
    unfolding s(2) by (auto intro!: image_eqI [where x = 0])
  from concurrent_starves [OF s(1) slow_served this] s(2,3)
  show ?thesis by (intro exI [of _ s]) auto
qed

end
