(* ===== verification/Log_Files.thy ===== *)
theory Log_Files
  imports CNumbers
begin

text \<open>
  The file helpers of \<open>http/logs/utill.hpp\<close> (\<open>path\<close>, \<open>exits\<close>, \<open>creat_dircetory\<close>) over a small file
  system: a working directory, a set of directories and a map of files, all named by their lists of
  components. Symbolic links, \<open>..\<close> and permissions are not modelled.
\<close>

section \<open>The file system\<close>

record fsys =
  fs_cwd :: "bytes list"
  fs_dirs :: "bytes list set"
  fs_files :: "bytes list \<rightharpoonup> bytes"

fun split_slash :: "bytes \<Rightarrow> bytes \<Rightarrow> bytes list" where
  "split_slash acc [] = [acc]"
| "split_slash acc (c # cs) =
     (if c = CHR ''/'' then acc # split_slash [] cs else split_slash (acc @ [c]) cs)"

definition real_comp :: "bytes \<Rightarrow> bool" where
  "real_comp c \<longleftrightarrow> c \<noteq> [] \<and> c \<noteq> ''.''"

definition comps :: "bytes \<Rightarrow> bytes list" where
  "comps p = filter real_comp (split_slash [] p)"

definition resolve :: "bytes list \<Rightarrow> bytes \<Rightarrow> bytes list" where
  "resolve cwd p = (let p' = c_str p in
     (if p' \<noteq> [] \<and> hd p' = CHR ''/'' then [] else cwd) @ comps p')"

definition names_dir :: "bytes \<Rightarrow> bool" where
  "names_dir p \<longleftrightarrow> c_str p \<noteq> [] \<and> last (c_str p) = CHR ''/''"

definition os_stat :: "fsys \<Rightarrow> bytes \<Rightarrow> bool" where
  "os_stat fs p \<longleftrightarrow> c_str p \<noteq> [] \<and> (let r = resolve (fs_cwd fs) p in
     r \<in> fs_dirs fs \<or> (r \<in> dom (fs_files fs) \<and> \<not> names_dir p))"

definition os_mkdir :: "bytes \<Rightarrow> fsys \<Rightarrow> fsys" where
  "os_mkdir p fs = (let r = resolve (fs_cwd fs) p in
     if c_str p \<noteq> [] \<and> r \<noteq> [] \<and> r \<notin> fs_dirs fs \<and> r \<notin> dom (fs_files fs) \<and> butlast r \<in> fs_dirs fs
     then fs\<lparr>fs_dirs := insert r (fs_dirs fs)\<rparr> else fs)"

text \<open>
  \<open>std::ofstream::open\<close> with \<open>app\<close>: the file is created when it is not there; the result names it.
\<close>

definition os_open_app :: "bytes \<Rightarrow> fsys \<Rightarrow> (bytes list \<times> fsys) option" where
  "os_open_app p fs = (let r = resolve (fs_cwd fs) p in
     if c_str p = [] \<or> names_dir p \<or> r = [] \<or> r \<in> fs_dirs fs then None
     else if r \<in> dom (fs_files fs) then Some (r, fs)
     else if butlast r \<in> fs_dirs fs then Some (r, fs\<lparr>fs_files := (fs_files fs)(r \<mapsto> [])\<rparr>)
     else None)"

definition file_text :: "fsys \<Rightarrow> bytes list \<Rightarrow> bytes" where
  "file_text fs r = (case fs_files fs r of Some s \<Rightarrow> s | None \<Rightarrow> [])"

definition os_append :: "bytes list \<Rightarrow> bytes \<Rightarrow> fsys \<Rightarrow> fsys" where
  "os_append r data fs = fs\<lparr>fs_files := (fs_files fs)(r \<mapsto> file_text fs r @ data)\<rparr>"

section \<open>utill.hpp\<close>

definition slashes :: bytes where "slashes = [CHR ''/'', CHR 0x5C]"

definition exits :: "fsys \<Rightarrow> bytes \<Rightarrow> bool" where
  "exits fs name = os_stat fs name"

definition path :: "bytes \<Rightarrow> bytes" where
  "path name =
     (if name = [] then ''.''
      else (case find_last_of slashes name of
              None \<Rightarrow> ''.''
            | Some pos \<Rightarrow> substr name 0 (pos + 1)))"

function creat_loop :: "bytes \<Rightarrow> nat \<Rightarrow> fsys \<Rightarrow> fsys" where
  "creat_loop p idx fs =
     (if idx < length p then
        (case find_first_of slashes p idx of
           None \<Rightarrow> os_mkdir p fs
         | Some pos \<Rightarrow>
             (let parent_dir = substr p 0 (pos + 1);
                  idx' = pos + 1
              in if exits fs parent_dir then creat_loop p idx' fs
                 else creat_loop p idx' (os_mkdir parent_dir fs)))
      else fs)"
  by pat_completeness auto
termination
  by (relation "measure (\<lambda>(p, idx, fs). length p - idx)")
     (auto dest!: find_first_of_bounds)

declare creat_loop.simps [simp del]

definition creat_dircetory :: "bytes \<Rightarrow> fsys \<Rightarrow> fsys" where
  "creat_dircetory p fs = creat_loop p 0 fs"

section \<open>Facts about paths\<close>

lemma split_slash_acc: "split_slash acc s = (acc @ hd (split_slash [] s)) # tl (split_slash [] s)"
proof (induction s arbitrary: acc)
  case (Cons c cs)
  from Cons [of "acc @ [c]"] Cons [of "[c]"] show ?case by simp
qed simp

lemma split_slash_app:
  "split_slash acc (s @ t) =
     butlast (split_slash acc s) @ split_slash (last (split_slash acc s)) t"
proof (induction s arbitrary: acc)
  case (Cons c cs)
  have "split_slash [] cs \<noteq> []" by (cases cs) (auto simp: split_slash_acc [of "[c]" for c])
  with Cons show ?case by simp
qed simp

lemma split_slash_word: "CHR ''/'' \<notin> set s \<Longrightarrow> split_slash acc s = [acc @ s]"
  by (induction s arbitrary: acc) auto

text \<open>A directory name printed from its components.\<close>

definition dir_name :: "bytes list \<Rightarrow> bytes" where
  "dir_name cs = concat (map (\<lambda>c. c @ ''/'') cs)"

definition plain_comp :: "bytes \<Rightarrow> bool" where
  "plain_comp c \<longleftrightarrow> real_comp c \<and> (\<forall>x\<in>set c. x \<notin> set slashes \<and> x \<noteq> NUL)"

lemma plain_compD:
  "plain_comp c \<Longrightarrow> CHR ''/'' \<notin> set c" "plain_comp c \<Longrightarrow> NUL \<notin> set c" "plain_comp c \<Longrightarrow> real_comp c"
  "plain_comp c \<Longrightarrow> c \<noteq> []"
  by (auto simp: plain_comp_def slashes_def real_comp_def)

lemma split_slash_dir:
  "\<forall>c\<in>set cs. plain_comp c \<Longrightarrow> split_slash [] (dir_name cs @ t) = cs @ split_slash [] t"
proof (induction cs)
  case (Cons c cs)
  then show ?case
    using split_slash_app [of "[]" c "''/'' @ dir_name cs @ t"] split_slash_word [of c "[]"] plain_compD
    by (simp add: dir_name_def)
qed (simp add: dir_name_def)

lemma comps_dir:
  "\<forall>c\<in>set cs. plain_comp c \<Longrightarrow> comps (dir_name cs @ t) = cs @ comps t"
  by (auto simp: comps_def split_slash_dir plain_compD intro!: filter_True)

lemma comps_Nil [simp]: "comps [] = []"
  by (simp add: comps_def real_comp_def)

lemma dir_name_no_nul: "\<forall>c\<in>set cs. plain_comp c \<Longrightarrow> NUL \<notin> set (dir_name cs)"
  by (induction cs) (auto simp: dir_name_def plain_compD)

lemma dir_name_hd:
  "\<forall>c\<in>set cs. plain_comp c \<Longrightarrow> cs \<noteq> [] \<Longrightarrow> hd (dir_name cs @ t) \<noteq> CHR ''/'' \<and> dir_name cs \<noteq> []"
proof (cases cs)
  case (Cons c cs')
  moreover assume "\<forall>c\<in>set cs. plain_comp c"
  ultimately have "c \<noteq> []" "CHR ''/'' \<notin> set c" using plain_compD by auto
  with Cons show ?thesis by (cases c) (auto simp: dir_name_def)
qed simp

lemma dir_name_snoc: "dir_name (cs @ [c]) = dir_name cs @ c @ ''/''"
  by (simp add: dir_name_def)

lemma resolve_dir:
  assumes "\<forall>c\<in>set cs. plain_comp c" and "cs \<noteq> []"
  shows "resolve cwd (dir_name cs) = cwd @ cs"
  using dir_name_hd [OF assms, of "[]"] comps_dir [OF assms(1), of "[]"] dir_name_no_nul [OF assms(1)]
  by (simp add: resolve_def Let_def c_str_id)

lemma resolve_file:
  assumes "\<forall>c\<in>set cs. plain_comp c" and "plain_comp f"
  shows "resolve cwd (dir_name cs @ f) = cwd @ cs @ [f]"
proof -
  have "hd (dir_name cs @ f) \<noteq> CHR ''/''"
    using dir_name_hd [OF assms(1)] assms(2) plain_compD [OF assms(2)]
    by (cases "cs = []") (auto simp: dir_name_def, metis hd_in_set)
  moreover have "comps f = [f]"
    using plain_compD [OF assms(2)] by (simp add: comps_def split_slash_word)
  ultimately show ?thesis
    using comps_dir [OF assms(1)] dir_name_no_nul [OF assms(1)] plain_compD [OF assms(2)]
    by (simp add: resolve_def Let_def c_str_id)
qed

section \<open>The directories a log file needs\<close>

text \<open>A directory is there, or can be made: no file stands in its way.\<close>

definition way_free :: "fsys \<Rightarrow> bytes list \<Rightarrow> bool" where
  "way_free fs cs \<longleftrightarrow> (\<forall>n\<le>length cs. fs_cwd fs @ take n cs \<notin> dom (fs_files fs))"

lemma find_slash:
  assumes "\<forall>x\<in>set c. x \<notin> set slashes"
  shows "find_first_of slashes (p @ c @ CHR ''/'' # t) (length p) = Some (length p + length c)"
proof -
  have "find_idx (\<lambda>x. x \<in> set slashes) (c @ CHR ''/'' # t) = Some (length c)"
    using assms by (auto simp: find_idx_Some nth_append slashes_def)
  then show ?thesis by (simp add: find_first_of_def)
qed

lemma creat_loop_dirs:
  assumes "\<forall>c\<in>set (done @ cs). plain_comp c" and "way_free fs (done @ cs)"
    and "fs_cwd fs @ done \<in> fs_dirs fs"
  shows "let fs' = creat_loop (dir_name (done @ cs)) (length (dir_name done)) fs in
    fs_cwd fs @ done @ cs \<in> fs_dirs fs' \<and> fs_files fs' = fs_files fs \<and> fs_cwd fs' = fs_cwd fs \<and>
    fs_dirs fs' \<subseteq> fs_dirs fs \<union> {fs_cwd fs @ take n (done @ cs) | n. True}"
  using assms
proof (induction cs arbitrary: "done" fs)
  case Nil
  then show ?case by (subst creat_loop.simps) (simp add: Let_def)
next
  case (Cons c cs)
  let ?d = "done @ [c]"
  let ?fs = "if exits fs (dir_name ?d) then fs else os_mkdir (dir_name ?d) fs"
  have d: "\<forall>x\<in>set ?d. plain_comp x" using Cons.prems(1) by auto
  have name: "dir_name (done @ c # cs) = dir_name done @ c @ CHR ''/'' # dir_name cs"
    by (simp add: dir_name_def)
  have slash: "find_first_of slashes (dir_name (done @ c # cs)) (length (dir_name done)) =
      Some (length (dir_name done) + length c)"
    unfolding name using Cons.prems(1) by (intro find_slash) (auto simp: plain_comp_def)
  have sub: "substr (dir_name (done @ c # cs)) 0 (length (dir_name done) + length c + 1) = dir_name ?d"
    by (simp add: substr_def name dir_name_snoc)
  have step: "creat_loop (dir_name (done @ c # cs)) (length (dir_name done)) fs =
      creat_loop (dir_name (?d @ cs)) (length (dir_name ?d)) ?fs"
  proof -
    have lt: "length (dir_name done) < length (dir_name (done @ c # cs))" by (simp add: name)
    have len: "length (dir_name ?d) = length (dir_name done) + length c + 1" by (simp add: dir_name_snoc)
    have "creat_loop (dir_name (done @ c # cs)) (length (dir_name done)) fs =
        creat_loop (dir_name (done @ c # cs)) (length (dir_name done) + length c + 1) ?fs"
      unfolding creat_loop.simps [of _ "length (dir_name done)"] slash option.case Let_def sub
      using lt by simp
    then show ?thesis unfolding len by simp
  qed
  have r: "resolve (fs_cwd fs) (dir_name ?d) = fs_cwd fs @ ?d" using resolve_dir [OF d] by simp
  have c: "c_str (dir_name ?d) = dir_name ?d" by (rule c_str_id [OF dir_name_no_nul [OF d]])
  have nofile: "fs_cwd fs @ ?d \<notin> dom (fs_files fs)"
    using Cons.prems(2) unfolding way_free_def
    by (metis append.assoc append_Cons append_Nil length_append le_add1 append_eq_conv_conj)
  have made: "fs_cwd fs @ ?d \<in> fs_dirs ?fs \<and> fs_files ?fs = fs_files fs \<and> fs_cwd ?fs = fs_cwd fs \<and>
      fs_dirs ?fs \<subseteq> insert (fs_cwd fs @ ?d) (fs_dirs fs)"
    using nofile Cons.prems(3) r c dir_name_hd [OF d, of "[]"]
    by (auto simp: exits_def os_stat_def os_mkdir_def Let_def butlast_append)
  have "way_free ?fs (?d @ cs)" using Cons.prems(2) made by (simp add: way_free_def)
  from Cons.IH [OF _ this] made Cons.prems(1)
  have ih: "let fs' = creat_loop (dir_name (?d @ cs)) (length (dir_name ?d)) ?fs in
      fs_cwd fs @ done @ c # cs \<in> fs_dirs fs' \<and> fs_files fs' = fs_files fs \<and> fs_cwd fs' = fs_cwd fs \<and>
      fs_dirs fs' \<subseteq> fs_dirs ?fs \<union> {fs_cwd fs @ take n (done @ c # cs) | n. True}"
    by (simp add: Let_def)
  have "fs_cwd fs @ ?d = fs_cwd fs @ take (Suc (length done)) (done @ c # cs)" by simp
  with made have "fs_dirs ?fs \<subseteq> fs_dirs fs \<union> {fs_cwd fs @ take n (done @ c # cs) | n. True}"
    by blast
  with ih show ?case unfolding step Let_def by blast
qed

text \<open>The constructors of the sinks: make the directory of the file, open it for appending.\<close>

definition open_log :: "bytes \<Rightarrow> fsys \<Rightarrow> (bytes list \<times> fsys) option" where
  "open_log pathname fs = os_open_app pathname (creat_dircetory (path pathname) fs)"

lemma path_dir:
  assumes "\<forall>c\<in>set cs. plain_comp c" and "plain_comp f"
  shows "path (dir_name cs @ f) = (if cs = [] then ''.'' else dir_name cs)"
proof (cases "cs = []")
  case True
  have "find_last_of slashes f = None"
    using assms(2) by (auto simp: find_last_of_def find_idx_None plain_comp_def)
  with True plain_compD(4) [OF assms(2)] show ?thesis by (simp add: path_def dir_name_def)
next
  case False
  then obtain ds d where cs: "cs = ds @ [d]" by (metis append_butlast_last_id)
  let ?p = "dir_name ds @ d @ ''/''"
  have "find_idx (\<lambda>x. x \<in> set slashes) (rev f @ rev ?p) = Some (length f)"
    using assms(2) by (auto simp: find_idx_Some nth_append slashes_def plain_comp_def rev_nth)
  then have "find_last_of slashes (?p @ f) = Some (length ?p - 1)"
    by (simp add: find_last_of_def)
  moreover have "length ?p \<noteq> 0" by simp
  ultimately show ?thesis using False unfolding cs dir_name_snoc
    by (simp add: path_def substr_def)
qed

lemma creat_dot:
  assumes "fs_cwd fs \<in> fs_dirs fs"
  shows "creat_dircetory ''.'' fs = fs"
proof -
  have "find_first_of slashes ''.'' 0 = None" by (simp add: find_first_of_def slashes_def)
  moreover have "resolve (fs_cwd fs) ''.'' = fs_cwd fs"
    by (simp add: resolve_def comps_def real_comp_def c_str_def Let_def)
  ultimately show ?thesis
    using assms by (simp add: creat_dircetory_def creat_loop.simps os_mkdir_def Let_def)
qed

lemma files_same: "fs_files fs = m \<Longrightarrow> m r = Some x \<Longrightarrow> fs\<lparr>fs_files := m(r \<mapsto> x)\<rparr> = fs"
  by (cases fs) (simp add: map_upd_triv)

lemma open_log_works:
  assumes "\<forall>c\<in>set cs. plain_comp c" and "plain_comp f" and "way_free fs cs"
    and "fs_cwd fs \<in> fs_dirs fs" and "fs_cwd fs @ cs @ [f] \<notin> fs_dirs fs"
  obtains fs' where "open_log (dir_name cs @ f) fs = Some (fs_cwd fs @ cs @ [f], fs')"
    and "fs_cwd fs @ cs \<in> fs_dirs fs'" and "fs_cwd fs' = fs_cwd fs"
    and "fs_files fs' = (fs_files fs)(fs_cwd fs @ cs @ [f] \<mapsto> file_text fs (fs_cwd fs @ cs @ [f]))"
    and "fs_dirs fs' \<subseteq> fs_dirs fs \<union> {fs_cwd fs @ take n cs | n. True}"
proof -
  let ?fs = "creat_dircetory (path (dir_name cs @ f)) fs" and ?r = "fs_cwd fs @ cs @ [f]"
  have d: "fs_cwd fs @ cs \<in> fs_dirs ?fs \<and> fs_files ?fs = fs_files fs \<and> fs_cwd ?fs = fs_cwd fs \<and>
      fs_dirs ?fs \<subseteq> fs_dirs fs \<union> {fs_cwd fs @ take n cs | n. True}"
  proof (cases "cs = []")
    case True
    show ?thesis unfolding path_dir [OF assms(1,2)] using True assms(4) by (auto simp: creat_dot)
  next
    case False
    with creat_loop_dirs [of "[]" cs fs] assms(1,3,4) show ?thesis
      unfolding path_dir [OF assms(1,2)] by (simp add: creat_dircetory_def Let_def dir_name_def)
  qed
  have nodir: "?r \<notin> fs_dirs ?fs"
  proof
    assume "?r \<in> fs_dirs ?fs"
    with d assms(5) obtain n where "?r = fs_cwd fs @ take n cs" by blast
    then have "length (cs @ [f]) = length (take n cs)" by simp
    then show False by simp
  qed
  have name: "c_str (dir_name cs @ f) = dir_name cs @ f"
    using dir_name_no_nul [OF assms(1)] plain_compD [OF assms(2)] by (intro c_str_id) simp
  have slash: "\<not> names_dir (dir_name cs @ f)"
    using plain_compD [OF assms(2)] by (auto simp: names_dir_def name) (metis last_in_set)
  show ?thesis
    using resolve_file [OF assms(1,2)] d nodir slash name plain_compD(4) [OF assms(2)]
    by (intro that [of "?fs\<lparr>fs_files := (fs_files fs)(?r \<mapsto> file_text fs ?r)\<rparr>"])
       (auto simp: open_log_def os_open_app_def Let_def butlast_append file_text_def files_same
         split: option.split)
qed

end
