(* ===== verification/Log_Data.thy ===== *)
theory Log_Data
  imports CNumbers "HOL-Library.Word"
begin

text \<open>
  The data of the logging library: the levels of \<open>http/logs/level.hpp\<close> with their order, and the
  message of \<open>http/logs/message.hpp\<close>. A thread id is the number \<open>operator <<\<close> prints for it.
\<close>

section \<open>Levels\<close>

datatype log_level = UNKNOW | DEBUG | INFO | WARN | ERROR | FATAL | OFF

fun level_value :: "log_level \<Rightarrow> nat" where
  "level_value UNKNOW = 0"
| "level_value DEBUG = 1"
| "level_value INFO = 2"
| "level_value WARN = 3"
| "level_value ERROR = 4"
| "level_value FATAL = 5"
| "level_value OFF = 6"

fun tostring :: "log_level \<Rightarrow> bytes" where
  "tostring DEBUG = ''DEBUG''"
| "tostring INFO = ''INFO''"
| "tostring WARN = ''WARN''"
| "tostring ERROR = ''ERROR''"
| "tostring FATAL = ''FATAL''"
| "tostring OFF = ''OFF''"
| "tostring UNKNOW = ''UNKNOWN''"

lemma level_value_inj: "level_value a = level_value b \<Longrightarrow> a = b"
  by (cases a; cases b) simp_all

lemma tostring_inj: "tostring a = tostring b \<Longrightarrow> a = b"
  by (cases a; cases b) simp_all

text \<open>The comparison of the enumerators, used by the gates of \<open>Logger\<close>.\<close>

instantiation log_level :: linorder
begin

definition less_eq_log_level :: "log_level \<Rightarrow> log_level \<Rightarrow> bool" where
  "less_eq_log_level a b \<longleftrightarrow> level_value a \<le> level_value b"

definition less_log_level :: "log_level \<Rightarrow> log_level \<Rightarrow> bool" where
  "less_log_level a b \<longleftrightarrow> level_value a < level_value b"

instance
  by standard (auto simp: less_eq_log_level_def less_log_level_def intro: level_value_inj)

end

lemma level_OFF_top [simp]: "a \<le> OFF"
  by (cases a) (simp_all add: less_eq_log_level_def)

lemma level_UNKNOW_bot [simp]: "UNKNOW \<le> a"
  by (cases a) (simp_all add: less_eq_log_level_def)

section \<open>Local time\<close>

text \<open>The fields of \<open>struct tm\<close> that the library reads; the time zone is a parameter of the model.\<close>

record tm =
  tm_sec :: nat
  tm_min :: nat
  tm_hour :: nat
  tm_mday :: nat
  tm_mon :: nat
  tm_year :: int

definition tm_ok :: "tm \<Rightarrow> bool" where
  "tm_ok t \<longleftrightarrow> tm_sec t \<le> 60 \<and> tm_min t < 60 \<and> tm_hour t < 24 \<and>
     1 \<le> tm_mday t \<and> tm_mday t \<le> 31 \<and> tm_mon t < 12"

section \<open>Messages\<close>

record LogMsg =
  msg_ctime :: int
  msg_level :: log_level
  msg_line :: nat
  msg_tid :: nat
  msg_file :: bytes
  msg_logger :: bytes
  msg_payload :: bytes

text \<open>The constructor; the time and the thread are the ones it finds.\<close>

definition new_LogMsg ::
  "int \<Rightarrow> nat \<Rightarrow> log_level \<Rightarrow> nat \<Rightarrow> bytes \<Rightarrow> bytes \<Rightarrow> bytes \<Rightarrow> LogMsg" where
  "new_LogMsg now tid level line src logger msg =
     \<lparr>msg_ctime = now, msg_level = level, msg_line = line, msg_tid = tid, msg_file = src,
      msg_logger = logger, msg_payload = msg\<rparr>"

end
