(* ===== verification/Log_Sink.thy ===== *)
theory Log_Sink
  imports Log_Files Log_Data
begin

text \<open>
  The sinks of \<open>http/logs/sink.hpp\<close>: standard output, one file, and files rolled by size. What every
  sink promises, that it takes each message whole and in order, is the locale \<open>log_sink\<close>, interpreted
  by all three. A failing \<open>assert\<close> is \<open>None\<close>; writes to an open file succeed.
\<close>

section \<open>The sinks\<close>

record world =
  w_stdout :: bytes
  w_fs :: fsys

definition StdoutSink_log :: "bytes \<Rightarrow> world \<Rightarrow> world" where
  "StdoutSink_log data w = w\<lparr>w_stdout := w_stdout w @ data\<rparr>"

record FileSink =
  fk_pathname :: bytes
  fk_ofs :: "bytes list"

definition new_FileSink :: "bytes \<Rightarrow> world \<Rightarrow> (FileSink \<times> world) option" where
  "new_FileSink pathname w =
     (case os_open_app pathname (creat_dircetory (path pathname) (w_fs w)) of
        None \<Rightarrow> None
      | Some (h, fs) \<Rightarrow> Some (\<lparr>fk_pathname = pathname, fk_ofs = h\<rparr>, w\<lparr>w_fs := fs\<rparr>))"

definition FileSink_log :: "bytes \<Rightarrow> FileSink \<Rightarrow> world \<Rightarrow> world" where
  "FileSink_log data s w = w\<lparr>w_fs := os_append (fk_ofs s) data (w_fs w)\<rparr>"

record RollBySizeSink =
  rb_basename :: bytes
  rb_ofs :: "bytes list"
  rb_max_fsize :: nat
  rb_cur_fsize :: nat
  rb_name_count :: nat

definition roll_stamp :: "tm \<Rightarrow> bytes" where
  "roll_stamp lt = string_of_int (tm_year lt + 1900) @ string_of_nat (tm_mon lt + 1) @
     string_of_nat (tm_mday lt) @ string_of_nat (tm_hour lt) @ string_of_nat (tm_min lt) @
     string_of_nat (tm_sec lt)"

definition roll_name :: "bytes \<Rightarrow> tm \<Rightarrow> nat \<Rightarrow> bytes" where
  "roll_name base lt n = base @ roll_stamp lt @ ''-'' @ string_of_nat n @ ''.log''"

definition creatNewFile :: "tm \<Rightarrow> RollBySizeSink \<Rightarrow> bytes \<times> RollBySizeSink" where
  "creatNewFile lt s =
     (roll_name (rb_basename s) lt (rb_name_count s), s\<lparr>rb_name_count := rb_name_count s + 1\<rparr>)"

definition new_RollBySizeSink ::
  "bytes \<Rightarrow> nat \<Rightarrow> tm \<Rightarrow> world \<Rightarrow> (RollBySizeSink \<times> world) option" where
  "new_RollBySizeSink basename max_size lt w =
     (let s = \<lparr>rb_basename = basename, rb_ofs = [], rb_max_fsize = max_size, rb_cur_fsize = 0,
               rb_name_count = 0\<rparr>;
          (pathname, s1) = creatNewFile lt s
      in case os_open_app pathname (creat_dircetory (path pathname) (w_fs w)) of
           None \<Rightarrow> None
         | Some (h, fs) \<Rightarrow> Some (s1\<lparr>rb_ofs := h\<rparr>, w\<lparr>w_fs := fs\<rparr>))"

definition roll_file :: "tm \<Rightarrow> RollBySizeSink \<Rightarrow> world \<Rightarrow> (RollBySizeSink \<times> world) option" where
  "roll_file lt s w =
     (let (pathname, s1) = creatNewFile lt s
      in case os_open_app pathname (w_fs w) of
           None \<Rightarrow> None
         | Some (h, fs) \<Rightarrow> Some (s1\<lparr>rb_ofs := h, rb_cur_fsize := 0\<rparr>, w\<lparr>w_fs := fs\<rparr>))"

definition RollBySizeSink_log ::
  "tm \<Rightarrow> bytes \<Rightarrow> RollBySizeSink \<Rightarrow> world \<Rightarrow> (RollBySizeSink \<times> world) option" where
  "RollBySizeSink_log lt data s w =
     (case (if rb_max_fsize s \<le> rb_cur_fsize s then roll_file lt s w else Some (s, w)) of
        None \<Rightarrow> None
      | Some (s1, w1) \<Rightarrow>
          Some (s1\<lparr>rb_cur_fsize := rb_cur_fsize s1 + length data\<rparr>,
                w1\<lparr>w_fs := os_append (rb_ofs s1) data (w_fs w1)\<rparr>))"

text \<open>The dynamic type of a \<open>LogSink::ptr\<close>, and the call of its \<open>log\<close>.\<close>

datatype LogSink = StdoutSink | File_Sink FileSink | Roll_Sink RollBySizeSink

fun sink_log :: "tm \<Rightarrow> bytes \<Rightarrow> LogSink \<Rightarrow> world \<Rightarrow> (LogSink \<times> world) option" where
  "sink_log lt data StdoutSink w = Some (StdoutSink, StdoutSink_log data w)"
| "sink_log lt data (File_Sink s) w = Some (File_Sink s, FileSink_log data s w)"
| "sink_log lt data (Roll_Sink s) w =
     (case RollBySizeSink_log lt data s w of
        None \<Rightarrow> None | Some (s', w') \<Rightarrow> Some (Roll_Sink s', w'))"

section \<open>What a sink promises\<close>

text \<open>
  A state of type \<open>'s\<close> that takes messages, each with the local time of its arrival; \<open>written\<close> is all
  it has taken.
\<close>

locale log_sink =
  fixes take_msg :: "tm \<Rightarrow> bytes \<Rightarrow> 's \<Rightarrow> 's option" and written :: "'s \<Rightarrow> bytes" and ok :: "'s \<Rightarrow> bool"
  assumes take_ok: "ok s \<Longrightarrow> \<exists>s'. take_msg lt data s = Some s' \<and> ok s' \<and> written s' = written s @ data"
begin

fun take_all :: "(tm \<times> bytes) list \<Rightarrow> 's \<Rightarrow> 's option" where
  "take_all [] s = Some s"
| "take_all ((lt, data) # ms) s = (case take_msg lt data s of None \<Rightarrow> None | Some s' \<Rightarrow> take_all ms s')"

lemma take_all_ok:
  "ok s \<Longrightarrow> \<exists>s'. take_all ms s = Some s' \<and> ok s' \<and> written s' = written s @ concat (map snd ms)"
proof (induction ms arbitrary: s)
  case (Cons m ms)
  obtain lt data where m: "m = (lt, data)" by fastforce
  from take_ok [OF Cons.prems] obtain s1 where s1: "take_msg lt data s = Some s1" "ok s1"
    "written s1 = written s @ data" by blast
  from Cons.IH [OF s1(2)] s1 m show ?case by auto
qed simp

end

interpretation stdout: log_sink "\<lambda>lt data w. Some (StdoutSink_log data w)" w_stdout "\<lambda>w. True"
  by unfold_locales (simp add: StdoutSink_log_def)

definition fk_take :: "tm \<Rightarrow> bytes \<Rightarrow> FileSink \<times> world \<Rightarrow> (FileSink \<times> world) option" where
  "fk_take lt data = (\<lambda>(s, w). Some (s, FileSink_log data s w))"

definition fk_written :: "FileSink \<times> world \<Rightarrow> bytes" where
  "fk_written = (\<lambda>(s, w). file_text (w_fs w) (fk_ofs s))"

interpretation fileout: log_sink fk_take fk_written "\<lambda>s. True"
  by unfold_locales (auto simp: fk_take_def fk_written_def FileSink_log_def os_append_def file_text_def)

section \<open>Rolling\<close>

definition base_ok :: "bytes list \<Rightarrow> bytes \<Rightarrow> bool" where
  "base_ok cs f0 \<longleftrightarrow> (\<forall>c\<in>set cs. plain_comp c) \<and> (\<forall>x\<in>set f0. x \<notin> set slashes \<and> x \<noteq> NUL)"

definition roll_last :: "bytes \<Rightarrow> tm \<Rightarrow> nat \<Rightarrow> bytes" where
  "roll_last f0 lt n = f0 @ roll_stamp lt @ ''-'' @ string_of_nat n @ ''.log''"

lemma isdigit_plain: "isdigit x \<Longrightarrow> x \<notin> set slashes \<and> x \<noteq> NUL \<and> x \<noteq> CHR ''-'' \<and> x \<noteq> CHR ''.''"
  by (auto simp: isdigit_def slashes_def)

lemma number_chars:
  "x \<in> set (string_of_nat n) \<Longrightarrow> x \<notin> set slashes \<and> x \<noteq> NUL \<and> x \<noteq> CHR ''-'' \<and> x \<noteq> CHR ''.''"
  using string_of_nat_digits [of n] by (intro isdigit_plain) blast

definition name_chars :: "char set" where "name_chars = {c. c \<notin> set slashes \<and> c \<noteq> NUL}"

lemma name_chars_simps:
  "set (string_of_nat n) \<subseteq> name_chars" "set (string_of_int z) \<subseteq> name_chars"
  "CHR ''-'' \<in> name_chars" "set ''.log'' \<subseteq> name_chars"
proof -
  show n: "set (string_of_nat n) \<subseteq> name_chars" for n
    using number_chars [of _ n] by (auto simp: name_chars_def)
  show dash: "CHR ''-'' \<in> name_chars" "set ''.log'' \<subseteq> name_chars"
    by (simp_all add: name_chars_def slashes_def)
  show "set (string_of_int z) \<subseteq> name_chars" using n dash(1) by (simp add: string_of_int_def)
qed

lemma roll_tail_chars: "set (roll_stamp lt @ ''-'' @ string_of_nat n @ ''.log'') \<subseteq> name_chars"
  using name_chars_simps by (simp add: roll_stamp_def)

lemma roll_last_plain:
  assumes "base_ok cs f0"
  shows "plain_comp (roll_last f0 lt n)"
proof -
  have "set f0 \<subseteq> name_chars" using assms by (auto simp: base_ok_def name_chars_def)
  with roll_tail_chars [of lt n] have "set (roll_last f0 lt n) \<subseteq> name_chars"
    by (simp add: roll_last_def)
  moreover have "length (roll_last f0 lt n) > 1" by (simp add: roll_last_def)
  then have "real_comp (roll_last f0 lt n)" by (auto simp: real_comp_def)
  ultimately show ?thesis by (auto simp: plain_comp_def name_chars_def)
qed

lemma roll_last_count:
  assumes "roll_last f0 lt n = roll_last f0 lt' n'"
  shows "n = n'"
proof -
  let ?t = "\<lambda>x. takeWhile (\<lambda>c. c \<noteq> CHR ''-'') (rev (roll_last f0 (fst x) (snd x)))"
  have t: "?t (lt, n) = rev (string_of_nat n @ ''.log'')" for lt n
  proof -
    have "rev (roll_last f0 lt n) = rev (string_of_nat n @ ''.log'') @ CHR ''-'' # rev (f0 @ roll_stamp lt)"
      by (simp add: roll_last_def)
    moreover have "\<forall>c\<in>set (rev (string_of_nat n @ ''.log'')). c \<noteq> CHR ''-''"
      using number_chars [of _ n] by auto
    ultimately show ?thesis by (simp add: takeWhile_stop del: rev_append)
  qed
  from assms t [of lt n] t [of lt' n'] have "string_of_nat n = string_of_nat n'" by simp
  then show ?thesis using parse_string_of_nat by metis
qed

text \<open>The rolling sink with the files it has opened so far, in order.\<close>

type_synonym roll_state = "RollBySizeSink \<times> world \<times> bytes list list"

definition roll_take :: "tm \<Rightarrow> bytes \<Rightarrow> roll_state \<Rightarrow> roll_state option" where
  "roll_take lt data = (\<lambda>(s, w, hs).
     case RollBySizeSink_log lt data s w of
       None \<Rightarrow> None
     | Some (s', w') \<Rightarrow>
         Some (s', w', if rb_max_fsize s \<le> rb_cur_fsize s then hs @ [rb_ofs s'] else hs))"

definition roll_written :: "roll_state \<Rightarrow> bytes" where
  "roll_written = (\<lambda>(s, w, hs). concat (map (file_text (w_fs w)) hs))"

definition roll_path :: "bytes list \<Rightarrow> bytes \<Rightarrow> fsys \<Rightarrow> tm \<Rightarrow> nat \<Rightarrow> bytes list" where
  "roll_path cs f0 fs lt n = fs_cwd fs @ cs @ [roll_last f0 lt n]"

text \<open>The names the sink will use are not taken yet.\<close>

definition roll_fresh :: "bytes list \<Rightarrow> bytes \<Rightarrow> fsys \<Rightarrow> nat \<Rightarrow> bool" where
  "roll_fresh cs f0 fs from \<longleftrightarrow>
     (\<forall>lt n. from \<le> n \<longrightarrow> roll_path cs f0 fs lt n \<notin> dom (fs_files fs) \<union> fs_dirs fs)"

definition roll_ok :: "bytes list \<Rightarrow> bytes \<Rightarrow> roll_state \<Rightarrow> bool" where
  "roll_ok cs f0 = (\<lambda>(s, w, hs).
     base_ok cs f0 \<and> rb_basename s = dir_name cs @ f0 \<and>
     hs \<noteq> [] \<and> last hs = rb_ofs s \<and> distinct hs \<and> set hs \<subseteq> dom (fs_files (w_fs w)) \<and>
     fs_cwd (w_fs w) @ cs \<in> fs_dirs (w_fs w) \<and>
     rb_cur_fsize s = length (file_text (w_fs w) (rb_ofs s)) \<and>
     roll_fresh cs f0 (w_fs w) (rb_name_count s))"

lemma roll_name_path:
  assumes "base_ok cs f0"
  shows "roll_name (dir_name cs @ f0) lt n = dir_name cs @ roll_last f0 lt n"
    and "resolve (fs_cwd fs) (roll_name (dir_name cs @ f0) lt n) = roll_path cs f0 fs lt n"
    and "\<not> names_dir (roll_name (dir_name cs @ f0) lt n)"
    and "c_str (roll_name (dir_name cs @ f0) lt n) \<noteq> []"
proof -
  let ?f = "roll_last f0 lt n"
  have f: "plain_comp ?f" using assms by (rule roll_last_plain)
  have cs: "\<forall>c\<in>set cs. plain_comp c" using assms by (simp add: base_ok_def)
  show n: "roll_name (dir_name cs @ f0) lt n = dir_name cs @ ?f"
    by (simp add: roll_name_def roll_last_def)
  show "resolve (fs_cwd fs) (roll_name (dir_name cs @ f0) lt n) = roll_path cs f0 fs lt n"
    using resolve_file [OF cs f] unfolding n roll_path_def .
  have c: "c_str (dir_name cs @ ?f) = dir_name cs @ ?f"
    using dir_name_no_nul [OF cs] plain_compD [OF f] by (intro c_str_id) simp
  have ne: "?f \<noteq> []" using plain_compD [OF f] by simp
  with c show "c_str (roll_name (dir_name cs @ f0) lt n) \<noteq> []" by (simp add: n)
  have "last ?f \<noteq> CHR ''/''" using ne plain_compD [OF f] by (metis last_in_set)
  with c ne show "\<not> names_dir (roll_name (dir_name cs @ f0) lt n)" by (simp add: n names_dir_def)
qed

lemma append_text [simp]: "file_text (os_append r d fs) h = (if h = r then file_text fs r @ d else file_text fs h)"
  by (simp add: os_append_def file_text_def)

lemma append_frame [simp]: "fs_cwd (os_append r d fs) = fs_cwd fs" "fs_dirs (os_append r d fs) = fs_dirs fs"
  "dom (fs_files (os_append r d fs)) = insert r (dom (fs_files fs))"
  by (auto simp: os_append_def)

lemma concat_last:
  assumes "hs \<noteq> []" and "distinct hs" and "\<And>h. h \<in> set (butlast hs) \<Longrightarrow> g h = f h"
    and "g (last hs) = f (last hs) @ d"
  shows "concat (map g hs) = concat (map f hs) @ d"
proof -
  have hs: "hs = butlast hs @ [last hs]" using assms(1) by simp
  have c: "concat (map k hs) = concat (map k (butlast hs)) @ k (last hs)" for k :: "'a \<Rightarrow> 'b list"
    by (subst hs) (simp del: append_butlast_last_id)
  have eq: "map g (butlast hs) = map f (butlast hs)" using assms(3) by simp
  show ?thesis unfolding c [of g] c [of f] eq assms(4) by simp
qed

lemma distinct_last: "distinct hs \<Longrightarrow> h \<in> set (butlast hs) \<Longrightarrow> h \<noteq> last hs"
  by (cases hs rule: rev_cases) auto

lemma roll_ok_append:
  assumes "roll_ok cs f0 (s, w, hs)"
  shows "roll_ok cs f0 (s\<lparr>rb_cur_fsize := rb_cur_fsize s + length data\<rparr>,
      w\<lparr>w_fs := os_append (rb_ofs s) data (w_fs w)\<rparr>, hs)"
    and "roll_written (s', w\<lparr>w_fs := os_append (rb_ofs s) data (w_fs w)\<rparr>, hs) =
      roll_written (s, w, hs) @ data"
proof -
  have "rb_ofs s \<in> set hs" using assms last_in_set [of hs] by (simp add: roll_ok_def)
  with assms have ofs: "rb_ofs s \<in> dom (fs_files (w_fs w))" by (auto simp: roll_ok_def)
  then show "roll_ok cs f0 (s\<lparr>rb_cur_fsize := rb_cur_fsize s + length data\<rparr>,
      w\<lparr>w_fs := os_append (rb_ofs s) data (w_fs w)\<rparr>, hs)"
    using assms(1) by (auto simp: roll_ok_def roll_fresh_def roll_path_def insert_absorb)
  show "roll_written (s', w\<lparr>w_fs := os_append (rb_ofs s) data (w_fs w)\<rparr>, hs) =
      roll_written (s, w, hs) @ data"
    using assms(1) unfolding roll_written_def prod.case
    by (intro concat_last) (auto simp: roll_ok_def dest: distinct_last)
qed

lemma roll_file_ok:
  assumes "roll_ok cs f0 (s, w, hs)"
  obtains s' w' where "roll_file lt s w = Some (s', w')" "roll_ok cs f0 (s', w', hs @ [rb_ofs s'])"
    "roll_written (s', w', hs @ [rb_ofs s']) = roll_written (s, w, hs)"
    "rb_max_fsize s' = rb_max_fsize s" "file_text (w_fs w') (rb_ofs s') = []"
    "\<forall>h\<in>set hs. file_text (w_fs w') h = file_text (w_fs w) h \<and> h \<noteq> rb_ofs s'"
proof -
  let ?fs = "w_fs w" and ?n = "rb_name_count s"
  let ?r = "roll_path cs f0 ?fs lt ?n"
  have b: "base_ok cs f0" and name: "rb_basename s = dir_name cs @ f0"
    and dir: "fs_cwd ?fs @ cs \<in> fs_dirs ?fs" and hs: "set hs \<subseteq> dom (fs_files ?fs)"
    and fresh: "roll_fresh cs f0 ?fs ?n"
    using assms by (simp_all add: roll_ok_def)
  note p = roll_name_path [OF b, where lt = lt and n = ?n]
  have new: "?r \<notin> dom (fs_files ?fs)" "?r \<notin> fs_dirs ?fs"
    using fresh by (auto simp: roll_fresh_def)
  let ?w = "w\<lparr>w_fs := ?fs\<lparr>fs_files := (fs_files ?fs)(?r \<mapsto> [])\<rparr>\<rparr>"
  let ?s = "s\<lparr>rb_name_count := ?n + 1, rb_ofs := ?r, rb_cur_fsize := 0\<rparr>"
  have "?r \<noteq> []" "butlast ?r = fs_cwd ?fs @ cs" by (simp_all add: roll_path_def butlast_append)
  with new p dir have "os_open_app (roll_name (rb_basename s) lt ?n) ?fs =
      Some (?r, ?fs\<lparr>fs_files := (fs_files ?fs)(?r \<mapsto> [])\<rparr>)"
    by (simp add: os_open_app_def Let_def name domIff)
  then have f: "roll_file lt s w = Some (?s, ?w)"
    by (simp add: roll_file_def creatNewFile_def)
  have fresh': "roll_fresh cs f0 (w_fs ?w) (?n + 1)"
    using fresh by (auto simp: roll_fresh_def roll_path_def dest: roll_last_count)
  have r: "?r \<notin> set hs" using hs new by blast
  have ft: "file_text (w_fs ?w) h = (if h = ?r then [] else file_text ?fs h)" for h
    by (simp add: file_text_def)
  have ok: "roll_ok cs f0 (?s, ?w, hs @ [?r])"
    using assms fresh' r ft [of ?r] by (auto simp: roll_ok_def)
  have "map (file_text (w_fs ?w)) hs = map (file_text ?fs) hs" using r ft by auto
  then have "concat (map (file_text (w_fs ?w)) hs) = concat (map (file_text ?fs) hs)" by (rule arg_cong)
  then have wr: "roll_written (?s, ?w, hs @ [?r]) = roll_written (s, w, hs)"
    using ft [of ?r] by (simp add: roll_written_def)
  have "\<forall>h\<in>set hs. file_text (w_fs ?w) h = file_text ?fs h \<and> h \<noteq> ?r" using ft r by auto
  with that [OF f] ok wr ft [of ?r] show ?thesis by simp
qed

interpretation roll: log_sink roll_take roll_written "roll_ok cs f0" for cs f0
proof
  fix st lt data
  assume ok: "roll_ok cs f0 st"
  obtain s w hs where st: "st = (s, w, hs)" by (metis prod_cases3)
  show "\<exists>st'. roll_take lt data st = Some st' \<and> roll_ok cs f0 st' \<and>
      roll_written st' = roll_written st @ data"
  proof (cases "rb_max_fsize s \<le> rb_cur_fsize s")
    case False
    with roll_ok_append [OF ok [unfolded st], where data = data] show ?thesis
      by (auto simp: st roll_take_def RollBySizeSink_log_def)
  next
    case True
    obtain s1 w1 where r: "roll_file lt s w = Some (s1, w1)" "roll_ok cs f0 (s1, w1, hs @ [rb_ofs s1])"
      "roll_written (s1, w1, hs @ [rb_ofs s1]) = roll_written (s, w, hs)"
      by (rule roll_file_ok [OF ok [unfolded st]]) blast
    from roll_ok_append [OF r(2), where data = data] True r show ?thesis
      by (auto simp: st roll_take_def RollBySizeSink_log_def)
  qed
qed

text \<open>The files stay below the limit plus one message.\<close>

definition roll_small :: "nat \<Rightarrow> nat \<Rightarrow> roll_state \<Rightarrow> bool" where
  "roll_small mx L = (\<lambda>(s, w, hs). rb_max_fsize s = mx \<and>
     (\<forall>h\<in>set hs. length (file_text (w_fs w) h) \<le> mx + L))"

lemma roll_small_step:
  assumes "roll_ok cs f0 st" and "roll_small mx L st" and "length data \<le> L"
    and "roll_take lt data st = Some st'"
  shows "roll_small mx L st'"
proof -
  obtain s w hs where st: "st = (s, w, hs)" by (metis prod_cases3)
  have app: "roll_small mx L (s1\<lparr>rb_cur_fsize := c\<rparr>, w1\<lparr>w_fs := os_append (rb_ofs s1) data (w_fs w1)\<rparr>, hs1)"
    if "roll_small mx L (s1, w1, hs1)" "length (file_text (w_fs w1) (rb_ofs s1)) \<le> mx" for s1 w1 hs1 c
    using that assms(3) by (auto simp: roll_small_def)
  show ?thesis
  proof (cases "rb_max_fsize s \<le> rb_cur_fsize s")
    case False
    with assms have "length (file_text (w_fs w) (rb_ofs s)) \<le> mx"
      by (simp add: st roll_ok_def roll_small_def)
    with False app [of s w hs] assms(2,4) show ?thesis
      by (auto simp: st roll_take_def RollBySizeSink_log_def)
  next
    case True
    obtain s1 w1 where r: "roll_file lt s w = Some (s1, w1)" "rb_max_fsize s1 = rb_max_fsize s"
      "file_text (w_fs w1) (rb_ofs s1) = []"
      "\<forall>h\<in>set hs. file_text (w_fs w1) h = file_text (w_fs w) h \<and> h \<noteq> rb_ofs s1"
      by (rule roll_file_ok [OF assms(1) [unfolded st]]) blast
    have "roll_small mx L (s1, w1, hs @ [rb_ofs s1])"
      using assms(2) r by (simp add: st roll_small_def)
    with True r app [of s1 w1 "hs @ [rb_ofs s1]"] assms(4) show ?thesis
      by (auto simp: st roll_take_def RollBySizeSink_log_def)
  qed
qed

text \<open>A rolling sink from its construction on: the sink, the files, and what they hold.\<close>

definition roll_all :: "(tm \<times> bytes) list \<Rightarrow> roll_state \<Rightarrow> roll_state option" where
  "roll_all ms st = fold (\<lambda>(lt, data) r. Option.bind r (roll_take lt data)) ms (Some st)"

lemma roll_all_simps [simp]:
  "roll_all [] st = Some st"
  "roll_all ((lt, data) # ms) st = (case roll_take lt data st of None \<Rightarrow> None | Some st' \<Rightarrow> roll_all ms st')"
proof -
  have "fold (\<lambda>(lt, data) r. Option.bind r (roll_take lt data)) ms None = None" for ms
    by (induction ms) auto
  then show "roll_all ((lt, data) # ms) st =
      (case roll_take lt data st of None \<Rightarrow> None | Some st' \<Rightarrow> roll_all ms st')"
    by (simp add: roll_all_def split: option.split)
qed (simp add: roll_all_def)

lemma roll_all_take_all: "roll_all ms st = roll.take_all ms st"
  by (induction ms st rule: roll.take_all.induct) (auto split: option.split)

lemma roll_all_small:
  assumes "roll_ok cs f0 st" and "roll_small mx L st" and "\<forall>m\<in>set ms. length (snd m) \<le> L"
    and "roll_all ms st = Some st'"
  shows "roll_small mx L st'"
  using assms
proof (induction ms arbitrary: st)
  case (Cons m ms)
  obtain lt data where m: "m = (lt, data)" by fastforce
  from roll.take_ok [OF Cons.prems(1), of lt data] obtain st1 where
    st1: "roll_take lt data st = Some st1" "roll_ok cs f0 st1" by blast
  from roll_small_step [OF Cons.prems(1,2) _ st1(1)] Cons.prems(3) m have "roll_small mx L st1" by simp
  with Cons.IH [OF st1(2)] Cons.prems(3,4) m st1(1) show ?case by simp
qed simp

definition roll_start :: "bytes list \<Rightarrow> bytes \<Rightarrow> world \<Rightarrow> bool" where
  "roll_start cs f0 w \<longleftrightarrow> base_ok cs f0 \<and> way_free (w_fs w) cs \<and>
     fs_cwd (w_fs w) \<in> fs_dirs (w_fs w) \<and> roll_fresh cs f0 (w_fs w) 0"

lemma new_roll_ok:
  assumes "roll_start cs f0 w"
  obtains s w' where "new_RollBySizeSink (dir_name cs @ f0) mx lt w = Some (s, w')"
    "roll_ok cs f0 (s, w', [rb_ofs s])" "roll_small mx L (s, w', [rb_ofs s])"
    "roll_written (s, w', [rb_ofs s]) = []"
proof -
  let ?fs = "w_fs w" and ?f = "roll_last f0 lt 0"
  let ?r = "roll_path cs f0 ?fs lt 0"
  from assms have b: "base_ok cs f0" and free: "way_free ?fs cs" and cwd: "fs_cwd ?fs \<in> fs_dirs ?fs"
    and fresh: "roll_fresh cs f0 ?fs 0" by (simp_all add: roll_start_def)
  have cs: "\<forall>c\<in>set cs. plain_comp c" using b by (simp add: base_ok_def)
  have new: "?r \<notin> dom (fs_files ?fs)" "?r \<notin> fs_dirs ?fs" using fresh by (auto simp: roll_fresh_def)
  then obtain fs' where o: "open_log (dir_name cs @ ?f) ?fs = Some (?r, fs')"
    and dir: "fs_cwd ?fs @ cs \<in> fs_dirs fs'" "fs_cwd fs' = fs_cwd ?fs"
    and files: "fs_files fs' = (fs_files ?fs)(?r \<mapsto> [])"
    and dirs: "fs_dirs fs' \<subseteq> fs_dirs ?fs \<union> {fs_cwd ?fs @ take n cs | n. True}"
    by (auto intro: open_log_works [OF cs roll_last_plain [OF b] free cwd] simp: roll_path_def file_text_def domIff)
  let ?s = "\<lparr>rb_basename = dir_name cs @ f0, rb_ofs = ?r, rb_max_fsize = mx, rb_cur_fsize = 0,
      rb_name_count = 1\<rparr>"
  let ?w = "w\<lparr>w_fs := fs'\<rparr>"
  have n: "new_RollBySizeSink (dir_name cs @ f0) mx lt w = Some (?s, ?w)"
    using o roll_name_path(1) [OF b]
    by (simp add: new_RollBySizeSink_def creatNewFile_def open_log_def)
  have "roll_path cs f0 ?fs lt' n \<notin> {fs_cwd ?fs @ take m cs | m. True}" for lt' n
  proof
    assume "roll_path cs f0 ?fs lt' n \<in> {fs_cwd ?fs @ take m cs | m. True}"
    then obtain m where "cs @ [roll_last f0 lt' n] = take m cs" by (auto simp: roll_path_def)
    then have "length (cs @ [roll_last f0 lt' n]) = length (take m cs)" by simp
    then show False by simp
  qed
  with dirs fresh have "roll_path cs f0 ?fs lt' n \<notin> fs_dirs fs'" for lt' n
    by (auto simp: roll_fresh_def)
  then have "roll_fresh cs f0 fs' 1"
    using fresh files dir(2) by (auto simp: roll_fresh_def roll_path_def dest: roll_last_count)
  then have "roll_ok cs f0 (?s, ?w, [?r])"
    using b dir files by (simp add: roll_ok_def file_text_def)
  moreover have "roll_small mx L (?s, ?w, [?r])" "roll_written (?s, ?w, [?r]) = []"
    using files by (simp_all add: roll_small_def roll_written_def file_text_def)
  ultimately show ?thesis using that [OF n] by simp
qed

section \<open>Properties\<close>

text \<open>A working directory without files.\<close>

definition empty_world :: world where
  "empty_world = \<lparr>w_stdout = [], w_fs = \<lparr>fs_cwd = [], fs_dirs = {[]}, fs_files = Map.empty\<rparr>\<rparr>"

lemma file_sink_fold:
  "file_text (w_fs (fold (\<lambda>d. FileSink_log d s) ms w)) (fk_ofs s) =
     file_text (w_fs w) (fk_ofs s) @ concat ms"
  by (induction ms arbitrary: w) (simp_all add: FileSink_log_def)

text \<open>C11: a rolling sink constructed where none of its names is taken loses nothing: whatever messages it
  gets at whatever times, it opens files of different names, whose contents one after the other are
  the messages in their order, and no file grows beyond the limit by more than one message.\<close>

theorem roll_keeps_all:
  assumes "roll_start cs f0 w" and "\<forall>m\<in>set ms. length (snd m) \<le> L"
  shows "\<exists>s w1 s' w2 hs.
    new_RollBySizeSink (dir_name cs @ f0) mx lt w = Some (s, w1) \<and>
    roll_all ms (s, w1, [rb_ofs s]) = Some (s', w2, hs) \<and> distinct hs \<and>
    concat (map (file_text (w_fs w2)) hs) = concat (map snd ms) \<and>
    (\<forall>h\<in>set hs. length (file_text (w_fs w2) h) \<le> mx + L)"
proof -
  from assms(1) obtain s w1 where n: "new_RollBySizeSink (dir_name cs @ f0) mx lt w = Some (s, w1)"
    and st: "roll_ok cs f0 (s, w1, [rb_ofs s])" "roll_small mx L (s, w1, [rb_ofs s])"
      "roll_written (s, w1, [rb_ofs s]) = []" by (rule new_roll_ok) blast
  from roll.take_all_ok [OF st(1), of ms] obtain st' where t: "roll_all ms (s, w1, [rb_ofs s]) = Some st'"
    "roll_ok cs f0 st'" "roll_written st' = concat (map snd ms)"
    using st(3) by (auto simp: roll_all_take_all)
  from roll_all_small [OF st(1,2) assms(2) t(1)] have "roll_small mx L st'" .
  moreover obtain s' w2 hs where "st' = (s', w2, hs)" by (metis prod_cases3)
  ultimately show ?thesis
    using n t by (auto simp: roll_ok_def roll_written_def roll_small_def)
qed

theorem roll_keeps_all_witness:
  "\<exists>s w1 s' w2 hs.
    new_RollBySizeSink (dir_name [''logs''] @ ''r'') 4 \<lparr>tm_sec = 1, tm_min = 2, tm_hour = 3, tm_mday = 4,
      tm_mon = 5, tm_year = 125\<rparr> empty_world = Some (s, w1) \<and>
    roll_all (replicate 3 (\<lparr>tm_sec = 1, tm_min = 2, tm_hour = 3, tm_mday = 4, tm_mon = 5,
      tm_year = 125\<rparr>, ''abc'')) (s, w1, [rb_ofs s]) = Some (s', w2, hs) \<and> distinct hs \<and>
    concat (map (file_text (w_fs w2)) hs) = concat (map snd (replicate 3 (\<lparr>tm_sec = 1, tm_min = 2,
      tm_hour = 3, tm_mday = 4, tm_mon = 5, tm_year = 125\<rparr>, ''abc''))) \<and>
    (\<forall>h\<in>set hs. length (file_text (w_fs w2) h) \<le> 4 + 3)"
  by (rule roll_keeps_all)
     (simp_all add: roll_start_def empty_world_def base_ok_def plain_comp_def real_comp_def slashes_def
       way_free_def roll_fresh_def roll_path_def)

text \<open>A file sink makes the directories of its path, opens the file and appends: after any messages
  the file holds what it held before, followed by the messages in their order.\<close>

lemma file_sink_appends:
  assumes "\<forall>c\<in>set cs. plain_comp c" and "plain_comp f" and "way_free (w_fs w) cs"
    and "fs_cwd (w_fs w) \<in> fs_dirs (w_fs w)" and "r = fs_cwd (w_fs w) @ cs @ [f]"
    and "r \<notin> fs_dirs (w_fs w)"
  shows "\<exists>s w1. new_FileSink (dir_name cs @ f) w = Some (s, w1) \<and>
    file_text (w_fs (fold (\<lambda>d. FileSink_log d s) ms w1)) r = file_text (w_fs w) r @ concat ms"
proof -
  obtain fs' where o: "open_log (dir_name cs @ f) (w_fs w) = Some (r, fs')"
    and files: "fs_files fs' = (fs_files (w_fs w))(r \<mapsto> file_text (w_fs w) r)"
    using open_log_works [OF assms(1-4)] assms(6) unfolding assms(5) by metis
  let ?s = "\<lparr>fk_pathname = dir_name cs @ f, fk_ofs = r\<rparr>"
  have "new_FileSink (dir_name cs @ f) w = Some (?s, w\<lparr>w_fs := fs'\<rparr>)"
    using o by (simp add: new_FileSink_def open_log_def)
  moreover have "file_text fs' r = file_text (w_fs w) r" by (simp add: file_text_def files)
  ultimately show ?thesis using file_sink_fold [of ?s ms "w\<lparr>w_fs := fs'\<rparr>"] by auto
qed

end
