(* ===== verification/Log_Format.thy ===== *)
theory Log_Format
  imports Log_Data
begin

text \<open>
  \<open>Formatter\<close> of \<open>http/logs/format.hpp\<close>: the pattern language, its parser and the formatting of a
  message. A pattern the constructor refuses (it aborts the program) is an \<open>Inl\<close>.
\<close>

section \<open>Items\<close>

datatype FormatItem =
    MsgFormatItem
  | LevelFormatItem
  | TimeFormatItem bytes
  | FileFormatItem
  | LineFormatItem
  | ThreadFormatItem
  | LoggerFormatItem
  | TabFormatItem
  | NlineFormatItem
  | OtherFormatItem bytes

text \<open>
  \<open>strftime\<close> with the conversions of the default pattern and the date; any other one is left to the
  parameter \<open>conv\<close>. It returns 0, and the buffer is then unspecified, when the text and its final
  NUL need more than \<open>max\<close> bytes.
\<close>

definition two_digits :: "nat \<Rightarrow> bytes" where
  "two_digits n = [digit_char (n div 10 mod 10), digit_char (n mod 10)]"

definition time_conv :: "(char \<Rightarrow> tm \<Rightarrow> bytes) \<Rightarrow> char \<Rightarrow> tm \<Rightarrow> bytes" where
  "time_conv conv c t =
     (if c = CHR ''H'' then two_digits (tm_hour t)
      else if c = CHR ''M'' then two_digits (tm_min t)
      else if c = CHR ''S'' then two_digits (tm_sec t)
      else if c = CHR ''d'' then two_digits (tm_mday t)
      else if c = CHR ''m'' then two_digits (tm_mon t + 1)
      else if c = CHR ''Y'' then string_of_int (tm_year t + 1900)
      else if c = CHR ''%'' then ''%''
      else conv c t)"

fun time_text :: "(char \<Rightarrow> tm \<Rightarrow> bytes) \<Rightarrow> bytes \<Rightarrow> tm \<Rightarrow> bytes" where
  "time_text conv [] t = []"
| "time_text conv [c] t = [c]"
| "time_text conv (c # d # cs) t =
     (if c = CHR ''%'' then time_conv conv d t @ time_text conv cs t
      else c # time_text conv (d # cs) t)"

definition strftime :: "(char \<Rightarrow> tm \<Rightarrow> bytes) \<Rightarrow> nat \<Rightarrow> bytes \<Rightarrow> tm \<Rightarrow> bytes option" where
  "strftime conv room fmt t =
     (let s = time_text conv (c_str fmt) t in if length s < room then Some s else None)"

text \<open>What the formatting finds in its surroundings.\<close>

record format_env =
  fe_localtime :: "int \<Rightarrow> tm"
  fe_conv :: "char \<Rightarrow> tm \<Rightarrow> bytes"
  fe_junk :: bytes

fun item_format :: "format_env \<Rightarrow> FormatItem \<Rightarrow> LogMsg \<Rightarrow> bytes" where
  "item_format e MsgFormatItem msg = msg_payload msg"
| "item_format e LevelFormatItem msg = tostring (msg_level msg)"
| "item_format e (TimeFormatItem fmt) msg =
     c_str (case strftime (fe_conv e) 31 fmt (fe_localtime e (msg_ctime msg)) of
              Some s \<Rightarrow> s | None \<Rightarrow> fe_junk e)"
| "item_format e FileFormatItem msg = msg_file msg"
| "item_format e LineFormatItem msg = string_of_nat (msg_line msg)"
| "item_format e ThreadFormatItem msg = string_of_nat (msg_tid msg)"
| "item_format e LoggerFormatItem msg = msg_logger msg"
| "item_format e TabFormatItem msg = [CHR 0x09]"
| "item_format e NlineFormatItem msg = [LF]"
| "item_format e (OtherFormatItem s) msg = s"

section \<open>The parser\<close>

datatype fmt_error = MissingKey | MissingBrace | UnknownKey bytes

text \<open>The text of a sub-rule, up to the closing brace.\<close>

fun sub_rule :: "bytes \<Rightarrow> bytes \<Rightarrow> (bytes \<times> bytes) option" where
  "sub_rule val [] = None"
| "sub_rule val (c # cs) = (if c = CHR ''}'' then Some (val, cs) else sub_rule (val @ [c]) cs)"

lemma sub_rule_shorter: "sub_rule val cs = Some (v, rest) \<Longrightarrow> length rest < length cs"
  by (induction val cs rule: sub_rule.induct) (auto split: if_splits)

text \<open>A non-empty \<open>val\<close> becomes an entry without a key.\<close>

definition flush_val :: "bytes \<Rightarrow> (bytes \<times> bytes) list \<Rightarrow> (bytes \<times> bytes) list" where
  "flush_val val fmt_order = (if val = [] then fmt_order else fmt_order @ [([], val)])"

text \<open>The first loop of \<open>parsePattern\<close>, on the rest of the pattern.\<close>

function parse_loop ::
  "bytes \<Rightarrow> bytes \<Rightarrow> (bytes \<times> bytes) list \<Rightarrow> fmt_error + (bytes \<times> bytes) list" where
  "parse_loop [] val fmt_order = Inr fmt_order"
| "parse_loop (c # cs) val fmt_order =
     (if c \<noteq> CHR ''%'' then parse_loop cs (val @ [c]) fmt_order
      else (case cs of
              [] \<Rightarrow> Inl MissingKey
            | key # cs1 \<Rightarrow>
                if key = CHR ''%'' then parse_loop cs1 (val @ ''%'') fmt_order
                else (case cs1 of
                        [] \<Rightarrow> parse_loop [] [] (flush_val val fmt_order @ [([key], [])])
                      | d # cs2 \<Rightarrow>
                          if d = CHR ''{'' then
                            (case sub_rule [] cs2 of
                               None \<Rightarrow> Inl MissingBrace
                             | Some (v, rest) \<Rightarrow>
                                 parse_loop rest [] (flush_val val fmt_order @ [([key], v)]))
                          else parse_loop cs1 [] (flush_val val fmt_order @ [([key], [])]))))"
  by pat_completeness auto
termination
  by (relation "measure (\<lambda>(cs, val, fmt_order). length cs)") (auto dest: sub_rule_shorter)

declare parse_loop.simps(2) [simp del]

definition creatItem :: "bytes \<Rightarrow> bytes \<Rightarrow> fmt_error + FormatItem" where
  "creatItem key val =
     (if key = ''d'' then Inr (TimeFormatItem val)
      else if key = ''t'' then Inr ThreadFormatItem
      else if key = ''c'' then Inr LoggerFormatItem
      else if key = ''f'' then Inr FileFormatItem
      else if key = ''l'' then Inr LineFormatItem
      else if key = ''p'' then Inr LevelFormatItem
      else if key = ''T'' then Inr TabFormatItem
      else if key = ''m'' then Inr MsgFormatItem
      else if key = ''n'' then Inr NlineFormatItem
      else if key = '''' then Inr (OtherFormatItem val)
      else Inl (UnknownKey key))"

fun creat_items :: "(bytes \<times> bytes) list \<Rightarrow> fmt_error + FormatItem list" where
  "creat_items [] = Inr []"
| "creat_items ((key, val) # es) =
     (case creatItem key val of
        Inl e \<Rightarrow> Inl e
      | Inr it \<Rightarrow> (case creat_items es of Inl e \<Rightarrow> Inl e | Inr its \<Rightarrow> Inr (it # its)))"

definition parsePattern :: "bytes \<Rightarrow> fmt_error + FormatItem list" where
  "parsePattern pattern =
     (case parse_loop pattern [] [] of Inl e \<Rightarrow> Inl e | Inr fmt_order \<Rightarrow> creat_items fmt_order)"

section \<open>The formatter\<close>

record Formatter =
  fm_pattern :: bytes
  fm_items :: "FormatItem list"

definition new_Formatter :: "bytes \<Rightarrow> fmt_error + Formatter" where
  "new_Formatter pattern =
     (case parsePattern pattern of
        Inl e \<Rightarrow> Inl e
      | Inr items \<Rightarrow> Inr \<lparr>fm_pattern = pattern, fm_items = items\<rparr>)"

definition default_pattern :: bytes where
  "default_pattern = ''[%d{%H:%M:%S}][%t][%c][%f:%l][%p]%T%m%n''"

definition fmt_format :: "format_env \<Rightarrow> Formatter \<Rightarrow> LogMsg \<Rightarrow> bytes" where
  "fmt_format e f msg = concat (map (\<lambda>it. item_format e it msg) (fm_items f))"

section \<open>Printed patterns\<close>

fun escape :: "bytes \<Rightarrow> bytes" where
  "escape [] = []"
| "escape (c # cs) = (if c = CHR ''%'' then ''%%'' @ escape cs else c # escape cs)"

fun print_item :: "FormatItem \<Rightarrow> bytes" where
  "print_item MsgFormatItem = ''%m''"
| "print_item LevelFormatItem = ''%p''"
| "print_item (TimeFormatItem f) = ''%d{'' @ f @ ''}''"
| "print_item FileFormatItem = ''%f''"
| "print_item LineFormatItem = ''%l''"
| "print_item ThreadFormatItem = ''%t''"
| "print_item LoggerFormatItem = ''%c''"
| "print_item TabFormatItem = ''%T''"
| "print_item NlineFormatItem = ''%n''"
| "print_item (OtherFormatItem s) = escape s"

definition print_items :: "FormatItem list \<Rightarrow> bytes" where
  "print_items its = concat (map print_item its)"

fun is_other :: "FormatItem \<Rightarrow> bool" where
  "is_other (OtherFormatItem s) = True"
| "is_other _ = False"

text \<open>Text items are not empty, do not start with a brace, are not adjacent and not last.\<close>

fun item_ok :: "FormatItem \<Rightarrow> FormatItem list \<Rightarrow> bool" where
  "item_ok (OtherFormatItem s) its =
     (s \<noteq> [] \<and> hd s \<noteq> CHR ''{'' \<and> its \<noteq> [] \<and> \<not> is_other (hd its))"
| "item_ok (TimeFormatItem f) its = (CHR ''}'' \<notin> set f)"
| "item_ok _ its = True"

fun printable :: "FormatItem list \<Rightarrow> bool" where
  "printable [] = True"
| "printable (it # its) = (item_ok it its \<and> printable its)"

lemma parse_escape:
  "parse_loop (escape s @ cs) val fmt_order = parse_loop cs (val @ s) fmt_order"
  by (induction s arbitrary: val) (simp_all add: parse_loop.simps(2))

lemma escape_no_brace: "escape s \<noteq> [] \<Longrightarrow> hd s \<noteq> CHR ''{'' \<Longrightarrow> hd (escape s) \<noteq> CHR ''{''"
  by (cases s) auto

lemma sub_rule_end: "CHR ''}'' \<notin> set f \<Longrightarrow> sub_rule val (f @ CHR ''}'' # cs) = Some (val @ f, cs)"
  by (induction f arbitrary: val) auto

text \<open>The key and the text of an item.\<close>

fun entry :: "FormatItem \<Rightarrow> bytes \<times> bytes" where
  "entry MsgFormatItem = (''m'', [])"
| "entry LevelFormatItem = (''p'', [])"
| "entry (TimeFormatItem f) = (''d'', f)"
| "entry FileFormatItem = (''f'', [])"
| "entry LineFormatItem = (''l'', [])"
| "entry ThreadFormatItem = (''t'', [])"
| "entry LoggerFormatItem = (''c'', [])"
| "entry TabFormatItem = (''T'', [])"
| "entry NlineFormatItem = (''n'', [])"
| "entry (OtherFormatItem s) = ([], s)"

lemma creatItem_entry: "creatItem (fst (entry it)) (snd (entry it)) = Inr it"
  by (cases it) (simp_all add: creatItem_def)

lemma creat_items_entries: "creat_items (map entry its) = Inr its"
proof (induction its)
  case (Cons it its)
  obtain k v where e: "entry it = (k, v)" by fastforce
  with creatItem_entry [of it] Cons show ?case by simp
qed simp

definition no_brace :: "bytes \<Rightarrow> bool" where
  "no_brace cs \<longleftrightarrow> cs = [] \<or> hd cs \<noteq> CHR ''{''"

lemma parse_item:
  assumes "\<not> is_other it" and "\<And>f. it = TimeFormatItem f \<Longrightarrow> CHR ''}'' \<notin> set f"
    and "no_brace cs"
  shows "parse_loop (print_item it @ cs) val fmt_order =
    parse_loop cs [] (flush_val val fmt_order @ [entry it])"
  using assms by (cases it)
    (auto simp: parse_loop.simps(2) no_brace_def sub_rule_end split: list.split)

lemma printable_no_brace:
  assumes "printable its" and "no_brace cs"
  shows "no_brace (print_items its @ cs)"
proof (cases its)
  case Nil
  with assms show ?thesis by (simp add: print_items_def)
next
  case (Cons it its')
  show ?thesis
  proof (cases "is_other it")
    case True
    then obtain s where it: "it = OtherFormatItem s" by (cases it) auto
    with Cons assms(1) have s: "s \<noteq> []" "hd s \<noteq> CHR ''{''" by auto
    then have "escape s \<noteq> []" by (cases s) auto
    with escape_no_brace [OF this s(2)] Cons it show ?thesis
      by (simp add: no_brace_def print_items_def)
  next
    case False
    with Cons show ?thesis by (cases it) (simp_all add: no_brace_def print_items_def)
  qed
qed

lemma parse_printed:
  assumes "printable its" and "no_brace cs"
    and "val = [] \<or> its \<noteq> [] \<and> \<not> is_other (hd its)"
  shows "parse_loop (print_items its @ cs) val fmt_order =
    parse_loop cs [] (flush_val val fmt_order @ map entry its)"
  using assms(1,3)
proof (induction its arbitrary: val fmt_order)
  case Nil
  then show ?case by (simp add: print_items_def flush_val_def)
next
  case (Cons it its)
  show ?case
  proof (cases "is_other it")
    case True
    then obtain s where it: "it = OtherFormatItem s" by (cases it) auto
    with Cons.prems have s: "s \<noteq> []" "val = []" "its \<noteq> []" "\<not> is_other (hd its)" by auto
    with Cons.IH [of s fmt_order] Cons.prems(1) it show ?thesis
      by (simp add: print_items_def parse_escape flush_val_def)
  next
    case False
    have b: "no_brace (print_items its @ cs)"
      using printable_no_brace [OF _ assms(2)] Cons.prems(1) by simp
    have t: "\<And>f. it = TimeFormatItem f \<Longrightarrow> CHR ''}'' \<notin> set f" using Cons.prems(1) by simp
    from parse_item [OF False t b] Cons.IH [of "[]"] Cons.prems(1) show ?thesis
      by (simp add: print_items_def flush_val_def)
  qed
qed

lemma parse_literal: "CHR ''%'' \<notin> set cs \<Longrightarrow> parse_loop cs val fmt_order = Inr fmt_order"
  by (induction cs arbitrary: val) (auto simp: parse_loop.simps(2))

lemma parsePattern_items:
  assumes "printable its" and "CHR ''%'' \<notin> set lit" and "no_brace lit"
  shows "parsePattern (print_items its @ lit) = Inr its"
  using parse_printed [OF assms(1,3), of "[]" "[]"] parse_literal [OF assms(2)]
  by (simp add: parsePattern_def flush_val_def creat_items_entries)

definition default_items :: "FormatItem list" where
  "default_items = [OtherFormatItem ''['', TimeFormatItem ''%H:%M:%S'', OtherFormatItem ''][''
     , ThreadFormatItem, OtherFormatItem '']['', LoggerFormatItem, OtherFormatItem ''][''
     , FileFormatItem, OtherFormatItem '':'', LineFormatItem, OtherFormatItem ''][''
     , LevelFormatItem, OtherFormatItem '']'', TabFormatItem, MsgFormatItem, NlineFormatItem]"

lemma default_parsed: "new_Formatter default_pattern =
    Inr \<lparr>fm_pattern = default_pattern, fm_items = default_items\<rparr>"
proof -
  have "default_pattern = print_items default_items @ []"
    by (simp add: default_pattern_def default_items_def print_items_def)
  moreover have "parsePattern (print_items default_items @ []) = Inr default_items"
    by (rule parsePattern_items) (simp_all add: no_brace_def default_items_def)
  ultimately show ?thesis by (simp add: new_Formatter_def)
qed

lemma two_digits_no_nul: "NUL \<notin> set (two_digits n)"
  using isdigit_nonul [OF isdigit_digit_char, of "n mod 10"]
    isdigit_nonul [OF isdigit_digit_char, of "n div 10 mod 10"]
  by (simp add: two_digits_def)

section \<open>Properties\<close>

text \<open>C12: a printed list of items, followed by text without a percent sign that does not start with a
  brace, parses to exactly these items: printing and parsing are inverse to each other, and the text
  after the last item of a pattern is lost.\<close>

theorem parsePattern_print:
  assumes "printable its" and "CHR ''%'' \<notin> set lit" and "no_brace lit"
  shows "parsePattern (print_items its @ lit) = Inr its"
  using assms by (rule parsePattern_items)

theorem parsePattern_print_witness:
  "parsePattern (print_items [OtherFormatItem ''5% '', TimeFormatItem ''%H'', MsgFormatItem] @ '' end'') =
     Inr [OtherFormatItem ''5% '', TimeFormatItem ''%H'', MsgFormatItem]"
  by (rule parsePattern_print) (simp_all add: no_brace_def)

text \<open>The default formatter writes a message as the time of day, the thread, the logger, the place in
  the source, the level, a tab, the text and a line feed.\<close>

lemma default_line:
  "\<exists>f. new_Formatter default_pattern = Inr f \<and>
     (let t = fe_localtime e (msg_ctime msg) in
      fmt_format e f msg =
        ''['' @ two_digits (tm_hour t) @ '':'' @ two_digits (tm_min t) @ '':'' @ two_digits (tm_sec t) @
        ''][''  @ string_of_nat (msg_tid msg) @ ''][''  @ msg_logger msg @ '']['' @ msg_file msg @ '':'' @
        string_of_nat (msg_line msg) @ ''][''  @ tostring (msg_level msg) @ '']'' @ [CHR 0x09] @
        msg_payload msg @ [LF])"
proof -
  have "c_str ''%H:%M:%S'' = ''%H:%M:%S''" by (rule c_str_id) simp
  then have "item_format e (TimeFormatItem ''%H:%M:%S'') msg =
      (let t = fe_localtime e (msg_ctime msg) in
       two_digits (tm_hour t) @ '':'' @ two_digits (tm_min t) @ '':'' @ two_digits (tm_sec t))"
    by (simp add: strftime_def time_conv_def Let_def c_str_id two_digits_no_nul)
       (simp add: two_digits_def)
  then show ?thesis
    by (simp add: default_parsed fmt_format_def default_items_def Let_def)
qed

text \<open>A \<open>%d\<close> without a sub-rule writes no time at all: the empty format string replaces the default
  one of \<open>TimeFormatItem\<close>.\<close>

lemma bare_date_is_empty:
  "\<exists>f. new_Formatter ''%d%m'' = Inr f \<and> fmt_format e f msg = msg_payload msg"
proof -
  have "parsePattern ''%d%m'' = Inr [TimeFormatItem [], MsgFormatItem]"
    by (simp add: parsePattern_def parse_loop.simps(2) flush_val_def creatItem_def)
  then show ?thesis
    by (simp add: new_Formatter_def fmt_format_def strftime_def c_str_def)
qed

end
