(* ===== verification/Log_Buffer.thy ===== *)
theory Log_Buffer
  imports Prelude
begin

text \<open>
  \<open>Buffer\<close> of \<open>http/logs/buffer.hpp\<close>: a vector of bytes with a reading and a writing position, which
  \<open>push\<close> enlarges when it has to. The interface the asynchronous logger relies on, a queue of bytes,
  is the locale \<open>byte_queue\<close>; \<open>assert\<close> failures are \<open>None\<close>.
\<close>

section \<open>The data and the operations\<close>

definition DEFAULT_BUFFER_SIZE :: nat where "DEFAULT_BUFFER_SIZE = 1 * 1024 * 1024"
definition THRESHOLD_BUFFER_SIZE :: nat where "THRESHOLD_BUFFER_SIZE = 5 * 1024 * 1024"
definition INCREMENT_BUFFER_SIZE :: nat where "INCREMENT_BUFFER_SIZE = 1 * 1024 * 1024"

record Buffer =
  buf_data :: bytes
  buf_reader :: nat
  buf_writer :: nat

definition new_Buffer :: Buffer where
  "new_Buffer = \<lparr>buf_data = replicate DEFAULT_BUFFER_SIZE NUL, buf_reader = 0, buf_writer = 0\<rparr>"

definition buf_readAbleSize :: "Buffer \<Rightarrow> nat" where
  "buf_readAbleSize b = buf_writer b - buf_reader b"

definition buf_writeAbleSize :: "Buffer \<Rightarrow> nat" where
  "buf_writeAbleSize b = length (buf_data b) - buf_writer b"

definition buf_empty :: "Buffer \<Rightarrow> bool" where
  "buf_empty b \<longleftrightarrow> buf_reader b = buf_writer b"

definition resize :: "bytes \<Rightarrow> nat \<Rightarrow> bytes" where
  "resize s n = take n s @ replicate (n - length s) NUL"

definition ensureEnoughSize :: "nat \<Rightarrow> Buffer \<Rightarrow> Buffer" where
  "ensureEnoughSize len b =
     (if len \<le> buf_writeAbleSize b then b
      else (let new_size = (if length (buf_data b) < THRESHOLD_BUFFER_SIZE
                            then length (buf_data b) * 2 + len
                            else length (buf_data b) + INCREMENT_BUFFER_SIZE + len)
            in b\<lparr>buf_data := resize (buf_data b) new_size\<rparr>))"

definition moveWriter :: "nat \<Rightarrow> Buffer \<Rightarrow> Buffer option" where
  "moveWriter len b =
     (if len + buf_writer b \<le> length (buf_data b)
      then Some (b\<lparr>buf_writer := buf_writer b + len\<rparr>) else None)"

text \<open>\<open>std::copy\<close> to \<open>&_buffer[_writer_idx]\<close>.\<close>

definition copy_to :: "bytes \<Rightarrow> nat \<Rightarrow> bytes \<Rightarrow> bytes" where
  "copy_to buf at data = take at buf @ data @ drop (at + length data) buf"

definition buf_push :: "bytes \<Rightarrow> Buffer \<Rightarrow> Buffer option" where
  "buf_push data b =
     (let b1 = ensureEnoughSize (length data) b;
          b2 = b1\<lparr>buf_data := copy_to (buf_data b1) (buf_writer b1) data\<rparr>
      in moveWriter (length data) b2)"

text \<open>The bytes at \<open>begin()\<close>, \<open>readAbleSize()\<close> of them.\<close>

definition buf_begin :: "Buffer \<Rightarrow> bytes" where
  "buf_begin b = drop (buf_reader b) (buf_data b)"

definition moveReader :: "nat \<Rightarrow> Buffer \<Rightarrow> Buffer option" where
  "moveReader len b =
     (if len \<le> buf_readAbleSize b then Some (b\<lparr>buf_reader := buf_reader b + len\<rparr>) else None)"

definition buf_reset :: "Buffer \<Rightarrow> Buffer" where
  "buf_reset b = b\<lparr>buf_reader := 0, buf_writer := 0\<rparr>"

definition buf_swap :: "Buffer \<Rightarrow> Buffer \<Rightarrow> Buffer \<times> Buffer" where
  "buf_swap a b =
     (a\<lparr>buf_data := buf_data b, buf_reader := buf_reader b, buf_writer := buf_writer b\<rparr>,
      b\<lparr>buf_data := buf_data a, buf_reader := buf_reader a, buf_writer := buf_writer a\<rparr>)"

section \<open>Invariant and contents\<close>

definition buf_ok :: "Buffer \<Rightarrow> bool" where
  "buf_ok b \<longleftrightarrow> buf_reader b \<le> buf_writer b \<and> buf_writer b \<le> length (buf_data b)"

definition contents :: "Buffer \<Rightarrow> bytes" where
  "contents b = take (buf_readAbleSize b) (buf_begin b)"

named_theorems buf_defs

lemmas buf_views [buf_defs] = buf_readAbleSize_def buf_writeAbleSize_def buf_begin_def buf_empty_def
  contents_def buf_ok_def

lemma length_resize [simp]: "length (resize s n) = n"
  by (simp add: resize_def)

lemma take_resize: "m \<le> length s \<Longrightarrow> m \<le> n \<Longrightarrow> take m (resize s n) = take m s"
  by (simp add: resize_def min_def)

lemma length_copy_to [simp]: "at + length data \<le> length buf \<Longrightarrow> length (copy_to buf at data) = length buf"
  by (simp add: copy_to_def)

lemma new_Buffer_ok [simp]: "buf_ok new_Buffer" "contents new_Buffer = []" "buf_empty new_Buffer"
  by (simp_all add: new_Buffer_def buf_defs)

lemma contents_length: "buf_ok b \<Longrightarrow> length (contents b) = buf_readAbleSize b"
  by (auto simp: buf_defs min_def)

lemma empty_contents: "buf_ok b \<Longrightarrow> buf_empty b \<longleftrightarrow> contents b = []"
  by (auto simp: buf_defs)

lemma contents_alt: "buf_ok b \<Longrightarrow> contents b = drop (buf_reader b) (take (buf_writer b) (buf_data b))"
  by (simp add: buf_defs drop_take)

lemma ensureEnoughSize_ok:
  assumes "buf_ok b"
  shows "buf_ok (ensureEnoughSize len b)" "contents (ensureEnoughSize len b) = contents b"
    "len \<le> buf_writeAbleSize (ensureEnoughSize len b)"
    "buf_writer (ensureEnoughSize len b) = buf_writer b"
    "buf_reader (ensureEnoughSize len b) = buf_reader b"
proof -
  let ?b = "ensureEnoughSize len b"
  show w: "buf_writer ?b = buf_writer b" and r: "buf_reader ?b = buf_reader b"
    by (simp_all add: ensureEnoughSize_def Let_def)
  have l: "length (buf_data b) \<le> length (buf_data ?b)"
    by (simp add: ensureEnoughSize_def Let_def)
  show ok: "buf_ok ?b" using assms w r l by (simp add: buf_ok_def)
  show "len \<le> buf_writeAbleSize ?b"
    using assms by (auto simp: ensureEnoughSize_def Let_def buf_defs)
  have "take (buf_writer b) (buf_data ?b) = take (buf_writer b) (buf_data b)"
    using assms by (auto simp: ensureEnoughSize_def Let_def buf_ok_def intro!: take_resize)
  then show "contents ?b = contents b"
    using contents_alt [OF ok] contents_alt [OF assms] w r by simp
qed

text \<open>
  The sizes are naturals; they are those of the code, whose \<open>size_t\<close> has 64 bits, because none of
  the sums leaves that range.
\<close>

lemma ensureEnoughSize_bound:
  "length (buf_data b) < 2 ^ 62 \<Longrightarrow> len < 2 ^ 62 \<Longrightarrow> length (buf_data (ensureEnoughSize len b)) < 2 ^ 64"
  by (simp add: ensureEnoughSize_def Let_def THRESHOLD_BUFFER_SIZE_def INCREMENT_BUFFER_SIZE_def)

text \<open>\<open>push\<close> never fails, and appends; it enlarges the vector only when the bytes do not fit.\<close>

lemma buf_push_spec:
  assumes "buf_ok b"
  obtains b' where "buf_push data b = Some b'" "buf_ok b'" "contents b' = contents b @ data"
    "length (buf_data b') = length (buf_data (ensureEnoughSize (length data) b))"
proof -
  let ?b1 = "ensureEnoughSize (length data) b"
  note e = ensureEnoughSize_ok [OF assms, of "length data"]
  have fits: "length data + buf_writer ?b1 \<le> length (buf_data ?b1)"
    using e(1,3) unfolding buf_defs by linarith
  let ?d = "copy_to (buf_data ?b1) (buf_writer ?b1) data"
  let ?b' = "?b1\<lparr>buf_data := ?d, buf_writer := buf_writer ?b1 + length data\<rparr>"
  have len: "length ?d = length (buf_data ?b1)" using fits by (simp add: add.commute)
  have p: "buf_push data b = Some ?b'"
    using fits len by (simp add: buf_push_def moveWriter_def Let_def)
  have ok: "buf_ok ?b'" using e(1) fits len by (simp add: buf_ok_def)
  have "take (buf_writer ?b1 + length data) ?d = take (buf_writer ?b1) (buf_data ?b1) @ data"
    using fits by (simp add: copy_to_def)
  with e(1) have "contents ?b' = contents ?b1 @ data"
    unfolding contents_alt [OF ok] contents_alt [OF e(1)] by (simp add: buf_ok_def)
  with that [OF p ok] e(2) len show ?thesis by simp
qed

lemma moveReader_spec:
  assumes "buf_ok b" and "moveReader len b = Some b'"
  shows "buf_ok b'" "contents b' = drop len (contents b)"
  using assms by (auto simp: moveReader_def buf_defs drop_take add.commute split: if_splits)

lemma buf_reset_spec [simp]: "buf_ok (buf_reset b)" "contents (buf_reset b) = []"
  "buf_data (buf_reset b) = buf_data b"
  by (simp_all add: buf_reset_def buf_defs)

lemma buf_swap_spec [simp]: "buf_swap a b = (b, a)"
  by (simp add: buf_swap_def)

lemma buf_push_in_place:
  assumes "buf_ok b" and "length data \<le> buf_writeAbleSize b" and "buf_push data b = Some b'"
  shows "length (buf_data b') = length (buf_data b)"
  using assms(2) by (rule_tac buf_push_spec [OF assms(1), of data])
    (simp add: ensureEnoughSize_def assms(3))

section \<open>A queue of bytes\<close>

locale byte_queue =
  fixes fresh :: 'b and push :: "bytes \<Rightarrow> 'b \<Rightarrow> 'b option" and bytes_of :: "'b \<Rightarrow> bytes"
    and clear :: "'b \<Rightarrow> 'b" and ok :: "'b \<Rightarrow> bool"
  assumes fresh_ok: "ok fresh" and fresh_bytes: "bytes_of fresh = []"
    and push_ok: "ok b \<Longrightarrow> \<exists>b'. push data b = Some b' \<and> ok b' \<and> bytes_of b' = bytes_of b @ data"
    and clear_ok: "ok (clear b)" and clear_bytes: "bytes_of (clear b) = []"
begin

fun push_all :: "bytes list \<Rightarrow> 'b \<Rightarrow> 'b option" where
  "push_all [] b = Some b"
| "push_all (m # ms) b = (case push m b of None \<Rightarrow> None | Some b' \<Rightarrow> push_all ms b')"

lemma push_all_bytes:
  "ok b \<Longrightarrow> \<exists>b'. push_all ms b = Some b' \<and> ok b' \<and> bytes_of b' = bytes_of b @ concat ms"
proof (induction ms arbitrary: b)
  case (Cons m ms)
  then obtain b' where "push m b = Some b'" "ok b'" "bytes_of b' = bytes_of b @ m"
    using push_ok by blast
  with Cons.IH [of b'] show ?case by auto
qed simp

lemma push_all_fresh: "\<exists>b'. push_all ms (clear b) = Some b' \<and> bytes_of b' = concat ms"
  using push_all_bytes [OF clear_ok, of ms b] by (auto simp: clear_bytes)

end

interpretation bq: byte_queue new_Buffer buf_push contents buf_reset buf_ok
proof
  fix b data
  assume "buf_ok b"
  then show "\<exists>b'. buf_push data b = Some b' \<and> buf_ok b' \<and> contents b' = contents b @ data"
    by (rule buf_push_spec) blast
qed simp_all

section \<open>The buffer refines a queue\<close>

text \<open>
  The calls on one buffer, run on the buffer and on the bytes it stands for. \<open>None\<close> is a failing
  \<open>assert\<close>; on the bytes only a consumption of more than there is fails.
\<close>

datatype buffer_op = Push bytes | Consume nat | Clear

fun buffer_call :: "buffer_op \<Rightarrow> Buffer \<Rightarrow> Buffer option" where
  "buffer_call (Push data) b = buf_push data b"
| "buffer_call (Consume n) b = moveReader n b"
| "buffer_call Clear b = Some (buf_reset b)"

fun queue_call :: "buffer_op \<Rightarrow> bytes \<Rightarrow> bytes option" where
  "queue_call (Push data) q = Some (q @ data)"
| "queue_call (Consume n) q = (if n \<le> length q then Some (drop n q) else None)"
| "queue_call Clear q = Some []"

fun run_all :: "('o \<Rightarrow> 's \<Rightarrow> 's option) \<Rightarrow> 'o list \<Rightarrow> 's \<Rightarrow> 's option" where
  "run_all f [] s = Some s"
| "run_all f (x # xs) s = (case f x s of None \<Rightarrow> None | Some s' \<Rightarrow> run_all f xs s')"

lemma buffer_call_refines:
  assumes "buf_ok b"
  shows "(case buffer_call x b of
      None \<Rightarrow> queue_call x (contents b) = None
    | Some b' \<Rightarrow> buf_ok b' \<and> queue_call x (contents b) = Some (contents b'))"
proof (cases x)
  case (Push data)
  from assms show ?thesis by (rule buf_push_spec [of b data]) (simp add: Push)
next
  case (Consume n)
  show ?thesis
  proof (cases "n \<le> buf_readAbleSize b")
    case True
    then have "moveReader n b = Some (b\<lparr>buf_reader := buf_reader b + n\<rparr>)" by (simp add: moveReader_def)
    with moveReader_spec [OF assms this] True show ?thesis
      by (simp add: Consume contents_length [OF assms])
  qed (simp add: Consume moveReader_def contents_length [OF assms])
qed simp

text \<open>C31: any sequence of calls on a buffer keeps its positions in order and inside the vector, and does
  to the unread bytes what it does to a queue of bytes; it fails an \<open>assert\<close> exactly when it consumes
  more than there is to read.\<close>

theorem buffer_refines_queue:
  assumes "buf_ok b"
  shows "(case run_all buffer_call xs b of
      None \<Rightarrow> run_all queue_call xs (contents b) = None
    | Some b' \<Rightarrow> buf_ok b' \<and> run_all queue_call xs (contents b) = Some (contents b'))"
  using assms
proof (induction xs arbitrary: b)
  case (Cons x xs)
  show ?case
  proof (cases "buffer_call x b")
    case None
    with buffer_call_refines [OF Cons.prems, of x] show ?thesis by simp
  next
    case (Some b')
    with buffer_call_refines [OF Cons.prems, of x]
    have "buf_ok b'" "queue_call x (contents b) = Some (contents b')" by simp_all
    with Cons.IH [of b'] Some show ?thesis by (auto split: option.splits)
  qed
qed simp

theorem buffer_refines_queue_witness:
  "(case run_all buffer_call [Push ''ab'', Consume 1, Push ''c''] new_Buffer of
      None \<Rightarrow> False | Some b' \<Rightarrow> buf_ok b' \<and> contents b' = ''bc'')"
proof -
  have "run_all queue_call [Push ''ab'', Consume 1, Push ''c''] [] = Some ''bc''" by simp
  with buffer_refines_queue [OF new_Buffer_ok(1), of "[Push ''ab'', Consume 1, Push ''c'']"]
  show ?thesis
    by (cases "run_all buffer_call [Push ''ab'', Consume 1, Push ''c''] new_Buffer")
      (simp_all del: run_all.simps)
qed

end
