(* ===== verification/Log_Looper.thy ===== *)
theory Log_Looper
  imports Log_Buffer
begin

text \<open>
  \<open>AsyncLooper\<close> of \<open>http/logs/looper.hpp\<close> as a step relation: the worker thread (\<open>threadEntry\<close>), any
  number of threads that call \<open>push\<close>, and the thread that calls \<open>stop\<close>. A critical section is one step
  where nothing outside the mutex can influence it; the worker's test of \<open>_stop\<close> and its going to
  sleep are separate steps because \<open>stop\<close> sets the flag and notifies without taking the mutex. With
  \<open>spur\<close> the condition variables may wake up spuriously.
\<close>

section \<open>States\<close>

datatype AsyncType = ASYNC_SAFE | ASYNC_UNSAFE

text \<open>
  The worker: about to take the mutex; inside \<open>wait\<close>, about to test the predicate; the predicate was
  false and the thread is about to block; blocked; notified, and about to take the mutex again;
  running the callback; returned. It holds the mutex at \<open>W_Check\<close> and \<open>W_Sleep\<close>.
\<close>

datatype worker_pc = W_Lock | W_Check | W_Sleep | W_Blocked | W_Woken | W_Process | W_Done

text \<open>A producer: with messages left to push; blocked in \<open>wait\<close> with a message in hand; notified.\<close>

datatype producer = P_Run "bytes list" | P_Blocked bytes "bytes list" | P_Woken bytes "bytes list"

datatype stopper = S_Run | S_Notify | S_Join | S_Joined

record looper =
  lp_pc :: worker_pc
  lp_stop :: bool
  lp_stopper :: stopper
  lp_pro :: Buffer
  lp_con :: Buffer
  lp_ps :: "producer list"
  lp_pushed :: "bytes list"
  lp_out :: bytes

definition looper_init :: "looper \<Rightarrow> bool" where
  "looper_init s \<longleftrightarrow> (\<exists>mss. s = \<lparr>lp_pc = W_Lock, lp_stop = False, lp_stopper = S_Run,
     lp_pro = new_Buffer, lp_con = new_Buffer, lp_ps = map P_Run mss, lp_pushed = [], lp_out = []\<rparr>)"

definition lock_free :: "looper \<Rightarrow> bool" where
  "lock_free s \<longleftrightarrow> lp_pc s \<noteq> W_Check \<and> lp_pc s \<noteq> W_Sleep"

text \<open>\<open>_cond_con.notify_one()\<close> and \<open>notify_all()\<close>: only the worker waits there.\<close>

definition wake_worker :: "worker_pc \<Rightarrow> worker_pc" where
  "wake_worker pc = (if pc = W_Blocked then W_Woken else pc)"

text \<open>\<open>_cond_pro.notify_all()\<close>.\<close>

fun wake_producer :: "producer \<Rightarrow> producer" where
  "wake_producer (P_Blocked m ms) = P_Woken m ms"
| "wake_producer p = p"

text \<open>The message a producer is about to push, and what is left after it.\<close>

fun next_push :: "producer \<Rightarrow> (bytes \<times> bytes list) option" where
  "next_push (P_Run []) = None"
| "next_push (P_Run (m # ms)) = Some (m, ms)"
| "next_push (P_Blocked m ms) = None"
| "next_push (P_Woken m ms) = Some (m, ms)"

definition fits :: "AsyncType \<Rightarrow> Buffer \<Rightarrow> bytes \<Rightarrow> bool" where
  "fits ty b m \<longleftrightarrow> ty = ASYNC_UNSAFE \<or> length m \<le> buf_writeAbleSize b"

section \<open>Steps\<close>

datatype actor = Worker | Producer nat | Stopper

inductive looper_step :: "AsyncType \<Rightarrow> bool \<Rightarrow> actor \<Rightarrow> looper \<Rightarrow> looper \<Rightarrow> bool"
  for ty :: AsyncType and spur :: bool where
  worker_exit: "lp_pc s = W_Lock \<Longrightarrow> lp_stop s \<and> buf_empty (lp_pro s) \<Longrightarrow>
    looper_step ty spur Worker s (s\<lparr>lp_pc := W_Done\<rparr>)"
| worker_enter: "lp_pc s = W_Lock \<Longrightarrow> \<not> (lp_stop s \<and> buf_empty (lp_pro s)) \<Longrightarrow>
    looper_step ty spur Worker s (s\<lparr>lp_pc := W_Check\<rparr>)"
| worker_swap: "lp_pc s = W_Check \<Longrightarrow> lp_stop s \<or> \<not> buf_empty (lp_pro s) \<Longrightarrow>
    (con, pro) = buf_swap (lp_con s) (lp_pro s) \<Longrightarrow>
    ps = (if ty = ASYNC_SAFE then map wake_producer (lp_ps s) else lp_ps s) \<Longrightarrow>
    looper_step ty spur Worker s
      (s\<lparr>lp_pc := W_Process, lp_con := con, lp_pro := pro, lp_ps := ps\<rparr>)"
| worker_decide: "lp_pc s = W_Check \<Longrightarrow> \<not> lp_stop s \<Longrightarrow> buf_empty (lp_pro s) \<Longrightarrow>
    looper_step ty spur Worker s (s\<lparr>lp_pc := W_Sleep\<rparr>)"
| worker_block: "lp_pc s = W_Sleep \<Longrightarrow> looper_step ty spur Worker s (s\<lparr>lp_pc := W_Blocked\<rparr>)"
| worker_wake: "lp_pc s = W_Woken \<Longrightarrow> looper_step ty spur Worker s (s\<lparr>lp_pc := W_Check\<rparr>)"
| worker_process: "lp_pc s = W_Process \<Longrightarrow>
    looper_step ty spur Worker s
      (s\<lparr>lp_pc := W_Lock, lp_out := lp_out s @ contents (lp_con s), lp_con := buf_reset (lp_con s)\<rparr>)"
| push: "lock_free s \<Longrightarrow> i < length (lp_ps s) \<Longrightarrow> next_push (lp_ps s ! i) = Some (m, ms) \<Longrightarrow>
    fits ty (lp_pro s) m \<Longrightarrow> buf_push m (lp_pro s) = Some pro \<Longrightarrow>
    looper_step ty spur (Producer i) s
      (s\<lparr>lp_pc := wake_worker (lp_pc s), lp_pro := pro, lp_ps := (lp_ps s)[i := P_Run ms],
         lp_pushed := lp_pushed s @ [m]\<rparr>)"
| push_wait: "lock_free s \<Longrightarrow> i < length (lp_ps s) \<Longrightarrow> next_push (lp_ps s ! i) = Some (m, ms) \<Longrightarrow>
    \<not> fits ty (lp_pro s) m \<Longrightarrow>
    looper_step ty spur (Producer i) s (s\<lparr>lp_ps := (lp_ps s)[i := P_Blocked m ms]\<rparr>)"
| stop_flag: "lp_stopper s = S_Run \<Longrightarrow>
    looper_step ty spur Stopper s (s\<lparr>lp_stop := True, lp_stopper := S_Notify\<rparr>)"
| stop_notify: "lp_stopper s = S_Notify \<Longrightarrow>
    looper_step ty spur Stopper s (s\<lparr>lp_pc := wake_worker (lp_pc s), lp_stopper := S_Join\<rparr>)"
| stop_join: "lp_stopper s = S_Join \<Longrightarrow> lp_pc s = W_Done \<Longrightarrow>
    looper_step ty spur Stopper s (s\<lparr>lp_stopper := S_Joined\<rparr>)"
| spurious_worker: "spur \<Longrightarrow> lp_pc s = W_Blocked \<Longrightarrow>
    looper_step ty spur Worker s (s\<lparr>lp_pc := W_Woken\<rparr>)"
| spurious_producer: "spur \<Longrightarrow> i < length (lp_ps s) \<Longrightarrow> lp_ps s ! i = P_Blocked m ms \<Longrightarrow>
    looper_step ty spur (Producer i) s (s\<lparr>lp_ps := (lp_ps s)[i := P_Woken m ms]\<rparr>)"

inductive_cases workerE: "looper_step ty spur Worker s t"
inductive_cases producerE: "looper_step ty spur (Producer i) s t"
inductive_cases stopperE: "looper_step ty spur Stopper s t"

definition looper_moves :: "AsyncType \<Rightarrow> bool \<Rightarrow> looper \<Rightarrow> looper \<Rightarrow> bool" where
  "looper_moves ty spur s t \<longleftrightarrow> (\<exists>a. looper_step ty spur a s t)"

section \<open>The invariant\<close>

text \<open>Nothing is lost or reordered between the producers and the callback.\<close>

definition conserved :: "looper \<Rightarrow> bool" where
  "conserved s \<longleftrightarrow> concat (lp_pushed s) = lp_out s @ contents (lp_con s) @ contents (lp_pro s)"

definition buffers_ok :: "looper \<Rightarrow> bool" where
  "buffers_ok s \<longleftrightarrow> buf_ok (lp_pro s) \<and> buf_ok (lp_con s) \<and>
     buf_reader (lp_pro s) = 0 \<and> buf_reader (lp_con s) = 0 \<and>
     (lp_pc s \<noteq> W_Process \<longrightarrow> contents (lp_con s) = [])"

text \<open>The worker sleeps only while there is nothing to do, and ends only after \<open>stop\<close>.\<close>

definition worker_ok :: "looper \<Rightarrow> bool" where
  "worker_ok s \<longleftrightarrow> (lp_pc s \<in> {W_Sleep, W_Blocked} \<longrightarrow> buf_empty (lp_pro s)) \<and>
     (lp_pc s = W_Done \<longrightarrow> lp_stop s) \<and> (lp_stop s \<longleftrightarrow> lp_stopper s \<noteq> S_Run)"

text \<open>With \<open>ASYNC_SAFE\<close> the buffers keep their size, and a producer waits only for room.\<close>

definition safe_ok :: "looper \<Rightarrow> bool" where
  "safe_ok s \<longleftrightarrow> length (buf_data (lp_pro s)) = DEFAULT_BUFFER_SIZE \<and>
     length (buf_data (lp_con s)) = DEFAULT_BUFFER_SIZE \<and>
     (\<forall>m\<in>set (lp_pushed s). length m \<le> DEFAULT_BUFFER_SIZE) \<and>
     (\<forall>m ms. P_Blocked m ms \<in> set (lp_ps s) \<longrightarrow> \<not> fits ASYNC_SAFE (lp_pro s) m)"

definition looper_inv :: "AsyncType \<Rightarrow> looper \<Rightarrow> bool" where
  "looper_inv ty s \<longleftrightarrow> conserved s \<and> buffers_ok s \<and> worker_ok s \<and> (ty = ASYNC_SAFE \<longrightarrow> safe_ok s)"

lemmas looper_inv_defs = looper_inv_def conserved_def buffers_ok_def worker_ok_def

lemma looper_inv_init: "looper_init s \<Longrightarrow> looper_inv ty s"
  by (auto simp: looper_init_def looper_inv_defs safe_ok_def) (auto simp: new_Buffer_def)

lemma wake_worker_simps [simp]:
  "wake_worker pc = W_Process \<longleftrightarrow> pc = W_Process" "wake_worker pc = W_Sleep \<longleftrightarrow> pc = W_Sleep"
  "wake_worker pc \<noteq> W_Blocked" "wake_worker pc = W_Done \<longleftrightarrow> pc = W_Done"
  by (auto simp: wake_worker_def)

lemma wake_producer_not_blocked: "wake_producer p \<noteq> P_Blocked m ms"
  by (cases p) auto

lemma reset_reader [simp]: "buf_reader (buf_reset b) = 0"
  by (simp add: buf_reset_def)

lemma buf_push_reader:
  assumes "buf_push m b = Some b'"
  shows "buf_reader b' = buf_reader b" and "buf_writer b' = buf_writer b + length m"
  using assms by (auto simp: buf_push_def Let_def moveWriter_def ensureEnoughSize_def split: if_splits)

lemma push_spec:
  assumes "buf_ok b" and "buf_push m b = Some b'"
  shows "buf_ok b'" and "contents b' = contents b @ m"
  using bq.push_ok [OF assms(1), of m] assms(2) by auto

lemma push_safe:
  assumes "buf_ok b" and "buf_push m b = Some b'" and "fits ASYNC_SAFE b m"
  shows "length (buf_data b') = length (buf_data b)" and "fits ASYNC_SAFE b' x \<Longrightarrow> fits ASYNC_SAFE b x"
proof -
  from assms(3) have "length m \<le> buf_writeAbleSize b" by (simp add: fits_def)
  from buf_push_in_place [OF assms(1) this assms(2)]
  show l: "length (buf_data b') = length (buf_data b)" .
  show "fits ASYNC_SAFE b' x \<Longrightarrow> fits ASYNC_SAFE b x"
    using buf_push_reader [OF assms(2)] l by (auto simp: fits_def buf_writeAbleSize_def)
qed

lemma fits_default: "fits ASYNC_SAFE b m \<Longrightarrow> length (buf_data b) = n \<Longrightarrow> length m \<le> n"
  by (simp add: fits_def buf_writeAbleSize_def)

lemma safe_ok_push:
  assumes "safe_ok s" and "buf_ok (lp_pro s)" and "buf_push m (lp_pro s) = Some pro"
    and "fits ASYNC_SAFE (lp_pro s) m"
  shows "safe_ok (s\<lparr>lp_pc := pc, lp_pro := pro, lp_ps := (lp_ps s)[i := P_Run ms],
    lp_pushed := lp_pushed s @ [m]\<rparr>)"
  using assms(1) push_safe [OF assms(2-4)] fits_default [OF assms(4)]
  by (auto simp: safe_ok_def dest!: subsetD [OF set_update_subset_insert])

lemma safe_ok_update:
  assumes "safe_ok s" and "\<And>m ms. p = P_Blocked m ms \<Longrightarrow> \<not> fits ASYNC_SAFE (lp_pro s) m"
  shows "safe_ok (s\<lparr>lp_ps := (lp_ps s)[i := p]\<rparr>)"
  using assms by (auto simp: safe_ok_def dest!: subsetD [OF set_update_subset_insert])

lemma looper_inv_step:
  assumes "looper_inv ty s" and "looper_moves ty spur s t"
  shows "looper_inv ty t"
proof -
  from assms(2) obtain a where "looper_step ty spur a s t" by (auto simp: looper_moves_def)
  then show ?thesis
    using assms(1)
  proof (cases rule: looper_step.cases)
    case (worker_swap con pro ps)
    then have "con = lp_pro s" "pro = lp_con s" by simp_all
    with worker_swap assms(1) show ?thesis
      by (auto simp: looper_inv_defs safe_ok_def wake_producer_not_blocked
          dest!: sym [of "P_Blocked _ _"])
  next
    case (push i m ms pro)
    from assms(1) have ok: "buf_ok (lp_pro s)" by (simp add: looper_inv_defs)
    have "safe_ok t" if "ty = ASYNC_SAFE"
      using push assms(1) that safe_ok_push [OF _ ok push(7)] by (simp add: looper_inv_def)
    with push assms(1) push_spec [OF ok push(7)] buf_push_reader [OF push(7)] show ?thesis
      by (auto simp: looper_inv_defs lock_free_def)
  next
    case (push_wait i m ms)
    have "safe_ok t" if "ty = ASYNC_SAFE"
      using push_wait assms(1) that by (auto simp: looper_inv_def intro: safe_ok_update)
    with push_wait assms(1) show ?thesis by (auto simp: looper_inv_defs)
  next
    case (spurious_producer i m ms)
    have "safe_ok t" if "ty = ASYNC_SAFE"
      using spurious_producer assms(1) that by (auto simp: looper_inv_def intro: safe_ok_update)
    with spurious_producer assms(1) show ?thesis by (auto simp: looper_inv_defs)
  qed (auto simp: looper_inv_defs safe_ok_def)
qed

interpretation looper_sys: invariant_system looper_init "looper_moves ty spur" "looper_inv ty"
  for ty spur
  by unfold_locales (fact looper_inv_init, fact looper_inv_step)

lemmas looper_reached = looper_sys.reachable_inv

section \<open>Runs of the worker\<close>

text \<open>A run that starts in the initial state of no producers.\<close>

definition quiet :: looper where
  "quiet = \<lparr>lp_pc = W_Lock, lp_stop = False, lp_stopper = S_Run, lp_pro = new_Buffer,
     lp_con = new_Buffer, lp_ps = [], lp_pushed = [], lp_out = []\<rparr>"

lemma quiet_reachable: "reachable looper_init (looper_moves ty spur) quiet"
  by (rule reach_init) (simp add: looper_init_def quiet_def)

lemma reach_by: "reachable init (looper_moves ty spur) s \<Longrightarrow> looper_step ty spur a s t \<Longrightarrow>
    reachable init (looper_moves ty spur) t"
  by (rule reach_step) (auto simp: looper_moves_def)

text \<open>The steps of the worker after \<open>stop\<close>, with nobody pushing.\<close>

abbreviation worker_run :: "AsyncType \<Rightarrow> looper \<Rightarrow> looper \<Rightarrow> bool" where
  "worker_run ty \<equiv> (looper_step ty False Worker)\<^sup>*\<^sup>*"

lemma worker_run_step: "looper_step ty False Worker s t \<Longrightarrow> worker_run ty t u \<Longrightarrow> worker_run ty s u"
  by (rule converse_rtranclp_into_rtranclp)

definition drained :: "AsyncType \<Rightarrow> looper \<Rightarrow> bool" where
  "drained ty s \<longleftrightarrow> (\<exists>t. worker_run ty s t \<and> lp_pc t = W_Done \<and>
     lp_out t = lp_out s @ contents (lp_con s) @ contents (lp_pro s))"

lemma drained_back:
  assumes "looper_step ty False Worker s t" and "drained ty t"
    and "lp_out t @ contents (lp_con t) @ contents (lp_pro t) =
      lp_out s @ contents (lp_con s) @ contents (lp_pro s)"
  shows "drained ty s"
  using assms worker_run_step unfolding drained_def by metis

lemma drained_lock_empty:
  assumes "lp_stop s" and "buffers_ok s" and "lp_pc s = W_Lock" and "buf_empty (lp_pro s)"
  shows "drained ty s"
proof -
  have "worker_run ty s (s\<lparr>lp_pc := W_Done\<rparr>)"
    using assms by (intro r_into_rtranclp worker_exit) simp_all
  moreover have "contents (lp_con s) = []" "contents (lp_pro s) = []"
    using assms empty_contents by (auto simp: buffers_ok_def)
  ultimately show ?thesis unfolding drained_def by (intro exI [of _ "s\<lparr>lp_pc := W_Done\<rparr>"]) simp
qed

lemma drained_process:
  assumes "lp_stop s" and "buffers_ok s" and "lp_pc s = W_Process" and "buf_empty (lp_pro s)"
  shows "drained ty s"
proof (rule drained_back [OF worker_process [OF assms(3)]])
  show "drained ty (s\<lparr>lp_pc := W_Lock, lp_out := lp_out s @ contents (lp_con s),
      lp_con := buf_reset (lp_con s)\<rparr>)"
    using assms by (intro drained_lock_empty) (simp_all add: buffers_ok_def)
qed simp

lemma drained_check:
  assumes "lp_stop s" and "buffers_ok s" and "lp_pc s = W_Check"
  shows "drained ty s"
proof -
  let ?t = "s\<lparr>lp_pc := W_Process, lp_con := lp_pro s, lp_pro := lp_con s,
    lp_ps := if ty = ASYNC_SAFE then map wake_producer (lp_ps s) else lp_ps s\<rparr>"
  have st: "looper_step ty False Worker s ?t"
    using assms by (intro worker_swap) simp_all
  have c: "contents (lp_con s) = []" using assms by (simp add: buffers_ok_def)
  then have "buf_empty (lp_con s)" using assms(2) empty_contents by (auto simp: buffers_ok_def)
  then have "drained ty ?t" using assms by (intro drained_process) (auto simp: buffers_ok_def)
  with st c show ?thesis by (auto intro: drained_back)
qed

lemma drained_lock:
  assumes "lp_stop s" and "buffers_ok s" and "lp_pc s = W_Lock"
  shows "drained ty s"
proof (cases "buf_empty (lp_pro s)")
  case True
  with assms show ?thesis by (rule drained_lock_empty)
next
  case False
  let ?t = "s\<lparr>lp_pc := W_Check\<rparr>"
  have "looper_step ty False Worker s ?t" using assms False by (intro worker_enter) simp_all
  moreover have "drained ty ?t" using assms by (intro drained_check) (simp_all add: buffers_ok_def)
  ultimately show ?thesis by (rule drained_back) simp
qed

lemma drained_awake:
  assumes "lp_stop s" and "buffers_ok s" and "lp_pc s \<notin> {W_Sleep, W_Blocked, W_Done}"
  shows "drained ty s"
proof (cases "lp_pc s")
  case W_Woken
  let ?t = "s\<lparr>lp_pc := W_Check\<rparr>"
  have "looper_step ty False Worker s ?t" using W_Woken by (rule worker_wake)
  moreover have "drained ty ?t" using assms W_Woken by (intro drained_check) (simp_all add: buffers_ok_def)
  ultimately show ?thesis by (rule drained_back) simp
next
  case W_Process
  let ?t = "s\<lparr>lp_pc := W_Lock, lp_out := lp_out s @ contents (lp_con s), lp_con := buf_reset (lp_con s)\<rparr>"
  have "looper_step ty False Worker s ?t" using W_Process by (rule worker_process)
  moreover have "drained ty ?t" using assms by (intro drained_lock) (simp_all add: buffers_ok_def)
  ultimately show ?thesis by (rule drained_back) simp
qed (use assms drained_lock drained_check in auto)

text \<open>What a producer still has to push.\<close>

fun unpushed :: "producer \<Rightarrow> bytes list" where
  "unpushed (P_Run ms) = ms"
| "unpushed (P_Blocked m ms) = m # ms"
| "unpushed (P_Woken m ms) = m # ms"

lemma producer_can_step:
  assumes "lock_free s" and "p \<in> set (lp_ps s)" and "next_push p = Some (m, ms)" and "buf_ok (lp_pro s)"
  shows "\<exists>i t. looper_step ty False (Producer i) s t"
proof -
  obtain i where i: "i < length (lp_ps s)" "lp_ps s ! i = p" using assms(2) by (meson in_set_conv_nth)
  obtain b where "buf_push m (lp_pro s) = Some b" using bq.push_ok [OF assms(4)] by blast
  with push [OF assms(1) i(1)] push_wait [OF assms(1) i(1)] i(2) assms(3) show ?thesis by blast
qed

lemma worker_can_step:
  assumes "lp_pc s \<notin> {W_Blocked, W_Done}"
  shows "\<exists>t. looper_step ty False Worker s t"
proof (cases "lp_pc s")
  case W_Lock
  then show ?thesis using worker_exit worker_enter by blast
next
  case W_Check
  show ?thesis
  proof (cases "lp_stop s \<or> \<not> buf_empty (lp_pro s)")
    case True
    from worker_swap [OF W_Check True buf_swap_spec [symmetric] refl] show ?thesis by blast
  next
    case False
    with worker_decide [OF W_Check] show ?thesis by blast
  qed
next
  case W_Sleep
  then show ?thesis using worker_block by blast
next
  case W_Woken
  then show ?thesis using worker_wake by blast
next
  case W_Process
  then show ?thesis using worker_process by blast
qed (use assms in auto)

section \<open>Properties\<close>

text \<open>C6: in every reachable state, for either kind of looper, any number of producers and spurious wakeups,
  the bytes handed to the callback, those of the buffer being processed and those of the buffer being
  filled are together exactly the pushed messages, in the order of the pushes.\<close>

theorem looper_conserves:
  assumes "reachable looper_init (looper_moves ty spur) s"
  shows "concat (lp_pushed s) = lp_out s @ contents (lp_con s) @ contents (lp_pro s)"
  using looper_reached [OF assms] by (simp add: looper_inv_defs)

theorem looper_conserves_witness:
  "concat (lp_pushed quiet) = lp_out quiet @ contents (lp_con quiet) @ contents (lp_pro quiet)"
  by (rule looper_conserves [OF quiet_reachable])

text \<open>After \<open>stop\<close>, a worker that is not asleep ends, even when every other thread stands still, and
  by then everything pushed has been handed to the callback.\<close>

lemma looper_drains:
  assumes "reachable looper_init (looper_moves ty spur) s" and "lp_stop s"
    and "lp_pc s \<notin> {W_Sleep, W_Blocked, W_Done}"
  shows "\<exists>t. (looper_step ty False Worker)\<^sup>*\<^sup>* s t \<and> lp_pc t = W_Done \<and>
    lp_out t = concat (lp_pushed s)"
  using looper_reached [OF assms(1)] drained_awake [OF assms(2) _ assms(3), of ty]
  by (simp add: looper_inv_defs drained_def)

text \<open>C18: \<open>stop\<close> can hang: the worker has found nothing to do and is about to block, \<open>stop\<close> sets the flag
  and notifies without taking the mutex, and then the worker blocks. Without a spurious wakeup no
  thread can take a step any more, and \<open>stop\<close> waits in \<open>join\<close>.\<close>

theorem stop_can_hang:
  "\<exists>s. reachable looper_init (looper_moves ty False) s \<and> lp_stopper s = S_Join \<and>
     (\<forall>t. \<not> looper_moves ty False s t)"
proof -
  let ?s2 = "quiet\<lparr>lp_pc := W_Sleep\<rparr>"
  let ?s4 = "?s2\<lparr>lp_stop := True, lp_stopper := S_Join\<rparr>"
  let ?s5 = "?s4\<lparr>lp_pc := W_Blocked\<rparr>"
  have "looper_step ty False Worker quiet (quiet\<lparr>lp_pc := W_Check\<rparr>)"
    by (rule worker_enter) (simp_all add: quiet_def)
  from reach_by [OF quiet_reachable this]
  have 1: "reachable looper_init (looper_moves ty False) (quiet\<lparr>lp_pc := W_Check\<rparr>)" .
  have "looper_step ty False Worker (quiet\<lparr>lp_pc := W_Check\<rparr>) (quiet\<lparr>lp_pc := W_Check, lp_pc := W_Sleep\<rparr>)"
    by (rule worker_decide) (simp_all add: quiet_def)
  from reach_by [OF 1 this] have 2: "reachable looper_init (looper_moves ty False) ?s2" by simp
  have "looper_step ty False Stopper ?s2 (?s2\<lparr>lp_stop := True, lp_stopper := S_Notify\<rparr>)"
    by (rule stop_flag) (simp add: quiet_def)
  from reach_by [OF 2 this]
  have 3: "reachable looper_init (looper_moves ty False) (?s2\<lparr>lp_stop := True, lp_stopper := S_Notify\<rparr>)" .
  let ?s3 = "?s2\<lparr>lp_stop := True, lp_stopper := S_Notify\<rparr>"
  have "looper_step ty False Stopper ?s3 (?s3\<lparr>lp_pc := wake_worker (lp_pc ?s3), lp_stopper := S_Join\<rparr>)"
    by (rule stop_notify) simp
  from reach_by [OF 3 this] have 4: "reachable looper_init (looper_moves ty False) ?s4"
    by (simp add: wake_worker_def quiet_def)
  have "looper_step ty False Worker ?s4 ?s5" by (rule worker_block) simp
  from reach_by [OF 4 this] have 5: "reachable looper_init (looper_moves ty False) ?s5" .
  have "\<not> looper_step ty False a ?s5 t" for a t
    by (cases a) (auto elim!: workerE producerE stopperE simp: quiet_def)
  with 5 show ?thesis by (intro exI [of _ ?s5]) (simp add: looper_moves_def)
qed



text \<open>C30: a safe looper keeps its two buffers at their first size, whatever is pushed, and never takes a
  message longer than that: its producer waits for ever.\<close>

theorem safe_looper_bounded:
  assumes "reachable looper_init (looper_moves ASYNC_SAFE spur) s"
  shows "length (buf_data (lp_pro s)) = DEFAULT_BUFFER_SIZE \<and>
    length (buf_data (lp_con s)) = DEFAULT_BUFFER_SIZE \<and>
    (\<forall>m\<in>set (lp_pushed s). length m \<le> DEFAULT_BUFFER_SIZE)"
  using looper_reached [OF assms] by (simp add: looper_inv_def safe_ok_def)

theorem safe_looper_bounded_witness:
  "length (buf_data (lp_pro quiet)) = DEFAULT_BUFFER_SIZE"
  using safe_looper_bounded [OF quiet_reachable] by blast

end
