(* ===== verification/Log_Logger.thy ===== *)
theory Log_Logger
  imports Log_Sink Log_Format Log_Looper
begin

text \<open>
  The loggers of \<open>http/logs/logger.hpp\<close> and the entry points of \<open>http/logs/mylog.h\<close>: the five calls and
  their level gate, formatting and delivery (synchronous to every sink, asynchronous through the
  looper's buffer), the builders, and the manager of named loggers. An abort is \<open>None\<close>.
\<close>

section \<open>Loggers\<close>

datatype LoggerType = LOGGER_SYNC | LOGGER_ASYNC

text \<open>
  \<open>SyncLogger\<close> and \<open>AsyncLogger\<close> are told apart by \<open>lg_type\<close>; \<open>lg_pro\<close> is the production buffer of the
  asynchronous logger's looper.
\<close>

record Logger =
  lg_name :: bytes
  lg_limit_level :: log_level
  lg_formatter :: Formatter
  lg_sinks :: "LogSink list"
  lg_type :: LoggerType
  lg_looper_type :: AsyncType
  lg_pro :: Buffer

text \<open>What a call finds: the time, the thread, the formatting environment and whether memory is left.\<close>

record log_env =
  le_now :: int
  le_tid :: nat
  le_format :: format_env
  le_memory :: bool

definition le_tm :: "log_env \<Rightarrow> tm" where
  "le_tm e = fe_localtime (le_format e) (le_now e)"

text \<open>
  \<open>vasprintf\<close>, with the conversions the program uses; a conversion without an argument, which C leaves
  undefined, is copied.
\<close>

fun printf_text :: "bytes \<Rightarrow> bytes list \<Rightarrow> bytes" where
  "printf_text [] as = []"
| "printf_text [c] as = [c]"
| "printf_text (c # d # cs) as =
     (if c = CHR ''%'' \<and> d = CHR ''s'' \<and> as \<noteq> [] then c_str (hd as) @ printf_text cs (tl as)
      else if c = CHR ''%'' \<and> d = CHR ''%'' then c # printf_text cs as
      else c # printf_text (d # cs) as)"

definition vasprintf :: "bool \<Rightarrow> bytes \<Rightarrow> bytes list \<Rightarrow> bytes option" where
  "vasprintf memory fmt as = (if memory then Some (printf_text (c_str fmt) as) else None)"

section \<open>Delivery\<close>

fun sinks_log :: "tm \<Rightarrow> bytes \<Rightarrow> LogSink list \<Rightarrow> world \<Rightarrow> (LogSink list \<times> world) option" where
  "sinks_log lt data [] w = Some ([], w)"
| "sinks_log lt data (s # ss) w =
     (case sink_log lt data s w of
        None \<Rightarrow> None
      | Some (s', w') \<Rightarrow> map_option (\<lambda>(ss', w''). (s' # ss', w'')) (sinks_log lt data ss w'))"

definition SyncLogger_log :: "tm \<Rightarrow> bytes \<Rightarrow> Logger \<Rightarrow> world \<Rightarrow> (Logger \<times> world) option" where
  "SyncLogger_log lt data lg w =
     (if lg_sinks lg = [] then Some (lg, w)
      else map_option (\<lambda>(ss, w'). (lg\<lparr>lg_sinks := ss\<rparr>, w')) (sinks_log lt data (lg_sinks lg) w))"

definition AsyncLogger_log :: "bytes \<Rightarrow> Logger \<Rightarrow> Logger option" where
  "AsyncLogger_log data lg = map_option (\<lambda>b. lg\<lparr>lg_pro := b\<rparr>) (buf_push data (lg_pro lg))"

definition AsyncLogger_reallog :: "tm \<Rightarrow> Buffer \<Rightarrow> Logger \<Rightarrow> world \<Rightarrow> (Logger \<times> world) option" where
  "AsyncLogger_reallog lt buf lg w =
     (if lg_sinks lg = [] then Some (lg, w)
      else map_option (\<lambda>(ss, w'). (lg\<lparr>lg_sinks := ss\<rparr>, w'))
        (sinks_log lt (take (buf_readAbleSize buf) (buf_begin buf)) (lg_sinks lg) w))"

definition log_data :: "log_env \<Rightarrow> bytes \<Rightarrow> Logger \<Rightarrow> world \<Rightarrow> (Logger \<times> world) option" where
  "log_data e data lg w =
     (case lg_type lg of
        LOGGER_SYNC \<Rightarrow> SyncLogger_log (le_tm e) data lg w
      | LOGGER_ASYNC \<Rightarrow> map_option (\<lambda>lg'. (lg', w)) (AsyncLogger_log data lg))"

definition serialize ::
  "log_env \<Rightarrow> log_level \<Rightarrow> bytes \<Rightarrow> nat \<Rightarrow> bytes \<Rightarrow> Logger \<Rightarrow> world \<Rightarrow> (Logger \<times> world) option" where
  "serialize e level src line str lg w =
     (let msg = new_LogMsg (le_now e) (le_tid e) level line src (lg_name lg) (c_str str)
      in log_data e (fmt_format (le_format e) (lg_formatter lg) msg) lg w)"

section \<open>The five calls\<close>

type_synonym log_call =
  "log_env \<Rightarrow> bytes \<Rightarrow> nat \<Rightarrow> bytes \<Rightarrow> bytes list \<Rightarrow> Logger \<Rightarrow> world \<Rightarrow> (Logger \<times> world) option"

definition log_debug :: log_call where
  "log_debug e src line fmt as lg w =
     (if DEBUG < lg_limit_level lg then Some (lg, w)
      else (case vasprintf (le_memory e) fmt as of
              None \<Rightarrow> Some (lg, StdoutSink_log ''vasprintf fail/n'' w)
            | Some res \<Rightarrow> serialize e DEBUG src line res lg w))"

definition log_info :: log_call where
  "log_info e src line fmt as lg w =
     (if INFO < lg_limit_level lg then Some (lg, w)
      else (case vasprintf (le_memory e) fmt as of
              None \<Rightarrow> Some (lg, StdoutSink_log ''vasprintf fail/n'' w)
            | Some res \<Rightarrow> serialize e INFO src line res lg w))"

definition log_warn :: log_call where
  "log_warn e src line fmt as lg w =
     (if WARN < lg_limit_level lg then Some (lg, w)
      else (case vasprintf (le_memory e) fmt as of
              None \<Rightarrow> Some (lg, StdoutSink_log ''vasprintf fail/n'' w)
            | Some res \<Rightarrow> serialize e WARN src line res lg w))"

definition log_error :: log_call where
  "log_error e src line fmt as lg w =
     (if ERROR < lg_limit_level lg then Some (lg, w)
      else (case vasprintf (le_memory e) fmt as of
              None \<Rightarrow> Some (lg, StdoutSink_log ''vasprintf fail/n'' w)
            | Some res \<Rightarrow> serialize e ERROR src line res lg w))"

definition log_fatal :: log_call where
  "log_fatal e src line fmt as lg w =
     (if FATAL < lg_limit_level lg then Some (lg, w)
      else (case vasprintf (le_memory e) fmt as of
              None \<Rightarrow> Some (lg, StdoutSink_log (''vasprintf fail'' @ [LF]) w)
            | Some res \<Rightarrow> serialize e FATAL src line res lg w))"

section \<open>What a call promises\<close>

locale log_op =
  fixes call :: log_call and level :: log_level
  assumes below: "level < lg_limit_level lg \<Longrightarrow> call e src line fmt as lg w = Some (lg, w)"
    and reached: "lg_limit_level lg \<le> level \<Longrightarrow> le_memory e \<Longrightarrow>
      call e src line fmt as lg w =
        serialize e level src line (printf_text (c_str fmt) as) lg w"
begin

lemma gate:
  assumes "le_memory e"
  shows "call e src line fmt as lg w =
    (if lg_limit_level lg \<le> level
     then serialize e level src line (printf_text (c_str fmt) as) lg w else Some (lg, w))"
  using assms below [of lg] reached [of lg] by (cases "lg_limit_level lg \<le> level") auto

end

lemmas log_call_defs = log_debug_def log_info_def log_warn_def log_error_def log_fatal_def vasprintf_def

interpretation debug: log_op log_debug DEBUG by unfold_locales (auto simp: log_call_defs)
interpretation info: log_op log_info INFO by unfold_locales (auto simp: log_call_defs)
interpretation warn: log_op log_warn WARN by unfold_locales (auto simp: log_call_defs)
interpretation error: log_op log_error ERROR by unfold_locales (auto simp: log_call_defs)
interpretation fatal: log_op log_fatal FATAL by unfold_locales (auto simp: log_call_defs)

definition log_calls :: "(log_level \<times> log_call) list" where
  "log_calls = [(DEBUG, log_debug), (INFO, log_info), (WARN, log_warn), (ERROR, log_error),
     (FATAL, log_fatal)]"

lemma log_calls_gate:
  assumes "(level, call) \<in> set log_calls" and "le_memory e"
  shows "call e src line fmt as lg w =
    (if lg_limit_level lg \<le> level
     then serialize e level src line (printf_text (c_str fmt) as) lg w else Some (lg, w))"
  using assms debug.gate info.gate warn.gate error.gate fatal.gate by (auto simp: log_calls_def)

section \<open>Builders and the manager\<close>

record LoggerBuilder =
  lb_looper_type :: AsyncType
  lb_logger_type :: LoggerType
  lb_logger_name :: bytes
  lb_limit_level :: log_level
  lb_formatter :: "Formatter option"
  lb_sinks :: "LogSink list"

definition new_LoggerBuilder :: LoggerBuilder where
  "new_LoggerBuilder = \<lparr>lb_looper_type = ASYNC_SAFE, lb_logger_type = LOGGER_SYNC,
     lb_logger_name = [], lb_limit_level = DEBUG, lb_formatter = None, lb_sinks = []\<rparr>"

definition buildLoggerType :: "LoggerType \<Rightarrow> LoggerBuilder \<Rightarrow> LoggerBuilder" where
  "buildLoggerType ty b = b\<lparr>lb_logger_type := ty\<rparr>"

definition buildEnableUnsafeAsync :: "LoggerBuilder \<Rightarrow> LoggerBuilder" where
  "buildEnableUnsafeAsync b = b\<lparr>lb_looper_type := ASYNC_UNSAFE\<rparr>"

definition buildLoggerName :: "bytes \<Rightarrow> LoggerBuilder \<Rightarrow> LoggerBuilder" where
  "buildLoggerName name b = b\<lparr>lb_logger_name := name\<rparr>"

definition buildLoggerLevel :: "log_level \<Rightarrow> LoggerBuilder \<Rightarrow> LoggerBuilder" where
  "buildLoggerLevel level b = b\<lparr>lb_limit_level := level\<rparr>"

definition buildFormatter :: "bytes \<Rightarrow> LoggerBuilder \<Rightarrow> LoggerBuilder option" where
  "buildFormatter pattern b =
     (case new_Formatter pattern of Inl _ \<Rightarrow> None | Inr f \<Rightarrow> Some (b\<lparr>lb_formatter := Some f\<rparr>))"

definition buildSink :: "LogSink \<Rightarrow> LoggerBuilder \<Rightarrow> LoggerBuilder" where
  "buildSink psink b = b\<lparr>lb_sinks := lb_sinks b @ [psink]\<rparr>"

text \<open>The part the two \<open>build\<close> functions share; both fill in the builder's defaults.\<close>

definition build_logger :: "LoggerBuilder \<Rightarrow> (Logger \<times> LoggerBuilder) option" where
  "build_logger b =
     (if lb_logger_name b = [] then None
      else (case (case lb_formatter b of None \<Rightarrow> buildFormatter default_pattern b | Some _ \<Rightarrow> Some b) of
              None \<Rightarrow> None
            | Some b1 \<Rightarrow>
                (let b2 = (if lb_sinks b1 = [] then buildSink StdoutSink b1 else b1)
                 in Some (\<lparr>lg_name = lb_logger_name b2, lg_limit_level = lb_limit_level b2,
                      lg_formatter = the (lb_formatter b2), lg_sinks = lb_sinks b2,
                      lg_type = lb_logger_type b2, lg_looper_type = lb_looper_type b2,
                      lg_pro = new_Buffer\<rparr>, b2))))"

definition LocalLoggerBuilder_build :: "LoggerBuilder \<Rightarrow> (Logger \<times> LoggerBuilder) option" where
  "LocalLoggerBuilder_build b = build_logger b"

text \<open>Loggers are shared pointers; the manager keeps them under their names.\<close>

record LoggerManager =
  lm_root :: Logger
  lm_loggers :: "bytes \<rightharpoonup> Logger"

definition hasLogger :: "bytes \<Rightarrow> LoggerManager \<Rightarrow> bool" where
  "hasLogger name lm = (case lm_loggers lm name of None \<Rightarrow> False | Some _ \<Rightarrow> True)"

definition addLogger :: "Logger \<Rightarrow> LoggerManager \<Rightarrow> LoggerManager" where
  "addLogger lg lm =
     (if hasLogger (lg_name lg) lm then lm
      else lm\<lparr>lm_loggers := map_insert (lm_loggers lm) (lg_name lg) lg\<rparr>)"

definition getLogger :: "bytes \<Rightarrow> LoggerManager \<Rightarrow> Logger option" where
  "getLogger name lm = lm_loggers lm name"

definition rootLogger :: "LoggerManager \<Rightarrow> Logger" where
  "rootLogger lm = lm_root lm"

definition new_LoggerManager :: "LoggerManager option" where
  "new_LoggerManager =
     (case LocalLoggerBuilder_build (buildLoggerName ''root'' new_LoggerBuilder) of
        None \<Rightarrow> None
      | Some (root, _) \<Rightarrow> Some \<lparr>lm_root = root, lm_loggers = map_insert Map.empty ''root'' root\<rparr>)"

definition GlobalLoggerBuilder_build ::
  "LoggerBuilder \<Rightarrow> LoggerManager \<Rightarrow> (Logger \<times> LoggerBuilder \<times> LoggerManager) option" where
  "GlobalLoggerBuilder_build b lm =
     (case build_logger b of
        None \<Rightarrow> None | Some (lg, b') \<Rightarrow> Some (lg, b', addLogger lg lm))"

section \<open>mylog.h\<close>

definition mylog_getLogger :: "bytes \<Rightarrow> LoggerManager \<Rightarrow> Logger option" where
  "mylog_getLogger name lm = getLogger name lm"

definition mylog_rootLogger :: "LoggerManager \<Rightarrow> Logger" where
  "mylog_rootLogger lm = rootLogger lm"

text \<open>
  The macros \<open>DEBUG\<close>, \<open>INFO\<close>, \<open>WARN\<close>, \<open>ERROR\<close> and \<open>FATAL\<close>: the call on the root logger, with the file
  and the line of the place. The sink of the root logger has no state, so the manager stays the same.
\<close>

definition root_call :: "log_call \<Rightarrow> log_env \<Rightarrow> bytes \<Rightarrow> nat \<Rightarrow> bytes \<Rightarrow> bytes list \<Rightarrow> LoggerManager \<Rightarrow>
    world \<Rightarrow> world option" where
  "root_call call e src line fmt as lm w =
     map_option snd (call e src line fmt as (mylog_rootLogger lm) w)"

section \<open>Delivery to separate sinks\<close>

text \<open>Where a sink writes; \<open>None\<close> is standard output.\<close>

fun sink_target :: "LogSink \<Rightarrow> bytes list option" where
  "sink_target StdoutSink = None"
| "sink_target (File_Sink s) = Some (fk_ofs s)"
| "sink_target (Roll_Sink s) = Some (rb_ofs s)"

fun sink_open :: "world \<Rightarrow> LogSink \<Rightarrow> bool" where
  "sink_open w StdoutSink = True"
| "sink_open w (File_Sink s) = (fk_ofs s \<in> dom (fs_files (w_fs w)))"
| "sink_open w (Roll_Sink s) = False"

definition plain_sinks :: "LogSink list \<Rightarrow> world \<Rightarrow> bool" where
  "plain_sinks ss w \<longleftrightarrow> (\<forall>s\<in>set ss. sink_open w s) \<and> distinct (map sink_target ss)"

text \<open>The world with the same bytes added everywhere.\<close>

definition spread :: "bytes \<Rightarrow> bytes list option set \<Rightarrow> world \<Rightarrow> world" where
  "spread data ts w = w\<lparr>w_stdout := if None \<in> ts then w_stdout w @ data else w_stdout w,
     w_fs := (w_fs w)\<lparr>fs_files := (\<lambda>h. if Some h \<in> ts then Some (file_text (w_fs w) h @ data)
                                       else fs_files (w_fs w) h)\<rparr>\<rparr>"

lemma sink_log_spread:
  "sink_open w s \<Longrightarrow> sink_log lt data s w = Some (s, spread data {sink_target s} w)"
  by (cases s) (auto simp: spread_def StdoutSink_log_def FileSink_log_def os_append_def fun_eq_iff)

lemma spread_more:
  "t \<notin> ts \<Longrightarrow> spread data ts (spread data {t} w) = spread data (insert t ts) w"
  by (auto simp: spread_def file_text_def fun_eq_iff)

lemma spread_again: "spread b ts (spread a ts w) = spread (a @ b) ts w"
  by (auto simp: spread_def file_text_def fun_eq_iff)

lemma spread_text:
  "file_text (w_fs (spread data ts w)) h =
     (if Some h \<in> ts then file_text (w_fs w) h @ data else file_text (w_fs w) h)"
  by (simp add: spread_def file_text_def)

lemma spread_open: "sink_open w s \<Longrightarrow> sink_open (spread data ts w) s"
  by (cases s) (auto simp: spread_def)

lemma plain_sinks_spread: "plain_sinks ss w \<Longrightarrow> plain_sinks ss (spread data ts w)"
  by (auto simp: plain_sinks_def spread_open)

lemma spread_nothing:
  assumes "plain_sinks ss w"
  shows "spread [] (sink_target ` set ss) w = w"
proof -
  have "h \<in> dom (fs_files (w_fs w))" if "Some h \<in> sink_target ` set ss" for h
  proof -
    from that obtain s where "s \<in> set ss" "sink_target s = Some h" by auto
    with assms show ?thesis by (cases s) (auto simp: plain_sinks_def)
  qed
  then have eq: "(\<lambda>h. if Some h \<in> sink_target ` set ss then Some (file_text (w_fs w) h)
      else fs_files (w_fs w) h) = fs_files (w_fs w)"
    by (auto simp: file_text_def fun_eq_iff split: option.splits)
  show ?thesis unfolding spread_def append_Nil2 eq by simp
qed

lemma sinks_log_spread:
  "plain_sinks ss w \<Longrightarrow> sinks_log lt data ss w = Some (ss, spread data (sink_target ` set ss) w)"
proof (induction ss arbitrary: w)
  case Nil
  then show ?case using spread_nothing [OF Nil] by (simp add: spread_def)
next
  case (Cons s ss)
  let ?w = "spread data {sink_target s} w"
  from Cons.prems have s: "sink_open w s" and ss: "plain_sinks ss ?w"
    and new: "sink_target s \<notin> sink_target ` set ss"
    by (auto simp: plain_sinks_def spread_open)
  from Cons.IH [OF ss] sink_log_spread [OF s] spread_more [OF new] show ?case by simp
qed

lemma SyncLogger_spread:
  assumes "plain_sinks (lg_sinks lg) w"
  shows "SyncLogger_log lt data lg w = Some (lg, spread data (sink_target ` set (lg_sinks lg)) w)"
  using sinks_log_spread [OF assms, of lt data] spread_nothing [OF assms]
  by (auto simp: SyncLogger_log_def spread_def)

text \<open>A list of lines, delivered one by one, or pushed and delivered together.\<close>

fun sync_lines :: "(tm \<times> bytes) list \<Rightarrow> Logger \<Rightarrow> world \<Rightarrow> (Logger \<times> world) option" where
  "sync_lines [] lg w = Some (lg, w)"
| "sync_lines ((lt, data) # ls) lg w =
     (case SyncLogger_log lt data lg w of None \<Rightarrow> None | Some (lg', w') \<Rightarrow> sync_lines ls lg' w')"

fun push_lines :: "bytes list \<Rightarrow> Logger \<Rightarrow> Logger option" where
  "push_lines [] lg = Some lg"
| "push_lines (data # ls) lg =
     (case AsyncLogger_log data lg of None \<Rightarrow> None | Some lg' \<Rightarrow> push_lines ls lg')"

definition async_lines :: "tm \<Rightarrow> bytes list \<Rightarrow> Logger \<Rightarrow> world \<Rightarrow> world option" where
  "async_lines lt ls lg w =
     (case push_lines ls lg of
        None \<Rightarrow> None | Some lg' \<Rightarrow> map_option snd (AsyncLogger_reallog lt (lg_pro lg') lg' w))"

lemma sync_lines_spread:
  assumes "plain_sinks (lg_sinks lg) w"
  shows "sync_lines ls lg w =
    Some (lg, spread (concat (map snd ls)) (sink_target ` set (lg_sinks lg)) w)"
  using assms
proof (induction ls arbitrary: w)
  case Nil
  then show ?case by (simp add: spread_nothing)
next
  case (Cons l ls)
  obtain lt data where l: "l = (lt, data)" by fastforce
  from Cons.IH [OF plain_sinks_spread [OF Cons.prems]] SyncLogger_spread [OF Cons.prems] l
  show ?case by (simp add: spread_again)
qed

lemma push_lines_contents:
  "buf_ok (lg_pro lg) \<Longrightarrow> \<exists>b. push_lines ls lg = Some (lg\<lparr>lg_pro := b\<rparr>) \<and> buf_ok b \<and>
     contents b = contents (lg_pro lg) @ concat ls"
proof (induction ls arbitrary: lg)
  case Nil
  then show ?case by (intro exI [of _ "lg_pro lg"]) simp
next
  case (Cons l ls)
  from bq.push_ok [OF Cons.prems, of l] obtain b where b: "buf_push l (lg_pro lg) = Some b"
    "buf_ok b" "contents b = contents (lg_pro lg) @ l" by blast
  with Cons.IH [of "lg\<lparr>lg_pro := b\<rparr>"] show ?case by (auto simp: AsyncLogger_log_def)
qed

section \<open>Named loggers\<close>

text \<open>The loggers built by a list of global builders, after the root.\<close>

fun build_all :: "LoggerBuilder list \<Rightarrow> LoggerManager \<Rightarrow> (Logger list \<times> LoggerManager) option" where
  "build_all [] lm = Some ([], lm)"
| "build_all (b # bs) lm =
     (case GlobalLoggerBuilder_build b lm of
        None \<Rightarrow> None
      | Some (lg, b', lm') \<Rightarrow> map_option (\<lambda>(lgs, lm''). (lg # lgs, lm'')) (build_all bs lm'))"

definition named :: "bytes \<Rightarrow> Logger list \<Rightarrow> Logger option" where
  "named name lgs = List.find (\<lambda>lg. lg_name lg = name) lgs"

lemma addLogger_get:
  "getLogger name (addLogger lg lm) =
     (case getLogger name lm of
        Some lg' \<Rightarrow> Some lg' | None \<Rightarrow> if lg_name lg = name then Some lg else None)"
  by (auto simp: addLogger_def getLogger_def hasLogger_def split: option.split)

lemma build_all_get:
  "build_all bs lm = Some (lgs, lm') \<Longrightarrow>
   getLogger name lm' = (case getLogger name lm of Some lg \<Rightarrow> Some lg | None \<Rightarrow> named name lgs) \<and>
   rootLogger lm' = rootLogger lm"
proof (induction bs arbitrary: lm lgs)
  case Nil
  then show ?case by (auto simp: named_def split: option.split)
next
  case (Cons b bs)
  then obtain lg b' lgs' where g: "build_logger b = Some (lg, b')"
    "build_all bs (addLogger lg lm) = Some (lgs', lm')" "lgs = lg # lgs'"
    by (auto simp: GlobalLoggerBuilder_build_def split: option.splits prod.splits)
  from Cons.IH [OF g(2)] g(3) show ?case
    by (auto simp: addLogger_get named_def split: option.splits)
       (auto simp: addLogger_def rootLogger_def)
qed

definition root_logger :: Logger where
  "root_logger = \<lparr>lg_name = ''root'', lg_limit_level = DEBUG,
     lg_formatter = \<lparr>fm_pattern = default_pattern, fm_items = default_items\<rparr>,
     lg_sinks = [StdoutSink], lg_type = LOGGER_SYNC, lg_looper_type = ASYNC_SAFE, lg_pro = new_Buffer\<rparr>"

lemma new_LoggerManager_eq:
  "new_LoggerManager = Some \<lparr>lm_root = root_logger, lm_loggers = [''root'' \<mapsto> root_logger]\<rparr>"
  by (simp add: new_LoggerManager_def LocalLoggerBuilder_build_def build_logger_def buildLoggerName_def
      new_LoggerBuilder_def buildFormatter_def default_parsed buildSink_def root_logger_def Let_def)

section \<open>Properties\<close>


definition file_logger :: Logger where
  "file_logger = root_logger\<lparr>lg_limit_level := WARN,
     lg_sinks := [StdoutSink, File_Sink \<lparr>fk_pathname = ''f'', fk_ofs = [''f'']\<rparr>]\<rparr>"

definition file_world :: world where
  "file_world = empty_world\<lparr>w_fs := (w_fs empty_world)\<lparr>fs_files := [[''f''] \<mapsto> ''old'']\<rparr>\<rparr>"

definition demo_env :: log_env where
  "demo_env = \<lparr>le_now = 0, le_tid = 7, le_format = \<lparr>fe_localtime = (\<lambda>_. \<lparr>tm_sec = 1, tm_min = 2,
     tm_hour = 3, tm_mday = 4, tm_mon = 5, tm_year = 125\<rparr>), fe_conv = (\<lambda>c t. []), fe_junk = []\<rparr>,
     le_memory = True\<rparr>"

lemma file_logger_plain: "plain_sinks (lg_sinks file_logger) file_world"
  by (simp add: plain_sinks_def file_logger_def file_world_def)


text \<open>With distinct open sinks, pushing lines to an asynchronous logger and letting its worker process
  the buffer once writes the same as logging the lines one by one synchronously.\<close>

lemma async_same_as_sync:
  assumes "plain_sinks (lg_sinks lg) w" and "lg_pro lg = new_Buffer"
  shows "async_lines lt (map snd ls) lg w = map_option snd (sync_lines ls lg w)"
proof -
  obtain b where b: "push_lines (map snd ls) lg = Some (lg\<lparr>lg_pro := b\<rparr>)"
    "contents b = concat (map snd ls)"
    using push_lines_contents [of lg "map snd ls"] assms(2) by auto
  have "AsyncLogger_reallog lt b (lg\<lparr>lg_pro := b\<rparr>) w =
      SyncLogger_log lt (contents b) (lg\<lparr>lg_pro := b\<rparr>) w"
    by (simp add: AsyncLogger_reallog_def SyncLogger_log_def contents_def)
  then show ?thesis
    using b assms(1) by (simp add: async_lines_def sync_lines_spread SyncLogger_spread)
qed

text \<open>A call through the root logger, as the macros of \<open>mylog.h\<close> make it, writes one line of the
  default format to standard output, at every level.\<close>

lemma root_logger_writes:
  assumes "(level, call) \<in> set log_calls" and "le_memory e"
  shows "\<exists>lm f. new_LoggerManager = Some lm \<and> new_Formatter default_pattern = Inr f \<and>
    root_call call e src line fmt as lm w = Some
      (w\<lparr>w_stdout := w_stdout w @ fmt_format (le_format e) f (new_LogMsg (le_now e) (le_tid e) level
        line src ''root'' (c_str (printf_text (c_str fmt) as)))\<rparr>)"
proof -
  have "lg_limit_level root_logger \<le> level"
    using assms(1) by (auto simp: log_calls_def root_logger_def less_eq_log_level_def)
  then show ?thesis
    unfolding new_LoggerManager_eq default_parsed
    by (simp add: root_call_def mylog_rootLogger_def rootLogger_def log_calls_gate [OF assms]
        serialize_def log_data_def root_logger_def SyncLogger_log_def StdoutSink_log_def)
qed

text \<open>Of several global loggers of one name the first one stays registered, and \<open>root\<close> always is the
  root logger; the later builds are returned to their callers but never found.\<close>

lemma first_logger_wins:
  assumes "new_LoggerManager = Some lm" and "build_all bs lm = Some (lgs, lm')"
  shows "mylog_getLogger name lm' = named name (mylog_rootLogger lm # lgs) \<and>
    mylog_rootLogger lm' = mylog_rootLogger lm"
  using build_all_get [OF assms(2), of name] assms(1) unfolding new_LoggerManager_eq
  by (auto simp: mylog_getLogger_def mylog_rootLogger_def named_def getLogger_def rootLogger_def root_logger_def)

end
