(* ===== verification/Log_Shared.thy ===== *)
theory Log_Shared
  imports Log_Logger "HOL-Library.Sublist" "HOL-Library.Multiset"
begin

text \<open>
  One asynchronous logger that several threads share: the five calls and \<open>AsyncLogger\<close> of
  \<open>http/logs/logger.hpp\<close>, the looper of \<open>http/logs/looper.hpp\<close> whose callback is \<open>reallog\<close>, and the sinks
  of \<open>http/logs/sink.hpp\<close>, as one step relation. The result: whatever the interleaving, the sinks hold
  what a synchronous logger writes when the calls are made one after the other, in an order that keeps
  the order of each thread.
\<close>

section \<open>The calls of a thread\<close>

record log_event =
  ev_level :: log_level
  ev_env :: log_env
  ev_src :: bytes
  ev_line :: nat
  ev_fmt :: bytes
  ev_args :: "bytes list"

text \<open>
  What a call hands to \<open>log\<close>: nothing below the limit, otherwise the formatted line. All of it happens
  in the calling thread, on data of its own.
\<close>

definition event_line :: "Logger \<Rightarrow> log_event \<Rightarrow> bytes option" where
  "event_line lg ev =
     (if ev_level ev < lg_limit_level lg then None
      else Some (fmt_format (le_format (ev_env ev)) (lg_formatter lg)
        (new_LogMsg (le_now (ev_env ev)) (le_tid (ev_env ev)) (ev_level ev) (ev_line ev) (ev_src ev)
          (lg_name lg) (c_str (printf_text (c_str (ev_fmt ev)) (ev_args ev))))))"

lemma event_line_call:
  assumes "(ev_level ev, call) \<in> set log_calls" and "le_memory (ev_env ev)"
  shows "call (ev_env ev) (ev_src ev) (ev_line ev) (ev_fmt ev) (ev_args ev) lg w =
    (case event_line lg ev of None \<Rightarrow> Some (lg, w) | Some data \<Rightarrow> log_data (ev_env ev) data lg w)"
  by (auto simp: log_calls_gate [OF assms] event_line_def serialize_def)

definition thread_lines :: "Logger \<Rightarrow> log_event list \<Rightarrow> bytes list" where
  "thread_lines lg evs = List.map_filter (event_line lg) evs"

section \<open>The logger, its looper and its sinks\<close>

record shared =
  sh_looper :: looper
  sh_logger :: Logger
  sh_world :: world

definition shared_init :: "Logger \<Rightarrow> world \<Rightarrow> log_event list list \<Rightarrow> shared \<Rightarrow> bool" where
  "shared_init lg w threads s \<longleftrightarrow>
     s = \<lparr>sh_looper = \<lparr>lp_pc = W_Lock, lp_stop = False, lp_stopper = S_Run, lp_pro = new_Buffer,
            lp_con = new_Buffer, lp_ps = map (\<lambda>evs. P_Run (thread_lines lg evs)) threads,
            lp_pushed = [], lp_out = []\<rparr>,
          sh_logger = lg, sh_world = w\<rparr>"

text \<open>
  The steps of the looper; when its worker runs the callback, \<open>reallog\<close> gives the readable part of the
  buffer to the sinks, at some time \<open>lt\<close>.
\<close>

inductive shared_step :: "AsyncType \<Rightarrow> bool \<Rightarrow> shared \<Rightarrow> shared \<Rightarrow> bool" for ty :: AsyncType and spur :: bool where
  callback: "lp_pc (sh_looper s) = W_Process \<Longrightarrow>
    AsyncLogger_reallog lt (lp_con (sh_looper s)) (sh_logger s) (sh_world s) = Some (lg, w) \<Longrightarrow>
    looper_step ty spur Worker (sh_looper s) L \<Longrightarrow>
    shared_step ty spur s (s\<lparr>sh_looper := L, sh_logger := lg, sh_world := w\<rparr>)"
| looper: "\<not> (a = Worker \<and> lp_pc (sh_looper s) = W_Process) \<Longrightarrow>
    looper_step ty spur a (sh_looper s) L \<Longrightarrow> shared_step ty spur s (s\<lparr>sh_looper := L\<rparr>)"

section \<open>The invariant\<close>

text \<open>
  The pushed lines are those that have reached the sinks, those of the buffer being processed, and
  those of the buffer being filled.
\<close>

definition parted :: "looper \<Rightarrow> bytes list \<Rightarrow> bytes list \<Rightarrow> bytes list \<Rightarrow> bool" where
  "parted L a b c \<longleftrightarrow> lp_pushed L = a @ b @ c \<and> contents (lp_con L) = concat b \<and>
     contents (lp_pro L) = concat c \<and> (lp_pc L \<noteq> W_Process \<longrightarrow> b = [])"

lemma parted_process:
  assumes "looper_inv ty L" and "looper_step ty spur Worker L L'" and "lp_pc L = W_Process"
    and "parted L a b c"
  shows "parted L' (a @ b) [] c"
  using assms(2)
proof (cases rule: looper_step.cases)
  case worker_process
  with assms(4) show ?thesis by (simp add: parted_def)
qed (use assms(3) in simp_all)

lemma parted_step:
  assumes "looper_inv ty L" and "looper_step ty spur actor L L'"
    and "\<not> (actor = Worker \<and> lp_pc L = W_Process)" and "parted L a b c"
  shows "\<exists>b' c'. parted L' a b' c'"
  using assms(2)
proof (cases rule: looper_step.cases)
  case (worker_swap con pro ps)
  then have "con = lp_pro L" "pro = lp_con L" by simp_all
  with worker_swap assms(4) have "parted L' a c []" by (simp add: parted_def)
  then show ?thesis by blast
next
  case worker_process
  with assms(3) show ?thesis by simp
next
  case (push i m ms pro)
  from assms(1) have "buf_ok (lp_pro L)" by (simp add: looper_inv_defs)
  from push_spec(2) [OF this push(7)] push assms(4) have "parted L' a b (c @ [m])"
    by (auto simp: parted_def)
  then show ?thesis by blast
qed (use assms(4) in \<open>auto simp: parted_def\<close>)

text \<open>
  The lines of each thread: those that it has pushed come before those it has not, and are pushed in
  their order; together the pushed lines and the others are all lines, each once.
\<close>

abbreviation left_over :: "looper \<Rightarrow> bytes list list" where
  "left_over L \<equiv> map unpushed (lp_ps L)"

definition kept :: "bytes list list \<Rightarrow> looper \<Rightarrow> bool" where
  "kept mss L \<longleftrightarrow> length (lp_ps L) = length mss \<and>
     (\<forall>i<length mss. \<exists>pre. mss ! i = pre @ left_over L ! i \<and> subseq pre (lp_pushed L)) \<and>
     mset (lp_pushed L) + (\<Sum>ms\<leftarrow>left_over L. mset ms) = (\<Sum>ms\<leftarrow>mss. mset ms)"

lemma next_push_unpushed: "next_push p = Some (m, ms) \<Longrightarrow> unpushed p = m # ms"
  by (cases p rule: next_push.cases) auto

lemma wake_unpushed [simp]: "unpushed (wake_producer p) = unpushed p"
  by (cases p) auto

lemma looper_step_lines:
  assumes "looper_step ty spur actor L L'"
  shows "left_over L' = left_over L \<and> lp_pushed L' = lp_pushed L \<or>
    (\<exists>i m ms. i < length (lp_ps L) \<and> left_over L ! i = m # ms \<and>
       left_over L' = (left_over L)[i := ms] \<and> lp_pushed L' = lp_pushed L @ [m])"
  using assms
proof (cases rule: looper_step.cases)
  case (worker_swap con pro ps)
  then show ?thesis by simp
next
  case (push i m ms pro)
  then show ?thesis using next_push_unpushed [OF push(5)] by (auto simp: map_update)
next
  case (push_wait i m ms)
  have "left_over L' = (left_over L)[i := left_over L ! i]"
    using push_wait next_push_unpushed [OF push_wait(5)] by (simp add: map_update)
  also have "\<dots> = left_over L" by (rule list_update_id)
  finally show ?thesis using push_wait by simp
next
  case (spurious_producer i m ms)
  have "left_over L' = (left_over L)[i := left_over L ! i]"
    using spurious_producer by (simp add: map_update)
  also have "\<dots> = left_over L" by (rule list_update_id)
  finally show ?thesis using spurious_producer by simp
qed simp_all

lemma kept_step:
  assumes "kept mss L" and "looper_step ty spur actor L L'"
  shows "kept mss L'"
  using looper_step_lines [OF assms(2)]
proof
  assume "left_over L' = left_over L \<and> lp_pushed L' = lp_pushed L"
  with assms(1) show ?thesis unfolding kept_def by (metis length_map)
next
  assume "\<exists>i m ms. i < length (lp_ps L) \<and> left_over L ! i = m # ms \<and>
       left_over L' = (left_over L)[i := ms] \<and> lp_pushed L' = lp_pushed L @ [m]"
  then obtain i m ms where i: "i < length (lp_ps L)" "left_over L ! i = m # ms"
    and L': "left_over L' = (left_over L)[i := ms]" "lp_pushed L' = lp_pushed L @ [m]" by blast
  from assms(1) have n: "length (lp_ps L) = length mss" by (simp add: kept_def)
  have "length (lp_ps L') = length mss" using arg_cong [OF L'(1), of length] n by simp
  moreover have "\<exists>pre. mss ! j = pre @ left_over L' ! j \<and> subseq pre (lp_pushed L')"
    if j: "j < length mss" for j
  proof -
    from assms(1) j obtain pre where pre: "mss ! j = pre @ left_over L ! j" "subseq pre (lp_pushed L)"
      unfolding kept_def by blast
    show ?thesis
    proof (cases "j = i")
      case True
      with pre i L' n j have "mss ! j = (pre @ [m]) @ left_over L' ! j" by simp
      moreover from pre(2) have "subseq (pre @ [m]) (lp_pushed L')"
        unfolding L'(2) by (intro list_emb_append_mono) simp_all
      ultimately show ?thesis by blast
    next
      case False
      with pre L' have "mss ! j = pre @ left_over L' ! j" by simp
      with subseq_rev_drop_many [OF pre(2)] show ?thesis unfolding L'(2) by blast
    qed
  qed
  moreover have "(\<Sum>ms\<leftarrow>left_over L'. mset ms) + mset (m # ms) = (\<Sum>ms\<leftarrow>left_over L. mset ms) + mset ms"
    using update_sum [of i "left_over L" mset ms] i unfolding L'(1) by simp
  then have "add_mset m (\<Sum>ms\<leftarrow>left_over L'. mset ms) = (\<Sum>ms\<leftarrow>left_over L. mset ms)" by simp
  then have "mset (lp_pushed L') + (\<Sum>ms\<leftarrow>left_over L'. mset ms) =
      mset (lp_pushed L) + (\<Sum>ms\<leftarrow>left_over L. mset ms)"
    unfolding L'(2) by (metis add_mset_add_single mset_append mset.simps union_assoc union_commute)
  then have "mset (lp_pushed L') + (\<Sum>ms\<leftarrow>left_over L'. mset ms) = (\<Sum>ms\<leftarrow>mss. mset ms)"
    using assms(1) unfolding kept_def by simp
  ultimately show ?thesis by (simp add: kept_def)
qed

text \<open>The sinks hold what has reached them, the logger is unchanged.\<close>

definition targets :: "Logger \<Rightarrow> bytes list option set" where
  "targets lg = sink_target ` set (lg_sinks lg)"

definition shared_inv :: "AsyncType \<Rightarrow> Logger \<Rightarrow> world \<Rightarrow> log_event list list \<Rightarrow> shared \<Rightarrow> bool" where
  "shared_inv ty lg w threads s \<longleftrightarrow> looper_inv ty (sh_looper s) \<and>
     kept (map (thread_lines lg) threads) (sh_looper s) \<and> sh_logger s = lg \<and>
     (\<exists>a b c. parted (sh_looper s) a b c \<and> sh_world s = spread (concat a) (targets lg) w)"

lemma shared_invI:
  assumes "looper_inv ty (sh_looper s)" and "kept (map (thread_lines lg) threads) (sh_looper s)"
    and "sh_logger s = lg" and "parted (sh_looper s) a b c"
    and "sh_world s = spread (concat a) (targets lg) w"
  shows "shared_inv ty lg w threads s"
  using assms unfolding shared_inv_def by blast

lemma reallog_spread:
  assumes "plain_sinks (lg_sinks lg) w"
  shows "AsyncLogger_reallog lt buf lg w = Some (lg, spread (contents buf) (targets lg) w)"
proof -
  have "AsyncLogger_reallog lt buf lg w = SyncLogger_log lt (contents buf) lg w"
    by (simp add: AsyncLogger_reallog_def SyncLogger_log_def contents_def)
  then show ?thesis using SyncLogger_spread [OF assms] by (simp add: targets_def)
qed

lemma shared_inv_init:
  assumes "shared_init lg w threads s" and "plain_sinks (lg_sinks lg) w"
  shows "shared_inv ty lg w threads s"
proof -
  let ?L = "sh_looper s"
  have "looper_init ?L"
    using assms(1) by (auto simp: shared_init_def looper_init_def o_def
        intro: exI [of _ "map (thread_lines lg) threads"])
  then have "looper_inv ty ?L" by (rule looper_inv_init)
  moreover have "kept (map (thread_lines lg) threads) ?L"
    using assms(1) by (auto simp: shared_init_def kept_def o_def)
  moreover have "parted ?L [] [] []"
    using assms(1) by (simp add: shared_init_def parted_def)
  moreover have "spread (concat []) (targets lg) w = w"
    using spread_nothing [OF assms(2)] by (simp add: targets_def)
  ultimately show ?thesis using assms(1) unfolding shared_inv_def
    by (auto simp: shared_init_def intro!: exI [of _ "[]"])
qed

lemma shared_inv_step:
  assumes inv: "shared_inv ty lg w threads s" and plain: "plain_sinks (lg_sinks lg) w"
    and step: "shared_step ty spur s t"
  shows "shared_inv ty lg w threads t"
proof -
  from inv obtain a b c where i: "looper_inv ty (sh_looper s)"
    "kept (map (thread_lines lg) threads) (sh_looper s)" "sh_logger s = lg"
    and p: "parted (sh_looper s) a b c" and w: "sh_world s = spread (concat a) (targets lg) w"
    by (auto simp: shared_inv_def)
  have next_inv: "looper_inv ty L" if "looper_step ty spur actor (sh_looper s) L" for actor L
    using looper_inv_step [OF i(1)] that by (auto simp: looper_moves_def)
  show ?thesis using step
  proof (cases rule: shared_step.cases)
    case (callback lt lg' w' L)
    have "plain_sinks (lg_sinks lg) (sh_world s)" unfolding w using plain by (rule plain_sinks_spread)
    from reallog_spread [OF this] callback(3) i(3) p
    have "lg' = lg" "w' = spread (concat b) (targets lg) (sh_world s)" by (auto simp: parted_def)
    then have "w' = spread (concat (a @ b)) (targets lg) w" using w by (simp add: spread_again)
    with callback(1) \<open>lg' = lg\<close> next_inv [OF callback(4)] kept_step [OF i(2) callback(4)]
      parted_process [OF i(1) callback(4,2) p]
    show ?thesis by (intro shared_invI [of ty t lg threads "a @ b" "[]" c]) simp_all
  next
    case (looper actor L)
    from parted_step [OF i(1) looper(3,2) p] obtain b' c' where "parted L a b' c'" by blast
    with looper(1) i(3) w next_inv [OF looper(3)] kept_step [OF i(2) looper(3)]
    show ?thesis unfolding shared_inv_def by auto
  qed
qed

interpretation shared_sys: invariant_system "shared_init lg w threads" "shared_step ty spur"
  "\<lambda>s. plain_sinks (lg_sinks lg) w \<longrightarrow> shared_inv ty lg w threads s" for lg w threads ty spur
  by unfold_locales (blast intro: shared_inv_init shared_inv_step)+

lemmas shared_reached = shared_sys.reachable_inv [rule_format]

section \<open>The worker alone\<close>

text \<open>Every step of the worker is a step of the whole, because the callback always returns.\<close>

lemma worker_lifts:
  assumes inv: "shared_inv ty lg w threads s" and plain: "plain_sinks (lg_sinks lg) w"
    and step: "looper_step ty spur Worker (sh_looper s) L"
  shows "\<exists>t. shared_step ty spur s t \<and> sh_looper t = L"
proof (cases "lp_pc (sh_looper s) = W_Process")
  case True
  from inv obtain a where lg: "sh_logger s = lg" and w: "sh_world s = spread (concat a) (targets lg) w"
    by (auto simp: shared_inv_def)
  have "plain_sinks (lg_sinks lg) (sh_world s)" unfolding w using plain by (rule plain_sinks_spread)
  from callback [OF True reallog_spread [OF this, folded lg] step] show ?thesis
    by (metis shared.select_convs(1) shared.surjective shared.update_convs(1-3))
next
  case False
  with looper [OF _ step] show ?thesis by (metis shared.select_convs(1) shared.surjective shared.update_convs(1))
qed

lemma worker_keeps_pushed:
  assumes "looper_step ty spur Worker L L'"
  shows "lp_pushed L' = lp_pushed L"
  using assms by (cases rule: looper_step.cases) simp_all

lemma worker_run_lifts:
  assumes inv: "shared_inv ty lg w threads s" and plain: "plain_sinks (lg_sinks lg) w"
    and run: "worker_run ty (sh_looper s) L"
  shows "\<exists>t. (shared_step ty False)\<^sup>*\<^sup>* s t \<and> sh_looper t = L \<and> shared_inv ty lg w threads t \<and>
    lp_pushed L = lp_pushed (sh_looper s)"
  using run
proof (induction rule: rtranclp_induct)
  case base
  with inv show ?case by blast
next
  case (step L1 L2)
  then obtain t where t: "(shared_step ty False)\<^sup>*\<^sup>* s t" "sh_looper t = L1" "shared_inv ty lg w threads t"
    "lp_pushed L1 = lp_pushed (sh_looper s)" by blast
  from worker_lifts [OF t(3) plain] step.hyps(2) t(2) obtain u where
    u: "shared_step ty False t u" "sh_looper u = L2" by blast
  from t(1) u(1) have "(shared_step ty False)\<^sup>*\<^sup>* s u" by (rule rtranclp.rtrancl_into_rtrancl)
  with u(2) shared_inv_step [OF t(3) plain u(1)] t(4) worker_keeps_pushed [OF step.hyps(2)]
  show ?case by auto
qed

section \<open>Properties\<close>

text \<open>The world a synchronous logger leaves behind that logs the lines one after the other.\<close>

definition same_as_sync :: "Logger \<Rightarrow> world \<Rightarrow> bytes list \<Rightarrow> world \<Rightarrow> bool" where
  "same_as_sync lg w ls w' \<longleftrightarrow> (\<forall>lt. map_option snd (sync_lines (map (Pair lt) ls) lg w) = Some w')"

lemma same_as_sync_spread:
  assumes "plain_sinks (lg_sinks lg) w"
  shows "same_as_sync lg w ls w' \<longleftrightarrow> w' = spread (concat ls) (targets lg) w"
  using sync_lines_spread [OF assms] by (auto simp: same_as_sync_def targets_def o_def)

definition looper_idle :: "looper \<Rightarrow> bool" where
  "looper_idle L \<longleftrightarrow> buf_empty (lp_pro L) \<and> lp_pc L \<noteq> W_Process"

lemma idle_same:
  assumes "shared_inv ty lg w threads s" and "plain_sinks (lg_sinks lg) w" and "looper_idle (sh_looper s)"
  shows "same_as_sync lg w (lp_pushed (sh_looper s)) (sh_world s)"
proof -
  from assms(1) obtain a b c where i: "looper_inv ty (sh_looper s)" "parted (sh_looper s) a b c"
    and w: "sh_world s = spread (concat a) (targets lg) w" by (auto simp: shared_inv_def)
  have "concat (lp_pushed (sh_looper s)) = concat a"
    using assms(3) i empty_contents [of "lp_pro (sh_looper s)"]
    by (auto simp: looper_idle_def parted_def looper_inv_defs)
  then show ?thesis using w by (simp add: same_as_sync_spread [OF assms(2)])
qed

text \<open>When the worker ends, the buffer is empty, and it stays so until the next push.\<close>

lemma looper_ends_empty:
  assumes "looper_step ty spur actor L L'"
  shows "length (lp_pushed L) \<le> length (lp_pushed L') \<and>
    (lp_pc L' = W_Done \<and> length (lp_pushed L') \<le> length (lp_pushed L) \<and>
     (lp_pc L = W_Done \<longrightarrow> buf_empty (lp_pro L)) \<longrightarrow> buf_empty (lp_pro L'))"
  using assms by (cases rule: looper_step.cases) auto

lemma shared_looper_step:
  assumes "shared_step ty spur s t"
  shows "\<exists>actor. looper_step ty spur actor (sh_looper s) (sh_looper t)"
  using assms by (cases rule: shared_step.cases) auto

lemma shared_ends_empty:
  assumes "(shared_step ty spur)\<^sup>*\<^sup>* s t" and "lp_pc (sh_looper s) \<noteq> W_Done"
  shows "length (lp_pushed (sh_looper s)) \<le> length (lp_pushed (sh_looper t)) \<and>
    (lp_pc (sh_looper t) = W_Done \<and>
     length (lp_pushed (sh_looper t)) \<le> length (lp_pushed (sh_looper s)) \<longrightarrow>
       buf_empty (lp_pro (sh_looper t)))"
  using assms(1)
proof (induction rule: rtranclp_induct)
  case base
  with assms(2) show ?case by simp
next
  case (step t u)
  from shared_looper_step [OF step.hyps(2)] looper_ends_empty step.IH show ?case
    by (metis le_trans)
qed

text \<open>C15: any number of threads log through one asynchronous logger with distinct open sinks. At any
  moment the lines pushed keep the order of each thread, none is lost and none doubled, and the sinks hold
  exactly what a synchronous logger writes that logs a prefix of them one after the other; all of
  them when the looper is idle.\<close>

theorem shared_logger_same:
  assumes "reachable (shared_init lg w threads) (shared_step ty spur) s" and "plain_sinks (lg_sinks lg) w"
  shows "kept (map (thread_lines lg) threads) (sh_looper s) \<and>
    (\<exists>ls. prefix ls (lp_pushed (sh_looper s)) \<and> same_as_sync lg w ls (sh_world s)) \<and>
    (looper_idle (sh_looper s) \<longrightarrow> same_as_sync lg w (lp_pushed (sh_looper s)) (sh_world s))"
proof -
  note inv = shared_reached [OF assms]
  then obtain a b c where i: "kept (map (thread_lines lg) threads) (sh_looper s)" "parted (sh_looper s) a b c"
    and w: "sh_world s = spread (concat a) (targets lg) w"
    by (auto simp: shared_inv_def)
  have "prefix a (lp_pushed (sh_looper s)) \<and> same_as_sync lg w a (sh_world s)"
    using i(2) w by (simp add: parted_def same_as_sync_spread [OF assms(2)])
  with i(1) idle_same [OF inv assms(2)] show ?thesis by blast
qed

text \<open>
  A run of one thread that logs an error, and information that is below the limit of the logger: the
  line is pushed, the logger is stopped, and the worker takes the buffer.
\<close>

definition demo_event :: "log_level \<Rightarrow> log_event" where
  "demo_event level = \<lparr>ev_level = level, ev_env = demo_env, ev_src = ''a.cc'', ev_line = 3,
     ev_fmt = ''%s'', ev_args = [''x'']\<rparr>"

abbreviation demo_threads_of :: "log_event list list" where
  "demo_threads_of \<equiv> [[demo_event ERROR, demo_event INFO]]"

lemma demo_lines: "\<exists>x. thread_lines file_logger [demo_event ERROR, demo_event INFO] = [x]"
  by (simp add: thread_lines_def event_line_def demo_event_def file_logger_def root_logger_def
      List.map_filter_simps less_log_level_def)

lemma shared_step_by:
  assumes "reachable (shared_init lg w threads) (shared_step ty spur) s"
    and "looper_step ty spur actor (sh_looper s) L" and "lp_pc (sh_looper s) \<noteq> W_Process"
  shows "reachable (shared_init lg w threads) (shared_step ty spur) (s\<lparr>sh_looper := L\<rparr>)"
  using assms(1) by (rule reach_step) (rule looper [OF _ assms(2)], use assms(3) in simp)

lemma demo_run:
  "\<exists>s x. reachable (shared_init file_logger file_world demo_threads_of) (shared_step ASYNC_UNSAFE False) s \<and>
     lp_stop (sh_looper s) \<and> lp_pc (sh_looper s) = W_Process \<and> lp_pushed (sh_looper s) = [x]"
proof -
  let ?reach = "reachable (shared_init file_logger file_world demo_threads_of) (shared_step ASYNC_UNSAFE False)"
  obtain x where x: "thread_lines file_logger [demo_event ERROR, demo_event INFO] = [x]"
    using demo_lines by blast
  obtain pro where pro: "buf_push x new_Buffer = Some pro" using bq.push_ok [of new_Buffer x] by auto
  let ?L0 = "\<lparr>lp_pc = W_Lock, lp_stop = False, lp_stopper = S_Run, lp_pro = new_Buffer,
      lp_con = new_Buffer, lp_ps = [P_Run [x]], lp_pushed = [], lp_out = []\<rparr>"
  let ?s0 = "\<lparr>sh_looper = ?L0, sh_logger = file_logger, sh_world = file_world\<rparr>"
  have 0: "?reach ?s0" by (rule reach_init) (simp add: shared_init_def x)
  let ?L1 = "?L0\<lparr>lp_pc := wake_worker (lp_pc ?L0), lp_pro := pro, lp_ps := (lp_ps ?L0)[0 := P_Run []],
      lp_pushed := lp_pushed ?L0 @ [x]\<rparr>"
  have "looper_step ASYNC_UNSAFE False (Producer 0) ?L0 ?L1"
    by (rule push) (simp_all add: lock_free_def fits_def pro)
  with shared_step_by [OF 0] have 1: "?reach (?s0\<lparr>sh_looper := ?L1\<rparr>)" by simp
  have "looper_step ASYNC_UNSAFE False Worker ?L1 (?L1\<lparr>lp_pc := W_Check\<rparr>)"
    by (rule worker_enter) (simp_all add: wake_worker_def)
  with shared_step_by [OF 1] have 2: "?reach (?s0\<lparr>sh_looper := ?L1\<lparr>lp_pc := W_Check\<rparr>\<rparr>)"
    by (simp add: wake_worker_def)
  let ?L3 = "?L1\<lparr>lp_pc := W_Check, lp_stop := True, lp_stopper := S_Notify\<rparr>"
  have "looper_step ASYNC_UNSAFE False Stopper (?L1\<lparr>lp_pc := W_Check\<rparr>) ?L3"
    using stop_flag [of "?L1\<lparr>lp_pc := W_Check\<rparr>"] by simp
  with shared_step_by [OF 2] have 3: "?reach (?s0\<lparr>sh_looper := ?L3\<rparr>)" by simp
  let ?L4 = "?L3\<lparr>lp_pc := W_Process, lp_con := lp_pro ?L3, lp_pro := lp_con ?L3, lp_ps := lp_ps ?L3\<rparr>"
  have "looper_step ASYNC_UNSAFE False Worker ?L3 ?L4"
    by (rule worker_swap) simp_all
  with shared_step_by [OF 3] have "?reach (?s0\<lparr>sh_looper := ?L4\<rparr>)" by simp
  then show ?thesis by (intro exI [of _ "?s0\<lparr>sh_looper := ?L4\<rparr>"] exI [of _ x]) simp
qed

theorem shared_logger_same_witness:
  "\<exists>(s::shared) x. lp_pushed (sh_looper s) = [x] \<and>
     kept (map (thread_lines file_logger) demo_threads_of) (sh_looper s) \<and>
     (\<exists>ls. prefix ls [x] \<and> same_as_sync file_logger file_world ls (sh_world s))"
proof -
  obtain s x where s: "reachable (shared_init file_logger file_world demo_threads_of)
      (shared_step ASYNC_UNSAFE False) s" "lp_pushed (sh_looper s) = [x]" using demo_run by blast
  from shared_logger_same [OF s(1) file_logger_plain, unfolded s(2)] s(2) show ?thesis by blast
qed

text \<open>C16: after \<open>stop\<close>, a worker that is not asleep can end, even when every other thread stands still;
  and whenever it has ended and nobody has pushed in the meantime, the sinks hold all lines pushed, as if
  they had been logged synchronously.\<close>

theorem shared_logger_drains:
  assumes "reachable (shared_init lg w threads) (shared_step ty spur) s" and "plain_sinks (lg_sinks lg) w"
    and "lp_stop (sh_looper s)" and "lp_pc (sh_looper s) \<notin> {W_Sleep, W_Blocked, W_Done}"
  shows "(\<exists>t. (shared_step ty False)\<^sup>*\<^sup>* s t \<and> lp_pc (sh_looper t) = W_Done \<and>
      lp_pushed (sh_looper t) = lp_pushed (sh_looper s)) \<and>
    (\<forall>t. (shared_step ty spur)\<^sup>*\<^sup>* s t \<and> lp_pc (sh_looper t) = W_Done \<and>
       lp_pushed (sh_looper t) = lp_pushed (sh_looper s) \<longrightarrow>
       same_as_sync lg w (lp_pushed (sh_looper s)) (sh_world t))"
proof
  note inv = shared_reached [OF assms(1,2)]
  then have i: "looper_inv ty (sh_looper s)" by (simp add: shared_inv_def)
  from drained_awake [OF assms(3) _ assms(4), of ty] i obtain L where
    L: "worker_run ty (sh_looper s) L" "lp_pc L = W_Done"
    by (auto simp: looper_inv_defs drained_def)
  from worker_run_lifts [OF inv assms(2) L(1)] L(2)
  show "\<exists>t. (shared_step ty False)\<^sup>*\<^sup>* s t \<and> lp_pc (sh_looper t) = W_Done \<and>
      lp_pushed (sh_looper t) = lp_pushed (sh_looper s)" by auto
  have "same_as_sync lg w (lp_pushed (sh_looper s)) (sh_world t)"
    if t: "(shared_step ty spur)\<^sup>*\<^sup>* s t" "lp_pc (sh_looper t) = W_Done"
      "lp_pushed (sh_looper t) = lp_pushed (sh_looper s)" for t
  proof -
    have "shared_inv ty lg w threads t"
      using shared_sys.reachable_inv_steps [OF t(1), of lg w threads] inv assms(2) by blast
    moreover have "looper_idle (sh_looper t)"
      using shared_ends_empty [OF t(1)] assms(4) t(2,3) by (simp add: looper_idle_def)
    ultimately show ?thesis using idle_same [of ty lg w threads t] assms(2) t(3) by simp
  qed
  then show "\<forall>t. (shared_step ty spur)\<^sup>*\<^sup>* s t \<and> lp_pc (sh_looper t) = W_Done \<and>
       lp_pushed (sh_looper t) = lp_pushed (sh_looper s) \<longrightarrow>
       same_as_sync lg w (lp_pushed (sh_looper s)) (sh_world t)" by blast
qed

theorem shared_logger_drains_witness:
  "\<exists>s t x. lp_pushed (sh_looper s) = [x] \<and> (shared_step ASYNC_UNSAFE False)\<^sup>*\<^sup>* s t \<and>
     same_as_sync file_logger file_world [x] (sh_world t)"
proof -
  obtain s x where s: "reachable (shared_init file_logger file_world demo_threads_of)
      (shared_step ASYNC_UNSAFE False) s" "lp_stop (sh_looper s)" "lp_pc (sh_looper s) = W_Process"
    "lp_pushed (sh_looper s) = [x]" using demo_run by blast
  from shared_logger_drains [OF s(1) file_logger_plain s(2)] s(3) obtain t where
    "(shared_step ASYNC_UNSAFE False)\<^sup>*\<^sup>* s t"
    "same_as_sync file_logger file_world (lp_pushed (sh_looper s)) (sh_world t)" by auto
  with s(4) show ?thesis by metis
qed

end
