(* ===== verification/Byte_Order.thy ===== *)
theory Byte_Order
  imports "HOL-Library.Word"
begin

text \<open>
  The reading and writing of integers and floating point numbers in the bytes of the database protocol:
  \<open>my_byteorder.h\<close>, \<open>byte_order_generic.h\<close>, \<open>byte_order_generic_x86.h\<close>, \<open>little_endian.h\<close> and
  \<open>big_endian.h\<close> of \<open>http/cgi/include\<close>. Memory is a list of bytes; a function that writes returns the
  changed list. Signed results are words, read with \<open>sint\<close>; a floating point number is the list of the
  bytes that represent it on the machine. The names of \<open>little_endian.h\<close> and \<open>big_endian.h\<close> start with
  \<open>le_\<close> and \<open>be_\<close>, those of \<open>byte_order_generic_x86.h\<close> with \<open>x86_\<close>.
\<close>

unbundle bit_operations_syntax

type_synonym byte = "8 word"

section \<open>byte\_order\_generic.h\<close>

definition sint2korr :: "byte list \<Rightarrow> 16 word" where
  "sint2korr A = ucast ((ucast (A ! 0) :: 32 word) + push_bit 8 (ucast (A ! 1)))"

definition sint4korr :: "byte list \<Rightarrow> 32 word" where
  "sint4korr A = ucast (A ! 0) + push_bit 8 (ucast (A ! 1)) + push_bit 16 (ucast (A ! 2)) +
     push_bit 24 (ucast (A ! 3))"

definition uint2korr :: "byte list \<Rightarrow> 16 word" where
  "uint2korr A = ucast ((ucast (A ! 0) :: 32 word) + push_bit 8 (ucast (A ! 1)))"

definition uint4korr :: "byte list \<Rightarrow> 32 word" where
  "uint4korr A = ucast (A ! 0) + push_bit 8 (ucast (A ! 1)) + push_bit 16 (ucast (A ! 2)) +
     push_bit 24 (ucast (A ! 3))"

definition uint8korr :: "byte list \<Rightarrow> 64 word" where
  "uint8korr A =
     ucast ((ucast (A ! 0) :: 32 word) + push_bit 8 (ucast (A ! 1)) + push_bit 16 (ucast (A ! 2)) +
       push_bit 24 (ucast (A ! 3))) +
     push_bit 32 (ucast ((ucast (A ! 4) :: 32 word) + push_bit 8 (ucast (A ! 5)) +
       push_bit 16 (ucast (A ! 6)) + push_bit 24 (ucast (A ! 7))))"

definition sint8korr :: "byte list \<Rightarrow> 64 word" where
  "sint8korr A = uint8korr A"

definition int2store :: "byte list \<Rightarrow> 16 word \<Rightarrow> byte list" where
  "int2store T A = (let def_temp = (ucast A :: 32 word)
     in T[0 := ucast def_temp, 1 := ucast (drop_bit 8 def_temp)])"

definition int4store :: "byte list \<Rightarrow> 32 word \<Rightarrow> byte list" where
  "int4store T A = T[0 := ucast A, 1 := ucast (drop_bit 8 A), 2 := ucast (drop_bit 16 A),
     3 := ucast (drop_bit 24 A)]"

definition int8store :: "byte list \<Rightarrow> 64 word \<Rightarrow> byte list" where
  "int8store T A =
     (let def_temp = (ucast A :: 32 word);
          def_temp2 = (ucast (drop_bit 32 A) :: 32 word);
          T1 = int4store T def_temp
      in take 4 T1 @ int4store (drop 4 T1) def_temp2)"

section \<open>byte\_order\_generic\_x86.h\<close>

text \<open>The value of bytes, low byte first, as the machine reads and writes its words.\<close>

fun le_int :: "byte list \<Rightarrow> int" where
  "le_int [] = 0"
| "le_int (b # bs) = uint b + 256 * le_int bs"

fun le_bytes :: "nat \<Rightarrow> int \<Rightarrow> byte list" where
  "le_bytes 0 a = []"
| "le_bytes (Suc n) a = word_of_int a # le_bytes n (a div 256)"

definition machine_read :: "nat \<Rightarrow> byte list \<Rightarrow> 'a::len word" where
  "machine_read n A = word_of_int (le_int (take n A))"

definition machine_write :: "nat \<Rightarrow> byte list \<Rightarrow> 'a::len word \<Rightarrow> byte list" where
  "machine_write n T A = le_bytes n (uint A) @ drop n T"

definition x86_sint2korr :: "byte list \<Rightarrow> 16 word" where "x86_sint2korr A = machine_read 2 A"
definition x86_sint4korr :: "byte list \<Rightarrow> 32 word" where "x86_sint4korr A = machine_read 4 A"
definition x86_uint2korr :: "byte list \<Rightarrow> 16 word" where "x86_uint2korr A = machine_read 2 A"
definition x86_uint4korr :: "byte list \<Rightarrow> 32 word" where "x86_uint4korr A = machine_read 4 A"
definition x86_uint8korr :: "byte list \<Rightarrow> 64 word" where "x86_uint8korr A = machine_read 8 A"
definition x86_sint8korr :: "byte list \<Rightarrow> 64 word" where "x86_sint8korr A = machine_read 8 A"

definition x86_int2store :: "byte list \<Rightarrow> 16 word \<Rightarrow> byte list" where
  "x86_int2store T A = machine_write 2 T A"

definition x86_int4store :: "byte list \<Rightarrow> 32 word \<Rightarrow> byte list" where
  "x86_int4store T A = machine_write 4 T A"

definition x86_int8store :: "byte list \<Rightarrow> 64 word \<Rightarrow> byte list" where
  "x86_int8store T A = machine_write 8 T A"

section \<open>my\_byteorder.h\<close>

definition sint3korr :: "byte list \<Rightarrow> 32 word" where
  "sint3korr A =
     (if A ! 2 AND 128 \<noteq> 0
      then push_bit 24 255 OR push_bit 16 (ucast (A ! 2)) OR push_bit 8 (ucast (A ! 1)) OR ucast (A ! 0)
      else push_bit 16 (ucast (A ! 2)) OR push_bit 8 (ucast (A ! 1)) OR ucast (A ! 0))"

definition uint3korr :: "byte list \<Rightarrow> 32 word" where
  "uint3korr A = ucast (A ! 0) + push_bit 8 (ucast (A ! 1)) + push_bit 16 (ucast (A ! 2))"

definition uint5korr :: "byte list \<Rightarrow> 64 word" where
  "uint5korr A =
     ucast ((ucast (A ! 0) :: 32 word) + push_bit 8 (ucast (A ! 1)) + push_bit 16 (ucast (A ! 2)) +
       push_bit 24 (ucast (A ! 3))) + push_bit 32 (ucast (A ! 4))"

definition uint6korr :: "byte list \<Rightarrow> 64 word" where
  "uint6korr A =
     ucast ((ucast (A ! 0) :: 32 word) + push_bit 8 (ucast (A ! 1)) + push_bit 16 (ucast (A ! 2)) +
       push_bit 24 (ucast (A ! 3))) + push_bit 32 (ucast (A ! 4)) + push_bit 40 (ucast (A ! 5))"

definition int3store :: "byte list \<Rightarrow> 32 word \<Rightarrow> byte list" where
  "int3store T A = T[0 := ucast A, 1 := ucast (drop_bit 8 A), 2 := ucast (drop_bit 16 A)]"

definition int5store :: "byte list \<Rightarrow> 64 word \<Rightarrow> byte list" where
  "int5store T A = T[0 := ucast A, 1 := ucast (drop_bit 8 A), 2 := ucast (drop_bit 16 A),
     3 := ucast (drop_bit 24 A), 4 := ucast (drop_bit 32 A)]"

definition int6store :: "byte list \<Rightarrow> 64 word \<Rightarrow> byte list" where
  "int6store T A = T[0 := ucast A, 1 := ucast (drop_bit 8 A), 2 := ucast (drop_bit 16 A),
     3 := ucast (drop_bit 24 A), 4 := ucast (drop_bit 32 A), 5 := ucast (drop_bit 40 A)]"

section \<open>Values and bytes\<close>

lemma length_le_bytes [simp]: "length (le_bytes n a) = n"
  by (induction n arbitrary: a) simp_all

lemma le_int_nonneg: "0 \<le> le_int bs"
  by (induction bs) simp_all

lemma le_int_less: "le_int bs < 256 ^ length bs"
proof (induction bs)
  case (Cons b bs)
  have "uint b < 256" using uint_lt2p [of b] by simp
  with Cons show ?case by simp
qed simp

lemma le_int_le_bytes: "le_int (le_bytes n a) = a mod 256 ^ n"
proof (induction n arbitrary: a)
  case (Suc n)
  have "uint (word_of_int a :: byte) = a mod 256" by (simp add: uint_word_of_int)
  with Suc show ?case using zmod_zmult2_eq [of "256 ^ n" a 256] by simp
qed simp

lemma le_bytes_le_int: "le_bytes (length bs) (le_int bs) = bs"
proof (induction bs)
  case (Cons b bs)
  have b: "0 \<le> uint b" "uint b < 256" using uint_lt2p [of b] by simp_all
  then have "(uint b + 256 * le_int bs) div 256 = le_int bs" by simp
  moreover have "(word_of_int (uint b + 256 * le_int bs) :: byte) = word_of_int (uint b)"
    by (simp only: word_of_int_eq_iff take_bit_eq_mod) simp
  ultimately show ?case using Cons by simp
qed simp

lemma le_bytes_Suc_last: "le_bytes (Suc n) a = le_bytes n a @ [word_of_int (a div 256 ^ n)]"
proof (induction n arbitrary: a)
  case (Suc n)
  have "le_bytes (Suc (Suc n)) a = word_of_int a # le_bytes (Suc n) (a div 256)" by simp
  also have "\<dots> = word_of_int a # le_bytes n (a div 256) @ [word_of_int (a div 256 div 256 ^ n)]"
    by (simp only: Suc)
  finally show ?case by (simp add: zdiv_zmult2_eq)
qed simp

text \<open>The readers, as the machine's reading of so many bytes.\<close>

lemma take_nth: "n \<le> length A \<Longrightarrow> take n A = map (\<lambda>i. A ! i) [0..<n]"
  by (rule nth_equalityI) simp_all

lemma upt_numerals: "[0..<2] = [0, 1]" "[0..<3] = [0, 1, 2]" "[0..<4] = [0, 1, 2, 3 :: nat]"
  by (simp_all add: upt_rec)

lemma take_nths:
  "2 \<le> length A \<Longrightarrow> take 2 A = [A ! 0, A ! 1]"
  "3 \<le> length A \<Longrightarrow> take 3 A = [A ! 0, A ! 1, A ! 2]"
  "4 \<le> length A \<Longrightarrow> take 4 A = [A ! 0, A ! 1, A ! 2, A ! 3]"
  by (simp_all add: take_nth upt_numerals)

lemma le_int_take:
  "2 \<le> length A \<Longrightarrow> le_int (take 2 A) = uint (A ! 0) + 2 ^ 8 * uint (A ! 1)"
  "3 \<le> length A \<Longrightarrow> le_int (take 3 A) = uint (A ! 0) + 2 ^ 8 * uint (A ! 1) + 2 ^ 16 * uint (A ! 2)"
  "4 \<le> length A \<Longrightarrow> le_int (take 4 A) =
     uint (A ! 0) + 2 ^ 8 * uint (A ! 1) + 2 ^ 16 * uint (A ! 2) + 2 ^ 24 * uint (A ! 3)"
  by (simp_all add: take_nths)

lemma ucast_int: "(ucast (a :: byte) :: 'a::len word) = word_of_int (uint a)"
  by (rule ucast_eq)

lemma push_bit_wi: "push_bit n (word_of_int k :: 'a::len word) = word_of_int (2 ^ n * k)"
  using push_bit_of_int [of n k, where 'a = "'a word"] by (simp add: push_bit_eq_mult mult.commute)

lemma sum2: "2 \<le> length A \<Longrightarrow>
    (ucast (A ! 0) :: 'a::len word) + push_bit 8 (ucast (A ! 1)) = word_of_int (le_int (take 2 A))"
  by (simp only: le_int_take ucast_int push_bit_wi wi_hom_add)

lemma sum3: "3 \<le> length A \<Longrightarrow>
    (ucast (A ! 0) :: 'a::len word) + push_bit 8 (ucast (A ! 1)) + push_bit 16 (ucast (A ! 2)) =
      word_of_int (le_int (take 3 A))"
  by (simp only: le_int_take ucast_int push_bit_wi wi_hom_add)

lemma sum4: "4 \<le> length A \<Longrightarrow>
    (ucast (A ! 0) :: 'a::len word) + push_bit 8 (ucast (A ! 1)) + push_bit 16 (ucast (A ! 2)) +
      push_bit 24 (ucast (A ! 3)) = word_of_int (le_int (take 4 A))"
  by (simp only: le_int_take ucast_int push_bit_wi wi_hom_add)

lemma le_int_lt: "length A = n \<Longrightarrow> le_int A < 256 ^ n"
  using le_int_less by auto

lemma ucast_le_int:
  "length A \<le> 4 \<Longrightarrow> (ucast (word_of_int (le_int A) :: 32 word) :: 64 word) = word_of_int (le_int A)"
proof -
  assume "length A \<le> 4"
  then have "(256 :: int) ^ length A \<le> 256 ^ 4" by (intro power_increasing) simp_all
  with le_int_less [of A] have "le_int A < 2 ^ 32" by simp
  with le_int_nonneg [of A] have "uint (word_of_int (le_int A) :: 32 word) = le_int A"
    by (simp add: uint_word_of_int)
  then show ?thesis by (simp add: ucast_eq)
qed

lemma ucast_down:
  "(ucast (word_of_int a :: 32 word) :: 16 word) = word_of_int a"
  by (simp only: ucast_eq uint_word_of_int word_of_int_eq_iff take_bit_eq_mod) (simp add: mod_mod_cancel)

lemma le_int_append: "le_int (as @ bs) = le_int as + 256 ^ length as * le_int bs"
  by (induction as) (simp_all add: algebra_simps)

lemma korr2: assumes "2 \<le> length A"
  shows "sint2korr A = machine_read 2 A" "uint2korr A = machine_read 2 A"
  using assms by (simp_all only: sint2korr_def uint2korr_def machine_read_def sum2 ucast_down)

lemma korr3: "3 \<le> length A \<Longrightarrow> uint3korr A = machine_read 3 A"
  by (simp only: uint3korr_def machine_read_def sum3)

lemma korr4: assumes "4 \<le> length A"
  shows "sint4korr A = machine_read 4 A" "uint4korr A = machine_read 4 A"
  using assms by (simp_all only: sint4korr_def uint4korr_def machine_read_def sum4)

lemma split_take:
  "n + m \<le> length A \<Longrightarrow> le_int (take (n + m) A) = le_int (take n A) + 256 ^ n * le_int (take m (drop n A))"
  by (simp add: take_add le_int_append)

lemma ucast_sum4: "4 \<le> length A \<Longrightarrow>
    (ucast ((ucast (A ! 0) :: 32 word) + push_bit 8 (ucast (A ! 1)) + push_bit 16 (ucast (A ! 2)) +
      push_bit 24 (ucast (A ! 3))) :: 64 word) = word_of_int (le_int (take 4 A))"
  by (simp only: sum4) (simp add: ucast_le_int)

lemma korr5: "5 \<le> length A \<Longrightarrow> uint5korr A = machine_read 5 A"
proof -
  assume len: "5 \<le> length A"
  have t: "take (Suc 0) (drop 4 A) = [A ! 4]" using len by (simp add: take_nth)
  have s: "le_int (take 5 A) = le_int (take 4 A) + 2 ^ 32 * uint (A ! 4)"
    using len split_take [of 4 1 A] by (simp add: t)
  have l4: "4 \<le> length A" using len by simp
  show ?thesis
    unfolding uint5korr_def ucast_sum4 [OF l4] machine_read_def s
    by (simp only: ucast_int push_bit_wi wi_hom_add)
qed

lemma korr6: "6 \<le> length A \<Longrightarrow> uint6korr A = machine_read 6 A"
proof -
  assume len: "6 \<le> length A"
  have s: "le_int (take 6 A) = le_int (take 4 A) + 2 ^ 32 * uint (A ! 4) + 2 ^ 40 * uint (A ! 5)"
    using len split_take [of 4 2 A] le_int_take(1) [of "drop 4 A"] by simp
  have l4: "4 \<le> length A" using len by simp
  show ?thesis
    unfolding uint6korr_def ucast_sum4 [OF l4] machine_read_def s
    by (simp only: ucast_int push_bit_wi wi_hom_add)
qed

lemma korr8: "8 \<le> length A \<Longrightarrow> uint8korr A = machine_read 8 A"
proof -
  assume len: "8 \<le> length A"
  have s: "le_int (take 8 A) = le_int (take 4 A) + 2 ^ 32 * le_int (take 4 (drop 4 A))"
    using len split_take [of 4 4 A] by simp
  have l4: "4 \<le> length A" "4 \<le> length (drop 4 A)" using len by simp_all
  have n: "A ! 4 = drop 4 A ! 0" "A ! 5 = drop 4 A ! 1" "A ! 6 = drop 4 A ! 2" "A ! 7 = drop 4 A ! 3"
    using len by simp_all
  show ?thesis
    unfolding uint8korr_def n ucast_sum4 [OF l4(1)] ucast_sum4 [OF l4(2)] machine_read_def s
    by (simp only: push_bit_wi wi_hom_add)
qed


section \<open>The writers\<close>

lemma upds:
  "2 \<le> length T \<Longrightarrow> T[0 := a, 1 := b] = [a, b] @ drop 2 T"
  "3 \<le> length T \<Longrightarrow> T[0 := a, 1 := b, 2 := c] = [a, b, c] @ drop 3 T"
  "4 \<le> length T \<Longrightarrow> T[0 := a, 1 := b, 2 := c, 3 := d] = [a, b, c, d] @ drop 4 T"
  "5 \<le> length T \<Longrightarrow> T[0 := a, 1 := b, 2 := c, 3 := d, 4 := e] = [a, b, c, d, e] @ drop 5 T"
  "6 \<le> length T \<Longrightarrow> T[0 := a, 1 := b, 2 := c, 3 := d, 4 := e, 5 := f] = [a, b, c, d, e, f] @ drop 6 T"
  by (auto simp: eval_nat_numeral Suc_le_length_iff)

lemma le_bytes_numeral [simp]:
  "le_bytes (numeral k) a = word_of_int a # le_bytes (pred_numeral k) (a div 256)"
  by (simp add: numeral_eq_Suc)

lemma le_bytes_1 [simp]: "le_bytes 1 a = [word_of_int a]"
  by simp

lemma uint_drop: "uint (drop_bit n (a :: 'a::len word)) = uint a div 2 ^ n"
  by (simp add: unsigned_drop_bit_eq bintr_uint) (simp add: drop_bit_eq_div)

lemma ucast_byte: "(ucast (a :: 'a::len word) :: byte) = word_of_int (uint a)"
  by (rule ucast_eq)

lemma uint_wide: "uint (ucast (A :: 16 word) :: 32 word) = uint A"
  using uint_lt2p [of A] by (simp add: unsigned_ucast_eq take_bit_eq_mod)

lemma store2: "2 \<le> length T \<Longrightarrow> int2store T A = machine_write 2 T A"
  by (simp only: int2store_def Let_def upds(1) uint_drop ucast_byte uint_wide machine_write_def) simp

lemma store3: "3 \<le> length T \<Longrightarrow> int3store T A = machine_write 3 T A"
  by (simp only: int3store_def upds(2) uint_drop ucast_byte machine_write_def)
     (simp add: zdiv_zmult2_eq [symmetric])

lemma store4: "4 \<le> length T \<Longrightarrow> int4store T A = machine_write 4 T A"
  by (simp only: int4store_def upds(3) uint_drop ucast_byte machine_write_def)
     (simp add: zdiv_zmult2_eq [symmetric])

lemma store5: "5 \<le> length T \<Longrightarrow> int5store T A = machine_write 5 T A"
  by (simp only: int5store_def upds(4) uint_drop ucast_byte machine_write_def)
     (simp add: zdiv_zmult2_eq [symmetric])

lemma store6: "6 \<le> length T \<Longrightarrow> int6store T A = machine_write 6 T A"
  by (simp only: int6store_def upds(5) uint_drop ucast_byte machine_write_def)
     (simp add: zdiv_zmult2_eq [symmetric])

lemma le_bytes_append: "le_bytes (m + n) a = le_bytes m a @ le_bytes n (a div 256 ^ m)"
  by (induction m arbitrary: a) (simp_all add: zdiv_zmult2_eq)

lemma le_bytes_mod: "le_bytes n (a mod 256 ^ n) = le_bytes n a"
  using le_bytes_le_int [of "le_bytes n a"] by (simp add: le_int_le_bytes)

lemma store8: assumes "8 \<le> length T" shows "int8store T A = machine_write 8 T A"
proof -
  have low: "uint (ucast A :: 32 word) = uint A mod 256 ^ 4"
    by (simp add: unsigned_ucast_eq take_bit_eq_mod)
  have high: "uint (ucast (drop_bit 32 A) :: 32 word) = (uint A div 256 ^ 4) mod 256 ^ 4"
    by (simp add: unsigned_ucast_eq take_bit_eq_mod uint_drop)
  have T1: "int4store T (ucast A) = le_bytes 4 (uint A) @ drop 4 T"
    using assms store4 [of T "ucast A"] by (simp only: machine_write_def low le_bytes_mod)
  have "int4store (drop 4 T) (ucast (drop_bit 32 A)) = le_bytes 4 (uint A div 256 ^ 4) @ drop 4 (drop 4 T)"
    using assms store4 [of "drop 4 T" "ucast (drop_bit 32 A)"]
    by (simp only: length_drop machine_write_def high le_bytes_mod)
  moreover have "le_bytes 8 (uint A) = le_bytes 4 (uint A) @ le_bytes 4 (uint A div 256 ^ 4)"
    using le_bytes_append [of 4 4 "uint A"] by (simp del: le_bytes_numeral)
  ultimately show ?thesis
    by (simp only: int8store_def Let_def T1 machine_write_def) (simp del: le_bytes_numeral)
qed

section \<open>The contract of a format\<close>

text \<open>
  A pair of functions that read and write integers of \<open>n\<close> bytes. What is written is read back, up to the
  bytes that fit, and only those bytes change.
\<close>

locale byte_codec =
  fixes n :: nat and get :: "byte list \<Rightarrow> 'a::len word" and store :: "byte list \<Rightarrow> 'a word \<Rightarrow> byte list"
  assumes get_machine: "n \<le> length A \<Longrightarrow> get A = machine_read n A"
    and store_machine: "n \<le> length T \<Longrightarrow> store T a = machine_write n T a"
    and fits: "8 * n \<le> LENGTH('a)"
begin

lemma length_store: "n \<le> length T \<Longrightarrow> length (store T a) = length T"
  by (simp add: store_machine machine_write_def)

lemma store_only: "n \<le> length T \<Longrightarrow> drop n (store T a) = drop n T"
  by (simp add: store_machine machine_write_def)

lemma get_store: assumes "n \<le> length T" shows "get (store T a) = take_bit (8 * n) a"
proof -
  have "n \<le> length (store T a)" using assms by (simp add: length_store)
  then have "get (store T a) = word_of_int (uint a mod 256 ^ n)"
    using assms by (simp add: get_machine machine_read_def store_machine machine_write_def le_int_le_bytes)
  also have "\<dots> = word_of_int (take_bit (8 * n) (uint a))"
    by (simp add: take_bit_eq_mod power_mult)
  finally show ?thesis by (simp add: unsigned_take_bit_eq [symmetric] del: of_int_take_bit)
qed

lemma get_bound: assumes "n \<le> length A" shows "uint (get A) = le_int (take n A)"
proof -
  have "le_int (take n A) < 256 ^ n" using le_int_less [of "take n A"] assms by (simp add: min_absorb2)
  also have "(256 :: int) ^ n = 2 ^ (8 * n)" by (simp add: power_mult)
  also have "\<dots> \<le> 2 ^ LENGTH('a)" using fits by (intro power_increasing) simp_all
  finally show ?thesis using assms le_int_nonneg [of "take n A"]
    by (simp add: get_machine machine_read_def uint_word_of_int)
qed

lemma store_get: assumes "n \<le> length A" shows "store A (get A) = A"
proof -
  have "le_bytes n (le_int (take n A)) = take n A"
    using le_bytes_le_int [of "take n A"] assms by (simp add: min_absorb2)
  with assms show ?thesis by (simp add: store_machine machine_write_def get_bound)
qed

end

interpretation c2: byte_codec 2 uint2korr int2store
  by unfold_locales (simp_all add: korr2 store2)

interpretation c3: byte_codec 3 uint3korr int3store
  by unfold_locales (simp_all add: korr3 store3)

interpretation c4: byte_codec 4 uint4korr int4store
  by unfold_locales (simp_all add: korr4 store4)

interpretation c5: byte_codec 5 uint5korr int5store
  by unfold_locales (simp_all add: korr5 store5)

interpretation c6: byte_codec 6 uint6korr int6store
  by unfold_locales (simp_all add: korr6 store6)

interpretation c8: byte_codec 8 uint8korr int8store
  by unfold_locales (simp_all add: korr8 store8)

lemmas x86_defs = x86_sint2korr_def x86_sint4korr_def x86_uint2korr_def x86_uint4korr_def x86_uint8korr_def
  x86_sint8korr_def x86_int2store_def x86_int4store_def x86_int8store_def

section \<open>Three bytes with a sign\<close>

lemma or_is_plus:
  fixes a b c :: byte
  shows "push_bit 16 (ucast c) OR push_bit 8 (ucast b) OR ucast a =
    (ucast a + push_bit 8 (ucast b) + push_bit 16 (ucast c) :: 32 word)"
proof -
  have "(ucast a + push_bit 8 (ucast b) :: 32 word) = ucast a OR push_bit 8 (ucast b)"
    by (rule disjunctive_add) (auto simp: bit_simps dest: bit_imp_le_length)
  moreover have "(ucast a OR push_bit 8 (ucast b)) + push_bit 16 (ucast c) =
      ((ucast a OR push_bit 8 (ucast b)) OR push_bit 16 (ucast c) :: 32 word)"
    by (rule disjunctive_add) (auto simp: bit_simps dest: bit_imp_le_length)
  ultimately show ?thesis by (simp add: ac_simps)
qed

lemma or_top: assumes "0 \<le> v" "v < 2 ^ 24"
  shows "(push_bit 24 255 OR word_of_int v :: 32 word) = word_of_int (v - 2 ^ 24)"
proof -
  have "\<not> bit v i" if "24 \<le> i" for i
  proof -
    have "v div 2 ^ i = 0"
      using assms power_increasing [OF that, of "2 :: int"] by (intro div_pos_pos_trivial) simp_all
    then show ?thesis by (simp add: bit_iff_odd)
  qed
  then have "(push_bit 24 255 :: 32 word) + word_of_int v = push_bit 24 255 OR word_of_int v"
    by (intro disjunctive_add) (auto simp: bit_simps not_le simp del: push_bit_numeral)
  moreover have "(push_bit 24 255 :: 32 word) = word_of_int (- (2 ^ 24))" by simp
  ultimately show ?thesis by (simp add: wi_hom_add del: push_bit_numeral)
qed

lemma byte_top: "(a :: byte) AND 128 \<noteq> 0 \<longleftrightarrow> 128 \<le> uint a"
proof -
  have "a AND 128 \<noteq> 0 \<longleftrightarrow> bit a 7"
    using and_exp_eq_0_iff_not_bit [of a 7] by simp
  also have "\<dots> \<longleftrightarrow> bit (uint a) 7" by (simp add: bit_uint_iff)
  also have "\<dots> \<longleftrightarrow> odd (uint a div 128)" by (simp add: bit_iff_odd)
  also have "\<dots> \<longleftrightarrow> 128 \<le> uint a"
  proof -
    have "uint a < 256" using uint_lt2p [of a] by simp
    then show ?thesis by (cases "128 \<le> uint a") (auto simp: div_pos_geq)
  qed
  finally show ?thesis .
qed

lemma sint_small: "- (2 ^ 31) \<le> k \<Longrightarrow> k < 2 ^ 31 \<Longrightarrow> sint (word_of_int k :: 32 word) = k"
  by (simp add: signed_of_int signed_take_bit_int_eq_self)

lemma sint3korr_value:
  assumes "3 \<le> length A"
  shows "sint (sint3korr A) =
    (let v = le_int (take 3 A) in if v < 2 ^ 23 then v else v - 2 ^ 24)"
proof -
  let ?v = "le_int (take 3 A)"
  have v: "?v = uint (A ! 0) + 2 ^ 8 * uint (A ! 1) + 2 ^ 16 * uint (A ! 2)"
    using assms by (rule le_int_take)
  have b: "0 \<le> uint (A ! i)" "uint (A ! i) < 256" for i using uint_lt2p [of "A ! i"] by simp_all
  have low: "uint (A ! 0) + 2 ^ 8 * uint (A ! 1) < 2 ^ 16" using b(2) [of 0] b(2) [of 1] by simp
  have bound: "0 \<le> ?v" "?v < 2 ^ 24"
    using b(1) [of 0] b(1) [of 1] b(1) [of 2] b(2) [of 2] low by (simp_all add: v)
  have top: "A ! 2 AND 128 \<noteq> 0 \<longleftrightarrow> 2 ^ 23 \<le> ?v"
  proof -
    have "128 \<le> z \<longleftrightarrow> 2 ^ 23 \<le> x + 2 ^ 8 * y + 2 ^ 16 * z"
      if "0 \<le> x" "0 \<le> y" "x + 2 ^ 8 * y < 2 ^ 16" for x y z :: int
      using that by auto
    from this [OF b(1) b(1) low] show ?thesis unfolding byte_top v .
  qed
  have s: "push_bit 16 (ucast (A ! 2)) OR push_bit 8 (ucast (A ! 1)) OR ucast (A ! 0) = (word_of_int ?v :: 32 word)"
    using sum3 [OF assms, where 'a = 32] by (simp only: or_is_plus)
  show ?thesis
  proof (cases "2 ^ 23 \<le> ?v")
    case True
    then have "sint3korr A = word_of_int (?v - 2 ^ 24)"
      using top bound by (simp only: sint3korr_def s or_top if_True simp_thms)
    with True bound show ?thesis using sint_small [of "?v - 2 ^ 24"] by (simp add: Let_def)
  next
    case False
    then have "\<not> (A ! 2 AND 128 \<noteq> 0)" using top by blast
    then have "sint3korr A = word_of_int ?v" by (simp only: sint3korr_def s if_False simp_thms)
    with False bound show ?thesis using sint_small [of ?v] by (simp add: Let_def)
  qed
qed

section \<open>little\_endian.h\<close>

text \<open>
  A variable of the machine is the list of its bytes: \<open>float\<close> has four, \<open>double\<close> eight. \<open>memcpy V M n\<close> is
  what \<open>V\<close> holds after \<open>n\<close> bytes of \<open>M\<close> were copied there. The two \<open>bi\<close> functions are those of a machine
  whose words of a \<open>double\<close> are the other way round.
\<close>

definition memcpy :: "byte list \<Rightarrow> byte list \<Rightarrow> nat \<Rightarrow> byte list" where
  "memcpy V M n = take n M @ drop n V"

definition le_float4get :: "byte list \<Rightarrow> byte list \<Rightarrow> byte list" where "le_float4get V M = memcpy V M 4"
definition le_float4store :: "byte list \<Rightarrow> byte list \<Rightarrow> byte list" where "le_float4store V M = memcpy V M 4"
definition le_float8get :: "byte list \<Rightarrow> byte list \<Rightarrow> byte list" where "le_float8get V M = memcpy V M 8"
definition le_float8store :: "byte list \<Rightarrow> byte list \<Rightarrow> byte list" where "le_float8store V M = memcpy V M 8"
definition le_floatget :: "byte list \<Rightarrow> byte list \<Rightarrow> byte list" where "le_floatget V M = le_float4get V M"
definition le_floatstore :: "byte list \<Rightarrow> byte list \<Rightarrow> byte list" where "le_floatstore V M = le_float4store V M"

definition bi_doublestore :: "byte list \<Rightarrow> byte list \<Rightarrow> byte list" where
  "bi_doublestore T V = T[0 := V ! 4, 1 := V ! 5, 2 := V ! 6, 3 := V ! 7,
     4 := V ! 0, 5 := V ! 1, 6 := V ! 2, 7 := V ! 3]"

definition bi_doubleget :: "byte list \<Rightarrow> byte list" where
  "bi_doubleget M = [M ! 4, M ! 5, M ! 6, M ! 7, M ! 0, M ! 1, M ! 2, M ! 3]"

definition le_doublestore :: "byte list \<Rightarrow> byte list \<Rightarrow> byte list" where "le_doublestore T V = memcpy T V 8"
definition le_doubleget :: "byte list \<Rightarrow> byte list \<Rightarrow> byte list" where "le_doubleget V M = memcpy V M 8"
definition le_ushortget :: "byte list \<Rightarrow> 16 word" where "le_ushortget pM = uint2korr pM"
definition le_shortget :: "byte list \<Rightarrow> 16 word" where "le_shortget pM = sint2korr pM"
definition le_longget :: "byte list \<Rightarrow> 32 word" where "le_longget pM = sint4korr pM"
definition le_ulongget :: "byte list \<Rightarrow> 32 word" where "le_ulongget pM = uint4korr pM"
definition le_shortstore :: "byte list \<Rightarrow> 16 word \<Rightarrow> byte list" where "le_shortstore T V = int2store T V"
definition le_longstore :: "byte list \<Rightarrow> 32 word \<Rightarrow> byte list" where "le_longstore T V = int4store T V"
definition le_longlongget :: "byte list \<Rightarrow> 64 word" where "le_longlongget M = machine_read 8 M"
definition le_longlongstore :: "byte list \<Rightarrow> 64 word \<Rightarrow> byte list" where
  "le_longlongstore T V = machine_write 8 T V"

section \<open>big\_endian.h\<close>

text \<open>How a big-endian machine reads and writes its words.\<close>

definition big_read :: "nat \<Rightarrow> byte list \<Rightarrow> 'a::len word" where
  "big_read n A = word_of_int (le_int (rev (take n A)))"

definition big_write :: "nat \<Rightarrow> byte list \<Rightarrow> 'a::len word \<Rightarrow> byte list" where
  "big_write n T A = rev (le_bytes n (uint A)) @ drop n T"

definition be_float4store :: "byte list \<Rightarrow> byte list \<Rightarrow> byte list" where
  "be_float4store T A = T[0 := A ! 3, 1 := A ! 2, 2 := A ! 1, 3 := A ! 0]"

definition be_float4get :: "byte list \<Rightarrow> byte list" where
  "be_float4get M = [M ! 3, M ! 2, M ! 1, M ! 0]"

definition be_float8store :: "byte list \<Rightarrow> byte list \<Rightarrow> byte list" where
  "be_float8store T V = T[0 := V ! 7, 1 := V ! 6, 2 := V ! 5, 3 := V ! 4,
     4 := V ! 3, 5 := V ! 2, 6 := V ! 1, 7 := V ! 0]"

definition be_float8get :: "byte list \<Rightarrow> byte list" where
  "be_float8get M = [M ! 7, M ! 6, M ! 5, M ! 4, M ! 3, M ! 2, M ! 1, M ! 0]"

definition be_ushortget :: "byte list \<Rightarrow> 16 word" where
  "be_ushortget pM = ucast ((ucast (pM ! 1) :: 32 word) + push_bit 8 (ucast (pM ! 0)))"

definition be_shortget :: "byte list \<Rightarrow> 16 word" where
  "be_shortget pM = ucast ((ucast (pM ! 1) :: 32 word) + push_bit 8 (ucast (pM ! 0)))"

definition be_longget :: "byte list \<Rightarrow> 32 word" where
  "be_longget pM = big_read 4 [pM ! 0, pM ! 1, pM ! 2, pM ! 3]"

definition be_ulongget :: "byte list \<Rightarrow> 32 word" where
  "be_ulongget pM = big_read 4 [pM ! 0, pM ! 1, pM ! 2, pM ! 3]"

definition be_shortstore :: "byte list \<Rightarrow> 16 word \<Rightarrow> byte list" where
  "be_shortstore T A = (let def_temp = (scast A :: 32 word)
     in T[1 := ucast def_temp, 0 := ucast (drop_bit 8 def_temp)])"

definition be_longstore :: "byte list \<Rightarrow> 32 word \<Rightarrow> byte list" where
  "be_longstore T A = T[3 := ucast A, 2 := ucast (signed_drop_bit 8 A), 1 := ucast (signed_drop_bit 16 A),
     0 := ucast (signed_drop_bit 24 A)]"

definition be_floatget :: "byte list \<Rightarrow> byte list \<Rightarrow> byte list" where "be_floatget V M = memcpy V M 4"
definition be_floatstore :: "byte list \<Rightarrow> byte list \<Rightarrow> byte list" where "be_floatstore T V = memcpy T V 4"
definition be_doubleget :: "byte list \<Rightarrow> byte list \<Rightarrow> byte list" where "be_doubleget V M = memcpy V M 8"
definition be_doublestore :: "byte list \<Rightarrow> byte list \<Rightarrow> byte list" where "be_doublestore T V = memcpy T V 8"
definition be_longlongget :: "byte list \<Rightarrow> 64 word" where "be_longlongget M = big_read 8 M"
definition be_longlongstore :: "byte list \<Rightarrow> 64 word \<Rightarrow> byte list" where
  "be_longlongstore T V = big_write 8 T V"

section \<open>The overloads for characters\<close>

text \<open>Memory of characters, as the C++ overloads of \<open>my_byteorder.h\<close> get it.\<close>

definition bytes_of_chars :: "string \<Rightarrow> byte list" where "bytes_of_chars s = map (\<lambda>c. word_of_int (of_char c)) s"
definition chars_of_bytes :: "byte list \<Rightarrow> string" where "chars_of_bytes bs = map (\<lambda>b. char_of (uint b)) bs"

definition sint2korr_char :: "string \<Rightarrow> 16 word" where "sint2korr_char pT = sint2korr (bytes_of_chars pT)"
definition uint2korr_char :: "string \<Rightarrow> 16 word" where "uint2korr_char pT = uint2korr (bytes_of_chars pT)"
definition uint3korr_char :: "string \<Rightarrow> 32 word" where "uint3korr_char pT = uint3korr (bytes_of_chars pT)"
definition sint3korr_char :: "string \<Rightarrow> 32 word" where "sint3korr_char pT = sint3korr (bytes_of_chars pT)"
definition uint4korr_char :: "string \<Rightarrow> 32 word" where "uint4korr_char pT = uint4korr (bytes_of_chars pT)"
definition sint4korr_char :: "string \<Rightarrow> 32 word" where "sint4korr_char pT = sint4korr (bytes_of_chars pT)"
definition uint6korr_char :: "string \<Rightarrow> 64 word" where "uint6korr_char pT = uint6korr (bytes_of_chars pT)"
definition uint8korr_char :: "string \<Rightarrow> 64 word" where "uint8korr_char pT = uint8korr (bytes_of_chars pT)"
definition sint8korr_char :: "string \<Rightarrow> 64 word" where "sint8korr_char pT = sint8korr (bytes_of_chars pT)"
definition int2store_char :: "string \<Rightarrow> 16 word \<Rightarrow> string" where
  "int2store_char pT A = chars_of_bytes (int2store (bytes_of_chars pT) A)"
definition int3store_char :: "string \<Rightarrow> 32 word \<Rightarrow> string" where
  "int3store_char pT A = chars_of_bytes (int3store (bytes_of_chars pT) A)"
definition int4store_char :: "string \<Rightarrow> 32 word \<Rightarrow> string" where
  "int4store_char pT A = chars_of_bytes (int4store (bytes_of_chars pT) A)"
definition int5store_char :: "string \<Rightarrow> 64 word \<Rightarrow> string" where
  "int5store_char pT A = chars_of_bytes (int5store (bytes_of_chars pT) A)"
definition int6store_char :: "string \<Rightarrow> 64 word \<Rightarrow> string" where
  "int6store_char pT A = chars_of_bytes (int6store (bytes_of_chars pT) A)"
definition int8store_char :: "string \<Rightarrow> 64 word \<Rightarrow> string" where
  "int8store_char pT A = chars_of_bytes (int8store (bytes_of_chars pT) A)"
definition float4store_char :: "string \<Rightarrow> byte list \<Rightarrow> string" where
  "float4store_char V M = chars_of_bytes (le_float4store (bytes_of_chars V) M)"
definition float8get_char :: "byte list \<Rightarrow> string \<Rightarrow> byte list" where
  "float8get_char V M = le_float8get V (bytes_of_chars M)"
definition float8store_char :: "string \<Rightarrow> byte list \<Rightarrow> string" where
  "float8store_char V M = chars_of_bytes (le_float8store (bytes_of_chars V) M)"

lemma bytes_chars [simp]: "bytes_of_chars (chars_of_bytes bs) = bs"
proof -
  have "uint b mod 256 = uint b" for b :: byte using uint_lt2p [of b] by simp
  then show ?thesis by (simp add: bytes_of_chars_def chars_of_bytes_def o_def)
qed

lemma chars_bytes [simp]: "chars_of_bytes (bytes_of_chars s) = s"
proof -
  have "char_of (uint (word_of_int (of_char c) :: byte)) = c" for c
    by (simp add: uint_word_of_int)
  then show ?thesis by (simp add: bytes_of_chars_def chars_of_bytes_def o_def)
qed

lemma length_bytes [simp]: "length (bytes_of_chars s) = length s"
  by (simp add: bytes_of_chars_def)

section \<open>Properties\<close>

text \<open>C40: for each width, reading what was written gives the value back, cut to the bytes of the width;
  writing what was read changes nothing; and the readers give the value of the bytes, low byte first.\<close>

theorem byte_order_round_trip:
  assumes "8 \<le> length T"
  shows "uint2korr (int2store T a2) = a2 \<and> uint3korr (int3store T a4) = take_bit 24 a4 \<and>
    uint4korr (int4store T a4) = a4 \<and> uint5korr (int5store T a8) = take_bit 40 a8 \<and>
    uint6korr (int6store T a8) = take_bit 48 a8 \<and> uint8korr (int8store T a8) = a8 \<and>
    int3store T (uint3korr T) = T \<and> int8store T (uint8korr T) = T \<and>
    uint (uint3korr T) = le_int (take 3 T) \<and> uint (uint8korr T) = le_int (take 8 T)"
proof -
  have l: "2 \<le> length T" "3 \<le> length T" "4 \<le> length T" "5 \<le> length T" "6 \<le> length T" "8 \<le> length T"
    using assms by simp_all
  show ?thesis
    using c2.get_store [OF l(1), of a2] c3.get_store [OF l(2), of a4] c4.get_store [OF l(3), of a4]
      c5.get_store [OF l(4), of a8] c6.get_store [OF l(5), of a8] c8.get_store [OF l(6), of a8]
      c3.store_get [OF l(2)] c8.store_get [OF l(6)] c3.get_bound [OF l(2)] c8.get_bound [OF l(6)]
    by (simp add: take_bit_word_eq_self)
qed

theorem byte_order_round_trip_witness:
  "uint3korr (int3store [1, 2, 3, 4, 5, 6, 7, 8] 0x12345678) = 0x345678 \<and>
   int3store [1, 2, 3, 4, 5, 6, 7, 8] (uint3korr [1, 2, 3, 4, 5, 6, 7, 8]) = [1, 2, 3, 4, 5, 6, 7, 8]"
  using byte_order_round_trip [of "[1, 2, 3, 4, 5, 6, 7, 8]" 0 "0x12345678" 0] by simp

text \<open>On the machines it is for, the optimised header reads and writes exactly what the generic one
  does.\<close>

lemma x86_same_as_generic:
  assumes "8 \<le> length A"
  shows "x86_sint2korr A = sint2korr A \<and> x86_uint2korr A = uint2korr A \<and> x86_sint4korr A = sint4korr A \<and>
    x86_uint4korr A = uint4korr A \<and> x86_uint8korr A = uint8korr A \<and> x86_sint8korr A = sint8korr A \<and>
    x86_int2store A v2 = int2store A v2 \<and> x86_int4store A v4 = int4store A v4 \<and>
    x86_int8store A v8 = int8store A v8"
  using assms by (simp_all add: x86_defs sint8korr_def korr2 korr4 korr8 store2 store4 store8)

text \<open>Three bytes are read as a signed number in two's complement.\<close>

lemma sint3korr_signed:
  assumes "3 \<le> length A"
  shows "sint (sint3korr A) = (if uint (uint3korr A) < 2 ^ 23 then uint (uint3korr A) else uint (uint3korr A) - 2 ^ 24)"
  using sint3korr_value [OF assms] c3.get_bound [OF assms] by (simp add: Let_def)

text \<open>A floating point number has the same bytes in the protocol whichever machine wrote it, and
  a machine reads back the number it wrote. A big-endian machine holds the bytes of a number the other
  way round.\<close>

lemma float_bytes_portable:
  assumes "8 \<le> length T" "length f = 4" "length g = 8"
  shows "be_float4store T (rev f) = le_float4store T f \<and> be_float8store T (rev g) = le_float8store T g \<and>
    be_float4get (be_float4store T f) = f \<and> be_float8get (be_float8store T g) = g \<and>
    le_float4get f (le_float4store T f) = f \<and> le_float8get g (le_float8store T g) = g \<and>
    bi_doubleget (bi_doublestore T g) = g"
proof -
  obtain t0 t1 t2 t3 t4 t5 t6 t7 r where T: "T = [t0, t1, t2, t3, t4, t5, t6, t7] @ r"
    using assms(1) by (auto simp: eval_nat_numeral Suc_le_length_iff)
  obtain f0 f1 f2 f3 where f: "f = [f0, f1, f2, f3]"
    using assms(2) by (auto simp: eval_nat_numeral length_Suc_conv)
  obtain g0 g1 g2 g3 g4 g5 g6 g7 where g: "g = [g0, g1, g2, g3, g4, g5, g6, g7]"
    using assms(3) by (auto simp: eval_nat_numeral length_Suc_conv)
  show ?thesis
    by (simp add: T f g be_float4store_def le_float4store_def be_float4get_def le_float4get_def memcpy_def
        be_float8store_def le_float8store_def be_float8get_def le_float8get_def bi_doubleget_def bi_doublestore_def)
qed

lemmas little_endian_defs = le_floatget_def le_floatstore_def le_doublestore_def le_doubleget_def
  le_ushortget_def le_shortget_def le_longget_def le_ulongget_def le_shortstore_def le_longstore_def
  le_longlongget_def le_longlongstore_def le_float4get_def le_float4store_def

text \<open>The machine's own format: a little-endian machine reads back what it stored.\<close>

lemma little_endian_round_trip:
  assumes "8 \<le> length T"
  shows "le_ushortget (le_shortstore T a2) = a2" "le_ulongget (le_longstore T a4) = a4"
    "length g = 8 \<Longrightarrow> le_doubleget g (le_doublestore T g) = g"
  using assms c2.get_store [of T a2] c4.get_store [of T a4]
  by (simp_all add: little_endian_defs take_bit_word_eq_self memcpy_def)

lemma little_endian_longlong: "8 \<le> length T \<Longrightarrow> le_longlongget (le_longlongstore T a) = a"
  using uint_lt2p [of a]
  by (simp add: le_longlongget_def le_longlongstore_def machine_read_def machine_write_def le_int_le_bytes
      del: le_bytes_numeral)

text \<open>So does a big-endian machine.\<close>

lemma big_endian_longlong: "8 \<le> length T \<Longrightarrow> be_longlongget (be_longlongstore T a) = a"
  using uint_lt2p [of a]
  by (simp add: be_longlongget_def be_longlongstore_def big_read_def big_write_def le_int_le_bytes
      del: le_bytes_numeral)

lemma low_byte_shift: "n \<le> 24 \<Longrightarrow> (ucast (signed_drop_bit n (A :: 32 word)) :: byte) = ucast (drop_bit n A)"
  by (rule bit_word_eqI) (auto simp: bit_simps bit_signed_drop_bit_iff)

lemma big_endian_long:
  assumes "4 \<le> length T"
  shows "be_ulongget (be_longstore T A) = A"
proof -
  obtain t0 t1 t2 t3 r where T: "T = [t0, t1, t2, t3] @ r"
    using assms by (auto simp: eval_nat_numeral Suc_le_length_iff)
  have "be_longstore T A = rev (le_bytes 4 (uint A)) @ r"
    by (simp add: be_longstore_def T low_byte_shift)
      (simp add: ucast_byte uint_drop zdiv_zmult2_eq [symmetric] del: word_of_int_uint)
  moreover have "uint A < 4294967296" using uint_lt2p [of A] by simp
  moreover have "be_ulongget B = big_read 4 B" if "4 \<le> length B" for B
    using take_nths(3) [OF that] by (simp add: be_ulongget_def big_read_def)
  ultimately show ?thesis
    by (simp add: big_read_def le_int_le_bytes del: le_bytes_numeral)
qed

end
