(* ===== verification/Psi.thy ===== *)
theory Psi
  imports "HOL-Library.State_Monad" "HOL-Library.Word"
begin

text \<open>
  What the instrumented calls of \<open>http/cgi/include/mysql/psi\<close> share. An instrumented call runs between
  two parties that the headers only declare: the operating system (or the \<open>mysys\<close> library), whose state
  is a value of type \<open>'w\<close>, and the performance schema, the functions that \<open>PSI_server\<close> points to,
  whose state is a value of type \<open>'p\<close>. The calls of the operating system change \<open>'w\<close> only. The
  functions of the performance schema may read \<open>'w\<close> (they read the clock) and change \<open>'p\<close>. A
  pointer is a natural number, with \<open>None\<close> for \<open>NULL\<close>.
\<close>

type_synonym size_t = "64 word"
type_synonym 'a ptr = "'a option"

text \<open>A call of the system, a call of the performance schema, and \<open>if (locker != NULL) ...\<close>.\<close>

definition os :: "('w \<Rightarrow> 'a \<times> 'w) \<Rightarrow> ('w \<times> 'p, 'a) state" where
  "os f = State (\<lambda>(w, p). let (a, w') = f w in (a, (w', p)))"

definition psi_call :: "('w \<Rightarrow> 'p \<Rightarrow> 'a \<times> 'p) \<Rightarrow> ('w \<times> 'p, 'a) state" where
  "psi_call f = State (\<lambda>(w, p). let (a, p') = f w p in (a, (w, p')))"

definition if_not_null :: "'l ptr \<Rightarrow> ('l \<Rightarrow> ('s, unit) state) \<Rightarrow> ('s, unit) state" where
  "if_not_null locker f = (case locker of None \<Rightarrow> State_Monad.return () | Some l \<Rightarrow> f l)"

section \<open>Calls that behave like a call of the system\<close>

text \<open>A computation that leaves the system as it is.\<close>

definition silent :: "('w \<times> 'p, 'a) state \<Rightarrow> bool" where
  "silent m \<longleftrightarrow> (\<forall>w p. fst (snd (run_state m (w, p))) = w)"

text \<open>A computation that leaves the system as it is and has the result \<open>r\<close>.\<close>

definition returns :: "('w \<times> 'p, 'a) state \<Rightarrow> 'a \<Rightarrow> bool" where
  "returns m r \<longleftrightarrow> (\<forall>w p. fst (run_state m (w, p)) = r \<and> fst (snd (run_state m (w, p))) = w)"

text \<open>A computation that has the result and the effect of one call \<open>f\<close> of the system.\<close>

definition same_as :: "('w \<times> 'p, 'a) state \<Rightarrow> ('w \<Rightarrow> 'a \<times> 'w) \<Rightarrow> bool" where
  "same_as m f \<longleftrightarrow>
     (\<forall>w p. fst (run_state m (w, p)) = fst (f w) \<and> fst (snd (run_state m (w, p))) = snd (f w))"

named_theorems psi_intro

lemma run_bind: "run_state (State_Monad.bind m f) s =
    (let (a, s') = run_state m s in run_state (f a) s')"
  by (simp add: State_Monad.bind_def split: prod.splits)

lemma run_map_state: "run_state (map_state f m) s = (let (a, s') = run_state m s in (f a, s'))"
  by (cases m) (simp split: prod.splits)

lemma silent_psi_call [psi_intro]: "silent (psi_call f)"
  by (simp add: silent_def psi_call_def split: prod.splits)

lemma silent_return [psi_intro]: "silent (State_Monad.return a)"
  by (simp add: silent_def)

lemma silent_if_not_null [psi_intro]: "(\<And>l. silent (f l)) \<Longrightarrow> silent (if_not_null locker f)"
  by (simp add: if_not_null_def silent_return split: option.splits)

lemma silent_bind [psi_intro]:
  "silent m \<Longrightarrow> (\<And>a. silent (f a)) \<Longrightarrow> silent (State_Monad.bind m f)"
  by (auto simp: silent_def run_bind split: prod.splits) (metis fst_conv snd_conv)

lemma returns_return [psi_intro]: "returns (State_Monad.return r) r"
  by (simp add: returns_def)

lemma returns_bind [psi_intro]:
  "silent m \<Longrightarrow> (\<And>a. returns (f a) r) \<Longrightarrow> returns (State_Monad.bind m f) r"
  by (auto simp: silent_def returns_def run_bind split: prod.splits) (metis fst_conv snd_conv)+

lemma same_as_os: "same_as (os f) f"
  by (simp add: same_as_def os_def split: prod.splits)

lemma same_as_before:
  "silent m \<Longrightarrow> (\<And>a. same_as (g a) f) \<Longrightarrow> same_as (State_Monad.bind m g) f"
  by (auto simp: silent_def same_as_def run_bind split: prod.splits) (metis fst_conv snd_conv)+

lemma same_as_after: "(\<And>a. returns (g a) a) \<Longrightarrow> same_as (State_Monad.bind (os f) g) f"
  by (auto simp: returns_def same_as_def run_bind os_def split: prod.splits)

text \<open>A program of calls, one after the other, and its results.\<close>

fun run_calls :: "('o \<Rightarrow> ('s, 'a) state) \<Rightarrow> 'o list \<Rightarrow> ('s, 'a list) state" where
  "run_calls f [] = State_Monad.return []"
| "run_calls f (x # xs) = State_Monad.bind (f x) (\<lambda>a. State_Monad.bind (run_calls f xs) (\<lambda>as. State_Monad.return (a # as)))"

fun plain_calls :: "('o \<Rightarrow> 'w \<Rightarrow> 'a \<times> 'w) \<Rightarrow> 'o list \<Rightarrow> 'w \<Rightarrow> 'a list \<times> 'w" where
  "plain_calls g [] w = ([], w)"
| "plain_calls g (x # xs) w = (let (a, w1) = g x w; (as, w2) = plain_calls g xs w1 in (a # as, w2))"

text \<open>The contract of an instrumented interface: each of its operations is one call of the system.\<close>

locale instrumented =
  fixes wrapped :: "'o \<Rightarrow> ('w \<times> 'p, 'a) state" and plain :: "'o \<Rightarrow> 'w \<Rightarrow> 'a \<times> 'w"
  assumes transparent: "same_as (wrapped x) (plain x)"
begin

lemma step: "\<exists>p'. run_state (wrapped x) (w, p) = (fst (plain x w), (snd (plain x w), p'))"
  using transparent [of x] unfolding same_as_def by (metis prod.collapse)

lemma program: "same_as (run_calls wrapped xs) (plain_calls plain xs)"
proof (induction xs)
  case (Cons x xs)
  show ?case unfolding same_as_def
  proof (intro allI)
    fix w :: 'w and p :: 'p
    obtain p1 where s: "run_state (wrapped x) (w, p) = (fst (plain x w), (snd (plain x w), p1))"
      using step by blast
    have t: "fst (run_state (run_calls wrapped xs) (snd (plain x w), p1)) = fst (plain_calls plain xs (snd (plain x w)))"
      "fst (snd (run_state (run_calls wrapped xs) (snd (plain x w), p1))) = snd (plain_calls plain xs (snd (plain x w)))"
      using Cons by (simp_all add: same_as_def)
    show "fst (run_state (run_calls wrapped (x # xs)) (w, p)) = fst (plain_calls plain (x # xs) w) \<and>
        fst (snd (run_state (run_calls wrapped (x # xs)) (w, p))) = snd (plain_calls plain (x # xs) w)"
      using t by (simp add: run_bind s case_prod_unfold Let_def)
  qed
qed (simp add: same_as_def)

end

section \<open>An observer\<close>

text \<open>
  The events an implementation of the performance schema sees: a wait is started with an operation,
  and ended with a result; both come with the state of the system at that moment. Anything else it is
  told is a note. The observer below keeps them in a list; which locker a wait gets, if any, is a
  parameter.
\<close>

datatype ('o, 'r, 'w) event = Started nat 'o 'w | Ended nat 'r 'w | Noted string

type_synonym ('o, 'r, 'w) events = "('o, 'r, 'w) event list"

definition observe_start ::
    "(('o, 'r, 'w) events \<Rightarrow> nat ptr) \<Rightarrow> 'o \<Rightarrow> 'w \<Rightarrow> ('o, 'r, 'w) events \<Rightarrow> nat ptr \<times> ('o, 'r, 'w) events" where
  "observe_start grant op w es =
     (case grant es of None \<Rightarrow> (None, es) | Some l \<Rightarrow> (Some l, es @ [Started l op w]))"

definition observe_end :: "nat \<Rightarrow> 'r \<Rightarrow> 'w \<Rightarrow> ('o, 'r, 'w) events \<Rightarrow> unit \<times> ('o, 'r, 'w) events" where
  "observe_end l r w es = ((), es @ [Ended l r w])"

definition observe_note :: "string \<Rightarrow> 'a \<Rightarrow> 'w \<Rightarrow> ('o, 'r, 'w) events \<Rightarrow> 'a \<times> ('o, 'r, 'w) events" where
  "observe_note what a w es = (a, es @ [Noted what])"

text \<open>
  The monitor of waits: \<open>None\<close> once a wait was started inside another, or one was ended that is not the
  one started; otherwise the wait that is open, if any.
\<close>

fun monitor :: "nat ptr \<Rightarrow> ('o, 'r, 'w) events \<Rightarrow> nat ptr option" where
  "monitor c [] = Some c"
| "monitor None (Started l op w # es) = monitor (Some l) es"
| "monitor (Some l) (Ended l' r w # es) = (if l = l' then monitor None es else None)"
| "monitor c (Noted n # es) = monitor c es"
| "monitor c (e # es) = None"

definition paired :: "('o, 'r, 'w) events \<Rightarrow> bool" where
  "paired es \<longleftrightarrow> monitor None es = Some None"

lemma monitor_append:
  "monitor c (es @ fs) = (case monitor c es of None \<Rightarrow> None | Some c' \<Rightarrow> monitor c' fs)"
  by (induction c es rule: monitor.induct) simp_all

lemma monitor_noted: "monitor c (map Noted ns @ es) = monitor c es"
  by (induction ns) simp_all

lemma monitor_notes: "monitor c (map Noted ns) = Some c"
  using monitor_noted [of c ns "[]"] by simp

lemma paired_append: "paired es \<Longrightarrow> paired fs \<Longrightarrow> paired (es @ fs)"
  by (simp add: paired_def monitor_append)

lemma paired_simps [simp]:
  "paired []" "paired (Noted n # es) = paired es"
  "paired (Started l op w # Ended l r w' # es) = paired es"
  "paired (Started l op w # Noted n # Ended l r w' # es) = paired es"
  by (simp_all add: paired_def)

text \<open>A computation that adds only paired waits to the events.\<close>

definition keeps_paired :: "('w \<times> ('o, 'r, 'w) events, 'a) state \<Rightarrow> bool" where
  "keeps_paired m \<longleftrightarrow> (\<forall>w es. \<exists>fs. snd (snd (run_state m (w, es))) = es @ fs \<and> paired fs)"

lemma keeps_paired_return: "keeps_paired (State_Monad.return a)"
  by (simp add: keeps_paired_def)

lemma keeps_paired_os: "keeps_paired (os f)"
  by (simp add: keeps_paired_def os_def split: prod.splits)

lemma keeps_paired_bind:
  assumes "keeps_paired m" "\<And>a. keeps_paired (f a)"
  shows "keeps_paired (State_Monad.bind m f)"
  unfolding keeps_paired_def
proof (intro allI)
  fix w :: 'a and es :: "('b, 'c, 'a) events"
  obtain a w1 es1 where m: "run_state m (w, es) = (a, (w1, es1))" by (metis prod.exhaust)
  with assms(1) obtain fs where 1: "es1 = es @ fs" "paired fs"
    unfolding keeps_paired_def by (metis snd_conv)
  from assms(2) obtain gs where 2: "snd (snd (run_state (f a) (w1, es1))) = es1 @ gs" "paired gs"
    unfolding keeps_paired_def by blast
  show "\<exists>fs. snd (snd (run_state (State_Monad.bind m f) (w, es))) = es @ fs \<and> paired fs"
    using 1 2 paired_append by (auto simp: run_bind m)
qed

lemma keeps_paired_run_calls:
  "(\<And>x. keeps_paired (f x)) \<Longrightarrow> keeps_paired (run_calls f xs)"
  by (induction xs) (simp_all add: keeps_paired_return keeps_paired_bind)

end
