(* ===== verification/Psi_Socket.thy ===== *)
theory Psi_Socket
  imports Psi
begin

text \<open>
  The instrumented sockets of \<open>mysql/psi/mysql_socket.h\<close>, with the enumerations of \<open>psi.h\<close> they
  use. The functions are those of a build with \<open>HAVE_PSI_SOCKET_INTERFACE\<close> on a system that is not
  Windows; a build without it runs the last two lines of each, which is the case of a socket whose
  \<open>m_psi\<close> is \<open>NULL\<close>. The addresses and buffers the calls get are pointers into the state of the system.
\<close>

section \<open>The types\<close>

datatype PSI_socket_state = PSI_SOCKET_STATE_IDLE | PSI_SOCKET_STATE_ACTIVE

datatype PSI_socket_operation =
  PSI_SOCKET_CREATE | PSI_SOCKET_CONNECT | PSI_SOCKET_BIND | PSI_SOCKET_CLOSE | PSI_SOCKET_SEND |
  PSI_SOCKET_RECV | PSI_SOCKET_SENDTO | PSI_SOCKET_RECVFROM | PSI_SOCKET_SENDMSG | PSI_SOCKET_RECVMSG |
  PSI_SOCKET_SEEK | PSI_SOCKET_OPT | PSI_SOCKET_STAT | PSI_SOCKET_SHUTDOWN | PSI_SOCKET_SELECT

text \<open>The functions of the performance schema for sockets, the fields of \<open>PSI_v1\<close> the header calls.\<close>

record ('w, 'p) psi_sockets =
  register_socket :: "string \<Rightarrow> nat ptr \<Rightarrow> int \<Rightarrow> 'w \<Rightarrow> 'p \<Rightarrow> unit \<times> 'p"
  init_socket :: "32 word \<Rightarrow> int \<Rightarrow> nat ptr \<Rightarrow> 32 word \<Rightarrow> 'w \<Rightarrow> 'p \<Rightarrow> nat ptr \<times> 'p"
  destroy_socket :: "nat \<Rightarrow> 'w \<Rightarrow> 'p \<Rightarrow> unit \<times> 'p"
  start_socket_wait :: "nat \<Rightarrow> PSI_socket_operation \<Rightarrow> size_t \<Rightarrow> string \<Rightarrow> 32 word \<Rightarrow> 'w \<Rightarrow> 'p \<Rightarrow> nat ptr \<times> 'p"
  end_socket_wait :: "nat \<Rightarrow> size_t \<Rightarrow> 'w \<Rightarrow> 'p \<Rightarrow> unit \<times> 'p"
  set_socket_state :: "nat \<Rightarrow> PSI_socket_state \<Rightarrow> 'w \<Rightarrow> 'p \<Rightarrow> unit \<times> 'p"
  set_socket_info :: "nat \<Rightarrow> int ptr \<Rightarrow> nat ptr \<Rightarrow> 32 word \<Rightarrow> 'w \<Rightarrow> 'p \<Rightarrow> unit \<times> 'p"
  set_socket_thread_owner :: "nat \<Rightarrow> 'w \<Rightarrow> 'p \<Rightarrow> unit \<times> 'p"

text \<open>
  The calls of the system, each with the state of the system as its last argument. \<open>sys_accept\<close> gets the
  length of the address as a variable of its own, and returns what it leaves there; \<open>sys_load\<close> reads a
  length from memory.
\<close>

record 'w socket_calls =
  sys_socket :: "int \<Rightarrow> int \<Rightarrow> int \<Rightarrow> 'w \<Rightarrow> int \<times> 'w"
  sys_bind :: "int \<Rightarrow> nat ptr \<Rightarrow> 32 word \<Rightarrow> 'w \<Rightarrow> int \<times> 'w"
  sys_getsockname :: "int \<Rightarrow> nat ptr \<Rightarrow> nat ptr \<Rightarrow> 'w \<Rightarrow> int \<times> 'w"
  sys_connect :: "int \<Rightarrow> nat ptr \<Rightarrow> 32 word \<Rightarrow> 'w \<Rightarrow> int \<times> 'w"
  sys_getpeername :: "int \<Rightarrow> nat ptr \<Rightarrow> nat ptr \<Rightarrow> 'w \<Rightarrow> int \<times> 'w"
  sys_send :: "int \<Rightarrow> nat ptr \<Rightarrow> size_t \<Rightarrow> int \<Rightarrow> 'w \<Rightarrow> int \<times> 'w"
  sys_recv :: "int \<Rightarrow> nat ptr \<Rightarrow> size_t \<Rightarrow> int \<Rightarrow> 'w \<Rightarrow> int \<times> 'w"
  sys_sendto :: "int \<Rightarrow> nat ptr \<Rightarrow> size_t \<Rightarrow> int \<Rightarrow> nat ptr \<Rightarrow> 32 word \<Rightarrow> 'w \<Rightarrow> int \<times> 'w"
  sys_recvfrom :: "int \<Rightarrow> nat ptr \<Rightarrow> size_t \<Rightarrow> int \<Rightarrow> nat ptr \<Rightarrow> nat ptr \<Rightarrow> 'w \<Rightarrow> int \<times> 'w"
  sys_getsockopt :: "int \<Rightarrow> int \<Rightarrow> int \<Rightarrow> nat ptr \<Rightarrow> nat ptr \<Rightarrow> 'w \<Rightarrow> int \<times> 'w"
  sys_setsockopt :: "int \<Rightarrow> int \<Rightarrow> int \<Rightarrow> nat ptr \<Rightarrow> 32 word \<Rightarrow> 'w \<Rightarrow> int \<times> 'w"
  sys_getfl :: "int \<Rightarrow> 'w \<Rightarrow> int \<times> 'w"
  sys_setfl :: "int \<Rightarrow> int \<Rightarrow> 'w \<Rightarrow> int \<times> 'w"
  sys_errno :: "'w \<Rightarrow> int"
  sys_listen :: "int \<Rightarrow> int \<Rightarrow> 'w \<Rightarrow> int \<times> 'w"
  sys_load :: "nat \<Rightarrow> 'w \<Rightarrow> 32 word"
  sys_accept :: "int \<Rightarrow> nat ptr \<Rightarrow> 32 word \<Rightarrow> 'w \<Rightarrow> (int \<times> 32 word) \<times> 'w"
  sys_close :: "int \<Rightarrow> 'w \<Rightarrow> int \<times> 'w"
  sys_shutdown :: "int \<Rightarrow> int \<Rightarrow> 'w \<Rightarrow> int \<times> 'w"

record MYSQL_SOCKET =
  fd :: int
  m_psi :: "nat ptr"

definition INVALID_SOCKET :: int where "INVALID_SOCKET = -1"

definition mysql_socket_invalid :: MYSQL_SOCKET where
  "mysql_socket_invalid = \<lparr>fd = INVALID_SOCKET, m_psi = None\<rparr>"

definition mysql_socket_set_address ::
    "('w, 'p) psi_sockets \<Rightarrow> MYSQL_SOCKET \<Rightarrow> nat ptr \<Rightarrow> 32 word \<Rightarrow> ('w \<times> 'p, unit) state" where
  "mysql_socket_set_address psi socket addr addr_len =
     (case m_psi socket of
        Some s \<Rightarrow> psi_call (set_socket_info psi s None addr addr_len)
      | None \<Rightarrow> State_Monad.return ())"

definition mysql_socket_set_thread_owner ::
    "('w, 'p) psi_sockets \<Rightarrow> MYSQL_SOCKET \<Rightarrow> ('w \<times> 'p, unit) state" where
  "mysql_socket_set_thread_owner psi socket =
     (case m_psi socket of
        Some s \<Rightarrow> psi_call (set_socket_thread_owner psi s)
      | None \<Rightarrow> State_Monad.return ())"

definition mysql_socket_getfd :: "MYSQL_SOCKET \<Rightarrow> int" where
  "mysql_socket_getfd mysql_socket = fd mysql_socket"

text \<open>The socket is passed by its address, which may be \<open>NULL\<close>.\<close>

definition mysql_socket_setfd :: "MYSQL_SOCKET ptr \<Rightarrow> int \<Rightarrow> MYSQL_SOCKET ptr" where
  "mysql_socket_setfd mysql_socket d =
     (case mysql_socket of Some s \<Rightarrow> Some (s\<lparr>fd := d\<rparr>) | None \<Rightarrow> None)"

section \<open>Marking waits\<close>

definition inline_mysql_start_socket_wait ::
    "('w, 'p) psi_sockets \<Rightarrow> MYSQL_SOCKET \<Rightarrow> PSI_socket_operation \<Rightarrow> size_t \<Rightarrow> string \<Rightarrow> 32 word
     \<Rightarrow> ('w \<times> 'p, nat ptr) state" where
  "inline_mysql_start_socket_wait psi mysql_socket op byte_count src_file src_line =
     (case m_psi mysql_socket of
        Some s \<Rightarrow> psi_call (start_socket_wait psi s op byte_count src_file src_line)
      | None \<Rightarrow> State_Monad.return None)"

definition inline_mysql_end_socket_wait ::
    "('w, 'p) psi_sockets \<Rightarrow> nat ptr \<Rightarrow> size_t \<Rightarrow> ('w \<times> 'p, unit) state" where
  "inline_mysql_end_socket_wait psi locker byte_count =
     if_not_null locker (\<lambda>l. psi_call (end_socket_wait psi l byte_count))"

definition inline_mysql_socket_set_state ::
    "('w, 'p) psi_sockets \<Rightarrow> MYSQL_SOCKET \<Rightarrow> PSI_socket_state \<Rightarrow> ('w \<times> 'p, unit) state" where
  "inline_mysql_socket_set_state psi socket st =
     (case m_psi socket of
        Some s \<Rightarrow> psi_call (set_socket_state psi s st)
      | None \<Rightarrow> State_Monad.return ())"

definition inline_mysql_socket_register ::
    "('w, 'p) psi_sockets \<Rightarrow> string \<Rightarrow> nat ptr \<Rightarrow> int \<Rightarrow> ('w \<times> 'p, unit) state" where
  "inline_mysql_socket_register psi category info count =
     psi_call (register_socket psi category info count)"

section \<open>The calls\<close>

definition inline_mysql_socket_socket ::
    "('w, 'p) psi_sockets \<Rightarrow> 'w socket_calls \<Rightarrow> 32 word \<Rightarrow> int \<Rightarrow> int \<Rightarrow> int \<Rightarrow> ('w \<times> 'p, MYSQL_SOCKET) state" where
  "inline_mysql_socket_socket psi sys key domain type protocol = do {
     let mysql_socket = mysql_socket_invalid;
     d \<leftarrow> os (sys_socket sys domain type protocol);
     let mysql_socket = mysql_socket\<lparr>fd := d\<rparr>;
     if fd mysql_socket \<noteq> INVALID_SOCKET
     then do {
       s \<leftarrow> psi_call (init_socket psi key (fd mysql_socket) None 0);
       State_Monad.return (mysql_socket\<lparr>m_psi := s\<rparr>)
     }
     else State_Monad.return mysql_socket
   }"

text \<open>\<open>(result > -1) ? result : 0\<close>, as a \<open>size_t\<close>.\<close>

definition bytes_of :: "int \<Rightarrow> size_t" where
  "bytes_of result = (if result > -1 then word_of_int result else 0)"

definition inline_mysql_socket_bind ::
    "('w, 'p) psi_sockets \<Rightarrow> 'w socket_calls \<Rightarrow> string \<Rightarrow> 32 word \<Rightarrow> MYSQL_SOCKET \<Rightarrow> nat ptr \<Rightarrow> 32 word
     \<Rightarrow> ('w \<times> 'p, int) state" where
  "inline_mysql_socket_bind psi sys src_file src_line mysql_socket addr len =
     (case m_psi mysql_socket of
        Some s \<Rightarrow> do {
          locker \<leftarrow> psi_call (start_socket_wait psi s PSI_SOCKET_BIND 0 src_file src_line);
          result \<leftarrow> os (sys_bind sys (fd mysql_socket) addr len);
          (if result = 0 then psi_call (set_socket_info psi s None addr len) else State_Monad.return ());
          if_not_null locker (\<lambda>l. psi_call (end_socket_wait psi l 0));
          State_Monad.return result
        }
      | None \<Rightarrow> os (sys_bind sys (fd mysql_socket) addr len))"

definition inline_mysql_socket_getsockname ::
    "('w, 'p) psi_sockets \<Rightarrow> 'w socket_calls \<Rightarrow> string \<Rightarrow> 32 word \<Rightarrow> MYSQL_SOCKET \<Rightarrow> nat ptr \<Rightarrow> nat ptr
     \<Rightarrow> ('w \<times> 'p, int) state" where
  "inline_mysql_socket_getsockname psi sys src_file src_line mysql_socket addr len =
     (case m_psi mysql_socket of
        Some s \<Rightarrow> do {
          locker \<leftarrow> psi_call (start_socket_wait psi s PSI_SOCKET_BIND 0 src_file src_line);
          result \<leftarrow> os (sys_getsockname sys (fd mysql_socket) addr len);
          if_not_null locker (\<lambda>l. psi_call (end_socket_wait psi l 0));
          State_Monad.return result
        }
      | None \<Rightarrow> os (sys_getsockname sys (fd mysql_socket) addr len))"

definition inline_mysql_socket_connect ::
    "('w, 'p) psi_sockets \<Rightarrow> 'w socket_calls \<Rightarrow> string \<Rightarrow> 32 word \<Rightarrow> MYSQL_SOCKET \<Rightarrow> nat ptr \<Rightarrow> 32 word
     \<Rightarrow> ('w \<times> 'p, int) state" where
  "inline_mysql_socket_connect psi sys src_file src_line mysql_socket addr len =
     (case m_psi mysql_socket of
        Some s \<Rightarrow> do {
          locker \<leftarrow> psi_call (start_socket_wait psi s PSI_SOCKET_CONNECT 0 src_file src_line);
          result \<leftarrow> os (sys_connect sys (fd mysql_socket) addr len);
          if_not_null locker (\<lambda>l. psi_call (end_socket_wait psi l 0));
          State_Monad.return result
        }
      | None \<Rightarrow> os (sys_connect sys (fd mysql_socket) addr len))"

definition inline_mysql_socket_getpeername ::
    "('w, 'p) psi_sockets \<Rightarrow> 'w socket_calls \<Rightarrow> string \<Rightarrow> 32 word \<Rightarrow> MYSQL_SOCKET \<Rightarrow> nat ptr \<Rightarrow> nat ptr
     \<Rightarrow> ('w \<times> 'p, int) state" where
  "inline_mysql_socket_getpeername psi sys src_file src_line mysql_socket addr len =
     (case m_psi mysql_socket of
        Some s \<Rightarrow> do {
          locker \<leftarrow> psi_call (start_socket_wait psi s PSI_SOCKET_BIND 0 src_file src_line);
          result \<leftarrow> os (sys_getpeername sys (fd mysql_socket) addr len);
          if_not_null locker (\<lambda>l. psi_call (end_socket_wait psi l 0));
          State_Monad.return result
        }
      | None \<Rightarrow> os (sys_getpeername sys (fd mysql_socket) addr len))"

definition inline_mysql_socket_send ::
    "('w, 'p) psi_sockets \<Rightarrow> 'w socket_calls \<Rightarrow> string \<Rightarrow> 32 word \<Rightarrow> MYSQL_SOCKET \<Rightarrow> nat ptr \<Rightarrow> size_t \<Rightarrow> int
     \<Rightarrow> ('w \<times> 'p, int) state" where
  "inline_mysql_socket_send psi sys src_file src_line mysql_socket buf n flags =
     (case m_psi mysql_socket of
        Some s \<Rightarrow> do {
          locker \<leftarrow> psi_call (start_socket_wait psi s PSI_SOCKET_SEND n src_file src_line);
          result \<leftarrow> os (sys_send sys (fd mysql_socket) buf n flags);
          if_not_null locker (\<lambda>l. psi_call (end_socket_wait psi l (bytes_of result)));
          State_Monad.return result
        }
      | None \<Rightarrow> os (sys_send sys (fd mysql_socket) buf n flags))"

definition inline_mysql_socket_recv ::
    "('w, 'p) psi_sockets \<Rightarrow> 'w socket_calls \<Rightarrow> string \<Rightarrow> 32 word \<Rightarrow> MYSQL_SOCKET \<Rightarrow> nat ptr \<Rightarrow> size_t \<Rightarrow> int
     \<Rightarrow> ('w \<times> 'p, int) state" where
  "inline_mysql_socket_recv psi sys src_file src_line mysql_socket buf n flags =
     (case m_psi mysql_socket of
        Some s \<Rightarrow> do {
          locker \<leftarrow> psi_call (start_socket_wait psi s PSI_SOCKET_RECV 0 src_file src_line);
          result \<leftarrow> os (sys_recv sys (fd mysql_socket) buf n flags);
          if_not_null locker (\<lambda>l. psi_call (end_socket_wait psi l (bytes_of result)));
          State_Monad.return result
        }
      | None \<Rightarrow> os (sys_recv sys (fd mysql_socket) buf n flags))"

definition inline_mysql_socket_sendto ::
    "('w, 'p) psi_sockets \<Rightarrow> 'w socket_calls \<Rightarrow> string \<Rightarrow> 32 word \<Rightarrow> MYSQL_SOCKET \<Rightarrow> nat ptr \<Rightarrow> size_t \<Rightarrow> int \<Rightarrow> nat ptr \<Rightarrow> 32 word
     \<Rightarrow> ('w \<times> 'p, int) state" where
  "inline_mysql_socket_sendto psi sys src_file src_line mysql_socket buf n flags addr addr_len =
     (case m_psi mysql_socket of
        Some s \<Rightarrow> do {
          locker \<leftarrow> psi_call (start_socket_wait psi s PSI_SOCKET_SEND n src_file src_line);
          result \<leftarrow> os (sys_sendto sys (fd mysql_socket) buf n flags addr addr_len);
          if_not_null locker (\<lambda>l. psi_call (end_socket_wait psi l (bytes_of result)));
          State_Monad.return result
        }
      | None \<Rightarrow> os (sys_sendto sys (fd mysql_socket) buf n flags addr addr_len))"

definition inline_mysql_socket_recvfrom ::
    "('w, 'p) psi_sockets \<Rightarrow> 'w socket_calls \<Rightarrow> string \<Rightarrow> 32 word \<Rightarrow> MYSQL_SOCKET \<Rightarrow> nat ptr \<Rightarrow> size_t \<Rightarrow> int \<Rightarrow> nat ptr \<Rightarrow> nat ptr
     \<Rightarrow> ('w \<times> 'p, int) state" where
  "inline_mysql_socket_recvfrom psi sys src_file src_line mysql_socket buf n flags addr addr_len =
     (case m_psi mysql_socket of
        Some s \<Rightarrow> do {
          locker \<leftarrow> psi_call (start_socket_wait psi s PSI_SOCKET_RECV 0 src_file src_line);
          result \<leftarrow> os (sys_recvfrom sys (fd mysql_socket) buf n flags addr addr_len);
          if_not_null locker (\<lambda>l. psi_call (end_socket_wait psi l (bytes_of result)));
          State_Monad.return result
        }
      | None \<Rightarrow> os (sys_recvfrom sys (fd mysql_socket) buf n flags addr addr_len))"

definition inline_mysql_socket_getsockopt ::
    "('w, 'p) psi_sockets \<Rightarrow> 'w socket_calls \<Rightarrow> string \<Rightarrow> 32 word \<Rightarrow> MYSQL_SOCKET \<Rightarrow> int \<Rightarrow> int \<Rightarrow> nat ptr \<Rightarrow> nat ptr
     \<Rightarrow> ('w \<times> 'p, int) state" where
  "inline_mysql_socket_getsockopt psi sys src_file src_line mysql_socket level optname optval optlen =
     (case m_psi mysql_socket of
        Some s \<Rightarrow> do {
          locker \<leftarrow> psi_call (start_socket_wait psi s PSI_SOCKET_OPT 0 src_file src_line);
          result \<leftarrow> os (sys_getsockopt sys (fd mysql_socket) level optname optval optlen);
          if_not_null locker (\<lambda>l. psi_call (end_socket_wait psi l 0));
          State_Monad.return result
        }
      | None \<Rightarrow> os (sys_getsockopt sys (fd mysql_socket) level optname optval optlen))"

definition inline_mysql_socket_setsockopt ::
    "('w, 'p) psi_sockets \<Rightarrow> 'w socket_calls \<Rightarrow> string \<Rightarrow> 32 word \<Rightarrow> MYSQL_SOCKET \<Rightarrow> int \<Rightarrow> int \<Rightarrow> nat ptr \<Rightarrow> 32 word
     \<Rightarrow> ('w \<times> 'p, int) state" where
  "inline_mysql_socket_setsockopt psi sys src_file src_line mysql_socket level optname optval optlen =
     (case m_psi mysql_socket of
        Some s \<Rightarrow> do {
          locker \<leftarrow> psi_call (start_socket_wait psi s PSI_SOCKET_OPT 0 src_file src_line);
          result \<leftarrow> os (sys_setsockopt sys (fd mysql_socket) level optname optval optlen);
          if_not_null locker (\<lambda>l. psi_call (end_socket_wait psi l 0));
          State_Monad.return result
        }
      | None \<Rightarrow> os (sys_setsockopt sys (fd mysql_socket) level optname optval optlen))"

text \<open>
  \<open>O_NONBLOCK\<close> is an argument. \<open>errno\<close> is read where the code reads it, after the call that set it.
\<close>

definition set_socket_nonblock :: "'w socket_calls \<Rightarrow> int \<Rightarrow> int \<Rightarrow> 'w \<Rightarrow> int \<times> 'w" where
  "set_socket_nonblock sys O_NONBLOCK d w =
     (let ret = 0;
          (fd_flags, w1) = sys_getfl sys d w
      in if fd_flags < 0 then (sys_errno sys w1, w1)
         else let fd_flags = or fd_flags O_NONBLOCK;
                  (r, w2) = sys_setfl sys d fd_flags w1
              in (if r = -1 then (sys_errno sys w2, w2) else (ret, w2)))"

definition inline_mysql_sock_set_nonblocking ::
    "('w, 'p) psi_sockets \<Rightarrow> 'w socket_calls \<Rightarrow> int \<Rightarrow> string \<Rightarrow> 32 word \<Rightarrow> MYSQL_SOCKET
     \<Rightarrow> ('w \<times> 'p, int) state" where
  "inline_mysql_sock_set_nonblocking psi sys O_NONBLOCK src_file src_line mysql_socket =
     (case m_psi mysql_socket of
        Some s \<Rightarrow> do {
          locker \<leftarrow> psi_call (start_socket_wait psi s PSI_SOCKET_OPT 0 src_file src_line);
          result \<leftarrow> os (set_socket_nonblock sys O_NONBLOCK (fd mysql_socket));
          if_not_null locker (\<lambda>l. psi_call (end_socket_wait psi l 0));
          State_Monad.return result
        }
      | None \<Rightarrow> os (set_socket_nonblock sys O_NONBLOCK (fd mysql_socket)))"

definition inline_mysql_socket_listen ::
    "('w, 'p) psi_sockets \<Rightarrow> 'w socket_calls \<Rightarrow> string \<Rightarrow> 32 word \<Rightarrow> MYSQL_SOCKET \<Rightarrow> int
     \<Rightarrow> ('w \<times> 'p, int) state" where
  "inline_mysql_socket_listen psi sys src_file src_line mysql_socket backlog =
     (case m_psi mysql_socket of
        Some s \<Rightarrow> do {
          locker \<leftarrow> psi_call (start_socket_wait psi s PSI_SOCKET_CONNECT 0 src_file src_line);
          result \<leftarrow> os (sys_listen sys (fd mysql_socket) backlog);
          if_not_null locker (\<lambda>l. psi_call (end_socket_wait psi l 0));
          State_Monad.return result
        }
      | None \<Rightarrow> os (sys_listen sys (fd mysql_socket) backlog))"

definition inline_mysql_socket_accept ::
    "('w, 'p) psi_sockets \<Rightarrow> 'w socket_calls \<Rightarrow> string \<Rightarrow> 32 word \<Rightarrow> 32 word \<Rightarrow> MYSQL_SOCKET \<Rightarrow> nat ptr \<Rightarrow> nat ptr
     \<Rightarrow> ('w \<times> 'p, MYSQL_SOCKET) state" where
  "inline_mysql_socket_accept psi sys src_file src_line key socket_listen addr addr_len = do {
     let socket_accept = mysql_socket_invalid;
     addr_length \<leftarrow> (case addr_len of
         Some a \<Rightarrow> os (\<lambda>w. (sys_load sys a w, w))
       | None \<Rightarrow> State_Monad.return 0);
     (d, addr_length) \<leftarrow> (case m_psi socket_listen of
         Some s \<Rightarrow> do {
           locker \<leftarrow> psi_call (start_socket_wait psi s PSI_SOCKET_CONNECT 0 src_file src_line);
           result \<leftarrow> os (sys_accept sys (fd socket_listen) addr addr_length);
           if_not_null locker (\<lambda>l. psi_call (end_socket_wait psi l 0));
           State_Monad.return result
         }
       | None \<Rightarrow> os (sys_accept sys (fd socket_listen) addr addr_length));
     let socket_accept = socket_accept\<lparr>fd := d\<rparr>;
     if fd socket_accept \<noteq> INVALID_SOCKET
     then do {
       s \<leftarrow> psi_call (init_socket psi key (fd socket_accept) addr addr_length);
       State_Monad.return (socket_accept\<lparr>m_psi := s\<rparr>)
     }
     else State_Monad.return socket_accept
   }"

definition inline_mysql_socket_close ::
    "('w, 'p) psi_sockets \<Rightarrow> 'w socket_calls \<Rightarrow> string \<Rightarrow> 32 word \<Rightarrow> MYSQL_SOCKET
     \<Rightarrow> ('w \<times> 'p, int) state" where
  "inline_mysql_socket_close psi sys src_file src_line mysql_socket =
     (case m_psi mysql_socket of
        Some s \<Rightarrow> do {
          locker \<leftarrow> psi_call (start_socket_wait psi s PSI_SOCKET_CLOSE 0 src_file src_line);
          result \<leftarrow> os (sys_close sys (fd mysql_socket));
          if_not_null locker (\<lambda>l. psi_call (end_socket_wait psi l 0));
          psi_call (destroy_socket psi s);
          State_Monad.return result
        }
      | None \<Rightarrow> os (sys_close sys (fd mysql_socket)))"

definition inline_mysql_socket_shutdown ::
    "('w, 'p) psi_sockets \<Rightarrow> 'w socket_calls \<Rightarrow> string \<Rightarrow> 32 word \<Rightarrow> MYSQL_SOCKET \<Rightarrow> int
     \<Rightarrow> ('w \<times> 'p, int) state" where
  "inline_mysql_socket_shutdown psi sys src_file src_line mysql_socket how =
     (case m_psi mysql_socket of
        Some s \<Rightarrow> do {
          locker \<leftarrow> psi_call (start_socket_wait psi s PSI_SOCKET_SHUTDOWN 0 src_file src_line);
          result \<leftarrow> os (sys_shutdown sys (fd mysql_socket) how);
          if_not_null locker (\<lambda>l. psi_call (end_socket_wait psi l 0));
          State_Monad.return result
        }
      | None \<Rightarrow> os (sys_shutdown sys (fd mysql_socket) how))"


section \<open>Instrumented sockets behave like sockets\<close>

text \<open>The calls a program makes on one socket, instrumented and plain.\<close>

datatype socket_op =
  Op_Bind "nat ptr" "32 word" |
  Op_Getsockname "nat ptr" "nat ptr" |
  Op_Connect "nat ptr" "32 word" |
  Op_Getpeername "nat ptr" "nat ptr" |
  Op_Send "nat ptr" size_t int |
  Op_Recv "nat ptr" size_t int |
  Op_Sendto "nat ptr" size_t int "nat ptr" "32 word" |
  Op_Recvfrom "nat ptr" size_t int "nat ptr" "nat ptr" |
  Op_Getsockopt int int "nat ptr" "nat ptr" |
  Op_Setsockopt int int "nat ptr" "32 word" |
  Op_Listen int |
  Op_Close |
  Op_Shutdown int | Op_Nonblocking

fun perform ::
    "('w, 'p) psi_sockets \<Rightarrow> 'w socket_calls \<Rightarrow> int \<Rightarrow> string \<Rightarrow> 32 word \<Rightarrow> MYSQL_SOCKET \<Rightarrow> socket_op \<Rightarrow> ('w \<times> 'p, int) state" where
  "perform psi sys nb f l sock (Op_Bind a b) = inline_mysql_socket_bind psi sys f l sock a b"
| "perform psi sys nb f l sock (Op_Getsockname a b) = inline_mysql_socket_getsockname psi sys f l sock a b"
| "perform psi sys nb f l sock (Op_Connect a b) = inline_mysql_socket_connect psi sys f l sock a b"
| "perform psi sys nb f l sock (Op_Getpeername a b) = inline_mysql_socket_getpeername psi sys f l sock a b"
| "perform psi sys nb f l sock (Op_Send a b c) = inline_mysql_socket_send psi sys f l sock a b c"
| "perform psi sys nb f l sock (Op_Recv a b c) = inline_mysql_socket_recv psi sys f l sock a b c"
| "perform psi sys nb f l sock (Op_Sendto a b c d e) = inline_mysql_socket_sendto psi sys f l sock a b c d e"
| "perform psi sys nb f l sock (Op_Recvfrom a b c d e) = inline_mysql_socket_recvfrom psi sys f l sock a b c d e"
| "perform psi sys nb f l sock (Op_Getsockopt a b c d) = inline_mysql_socket_getsockopt psi sys f l sock a b c d"
| "perform psi sys nb f l sock (Op_Setsockopt a b c d) = inline_mysql_socket_setsockopt psi sys f l sock a b c d"
| "perform psi sys nb f l sock (Op_Listen a) = inline_mysql_socket_listen psi sys f l sock a"
| "perform psi sys nb f l sock Op_Close = inline_mysql_socket_close psi sys f l sock"
| "perform psi sys nb f l sock (Op_Shutdown a) = inline_mysql_socket_shutdown psi sys f l sock a"
| "perform psi sys nb f l sock Op_Nonblocking = inline_mysql_sock_set_nonblocking psi sys nb f l sock"

fun plain :: "'w socket_calls \<Rightarrow> int \<Rightarrow> int \<Rightarrow> socket_op \<Rightarrow> 'w \<Rightarrow> int \<times> 'w" where
  "plain sys nb q (Op_Bind a b) = sys_bind sys q a b"
| "plain sys nb q (Op_Getsockname a b) = sys_getsockname sys q a b"
| "plain sys nb q (Op_Connect a b) = sys_connect sys q a b"
| "plain sys nb q (Op_Getpeername a b) = sys_getpeername sys q a b"
| "plain sys nb q (Op_Send a b c) = sys_send sys q a b c"
| "plain sys nb q (Op_Recv a b c) = sys_recv sys q a b c"
| "plain sys nb q (Op_Sendto a b c d e) = sys_sendto sys q a b c d e"
| "plain sys nb q (Op_Recvfrom a b c d e) = sys_recvfrom sys q a b c d e"
| "plain sys nb q (Op_Getsockopt a b c d) = sys_getsockopt sys q a b c d"
| "plain sys nb q (Op_Setsockopt a b c d) = sys_setsockopt sys q a b c d"
| "plain sys nb q (Op_Listen a) = sys_listen sys q a"
| "plain sys nb q Op_Close = sys_close sys q"
| "plain sys nb q (Op_Shutdown a) = sys_shutdown sys q a"
| "plain sys nb q Op_Nonblocking = set_socket_nonblock sys nb q"

lemmas socket_op_defs =
  inline_mysql_socket_bind_def inline_mysql_socket_getsockname_def inline_mysql_socket_connect_def
  inline_mysql_socket_getpeername_def inline_mysql_socket_send_def inline_mysql_socket_recv_def
  inline_mysql_socket_sendto_def inline_mysql_socket_recvfrom_def inline_mysql_socket_getsockopt_def
  inline_mysql_socket_setsockopt_def inline_mysql_socket_listen_def inline_mysql_socket_close_def
  inline_mysql_socket_shutdown_def inline_mysql_sock_set_nonblocking_def

lemma perform_same_as: "same_as (perform psi sys nb f l sock x) (plain sys nb (fd sock) x)"
  by (cases x) (auto simp: socket_op_defs same_as_os split: option.split
      intro!: same_as_before same_as_after psi_intro)

interpretation sockets: instrumented
  "perform psi sys nb f l sock" "plain sys nb (fd sock)" for psi sys nb f l sock
  by unfold_locales (rule perform_same_as)

section \<open>What the performance schema is told\<close>

definition observe_sockets ::
    "((PSI_socket_operation \<times> size_t, size_t, 'w) events \<Rightarrow> nat ptr) \<Rightarrow>
     ('w, (PSI_socket_operation \<times> size_t, size_t, 'w) events) psi_sockets" where
  "observe_sockets grant = \<lparr>
     register_socket = (\<lambda>cat info count. observe_note ''register_socket'' ()),
     init_socket = (\<lambda>key d addr len. observe_note ''init_socket'' (Some (nat d))),
     destroy_socket = (\<lambda>s. observe_note ''destroy_socket'' ()),
     start_socket_wait = (\<lambda>s op n f l. observe_start grant (op, n)),
     end_socket_wait = (\<lambda>l n. observe_end l n),
     set_socket_state = (\<lambda>s st. observe_note ''set_socket_state'' ()),
     set_socket_info = (\<lambda>s d addr len. observe_note ''set_socket_info'' ()),
     set_socket_thread_owner = (\<lambda>s. observe_note ''set_socket_thread_owner'' ())\<rparr>"

text \<open>The operation and the bytes a call announces, and the bytes it reports.\<close>

fun announced :: "socket_op \<Rightarrow> PSI_socket_operation \<times> size_t" where
  "announced (Op_Bind a b) = (PSI_SOCKET_BIND, 0)"
| "announced (Op_Getsockname a b) = (PSI_SOCKET_BIND, 0)"
| "announced (Op_Connect a b) = (PSI_SOCKET_CONNECT, 0)"
| "announced (Op_Getpeername a b) = (PSI_SOCKET_BIND, 0)"
| "announced (Op_Send a n b) = (PSI_SOCKET_SEND, n)"
| "announced (Op_Recv a n b) = (PSI_SOCKET_RECV, 0)"
| "announced (Op_Sendto a n b c d) = (PSI_SOCKET_SEND, n)"
| "announced (Op_Recvfrom a n b c d) = (PSI_SOCKET_RECV, 0)"
| "announced (Op_Getsockopt a b c d) = (PSI_SOCKET_OPT, 0)"
| "announced (Op_Setsockopt a b c d) = (PSI_SOCKET_OPT, 0)"
| "announced (Op_Listen a) = (PSI_SOCKET_CONNECT, 0)"
| "announced Op_Close = (PSI_SOCKET_CLOSE, 0)"
| "announced (Op_Shutdown a) = (PSI_SOCKET_SHUTDOWN, 0)"
| "announced Op_Nonblocking = (PSI_SOCKET_OPT, 0)"

fun transfers :: "socket_op \<Rightarrow> bool" where
  "transfers (Op_Send a n b) = True"
| "transfers (Op_Recv a n b) = True"
| "transfers (Op_Sendto a n b c d) = True"
| "transfers (Op_Recvfrom a n b c d) = True"
| "transfers x = False"

fun told_inside :: "socket_op \<Rightarrow> int \<Rightarrow> string list" where
  "told_inside (Op_Bind a b) r = (if r = 0 then [''set_socket_info''] else [])"
| "told_inside x r = []"

fun told_after :: "socket_op \<Rightarrow> string list" where
  "told_after Op_Close = [''destroy_socket'']"
| "told_after x = []"

text \<open>
  What one call tells the observer: nothing without the hook \<open>m_psi\<close>; with it, and with a locker, the wait
  starts in the state the call is made in, and ends in the state the call of the system left, with the
  bytes that were moved.
\<close>

definition told ::
    "nat ptr \<Rightarrow> nat ptr \<Rightarrow> socket_op \<Rightarrow> 'w \<Rightarrow> int \<Rightarrow> 'w \<Rightarrow> (PSI_socket_operation \<times> size_t, size_t, 'w) events" where
  "told hook locker x w r w' =
     (case hook of None \<Rightarrow> []
      | Some s \<Rightarrow>
        (case locker of None \<Rightarrow> [] | Some k \<Rightarrow> [Started k (announced x) w]) @ map Noted (told_inside x r) @
        (case locker of None \<Rightarrow> [] | Some k \<Rightarrow> [Ended k (if transfers x then bytes_of r else 0) w']) @
        map Noted (told_after x))"

lemma perform_events:
  assumes "plain sys nb (fd sock) x w = (r, w')"
  shows "run_state (perform (observe_sockets grant) sys nb f l sock x) (w, es) =
    (r, (w', es @ told (m_psi sock) (grant es) x w r w'))"
  using assms
  by (cases x)
    (auto simp: socket_op_defs run_bind psi_call_def os_def observe_sockets_def observe_start_def
      observe_end_def observe_note_def if_not_null_def told_def split: option.split)

lemma paired_told: "paired (told hook locker x w r w')"
  by (auto simp: told_def paired_def monitor_noted monitor_notes split: option.split)

lemma perform_keeps_paired: "keeps_paired (perform (observe_sockets grant) sys nb f l sock x)"
  unfolding keeps_paired_def
proof (intro allI)
  fix w es
  obtain r w' where "plain sys nb (fd sock) x w = (r, w')" by (metis prod.exhaust)
  from perform_events [OF this, of grant f l es] paired_told
  show "\<exists>fs. snd (snd (run_state (perform (observe_sockets grant) sys nb f l sock x) (w, es))) = es @ fs \<and> paired fs"
    by auto
qed

section \<open>Properties\<close>

text \<open>C32: a program of calls on an instrumented socket has the results and the effect on the system of
  the same program on the descriptor, whatever the performance schema answers.\<close>

theorem socket_program_same:
  "fst (run_state (run_calls (perform psi sys nb f l sock) xs) (w, p)) =
     fst (plain_calls (plain sys nb (fd sock)) xs w) \<and>
   fst (snd (run_state (run_calls (perform psi sys nb f l sock) xs) (w, p))) =
     snd (plain_calls (plain sys nb (fd sock)) xs w)"
  using sockets.program [of psi sys nb f l sock xs] by (simp add: same_as_def)

text \<open>Whatever lockers it grants, the performance schema sees every wait of such a program ended
  before the next one is started, by the locker it was started with.\<close>

lemma socket_waits_paired:
  "paired (snd (snd (run_state (run_calls (perform (observe_sockets grant) sys nb f l sock) xs) (w, []))))"
proof -
  have "keeps_paired (run_calls (perform (observe_sockets grant) sys nb f l sock) xs)"
    by (rule keeps_paired_run_calls) (rule perform_keeps_paired)
  then obtain fs where
    "snd (snd (run_state (run_calls (perform (observe_sockets grant) sys nb f l sock) xs) (w, []))) = [] @ fs"
    "paired fs"
    unfolding keeps_paired_def by blast
  then show ?thesis by simp
qed

text \<open>Sending tells the performance schema the bytes it was asked to send when it starts, and the
  bytes that were sent, none after an error, when it ends.\<close>

lemma socket_send_told:
  "run_state (inline_mysql_socket_send (observe_sockets (\<lambda>_. Some k)) sys f l \<lparr>fd = d, m_psi = Some s\<rparr> buf n flags) (w, es) =
     (let (r, w') = sys_send sys d buf n flags w
      in (r, (w', es @ [Started k (PSI_SOCKET_SEND, n) w, Ended k (if r < 0 then 0 else word_of_int r) w'])))"
  using perform_events [of sys 0 "\<lparr>fd = d, m_psi = Some s\<rparr>" "Op_Send buf n flags" w
      "fst (sys_send sys d buf n flags w)" "snd (sys_send sys d buf n flags w)" "\<lambda>_. Some k" f l es]
  by (simp add: told_def bytes_of_def case_prod_unfold not_less Let_def)

text \<open>Accepting returns the descriptor the system gave, with a hook exactly when it is valid. The
  length of the peer's address is read through \<open>addr_len\<close>, and what \<open>accept\<close> leaves there is given to the
  performance schema and dropped: the state of the system is the one \<open>accept\<close> left, with the caller's
  length as it was.\<close>

lemma accept_result:
  "run_state (inline_mysql_socket_accept psi sys f l key \<lparr>fd = d, m_psi = None\<rparr> addr (Some a)) (w, p) =
     (let ((c, n), w1) = sys_accept sys d addr (sys_load sys a w) w
      in if c = -1 then (\<lparr>fd = c, m_psi = None\<rparr>, (w1, p))
         else let (s, p1) = init_socket psi key c addr n w1 p in (\<lparr>fd = c, m_psi = s\<rparr>, (w1, p1)))"
  by (simp add: inline_mysql_socket_accept_def mysql_socket_invalid_def INVALID_SOCKET_def run_bind os_def
      psi_call_def split: prod.splits)

lemma accept_same_as:
  "fst (snd (run_state (inline_mysql_socket_accept psi sys f l key sock addr (Some a)) (w, p))) =
     snd (sys_accept sys (fd sock) addr (sys_load sys a w) w) \<and>
   fd (fst (run_state (inline_mysql_socket_accept psi sys f l key sock addr (Some a)) (w, p))) =
     fst (fst (sys_accept sys (fd sock) addr (sys_load sys a w) w))"
  by (auto simp: inline_mysql_socket_accept_def mysql_socket_invalid_def run_bind os_def psi_call_def
      if_not_null_def Let_def split: prod.splits option.splits)

lemma socket_result:
  "run_state (inline_mysql_socket_socket psi sys key domain type protocol) (w, p) =
     (let (d, w1) = sys_socket sys domain type protocol w
      in if d = -1 then (mysql_socket_invalid, (w1, p))
         else let (s, p1) = init_socket psi key d None 0 w1 p in (\<lparr>fd = d, m_psi = s\<rparr>, (w1, p1)))"
  by (simp add: inline_mysql_socket_socket_def mysql_socket_invalid_def INVALID_SOCKET_def run_bind os_def
      psi_call_def split: prod.splits)

lemma setfd_getfd: "map_option mysql_socket_getfd (mysql_socket_setfd s d) = map_option (\<lambda>_. d) s"
  by (simp add: mysql_socket_setfd_def mysql_socket_getfd_def split: option.split)

end
