(* ===== verification/Psi_Thread.thy ===== *)
theory Psi_Thread
  imports Psi
begin

text \<open>
  The instrumented mutexes, read-write locks, conditions and threads of \<open>mysql/psi/mysql_thread.h\<close>, and
  the layers below them, \<open>thr_mutex.h\<close>, \<open>thr_cond.h\<close> and \<open>thr_rwlock.h\<close>. The functions are those of a
  build with the instrumentation, without \<open>SAFE_MUTEX\<close>, on a system that is not Windows. A mutex, a lock
  or a condition of the system is known by its address.
\<close>

section \<open>The types\<close>

datatype PSI_mutex_operation = PSI_MUTEX_LOCK | PSI_MUTEX_TRYLOCK

datatype PSI_rwlock_operation =
  PSI_RWLOCK_READLOCK | PSI_RWLOCK_WRITELOCK | PSI_RWLOCK_TRYREADLOCK | PSI_RWLOCK_TRYWRITELOCK |
  PSI_RWLOCK_SHAREDLOCK | PSI_RWLOCK_SHAREDEXCLUSIVELOCK | PSI_RWLOCK_EXCLUSIVELOCK |
  PSI_RWLOCK_TRYSHAREDLOCK | PSI_RWLOCK_TRYSHAREDEXCLUSIVELOCK | PSI_RWLOCK_TRYEXCLUSIVELOCK

datatype PSI_cond_operation = PSI_COND_WAIT | PSI_COND_TIMEDWAIT

record ('w, 'p) psi_threads =
  register_mutex :: "string \<Rightarrow> nat ptr \<Rightarrow> int \<Rightarrow> 'w \<Rightarrow> 'p \<Rightarrow> unit \<times> 'p"
  register_rwlock :: "string \<Rightarrow> nat ptr \<Rightarrow> int \<Rightarrow> 'w \<Rightarrow> 'p \<Rightarrow> unit \<times> 'p"
  register_cond :: "string \<Rightarrow> nat ptr \<Rightarrow> int \<Rightarrow> 'w \<Rightarrow> 'p \<Rightarrow> unit \<times> 'p"
  register_thread :: "string \<Rightarrow> nat ptr \<Rightarrow> int \<Rightarrow> 'w \<Rightarrow> 'p \<Rightarrow> unit \<times> 'p"
  init_mutex :: "32 word \<Rightarrow> nat \<Rightarrow> 'w \<Rightarrow> 'p \<Rightarrow> nat ptr \<times> 'p"
  destroy_mutex :: "nat \<Rightarrow> 'w \<Rightarrow> 'p \<Rightarrow> unit \<times> 'p"
  unlock_mutex :: "nat \<Rightarrow> 'w \<Rightarrow> 'p \<Rightarrow> unit \<times> 'p"
  start_mutex_wait :: "nat \<Rightarrow> PSI_mutex_operation \<Rightarrow> string \<Rightarrow> 32 word \<Rightarrow> 'w \<Rightarrow> 'p \<Rightarrow> nat ptr \<times> 'p"
  end_mutex_wait :: "nat \<Rightarrow> int \<Rightarrow> 'w \<Rightarrow> 'p \<Rightarrow> unit \<times> 'p"
  init_rwlock :: "32 word \<Rightarrow> nat \<Rightarrow> 'w \<Rightarrow> 'p \<Rightarrow> nat ptr \<times> 'p"
  destroy_rwlock :: "nat \<Rightarrow> 'w \<Rightarrow> 'p \<Rightarrow> unit \<times> 'p"
  unlock_rwlock :: "nat \<Rightarrow> 'w \<Rightarrow> 'p \<Rightarrow> unit \<times> 'p"
  start_rwlock_rdwait :: "nat \<Rightarrow> PSI_rwlock_operation \<Rightarrow> string \<Rightarrow> 32 word \<Rightarrow> 'w \<Rightarrow> 'p \<Rightarrow> nat ptr \<times> 'p"
  end_rwlock_rdwait :: "nat \<Rightarrow> int \<Rightarrow> 'w \<Rightarrow> 'p \<Rightarrow> unit \<times> 'p"
  start_rwlock_wrwait :: "nat \<Rightarrow> PSI_rwlock_operation \<Rightarrow> string \<Rightarrow> 32 word \<Rightarrow> 'w \<Rightarrow> 'p \<Rightarrow> nat ptr \<times> 'p"
  end_rwlock_wrwait :: "nat \<Rightarrow> int \<Rightarrow> 'w \<Rightarrow> 'p \<Rightarrow> unit \<times> 'p"
  init_cond :: "32 word \<Rightarrow> nat \<Rightarrow> 'w \<Rightarrow> 'p \<Rightarrow> nat ptr \<times> 'p"
  destroy_cond :: "nat \<Rightarrow> 'w \<Rightarrow> 'p \<Rightarrow> unit \<times> 'p"
  signal_cond :: "nat \<Rightarrow> 'w \<Rightarrow> 'p \<Rightarrow> unit \<times> 'p"
  broadcast_cond :: "nat \<Rightarrow> 'w \<Rightarrow> 'p \<Rightarrow> unit \<times> 'p"
  start_cond_wait :: "nat \<Rightarrow> nat ptr \<Rightarrow> PSI_cond_operation \<Rightarrow> string \<Rightarrow> 32 word \<Rightarrow> 'w \<Rightarrow> 'p \<Rightarrow> nat ptr \<times> 'p"
  end_cond_wait :: "nat \<Rightarrow> int \<Rightarrow> 'w \<Rightarrow> 'p \<Rightarrow> unit \<times> 'p"
  spawn_thread :: "32 word \<Rightarrow> nat \<Rightarrow> nat ptr \<Rightarrow> nat \<Rightarrow> nat ptr \<Rightarrow> ('w \<times> 'p, int) state"
  get_thread :: "'w \<Rightarrow> 'p \<Rightarrow> nat ptr \<times> 'p"
  set_thread_id :: "nat ptr \<Rightarrow> 64 word \<Rightarrow> 'w \<Rightarrow> 'p \<Rightarrow> unit \<times> 'p"
  set_thread_THD :: "nat ptr \<Rightarrow> nat ptr \<Rightarrow> 'w \<Rightarrow> 'p \<Rightarrow> unit \<times> 'p"

text \<open>
  The calls of the system, and the locks that prefer readers, which \<open>mysys\<close> implements. \<open>spawn_thread\<close>
  above is the one function of the performance schema that changes the system: it starts the thread.
\<close>

record 'w thread_calls =
  pthread_mutex_init :: "nat \<Rightarrow> nat ptr \<Rightarrow> 'w \<Rightarrow> int \<times> 'w"
  pthread_mutex_lock :: "nat \<Rightarrow> 'w \<Rightarrow> int \<times> 'w"
  pthread_mutex_trylock :: "nat \<Rightarrow> 'w \<Rightarrow> int \<times> 'w"
  pthread_mutex_unlock :: "nat \<Rightarrow> 'w \<Rightarrow> int \<times> 'w"
  pthread_mutex_destroy :: "nat \<Rightarrow> 'w \<Rightarrow> int \<times> 'w"
  pthread_cond_init :: "nat \<Rightarrow> nat ptr \<Rightarrow> 'w \<Rightarrow> int \<times> 'w"
  pthread_cond_destroy :: "nat \<Rightarrow> 'w \<Rightarrow> int \<times> 'w"
  pthread_cond_timedwait :: "nat \<Rightarrow> nat \<Rightarrow> nat ptr \<Rightarrow> 'w \<Rightarrow> int \<times> 'w"
  pthread_cond_wait :: "nat \<Rightarrow> nat \<Rightarrow> 'w \<Rightarrow> int \<times> 'w"
  pthread_cond_signal :: "nat \<Rightarrow> 'w \<Rightarrow> int \<times> 'w"
  pthread_cond_broadcast :: "nat \<Rightarrow> 'w \<Rightarrow> int \<times> 'w"
  pthread_rwlock_init :: "nat \<Rightarrow> nat ptr \<Rightarrow> 'w \<Rightarrow> int \<times> 'w"
  pthread_rwlock_destroy :: "nat \<Rightarrow> 'w \<Rightarrow> int \<times> 'w"
  pthread_rwlock_rdlock :: "nat \<Rightarrow> 'w \<Rightarrow> int \<times> 'w"
  pthread_rwlock_tryrdlock :: "nat \<Rightarrow> 'w \<Rightarrow> int \<times> 'w"
  pthread_rwlock_wrlock :: "nat \<Rightarrow> 'w \<Rightarrow> int \<times> 'w"
  pthread_rwlock_trywrlock :: "nat \<Rightarrow> 'w \<Rightarrow> int \<times> 'w"
  pthread_rwlock_unlock :: "nat \<Rightarrow> 'w \<Rightarrow> int \<times> 'w"
  rw_pr_init :: "nat \<Rightarrow> 'w \<Rightarrow> int \<times> 'w"
  rw_pr_rdlock :: "nat \<Rightarrow> 'w \<Rightarrow> int \<times> 'w"
  rw_pr_wrlock :: "nat \<Rightarrow> 'w \<Rightarrow> int \<times> 'w"
  rw_pr_unlock :: "nat \<Rightarrow> 'w \<Rightarrow> int \<times> 'w"
  rw_pr_destroy :: "nat \<Rightarrow> 'w \<Rightarrow> int \<times> 'w"

record mysql_mutex_t =
  m_mutex :: nat
  mutex_psi :: "nat ptr"

record mysql_rwlock_t =
  m_rwlock :: nat
  rwlock_psi :: "nat ptr"

record mysql_prlock_t =
  m_prlock :: nat
  prlock_psi :: "nat ptr"

record mysql_cond_t =
  m_cond :: nat
  cond_psi :: "nat ptr"

section \<open>thr\_mutex.h, thr\_cond.h, thr\_rwlock.h\<close>

definition native_mutex_init :: "'w thread_calls \<Rightarrow> nat \<Rightarrow> nat ptr \<Rightarrow> 'w \<Rightarrow> int \<times> 'w" where
  "native_mutex_init sys mutex attr = pthread_mutex_init sys mutex attr"

definition native_mutex_lock :: "'w thread_calls \<Rightarrow> nat \<Rightarrow> 'w \<Rightarrow> int \<times> 'w" where
  "native_mutex_lock sys mutex = pthread_mutex_lock sys mutex"

definition native_mutex_trylock :: "'w thread_calls \<Rightarrow> nat \<Rightarrow> 'w \<Rightarrow> int \<times> 'w" where
  "native_mutex_trylock sys mutex = pthread_mutex_trylock sys mutex"

definition native_mutex_unlock :: "'w thread_calls \<Rightarrow> nat \<Rightarrow> 'w \<Rightarrow> int \<times> 'w" where
  "native_mutex_unlock sys mutex = pthread_mutex_unlock sys mutex"

definition native_mutex_destroy :: "'w thread_calls \<Rightarrow> nat \<Rightarrow> 'w \<Rightarrow> int \<times> 'w" where
  "native_mutex_destroy sys mutex = pthread_mutex_destroy sys mutex"

definition my_mutex_init :: "'w thread_calls \<Rightarrow> nat \<Rightarrow> nat ptr \<Rightarrow> 'w \<Rightarrow> int \<times> 'w" where
  "my_mutex_init sys mp attr = native_mutex_init sys mp attr"

definition my_mutex_lock :: "'w thread_calls \<Rightarrow> nat \<Rightarrow> 'w \<Rightarrow> int \<times> 'w" where
  "my_mutex_lock sys mp = native_mutex_lock sys mp"

definition my_mutex_trylock :: "'w thread_calls \<Rightarrow> nat \<Rightarrow> 'w \<Rightarrow> int \<times> 'w" where
  "my_mutex_trylock sys mp = native_mutex_trylock sys mp"

definition my_mutex_unlock :: "'w thread_calls \<Rightarrow> nat \<Rightarrow> 'w \<Rightarrow> int \<times> 'w" where
  "my_mutex_unlock sys mp = native_mutex_unlock sys mp"

definition my_mutex_destroy :: "'w thread_calls \<Rightarrow> nat \<Rightarrow> 'w \<Rightarrow> int \<times> 'w" where
  "my_mutex_destroy sys mp = native_mutex_destroy sys mp"

definition native_cond_init :: "'w thread_calls \<Rightarrow> nat \<Rightarrow> 'w \<Rightarrow> int \<times> 'w" where
  "native_cond_init sys cond = pthread_cond_init sys cond None"

definition native_cond_destroy :: "'w thread_calls \<Rightarrow> nat \<Rightarrow> 'w \<Rightarrow> int \<times> 'w" where
  "native_cond_destroy sys cond = pthread_cond_destroy sys cond"

definition native_cond_timedwait :: "'w thread_calls \<Rightarrow> nat \<Rightarrow> nat \<Rightarrow> nat ptr \<Rightarrow> 'w \<Rightarrow> int \<times> 'w" where
  "native_cond_timedwait sys cond mutex abstime = pthread_cond_timedwait sys cond mutex abstime"

definition native_cond_wait :: "'w thread_calls \<Rightarrow> nat \<Rightarrow> nat \<Rightarrow> 'w \<Rightarrow> int \<times> 'w" where
  "native_cond_wait sys cond mutex = pthread_cond_wait sys cond mutex"

definition native_cond_signal :: "'w thread_calls \<Rightarrow> nat \<Rightarrow> 'w \<Rightarrow> int \<times> 'w" where
  "native_cond_signal sys cond = pthread_cond_signal sys cond"

definition native_cond_broadcast :: "'w thread_calls \<Rightarrow> nat \<Rightarrow> 'w \<Rightarrow> int \<times> 'w" where
  "native_cond_broadcast sys cond = pthread_cond_broadcast sys cond"

definition my_cond_timedwait :: "'w thread_calls \<Rightarrow> nat \<Rightarrow> nat \<Rightarrow> nat ptr \<Rightarrow> 'w \<Rightarrow> int \<times> 'w" where
  "my_cond_timedwait sys cond mp abstime = native_cond_timedwait sys cond mp abstime"

definition my_cond_wait :: "'w thread_calls \<Rightarrow> nat \<Rightarrow> nat \<Rightarrow> 'w \<Rightarrow> int \<times> 'w" where
  "my_cond_wait sys cond mp = native_cond_wait sys cond mp"

definition native_rw_init :: "'w thread_calls \<Rightarrow> nat \<Rightarrow> 'w \<Rightarrow> int \<times> 'w" where
  "native_rw_init sys rwp = pthread_rwlock_init sys rwp None"

definition native_rw_destroy :: "'w thread_calls \<Rightarrow> nat \<Rightarrow> 'w \<Rightarrow> int \<times> 'w" where
  "native_rw_destroy sys rwp = pthread_rwlock_destroy sys rwp"

definition native_rw_rdlock :: "'w thread_calls \<Rightarrow> nat \<Rightarrow> 'w \<Rightarrow> int \<times> 'w" where
  "native_rw_rdlock sys rwp = pthread_rwlock_rdlock sys rwp"

definition native_rw_tryrdlock :: "'w thread_calls \<Rightarrow> nat \<Rightarrow> 'w \<Rightarrow> int \<times> 'w" where
  "native_rw_tryrdlock sys rwp = pthread_rwlock_tryrdlock sys rwp"

definition native_rw_wrlock :: "'w thread_calls \<Rightarrow> nat \<Rightarrow> 'w \<Rightarrow> int \<times> 'w" where
  "native_rw_wrlock sys rwp = pthread_rwlock_wrlock sys rwp"

definition native_rw_trywrlock :: "'w thread_calls \<Rightarrow> nat \<Rightarrow> 'w \<Rightarrow> int \<times> 'w" where
  "native_rw_trywrlock sys rwp = pthread_rwlock_trywrlock sys rwp"

definition native_rw_unlock :: "'w thread_calls \<Rightarrow> nat \<Rightarrow> 'w \<Rightarrow> int \<times> 'w" where
  "native_rw_unlock sys rwp = pthread_rwlock_unlock sys rwp"

section \<open>Mutexes\<close>

definition inline_mysql_mutex_register ::
    "('w, 'p) psi_threads \<Rightarrow> string \<Rightarrow> nat ptr \<Rightarrow> int \<Rightarrow> ('w \<times> 'p, unit) state" where
  "inline_mysql_mutex_register psi category info count = 
     psi_call (register_mutex psi category info count)"

definition inline_mysql_mutex_init ::
    "('w, 'p) psi_threads \<Rightarrow> 'w thread_calls \<Rightarrow> 32 word \<Rightarrow> mysql_mutex_t \<Rightarrow> nat ptr \<Rightarrow> ('w \<times> 'p, int \<times> mysql_mutex_t) state" where
  "inline_mysql_mutex_init psi sys key that attr = do {
     s \<leftarrow> psi_call (init_mutex psi key (m_mutex that));
     let that = that\<lparr>mutex_psi := s\<rparr>;
     result \<leftarrow> os (my_mutex_init sys (m_mutex that) attr);
     State_Monad.return (result, that)
   }"

definition inline_mysql_mutex_destroy ::
    "('w, 'p) psi_threads \<Rightarrow> 'w thread_calls \<Rightarrow> mysql_mutex_t \<Rightarrow> ('w \<times> 'p, int \<times> mysql_mutex_t) state" where
  "inline_mysql_mutex_destroy psi sys that = do {
     that \<leftarrow> (case mutex_psi that of
         Some s \<Rightarrow> do {
           psi_call (destroy_mutex psi s);
           State_Monad.return (that\<lparr>mutex_psi := None\<rparr>)
         }
       | None \<Rightarrow> State_Monad.return that);
     result \<leftarrow> os (my_mutex_destroy sys (m_mutex that));
     State_Monad.return (result, that)
   }"

definition inline_mysql_mutex_lock ::
    "('w, 'p) psi_threads \<Rightarrow> 'w thread_calls \<Rightarrow> string \<Rightarrow> 32 word \<Rightarrow> mysql_mutex_t \<Rightarrow> ('w \<times> 'p, int) state" where
  "inline_mysql_mutex_lock psi sys src_file src_line that = 
     (case mutex_psi that of
        Some s \<Rightarrow> do {
          locker \<leftarrow> psi_call (start_mutex_wait psi s PSI_MUTEX_LOCK src_file src_line);
          result \<leftarrow> os (my_mutex_lock sys (m_mutex that));
          if_not_null locker (\<lambda>l. psi_call (end_mutex_wait psi l result));
          State_Monad.return result
        }
      | None \<Rightarrow> os (my_mutex_lock sys (m_mutex that)))"

definition inline_mysql_mutex_trylock ::
    "('w, 'p) psi_threads \<Rightarrow> 'w thread_calls \<Rightarrow> string \<Rightarrow> 32 word \<Rightarrow> mysql_mutex_t \<Rightarrow> ('w \<times> 'p, int) state" where
  "inline_mysql_mutex_trylock psi sys src_file src_line that = 
     (case mutex_psi that of
        Some s \<Rightarrow> do {
          locker \<leftarrow> psi_call (start_mutex_wait psi s PSI_MUTEX_TRYLOCK src_file src_line);
          result \<leftarrow> os (my_mutex_trylock sys (m_mutex that));
          if_not_null locker (\<lambda>l. psi_call (end_mutex_wait psi l result));
          State_Monad.return result
        }
      | None \<Rightarrow> os (my_mutex_trylock sys (m_mutex that)))"

definition inline_mysql_mutex_unlock ::
    "('w, 'p) psi_threads \<Rightarrow> 'w thread_calls \<Rightarrow> mysql_mutex_t \<Rightarrow> ('w \<times> 'p, int) state" where
  "inline_mysql_mutex_unlock psi sys that = do {
     (case mutex_psi that of Some s \<Rightarrow> psi_call (unlock_mutex psi s) | None \<Rightarrow> State_Monad.return ());
     result \<leftarrow> os (my_mutex_unlock sys (m_mutex that));
     State_Monad.return result
   }"

section \<open>Read-write locks\<close>

definition inline_mysql_rwlock_register ::
    "('w, 'p) psi_threads \<Rightarrow> string \<Rightarrow> nat ptr \<Rightarrow> int \<Rightarrow> ('w \<times> 'p, unit) state" where
  "inline_mysql_rwlock_register psi category info count = 
     psi_call (register_rwlock psi category info count)"

definition inline_mysql_rwlock_init ::
    "('w, 'p) psi_threads \<Rightarrow> 'w thread_calls \<Rightarrow> 32 word \<Rightarrow> mysql_rwlock_t \<Rightarrow> ('w \<times> 'p, int \<times> mysql_rwlock_t) state" where
  "inline_mysql_rwlock_init psi sys key that = do {
     s \<leftarrow> psi_call (init_rwlock psi key (m_rwlock that));
     let that = that\<lparr>rwlock_psi := s\<rparr>;
     result \<leftarrow> os (native_rw_init sys (m_rwlock that));
     State_Monad.return (result, that)
   }"

definition inline_mysql_prlock_init ::
    "('w, 'p) psi_threads \<Rightarrow> 'w thread_calls \<Rightarrow> 32 word \<Rightarrow> mysql_prlock_t \<Rightarrow> ('w \<times> 'p, int \<times> mysql_prlock_t) state" where
  "inline_mysql_prlock_init psi sys key that = do {
     s \<leftarrow> psi_call (init_rwlock psi key (m_prlock that));
     let that = that\<lparr>prlock_psi := s\<rparr>;
     result \<leftarrow> os (rw_pr_init sys (m_prlock that));
     State_Monad.return (result, that)
   }"

definition inline_mysql_rwlock_destroy ::
    "('w, 'p) psi_threads \<Rightarrow> 'w thread_calls \<Rightarrow> mysql_rwlock_t \<Rightarrow> ('w \<times> 'p, int \<times> mysql_rwlock_t) state" where
  "inline_mysql_rwlock_destroy psi sys that = do {
     that \<leftarrow> (case rwlock_psi that of
         Some s \<Rightarrow> do {
           psi_call (destroy_rwlock psi s);
           State_Monad.return (that\<lparr>rwlock_psi := None\<rparr>)
         }
       | None \<Rightarrow> State_Monad.return that);
     result \<leftarrow> os (native_rw_destroy sys (m_rwlock that));
     State_Monad.return (result, that)
   }"

definition inline_mysql_prlock_destroy ::
    "('w, 'p) psi_threads \<Rightarrow> 'w thread_calls \<Rightarrow> mysql_prlock_t \<Rightarrow> ('w \<times> 'p, int \<times> mysql_prlock_t) state" where
  "inline_mysql_prlock_destroy psi sys that = do {
     that \<leftarrow> (case prlock_psi that of
         Some s \<Rightarrow> do {
           psi_call (destroy_rwlock psi s);
           State_Monad.return (that\<lparr>prlock_psi := None\<rparr>)
         }
       | None \<Rightarrow> State_Monad.return that);
     result \<leftarrow> os (rw_pr_destroy sys (m_prlock that));
     State_Monad.return (result, that)
   }"

definition inline_mysql_rwlock_rdlock ::
    "('w, 'p) psi_threads \<Rightarrow> 'w thread_calls \<Rightarrow> string \<Rightarrow> 32 word \<Rightarrow> mysql_rwlock_t \<Rightarrow> ('w \<times> 'p, int) state" where
  "inline_mysql_rwlock_rdlock psi sys src_file src_line that = 
     (case rwlock_psi that of
        Some s \<Rightarrow> do {
          locker \<leftarrow> psi_call (start_rwlock_rdwait psi s PSI_RWLOCK_READLOCK src_file src_line);
          result \<leftarrow> os (native_rw_rdlock sys (m_rwlock that));
          if_not_null locker (\<lambda>l. psi_call (end_rwlock_rdwait psi l result));
          State_Monad.return result
        }
      | None \<Rightarrow> os (native_rw_rdlock sys (m_rwlock that)))"

definition inline_mysql_prlock_rdlock ::
    "('w, 'p) psi_threads \<Rightarrow> 'w thread_calls \<Rightarrow> string \<Rightarrow> 32 word \<Rightarrow> mysql_prlock_t \<Rightarrow> ('w \<times> 'p, int) state" where
  "inline_mysql_prlock_rdlock psi sys src_file src_line that = 
     (case prlock_psi that of
        Some s \<Rightarrow> do {
          locker \<leftarrow> psi_call (start_rwlock_rdwait psi s PSI_RWLOCK_READLOCK src_file src_line);
          result \<leftarrow> os (rw_pr_rdlock sys (m_prlock that));
          if_not_null locker (\<lambda>l. psi_call (end_rwlock_rdwait psi l result));
          State_Monad.return result
        }
      | None \<Rightarrow> os (rw_pr_rdlock sys (m_prlock that)))"

definition inline_mysql_rwlock_wrlock ::
    "('w, 'p) psi_threads \<Rightarrow> 'w thread_calls \<Rightarrow> string \<Rightarrow> 32 word \<Rightarrow> mysql_rwlock_t \<Rightarrow> ('w \<times> 'p, int) state" where
  "inline_mysql_rwlock_wrlock psi sys src_file src_line that = 
     (case rwlock_psi that of
        Some s \<Rightarrow> do {
          locker \<leftarrow> psi_call (start_rwlock_wrwait psi s PSI_RWLOCK_WRITELOCK src_file src_line);
          result \<leftarrow> os (native_rw_wrlock sys (m_rwlock that));
          if_not_null locker (\<lambda>l. psi_call (end_rwlock_wrwait psi l result));
          State_Monad.return result
        }
      | None \<Rightarrow> os (native_rw_wrlock sys (m_rwlock that)))"

definition inline_mysql_prlock_wrlock ::
    "('w, 'p) psi_threads \<Rightarrow> 'w thread_calls \<Rightarrow> string \<Rightarrow> 32 word \<Rightarrow> mysql_prlock_t \<Rightarrow> ('w \<times> 'p, int) state" where
  "inline_mysql_prlock_wrlock psi sys src_file src_line that = 
     (case prlock_psi that of
        Some s \<Rightarrow> do {
          locker \<leftarrow> psi_call (start_rwlock_wrwait psi s PSI_RWLOCK_WRITELOCK src_file src_line);
          result \<leftarrow> os (rw_pr_wrlock sys (m_prlock that));
          if_not_null locker (\<lambda>l. psi_call (end_rwlock_wrwait psi l result));
          State_Monad.return result
        }
      | None \<Rightarrow> os (rw_pr_wrlock sys (m_prlock that)))"

definition inline_mysql_rwlock_tryrdlock ::
    "('w, 'p) psi_threads \<Rightarrow> 'w thread_calls \<Rightarrow> string \<Rightarrow> 32 word \<Rightarrow> mysql_rwlock_t \<Rightarrow> ('w \<times> 'p, int) state" where
  "inline_mysql_rwlock_tryrdlock psi sys src_file src_line that = 
     (case rwlock_psi that of
        Some s \<Rightarrow> do {
          locker \<leftarrow> psi_call (start_rwlock_rdwait psi s PSI_RWLOCK_TRYREADLOCK src_file src_line);
          result \<leftarrow> os (native_rw_tryrdlock sys (m_rwlock that));
          if_not_null locker (\<lambda>l. psi_call (end_rwlock_rdwait psi l result));
          State_Monad.return result
        }
      | None \<Rightarrow> os (native_rw_tryrdlock sys (m_rwlock that)))"

definition inline_mysql_rwlock_trywrlock ::
    "('w, 'p) psi_threads \<Rightarrow> 'w thread_calls \<Rightarrow> string \<Rightarrow> 32 word \<Rightarrow> mysql_rwlock_t \<Rightarrow> ('w \<times> 'p, int) state" where
  "inline_mysql_rwlock_trywrlock psi sys src_file src_line that = 
     (case rwlock_psi that of
        Some s \<Rightarrow> do {
          locker \<leftarrow> psi_call (start_rwlock_wrwait psi s PSI_RWLOCK_TRYWRITELOCK src_file src_line);
          result \<leftarrow> os (native_rw_trywrlock sys (m_rwlock that));
          if_not_null locker (\<lambda>l. psi_call (end_rwlock_wrwait psi l result));
          State_Monad.return result
        }
      | None \<Rightarrow> os (native_rw_trywrlock sys (m_rwlock that)))"

definition inline_mysql_rwlock_unlock ::
    "('w, 'p) psi_threads \<Rightarrow> 'w thread_calls \<Rightarrow> mysql_rwlock_t \<Rightarrow> ('w \<times> 'p, int) state" where
  "inline_mysql_rwlock_unlock psi sys that = do {
     (case rwlock_psi that of Some s \<Rightarrow> psi_call (unlock_rwlock psi s) | None \<Rightarrow> State_Monad.return ());
     result \<leftarrow> os (native_rw_unlock sys (m_rwlock that));
     State_Monad.return result
   }"

definition inline_mysql_prlock_unlock ::
    "('w, 'p) psi_threads \<Rightarrow> 'w thread_calls \<Rightarrow> mysql_prlock_t \<Rightarrow> ('w \<times> 'p, int) state" where
  "inline_mysql_prlock_unlock psi sys that = do {
     (case prlock_psi that of Some s \<Rightarrow> psi_call (unlock_rwlock psi s) | None \<Rightarrow> State_Monad.return ());
     result \<leftarrow> os (rw_pr_unlock sys (m_prlock that));
     State_Monad.return result
   }"

section \<open>Conditions\<close>

definition inline_mysql_cond_register ::
    "('w, 'p) psi_threads \<Rightarrow> string \<Rightarrow> nat ptr \<Rightarrow> int \<Rightarrow> ('w \<times> 'p, unit) state" where
  "inline_mysql_cond_register psi category info count = 
     psi_call (register_cond psi category info count)"

definition inline_mysql_cond_init ::
    "('w, 'p) psi_threads \<Rightarrow> 'w thread_calls \<Rightarrow> 32 word \<Rightarrow> mysql_cond_t \<Rightarrow> ('w \<times> 'p, int \<times> mysql_cond_t) state" where
  "inline_mysql_cond_init psi sys key that = do {
     s \<leftarrow> psi_call (init_cond psi key (m_cond that));
     let that = that\<lparr>cond_psi := s\<rparr>;
     result \<leftarrow> os (native_cond_init sys (m_cond that));
     State_Monad.return (result, that)
   }"

definition inline_mysql_cond_destroy ::
    "('w, 'p) psi_threads \<Rightarrow> 'w thread_calls \<Rightarrow> mysql_cond_t \<Rightarrow> ('w \<times> 'p, int \<times> mysql_cond_t) state" where
  "inline_mysql_cond_destroy psi sys that = do {
     that \<leftarrow> (case cond_psi that of
         Some s \<Rightarrow> do {
           psi_call (destroy_cond psi s);
           State_Monad.return (that\<lparr>cond_psi := None\<rparr>)
         }
       | None \<Rightarrow> State_Monad.return that);
     result \<leftarrow> os (native_cond_destroy sys (m_cond that));
     State_Monad.return (result, that)
   }"

definition inline_mysql_cond_wait ::
    "('w, 'p) psi_threads \<Rightarrow> 'w thread_calls \<Rightarrow> string \<Rightarrow> 32 word \<Rightarrow> mysql_cond_t \<Rightarrow> mysql_mutex_t \<Rightarrow> ('w \<times> 'p, int) state" where
  "inline_mysql_cond_wait psi sys src_file src_line that mutex = 
     (case cond_psi that of
        Some s \<Rightarrow> do {
          locker \<leftarrow> psi_call (start_cond_wait psi s (mutex_psi mutex) PSI_COND_WAIT src_file src_line);
          result \<leftarrow> os (my_cond_wait sys (m_cond that) (m_mutex mutex));
          if_not_null locker (\<lambda>l. psi_call (end_cond_wait psi l result));
          State_Monad.return result
        }
      | None \<Rightarrow> os (my_cond_wait sys (m_cond that) (m_mutex mutex)))"

definition inline_mysql_cond_timedwait ::
    "('w, 'p) psi_threads \<Rightarrow> 'w thread_calls \<Rightarrow> string \<Rightarrow> 32 word \<Rightarrow> mysql_cond_t \<Rightarrow> mysql_mutex_t \<Rightarrow> nat ptr \<Rightarrow> ('w \<times> 'p, int) state" where
  "inline_mysql_cond_timedwait psi sys src_file src_line that mutex abstime = 
     (case cond_psi that of
        Some s \<Rightarrow> do {
          locker \<leftarrow> psi_call (start_cond_wait psi s (mutex_psi mutex) PSI_COND_TIMEDWAIT src_file src_line);
          result \<leftarrow> os (my_cond_timedwait sys (m_cond that) (m_mutex mutex) abstime);
          if_not_null locker (\<lambda>l. psi_call (end_cond_wait psi l result));
          State_Monad.return result
        }
      | None \<Rightarrow> os (my_cond_timedwait sys (m_cond that) (m_mutex mutex) abstime))"

definition inline_mysql_cond_signal ::
    "('w, 'p) psi_threads \<Rightarrow> 'w thread_calls \<Rightarrow> mysql_cond_t \<Rightarrow> ('w \<times> 'p, int) state" where
  "inline_mysql_cond_signal psi sys that = do {
     (case cond_psi that of Some s \<Rightarrow> psi_call (signal_cond psi s) | None \<Rightarrow> State_Monad.return ());
     result \<leftarrow> os (native_cond_signal sys (m_cond that));
     State_Monad.return result
   }"

definition inline_mysql_cond_broadcast ::
    "('w, 'p) psi_threads \<Rightarrow> 'w thread_calls \<Rightarrow> mysql_cond_t \<Rightarrow> ('w \<times> 'p, int) state" where
  "inline_mysql_cond_broadcast psi sys that = do {
     (case cond_psi that of Some s \<Rightarrow> psi_call (broadcast_cond psi s) | None \<Rightarrow> State_Monad.return ());
     result \<leftarrow> os (native_cond_broadcast sys (m_cond that));
     State_Monad.return result
   }"

section \<open>Threads\<close>

definition inline_mysql_thread_register ::
    "('w, 'p) psi_threads \<Rightarrow> string \<Rightarrow> nat ptr \<Rightarrow> int \<Rightarrow> ('w \<times> 'p, unit) state" where
  "inline_mysql_thread_register psi category info count = 
     psi_call (register_thread psi category info count)"

definition inline_mysql_thread_create ::
    "('w, 'p) psi_threads \<Rightarrow> 32 word \<Rightarrow> nat \<Rightarrow> nat ptr \<Rightarrow> nat \<Rightarrow> nat ptr \<Rightarrow> ('w \<times> 'p, int) state" where
  "inline_mysql_thread_create psi key thread attr start_routine arg = 
     spawn_thread psi key thread attr start_routine arg"

definition inline_mysql_thread_set_psi_id ::
    "('w, 'p) psi_threads \<Rightarrow> 64 word \<Rightarrow> ('w \<times> 'p, unit) state" where
  "inline_mysql_thread_set_psi_id psi i = do {
     t \<leftarrow> psi_call (get_thread psi);
     psi_call (set_thread_id psi t i)
   }"

definition inline_mysql_thread_set_psi_THD ::
    "('w, 'p) psi_threads \<Rightarrow> nat ptr \<Rightarrow> ('w \<times> 'p, unit) state" where
  "inline_mysql_thread_set_psi_THD psi thd = do {
     t \<leftarrow> psi_call (get_thread psi);
     psi_call (set_thread_THD psi t thd)
   }"

section \<open>Instrumented locks behave like locks\<close>

text \<open>What a thread does with locks and conditions that are initialised.\<close>

datatype lock_op =
  Mutex_lock mysql_mutex_t |
  Mutex_trylock mysql_mutex_t |
  Mutex_unlock mysql_mutex_t |
  Rw_rdlock mysql_rwlock_t |
  Rw_wrlock mysql_rwlock_t |
  Rw_tryrdlock mysql_rwlock_t |
  Rw_trywrlock mysql_rwlock_t |
  Rw_unlock mysql_rwlock_t |
  Pr_rdlock mysql_prlock_t |
  Pr_wrlock mysql_prlock_t |
  Pr_unlock mysql_prlock_t |
  Cond_wait mysql_cond_t mysql_mutex_t |
  Cond_timedwait mysql_cond_t mysql_mutex_t "nat ptr" |
  Cond_signal mysql_cond_t |
  Cond_broadcast mysql_cond_t

fun perform_lock ::
    "('w, 'p) psi_threads \<Rightarrow> 'w thread_calls \<Rightarrow> string \<Rightarrow> 32 word \<Rightarrow> lock_op \<Rightarrow> ('w \<times> 'p, int) state" where
  "perform_lock psi sys f l (Mutex_lock x) = inline_mysql_mutex_lock psi sys f l x"
| "perform_lock psi sys f l (Mutex_trylock x) = inline_mysql_mutex_trylock psi sys f l x"
| "perform_lock psi sys f l (Mutex_unlock x) = inline_mysql_mutex_unlock psi sys x"
| "perform_lock psi sys f l (Rw_rdlock x) = inline_mysql_rwlock_rdlock psi sys f l x"
| "perform_lock psi sys f l (Rw_wrlock x) = inline_mysql_rwlock_wrlock psi sys f l x"
| "perform_lock psi sys f l (Rw_tryrdlock x) = inline_mysql_rwlock_tryrdlock psi sys f l x"
| "perform_lock psi sys f l (Rw_trywrlock x) = inline_mysql_rwlock_trywrlock psi sys f l x"
| "perform_lock psi sys f l (Rw_unlock x) = inline_mysql_rwlock_unlock psi sys x"
| "perform_lock psi sys f l (Pr_rdlock x) = inline_mysql_prlock_rdlock psi sys f l x"
| "perform_lock psi sys f l (Pr_wrlock x) = inline_mysql_prlock_wrlock psi sys f l x"
| "perform_lock psi sys f l (Pr_unlock x) = inline_mysql_prlock_unlock psi sys x"
| "perform_lock psi sys f l (Cond_wait x a) = inline_mysql_cond_wait psi sys f l x a"
| "perform_lock psi sys f l (Cond_timedwait x a b) = inline_mysql_cond_timedwait psi sys f l x a b"
| "perform_lock psi sys f l (Cond_signal x) = inline_mysql_cond_signal psi sys x"
| "perform_lock psi sys f l (Cond_broadcast x) = inline_mysql_cond_broadcast psi sys x"

fun plain_lock :: "'w thread_calls \<Rightarrow> lock_op \<Rightarrow> 'w \<Rightarrow> int \<times> 'w" where
  "plain_lock sys (Mutex_lock x) = pthread_mutex_lock sys (m_mutex x)"
| "plain_lock sys (Mutex_trylock x) = pthread_mutex_trylock sys (m_mutex x)"
| "plain_lock sys (Mutex_unlock x) = pthread_mutex_unlock sys (m_mutex x)"
| "plain_lock sys (Rw_rdlock x) = pthread_rwlock_rdlock sys (m_rwlock x)"
| "plain_lock sys (Rw_wrlock x) = pthread_rwlock_wrlock sys (m_rwlock x)"
| "plain_lock sys (Rw_tryrdlock x) = pthread_rwlock_tryrdlock sys (m_rwlock x)"
| "plain_lock sys (Rw_trywrlock x) = pthread_rwlock_trywrlock sys (m_rwlock x)"
| "plain_lock sys (Rw_unlock x) = pthread_rwlock_unlock sys (m_rwlock x)"
| "plain_lock sys (Pr_rdlock x) = rw_pr_rdlock sys (m_prlock x)"
| "plain_lock sys (Pr_wrlock x) = rw_pr_wrlock sys (m_prlock x)"
| "plain_lock sys (Pr_unlock x) = rw_pr_unlock sys (m_prlock x)"
| "plain_lock sys (Cond_wait x a) = pthread_cond_wait sys (m_cond x) (m_mutex a)"
| "plain_lock sys (Cond_timedwait x a b) = pthread_cond_timedwait sys (m_cond x) (m_mutex a) b"
| "plain_lock sys (Cond_signal x) = pthread_cond_signal sys (m_cond x)"
| "plain_lock sys (Cond_broadcast x) = pthread_cond_broadcast sys (m_cond x)"

fun lock_hook :: "lock_op \<Rightarrow> nat ptr" where
  "lock_hook (Mutex_lock x) = mutex_psi x"
| "lock_hook (Mutex_trylock x) = mutex_psi x"
| "lock_hook (Mutex_unlock x) = mutex_psi x"
| "lock_hook (Rw_rdlock x) = rwlock_psi x"
| "lock_hook (Rw_wrlock x) = rwlock_psi x"
| "lock_hook (Rw_tryrdlock x) = rwlock_psi x"
| "lock_hook (Rw_trywrlock x) = rwlock_psi x"
| "lock_hook (Rw_unlock x) = rwlock_psi x"
| "lock_hook (Pr_rdlock x) = prlock_psi x"
| "lock_hook (Pr_wrlock x) = prlock_psi x"
| "lock_hook (Pr_unlock x) = prlock_psi x"
| "lock_hook (Cond_wait x a) = cond_psi x"
| "lock_hook (Cond_timedwait x a b) = cond_psi x"
| "lock_hook (Cond_signal x) = cond_psi x"
| "lock_hook (Cond_broadcast x) = cond_psi x"

lemmas lock_op_defs =
  inline_mysql_mutex_lock_def inline_mysql_mutex_trylock_def inline_mysql_mutex_unlock_def
  inline_mysql_rwlock_rdlock_def inline_mysql_rwlock_wrlock_def inline_mysql_rwlock_tryrdlock_def
  inline_mysql_rwlock_trywrlock_def inline_mysql_rwlock_unlock_def inline_mysql_prlock_rdlock_def
  inline_mysql_prlock_wrlock_def inline_mysql_prlock_unlock_def inline_mysql_cond_wait_def
  inline_mysql_cond_timedwait_def inline_mysql_cond_signal_def inline_mysql_cond_broadcast_def

lemmas layer_defs =
  native_mutex_init_def native_mutex_lock_def native_mutex_trylock_def native_mutex_unlock_def
  native_mutex_destroy_def my_mutex_init_def my_mutex_lock_def my_mutex_trylock_def
  my_mutex_unlock_def my_mutex_destroy_def native_cond_init_def native_cond_destroy_def
  native_cond_timedwait_def native_cond_wait_def native_cond_signal_def native_cond_broadcast_def
  my_cond_timedwait_def my_cond_wait_def native_rw_init_def native_rw_destroy_def
  native_rw_rdlock_def native_rw_tryrdlock_def native_rw_wrlock_def native_rw_trywrlock_def
  native_rw_unlock_def

lemma perform_lock_same_as: "same_as (perform_lock psi sys f l x) (plain_lock sys x)"
  by (cases x) (auto simp: lock_op_defs layer_defs same_as_os split: option.split
      intro!: same_as_before same_as_after psi_intro)

interpretation locks: instrumented "perform_lock psi sys f l" "plain_lock sys" for psi sys f l
  by unfold_locales (rule perform_lock_same_as)

section \<open>What the performance schema is told of locks\<close>

datatype lock_wait =
  Mutex_wait PSI_mutex_operation | Read_wait PSI_rwlock_operation | Write_wait PSI_rwlock_operation |
  Cond_wait_for PSI_cond_operation

text \<open>A wait with its operation, or a note of a release or a wake-up.\<close>

fun lock_told :: "lock_op \<Rightarrow> lock_wait + string" where
  "lock_told (Mutex_lock x) = Inl (Mutex_wait PSI_MUTEX_LOCK)"
| "lock_told (Mutex_trylock x) = Inl (Mutex_wait PSI_MUTEX_TRYLOCK)"
| "lock_told (Mutex_unlock x) = Inr ''unlock_mutex''"
| "lock_told (Rw_rdlock x) = Inl (Read_wait PSI_RWLOCK_READLOCK)"
| "lock_told (Rw_wrlock x) = Inl (Write_wait PSI_RWLOCK_WRITELOCK)"
| "lock_told (Rw_tryrdlock x) = Inl (Read_wait PSI_RWLOCK_TRYREADLOCK)"
| "lock_told (Rw_trywrlock x) = Inl (Write_wait PSI_RWLOCK_TRYWRITELOCK)"
| "lock_told (Rw_unlock x) = Inr ''unlock_rwlock''"
| "lock_told (Pr_rdlock x) = Inl (Read_wait PSI_RWLOCK_READLOCK)"
| "lock_told (Pr_wrlock x) = Inl (Write_wait PSI_RWLOCK_WRITELOCK)"
| "lock_told (Pr_unlock x) = Inr ''unlock_rwlock''"
| "lock_told (Cond_wait x a) = Inl (Cond_wait_for PSI_COND_WAIT)"
| "lock_told (Cond_timedwait x a b) = Inl (Cond_wait_for PSI_COND_TIMEDWAIT)"
| "lock_told (Cond_signal x) = Inr ''signal_cond''"
| "lock_told (Cond_broadcast x) = Inr ''broadcast_cond''"

definition observe_locks ::
    "((lock_wait, int, 'w) events \<Rightarrow> nat ptr) \<Rightarrow> ('w, (lock_wait, int, 'w) events) psi_threads" where
  "observe_locks grant = \<lparr>
     register_mutex = (\<lambda>cat info count. observe_note ''register_mutex'' ()),
     register_rwlock = (\<lambda>cat info count. observe_note ''register_rwlock'' ()),
     register_cond = (\<lambda>cat info count. observe_note ''register_cond'' ()),
     register_thread = (\<lambda>cat info count. observe_note ''register_thread'' ()),
     init_mutex = (\<lambda>key m. observe_note ''init_mutex'' (Some m)),
     destroy_mutex = (\<lambda>s. observe_note ''destroy_mutex'' ()),
     unlock_mutex = (\<lambda>s. observe_note ''unlock_mutex'' ()),
     start_mutex_wait = (\<lambda>s op f l. observe_start grant (Mutex_wait op)),
     end_mutex_wait = (\<lambda>l rc. observe_end l rc),
     init_rwlock = (\<lambda>key m. observe_note ''init_rwlock'' (Some m)),
     destroy_rwlock = (\<lambda>s. observe_note ''destroy_rwlock'' ()),
     unlock_rwlock = (\<lambda>s. observe_note ''unlock_rwlock'' ()),
     start_rwlock_rdwait = (\<lambda>s op f l. observe_start grant (Read_wait op)),
     end_rwlock_rdwait = (\<lambda>l rc. observe_end l rc),
     start_rwlock_wrwait = (\<lambda>s op f l. observe_start grant (Write_wait op)),
     end_rwlock_wrwait = (\<lambda>l rc. observe_end l rc),
     init_cond = (\<lambda>key m. observe_note ''init_cond'' (Some m)),
     destroy_cond = (\<lambda>s. observe_note ''destroy_cond'' ()),
     signal_cond = (\<lambda>s. observe_note ''signal_cond'' ()),
     broadcast_cond = (\<lambda>s. observe_note ''broadcast_cond'' ()),
     start_cond_wait = (\<lambda>s m op f l. observe_start grant (Cond_wait_for op)),
     end_cond_wait = (\<lambda>l rc. observe_end l rc),
     spawn_thread = (\<lambda>key t attr start arg. psi_call (observe_note ''spawn_thread'' 0)),
     get_thread = observe_note ''get_thread'' None,
     set_thread_id = (\<lambda>t i. observe_note ''set_thread_id'' ()),
     set_thread_THD = (\<lambda>t i. observe_note ''set_thread_THD'' ())\<rparr>"

definition lock_events :: "nat ptr \<Rightarrow> lock_op \<Rightarrow> 'w \<Rightarrow> int \<Rightarrow> 'w \<Rightarrow> (lock_wait, int, 'w) events" where
  "lock_events locker x w r w' =
     (case lock_hook x of None \<Rightarrow> []
      | Some s \<Rightarrow> (case lock_told x of
            Inr what \<Rightarrow> [Noted what]
          | Inl op \<Rightarrow> (case locker of None \<Rightarrow> [] | Some k \<Rightarrow> [Started k op w, Ended k r w'])))"

lemma perform_lock_events:
  assumes "plain_lock sys x w = (r, w')"
  shows "run_state (perform_lock (observe_locks grant) sys f l x) (w, es) =
    (r, (w', es @ lock_events (grant es) x w r w'))"
  using assms
  by (cases x)
    (auto simp: lock_op_defs layer_defs run_bind psi_call_def os_def observe_locks_def observe_start_def
      observe_end_def observe_note_def if_not_null_def lock_events_def split: option.split)

lemma perform_lock_keeps_paired: "keeps_paired (perform_lock (observe_locks grant) sys f l x)"
  unfolding keeps_paired_def
proof (intro allI)
  fix w es
  obtain r w' where r: "plain_lock sys x w = (r, w')" by (metis prod.exhaust)
  have "paired (lock_events (grant es) x w r w')"
    by (simp add: lock_events_def split: option.split sum.split)
  with perform_lock_events [OF r, of grant f l es]
  show "\<exists>fs. snd (snd (run_state (perform_lock (observe_locks grant) sys f l x) (w, es))) = es @ fs \<and> paired fs"
    by auto
qed

section \<open>Properties\<close>

text \<open>C33: what a thread does with instrumented locks and conditions has the results and the effect on the
  system of the same calls of the thread library, whatever the performance schema answers.\<close>

theorem lock_program_same:
  "fst (run_state (run_calls (perform_lock psi sys f l) xs) (w, p)) = fst (plain_calls (plain_lock sys) xs w) \<and>
   fst (snd (run_state (run_calls (perform_lock psi sys f l) xs) (w, p))) = snd (plain_calls (plain_lock sys) xs w)"
  using locks.program [of psi sys f l xs] by (simp add: same_as_def)

text \<open>The performance schema sees every wait for a lock or a condition ended, by the locker it was
  started with, before the thread starts another.\<close>

lemma lock_waits_paired:
  "paired (snd (snd (run_state (run_calls (perform_lock (observe_locks grant) sys f l) xs) (w, []))))"
proof -
  have "keeps_paired (run_calls (perform_lock (observe_locks grant) sys f l) xs)"
    by (rule keeps_paired_run_calls) (rule perform_lock_keeps_paired)
  then obtain fs where
    "snd (snd (run_state (run_calls (perform_lock (observe_locks grant) sys f l) xs) (w, []))) = [] @ fs" "paired fs"
    unfolding keeps_paired_def by blast
  then show ?thesis by simp
qed

text \<open>After it is destroyed a mutex has no hook, and destroying it tells the performance schema, before
  the mutex of the system goes, exactly when it had one.\<close>

lemma mutex_destroyed:
  "run_state (inline_mysql_mutex_destroy psi sys that) (w, p) =
     (let p' = (case mutex_psi that of None \<Rightarrow> p | Some s \<Rightarrow> snd (destroy_mutex psi s w p));
          (r, w') = pthread_mutex_destroy sys (m_mutex that) w
      in ((r, that\<lparr>mutex_psi := None\<rparr>), (w', p')))"
  by (cases that)
    (simp add: inline_mysql_mutex_destroy_def layer_defs run_bind os_def psi_call_def case_prod_unfold Let_def
      split: option.split)

lemma init_destroy_results:
  "same_as (map_state fst (inline_mysql_mutex_init psi sys key m attr)) (pthread_mutex_init sys (m_mutex m) attr)"
  "same_as (map_state fst (inline_mysql_rwlock_init psi sys key rw)) (pthread_rwlock_init sys (m_rwlock rw) None)"
  "same_as (map_state fst (inline_mysql_prlock_init psi sys key pr)) (rw_pr_init sys (m_prlock pr))"
  "same_as (map_state fst (inline_mysql_cond_init psi sys key c)) (pthread_cond_init sys (m_cond c) None)"
  "same_as (map_state fst (inline_mysql_rwlock_destroy psi sys rw)) (pthread_rwlock_destroy sys (m_rwlock rw))"
  "same_as (map_state fst (inline_mysql_prlock_destroy psi sys pr)) (rw_pr_destroy sys (m_prlock pr))"
  "same_as (map_state fst (inline_mysql_cond_destroy psi sys c)) (pthread_cond_destroy sys (m_cond c))"
  unfolding inline_mysql_mutex_init_def inline_mysql_rwlock_init_def inline_mysql_prlock_init_def
    inline_mysql_cond_init_def inline_mysql_rwlock_destroy_def inline_mysql_prlock_destroy_def
    inline_mysql_cond_destroy_def
  by (simp_all add: same_as_def layer_defs run_bind os_def psi_call_def run_map_state case_prod_unfold Let_def
      split: option.split)

end
