(* ===== verification/Psi_File.thy ===== *)
theory Psi_File
  imports Psi
begin

unbundle bit_operations_syntax

text \<open>
  The instrumented files of \<open>mysql/psi/mysql_file.h\<close>, in a build with \<open>HAVE_PSI_FILE_INTERFACE\<close>. The
  library \<open>mysys\<close>, the standard streams and the performance schema are parameters; strings and buffers
  are pointers into the state of the system. A \<open>MYSQL_FILE\<close> is known by its address and its two fields.
\<close>

section \<open>The types\<close>

datatype PSI_file_operation =
  PSI_FILE_CREATE | PSI_FILE_CREATE_TMP | PSI_FILE_OPEN | PSI_FILE_STREAM_OPEN | PSI_FILE_CLOSE |
  PSI_FILE_STREAM_CLOSE | PSI_FILE_READ | PSI_FILE_WRITE | PSI_FILE_SEEK | PSI_FILE_TELL | PSI_FILE_FLUSH |
  PSI_FILE_STAT | PSI_FILE_FSTAT | PSI_FILE_CHSIZE | PSI_FILE_DELETE | PSI_FILE_RENAME | PSI_FILE_SYNC

text \<open>What a wait for opening gives the performance schema: a stream, a stat area, or nothing.\<close>

record ('w, 'p, 'l) psi_files =
  register_file :: "string \<Rightarrow> nat ptr \<Rightarrow> int \<Rightarrow> 'w \<Rightarrow> 'p \<Rightarrow> unit \<times> 'p"
  get_thread_file_name_locker :: "32 word \<Rightarrow> PSI_file_operation \<Rightarrow> nat ptr \<Rightarrow> 'w \<Rightarrow> 'p \<Rightarrow> 'l ptr \<times> 'p"
  get_thread_file_stream_locker :: "nat ptr \<Rightarrow> PSI_file_operation \<Rightarrow> 'w \<Rightarrow> 'p \<Rightarrow> 'l ptr \<times> 'p"
  get_thread_file_descriptor_locker :: "int \<Rightarrow> PSI_file_operation \<Rightarrow> 'w \<Rightarrow> 'p \<Rightarrow> 'l ptr \<times> 'p"
  start_file_open_wait :: "'l \<Rightarrow> string \<Rightarrow> 32 word \<Rightarrow> 'w \<Rightarrow> 'p \<Rightarrow> unit \<times> 'p"
  end_file_open_wait :: "'l \<Rightarrow> nat ptr \<Rightarrow> 'w \<Rightarrow> 'p \<Rightarrow> nat ptr \<times> 'p"
  end_file_open_wait_and_bind_to_descriptor :: "'l \<Rightarrow> int \<Rightarrow> 'w \<Rightarrow> 'p \<Rightarrow> unit \<times> 'p"
  end_temp_file_open_wait_and_bind_to_descriptor :: "'l \<Rightarrow> int \<Rightarrow> nat ptr \<Rightarrow> 'w \<Rightarrow> 'p \<Rightarrow> unit \<times> 'p"
  start_file_wait :: "'l \<Rightarrow> size_t \<Rightarrow> string \<Rightarrow> 32 word \<Rightarrow> 'w \<Rightarrow> 'p \<Rightarrow> unit \<times> 'p"
  end_file_wait :: "'l \<Rightarrow> size_t \<Rightarrow> 'w \<Rightarrow> 'p \<Rightarrow> unit \<times> 'p"
  start_file_close_wait :: "'l \<Rightarrow> string \<Rightarrow> 32 word \<Rightarrow> 'w \<Rightarrow> 'p \<Rightarrow> unit \<times> 'p"
  end_file_close_wait :: "'l \<Rightarrow> int \<Rightarrow> 'w \<Rightarrow> 'p \<Rightarrow> unit \<times> 'p"

record 'w file_calls =
  c_strlen :: "nat \<Rightarrow> 'w \<Rightarrow> size_t"
  c_fgets :: "nat ptr \<Rightarrow> int \<Rightarrow> nat ptr \<Rightarrow> 'w \<Rightarrow> nat ptr \<times> 'w"
  c_fgetc :: "nat ptr \<Rightarrow> 'w \<Rightarrow> int \<times> 'w"
  c_fputs :: "nat ptr \<Rightarrow> nat ptr \<Rightarrow> 'w \<Rightarrow> int \<times> 'w"
  c_fputc :: "8 word \<Rightarrow> nat ptr \<Rightarrow> 'w \<Rightarrow> int \<times> 'w"
  c_vfprintf :: "nat ptr \<Rightarrow> nat ptr \<Rightarrow> nat ptr \<Rightarrow> 'w \<Rightarrow> int \<times> 'w"
  c_fflush :: "nat ptr \<Rightarrow> 'w \<Rightarrow> int \<times> 'w"
  c_feof :: "nat ptr \<Rightarrow> 'w \<Rightarrow> int \<times> 'w"
  my_fstat :: "int \<Rightarrow> nat ptr \<Rightarrow> int \<Rightarrow> 'w \<Rightarrow> int \<times> 'w"
  my_stat :: "nat ptr \<Rightarrow> nat ptr \<Rightarrow> int \<Rightarrow> 'w \<Rightarrow> nat ptr \<times> 'w"
  my_chsize :: "int \<Rightarrow> 64 word \<Rightarrow> int \<Rightarrow> int \<Rightarrow> 'w \<Rightarrow> int \<times> 'w"
  my_malloc :: "size_t \<Rightarrow> 'w \<Rightarrow> nat ptr \<times> 'w"
  my_free :: "nat \<Rightarrow> 'w \<Rightarrow> unit \<times> 'w"
  my_fopen :: "nat ptr \<Rightarrow> int \<Rightarrow> int \<Rightarrow> 'w \<Rightarrow> nat ptr \<times> 'w"
  my_fclose :: "nat ptr \<Rightarrow> int \<Rightarrow> 'w \<Rightarrow> int \<times> 'w"
  my_fread :: "nat ptr \<Rightarrow> nat ptr \<Rightarrow> size_t \<Rightarrow> int \<Rightarrow> 'w \<Rightarrow> size_t \<times> 'w"
  my_fwrite :: "nat ptr \<Rightarrow> nat ptr \<Rightarrow> size_t \<Rightarrow> int \<Rightarrow> 'w \<Rightarrow> size_t \<times> 'w"
  my_fseek :: "nat ptr \<Rightarrow> 64 word \<Rightarrow> int \<Rightarrow> int \<Rightarrow> 'w \<Rightarrow> 64 word \<times> 'w"
  my_ftell :: "nat ptr \<Rightarrow> int \<Rightarrow> 'w \<Rightarrow> 64 word \<times> 'w"
  my_create :: "nat ptr \<Rightarrow> int \<Rightarrow> int \<Rightarrow> int \<Rightarrow> 'w \<Rightarrow> int \<times> 'w"
  create_temp_file :: "nat ptr \<Rightarrow> nat ptr \<Rightarrow> nat ptr \<Rightarrow> int \<Rightarrow> int \<Rightarrow> 'w \<Rightarrow> int \<times> 'w"
  my_open :: "nat ptr \<Rightarrow> int \<Rightarrow> int \<Rightarrow> 'w \<Rightarrow> int \<times> 'w"
  my_close :: "int \<Rightarrow> int \<Rightarrow> 'w \<Rightarrow> int \<times> 'w"
  my_read :: "int \<Rightarrow> nat ptr \<Rightarrow> size_t \<Rightarrow> int \<Rightarrow> 'w \<Rightarrow> size_t \<times> 'w"
  my_write :: "int \<Rightarrow> nat ptr \<Rightarrow> size_t \<Rightarrow> int \<Rightarrow> 'w \<Rightarrow> size_t \<times> 'w"
  my_pread :: "int \<Rightarrow> nat ptr \<Rightarrow> size_t \<Rightarrow> 64 word \<Rightarrow> int \<Rightarrow> 'w \<Rightarrow> size_t \<times> 'w"
  my_pwrite :: "int \<Rightarrow> nat ptr \<Rightarrow> size_t \<Rightarrow> 64 word \<Rightarrow> int \<Rightarrow> 'w \<Rightarrow> size_t \<times> 'w"
  my_seek :: "int \<Rightarrow> 64 word \<Rightarrow> int \<Rightarrow> int \<Rightarrow> 'w \<Rightarrow> 64 word \<times> 'w"
  my_tell :: "int \<Rightarrow> int \<Rightarrow> 'w \<Rightarrow> 64 word \<times> 'w"
  my_delete :: "nat ptr \<Rightarrow> int \<Rightarrow> 'w \<Rightarrow> int \<times> 'w"
  my_rename :: "nat ptr \<Rightarrow> nat ptr \<Rightarrow> int \<Rightarrow> 'w \<Rightarrow> int \<times> 'w"
  my_create_with_symlink :: "nat ptr \<Rightarrow> nat ptr \<Rightarrow> int \<Rightarrow> int \<Rightarrow> int \<Rightarrow> 'w \<Rightarrow> int \<times> 'w"
  my_delete_with_symlink :: "nat ptr \<Rightarrow> int \<Rightarrow> 'w \<Rightarrow> int \<times> 'w"
  my_rename_with_symlink :: "nat ptr \<Rightarrow> nat ptr \<Rightarrow> int \<Rightarrow> 'w \<Rightarrow> int \<times> 'w"
  my_sync :: "int \<Rightarrow> int \<Rightarrow> 'w \<Rightarrow> int \<times> 'w"

record MYSQL_FILE =
  m_file :: "nat ptr"
  file_psi :: "nat ptr"

definition MY_FNABP :: int where "MY_FNABP = 2"
definition MY_NABP :: int where "MY_NABP = 4"
definition MY_FILE_ERROR :: size_t where "MY_FILE_ERROR = word_of_int (-1)"

text \<open>The bytes a read or a write moved: under \<open>MY_NABP\<close> and \<open>MY_FNABP\<close> the result says only whether all were.\<close>

definition moved :: "int \<Rightarrow> size_t \<Rightarrow> size_t \<Rightarrow> size_t" where
  "moved flags count result =
     (if flags AND (MY_NABP OR MY_FNABP) \<noteq> 0 then (if result = 0 then count else 0)
      else (if result \<noteq> MY_FILE_ERROR then result else 0))"

definition inline_mysql_file_register ::
    "('w, 'p, 'l) psi_files \<Rightarrow> string \<Rightarrow> nat ptr \<Rightarrow> int \<Rightarrow> ('w \<times> 'p, unit) state" where
  "inline_mysql_file_register psi category info count = 
     psi_call (register_file psi category info count)"

text \<open>\<open>s ? strlen(s) : 0\<close>.\<close>

definition length_of :: "'w file_calls \<Rightarrow> nat ptr \<Rightarrow> ('w \<times> 'p, size_t) state" where
  "length_of sys s =
     (case s of None \<Rightarrow> State_Monad.return 0 | Some a \<Rightarrow> os (\<lambda>w. (c_strlen sys a w, w)))"

section \<open>The calls\<close>

definition inline_mysql_file_fgets ::
    "('w, 'p, 'l) psi_files \<Rightarrow> 'w file_calls \<Rightarrow> string \<Rightarrow> 32 word \<Rightarrow> nat ptr \<Rightarrow> int \<Rightarrow> MYSQL_FILE
     \<Rightarrow> ('w \<times> 'p, nat ptr) state" where
  "inline_mysql_file_fgets psi sys src_file src_line str sz file = do {
     locker \<leftarrow> psi_call (get_thread_file_stream_locker psi (file_psi file) PSI_FILE_READ);
     (case locker of
        Some l \<Rightarrow> do {
          psi_call (start_file_wait psi l (word_of_int sz) src_file src_line);
          result \<leftarrow> os (c_fgets sys str sz (m_file file));
          bytes \<leftarrow> length_of sys result;
          psi_call (end_file_wait psi l bytes);
          State_Monad.return result
        }
      | None \<Rightarrow> os (c_fgets sys str sz (m_file file)))
   }"

definition inline_mysql_file_fgetc ::
    "('w, 'p, 'l) psi_files \<Rightarrow> 'w file_calls \<Rightarrow> string \<Rightarrow> 32 word \<Rightarrow> MYSQL_FILE
     \<Rightarrow> ('w \<times> 'p, int) state" where
  "inline_mysql_file_fgetc psi sys src_file src_line file = do {
     locker \<leftarrow> psi_call (get_thread_file_stream_locker psi (file_psi file) PSI_FILE_READ);
     (case locker of
        Some l \<Rightarrow> do {
          psi_call (start_file_wait psi l 1 src_file src_line);
          result \<leftarrow> os (c_fgetc sys (m_file file));
          psi_call (end_file_wait psi l 1);
          State_Monad.return result
        }
      | None \<Rightarrow> os (c_fgetc sys (m_file file)))
   }"

definition inline_mysql_file_fputs ::
    "('w, 'p, 'l) psi_files \<Rightarrow> 'w file_calls \<Rightarrow> string \<Rightarrow> 32 word \<Rightarrow> nat ptr \<Rightarrow> MYSQL_FILE
     \<Rightarrow> ('w \<times> 'p, int) state" where
  "inline_mysql_file_fputs psi sys src_file src_line str file = do {
     locker \<leftarrow> psi_call (get_thread_file_stream_locker psi (file_psi file) PSI_FILE_WRITE);
     (case locker of
        Some l \<Rightarrow> do {
          bytes \<leftarrow> length_of sys str;
          psi_call (start_file_wait psi l bytes src_file src_line);
          result \<leftarrow> os (c_fputs sys str (m_file file));
          psi_call (end_file_wait psi l bytes);
          State_Monad.return result
        }
      | None \<Rightarrow> os (c_fputs sys str (m_file file)))
   }"

definition inline_mysql_file_fputc ::
    "('w, 'p, 'l) psi_files \<Rightarrow> 'w file_calls \<Rightarrow> string \<Rightarrow> 32 word \<Rightarrow> 8 word \<Rightarrow> MYSQL_FILE
     \<Rightarrow> ('w \<times> 'p, int) state" where
  "inline_mysql_file_fputc psi sys src_file src_line c file = do {
     locker \<leftarrow> psi_call (get_thread_file_stream_locker psi (file_psi file) PSI_FILE_WRITE);
     (case locker of
        Some l \<Rightarrow> do {
          psi_call (start_file_wait psi l 1 src_file src_line);
          result \<leftarrow> os (c_fputc sys c (m_file file));
          psi_call (end_file_wait psi l 1);
          State_Monad.return result
        }
      | None \<Rightarrow> os (c_fputc sys c (m_file file)))
   }"

definition inline_mysql_file_fprintf ::
    "('w, 'p, 'l) psi_files \<Rightarrow> 'w file_calls \<Rightarrow> MYSQL_FILE \<Rightarrow> nat ptr \<Rightarrow> nat ptr
     \<Rightarrow> ('w \<times> 'p, int) state" where
  "inline_mysql_file_fprintf psi sys file format args = do {
     locker \<leftarrow> psi_call (get_thread_file_stream_locker psi (file_psi file) PSI_FILE_WRITE);
     (case locker of
        Some l \<Rightarrow> do {
          psi_call (start_file_wait psi l 0 ''mysql_file.h'' 650);
          result \<leftarrow> os (c_vfprintf sys (m_file file) format args);
          psi_call (end_file_wait psi l (word_of_int result));
          State_Monad.return result
        }
      | None \<Rightarrow> os (c_vfprintf sys (m_file file) format args))
   }"

definition inline_mysql_file_vfprintf ::
    "('w, 'p, 'l) psi_files \<Rightarrow> 'w file_calls \<Rightarrow> string \<Rightarrow> 32 word \<Rightarrow> MYSQL_FILE \<Rightarrow> nat ptr \<Rightarrow> nat ptr
     \<Rightarrow> ('w \<times> 'p, int) state" where
  "inline_mysql_file_vfprintf psi sys src_file src_line file format args = do {
     locker \<leftarrow> psi_call (get_thread_file_stream_locker psi (file_psi file) PSI_FILE_WRITE);
     (case locker of
        Some l \<Rightarrow> do {
          psi_call (start_file_wait psi l 0 src_file src_line);
          result \<leftarrow> os (c_vfprintf sys (m_file file) format args);
          psi_call (end_file_wait psi l (word_of_int result));
          State_Monad.return result
        }
      | None \<Rightarrow> os (c_vfprintf sys (m_file file) format args))
   }"

definition inline_mysql_file_fflush ::
    "('w, 'p, 'l) psi_files \<Rightarrow> 'w file_calls \<Rightarrow> string \<Rightarrow> 32 word \<Rightarrow> MYSQL_FILE
     \<Rightarrow> ('w \<times> 'p, int) state" where
  "inline_mysql_file_fflush psi sys src_file src_line file = do {
     locker \<leftarrow> psi_call (get_thread_file_stream_locker psi (file_psi file) PSI_FILE_FLUSH);
     (case locker of
        Some l \<Rightarrow> do {
          psi_call (start_file_wait psi l 0 src_file src_line);
          result \<leftarrow> os (c_fflush sys (m_file file));
          psi_call (end_file_wait psi l 0);
          State_Monad.return result
        }
      | None \<Rightarrow> os (c_fflush sys (m_file file)))
   }"

definition inline_mysql_file_feof ::
    "'w file_calls \<Rightarrow> MYSQL_FILE \<Rightarrow> ('w \<times> 'p, int) state" where
  "inline_mysql_file_feof sys file = os (c_feof sys (m_file file))"

definition inline_mysql_file_fstat ::
    "('w, 'p, 'l) psi_files \<Rightarrow> 'w file_calls \<Rightarrow> string \<Rightarrow> 32 word \<Rightarrow> int \<Rightarrow> nat ptr \<Rightarrow> int
     \<Rightarrow> ('w \<times> 'p, int) state" where
  "inline_mysql_file_fstat psi sys src_file src_line filenr stat_area flags = do {
     locker \<leftarrow> psi_call (get_thread_file_descriptor_locker psi filenr PSI_FILE_FSTAT);
     (case locker of
        Some l \<Rightarrow> do {
          psi_call (start_file_wait psi l 0 src_file src_line);
          result \<leftarrow> os (my_fstat sys filenr stat_area flags);
          psi_call (end_file_wait psi l 0);
          State_Monad.return result
        }
      | None \<Rightarrow> os (my_fstat sys filenr stat_area flags))
   }"

definition inline_mysql_file_stat ::
    "('w, 'p, 'l) psi_files \<Rightarrow> 'w file_calls \<Rightarrow> 32 word \<Rightarrow> string \<Rightarrow> 32 word \<Rightarrow> nat ptr \<Rightarrow> nat ptr \<Rightarrow> int
     \<Rightarrow> ('w \<times> 'p, nat ptr) state" where
  "inline_mysql_file_stat psi sys key src_file src_line path stat_area flags = do {
     locker \<leftarrow> psi_call (get_thread_file_name_locker psi key PSI_FILE_STAT path);
     (case locker of
        Some l \<Rightarrow> do {
          psi_call (start_file_open_wait psi l src_file src_line);
          result \<leftarrow> os (my_stat sys path stat_area flags);
          psi_call (end_file_open_wait psi l result);
          State_Monad.return result
        }
      | None \<Rightarrow> os (my_stat sys path stat_area flags))
   }"

definition inline_mysql_file_chsize ::
    "('w, 'p, 'l) psi_files \<Rightarrow> 'w file_calls \<Rightarrow> string \<Rightarrow> 32 word \<Rightarrow> int \<Rightarrow> 64 word \<Rightarrow> int \<Rightarrow> int
     \<Rightarrow> ('w \<times> 'p, int) state" where
  "inline_mysql_file_chsize psi sys src_file src_line file newlength filler flags = do {
     locker \<leftarrow> psi_call (get_thread_file_descriptor_locker psi file PSI_FILE_CHSIZE);
     (case locker of
        Some l \<Rightarrow> do {
          psi_call (start_file_wait psi l newlength src_file src_line);
          result \<leftarrow> os (my_chsize sys file newlength filler flags);
          psi_call (end_file_wait psi l newlength);
          State_Monad.return result
        }
      | None \<Rightarrow> os (my_chsize sys file newlength filler flags))
   }"

text \<open>
  The address of the new structure comes from \<open>my_malloc\<close>, which is asked for \<open>sizeof(MYSQL_FILE)\<close>,
  two pointers. The result is that address with its fields, or \<open>NULL\<close>.
\<close>

definition inline_mysql_file_fopen ::
    "('w, 'p, 'l) psi_files \<Rightarrow> 'w file_calls \<Rightarrow> 32 word \<Rightarrow> string \<Rightarrow> 32 word \<Rightarrow> nat ptr \<Rightarrow> int \<Rightarrow> int
     \<Rightarrow> ('w \<times> 'p, (nat \<times> MYSQL_FILE) ptr) state" where
  "inline_mysql_file_fopen psi sys key src_file src_line filename flags myFlags = do {
     that \<leftarrow> os (my_malloc sys 16);
     (case that of
        None \<Rightarrow> State_Monad.return None
      | Some a \<Rightarrow> do {
          locker \<leftarrow> psi_call (get_thread_file_name_locker psi key PSI_FILE_STREAM_OPEN filename);
          (case locker of
             Some l \<Rightarrow> do {
               psi_call (start_file_open_wait psi l src_file src_line);
               f \<leftarrow> os (my_fopen sys filename flags myFlags);
               s \<leftarrow> psi_call (end_file_open_wait psi l f);
               if f = None
               then do { os (my_free sys a); State_Monad.return None }
               else State_Monad.return (Some (a, \<lparr>m_file = f, file_psi = s\<rparr>))
             }
           | None \<Rightarrow> do {
               f \<leftarrow> os (my_fopen sys filename flags myFlags);
               if f = None
               then do { os (my_free sys a); State_Monad.return None }
               else State_Monad.return (Some (a, \<lparr>m_file = f, file_psi = None\<rparr>))
             })
        })
   }"

definition inline_mysql_file_fclose ::
    "('w, 'p, 'l) psi_files \<Rightarrow> 'w file_calls \<Rightarrow> string \<Rightarrow> 32 word \<Rightarrow> (nat \<times> MYSQL_FILE) ptr \<Rightarrow> int
     \<Rightarrow> ('w \<times> 'p, int) state" where
  "inline_mysql_file_fclose psi sys src_file src_line file flags =
     (case file of
        None \<Rightarrow> State_Monad.return 0
      | Some (a, file) \<Rightarrow> do {
          locker \<leftarrow> psi_call (get_thread_file_stream_locker psi (file_psi file) PSI_FILE_STREAM_CLOSE);
          (case locker of
             Some l \<Rightarrow> do {
               psi_call (start_file_close_wait psi l src_file src_line);
               result \<leftarrow> os (my_fclose sys (m_file file) flags);
               psi_call (end_file_close_wait psi l result);
               os (my_free sys a);
               State_Monad.return result
             }
           | None \<Rightarrow> do {
               result \<leftarrow> os (my_fclose sys (m_file file) flags);
               os (my_free sys a);
               State_Monad.return result
             })
        })"

definition inline_mysql_file_fread ::
    "('w, 'p, 'l) psi_files \<Rightarrow> 'w file_calls \<Rightarrow> string \<Rightarrow> 32 word \<Rightarrow> MYSQL_FILE \<Rightarrow> nat ptr \<Rightarrow> size_t \<Rightarrow> int
     \<Rightarrow> ('w \<times> 'p, size_t) state" where
  "inline_mysql_file_fread psi sys src_file src_line file buffer count flags = do {
     locker \<leftarrow> psi_call (get_thread_file_stream_locker psi (file_psi file) PSI_FILE_READ);
     (case locker of
        Some l \<Rightarrow> do {
          psi_call (start_file_wait psi l count src_file src_line);
          result \<leftarrow> os (my_fread sys (m_file file) buffer count flags);
          psi_call (end_file_wait psi l (moved flags count result));
          State_Monad.return result
        }
      | None \<Rightarrow> os (my_fread sys (m_file file) buffer count flags))
   }"

definition inline_mysql_file_fwrite ::
    "('w, 'p, 'l) psi_files \<Rightarrow> 'w file_calls \<Rightarrow> string \<Rightarrow> 32 word \<Rightarrow> MYSQL_FILE \<Rightarrow> nat ptr \<Rightarrow> size_t \<Rightarrow> int
     \<Rightarrow> ('w \<times> 'p, size_t) state" where
  "inline_mysql_file_fwrite psi sys src_file src_line file buffer count flags = do {
     locker \<leftarrow> psi_call (get_thread_file_stream_locker psi (file_psi file) PSI_FILE_WRITE);
     (case locker of
        Some l \<Rightarrow> do {
          psi_call (start_file_wait psi l count src_file src_line);
          result \<leftarrow> os (my_fwrite sys (m_file file) buffer count flags);
          psi_call (end_file_wait psi l (moved flags count result));
          State_Monad.return result
        }
      | None \<Rightarrow> os (my_fwrite sys (m_file file) buffer count flags))
   }"

definition inline_mysql_file_fseek ::
    "('w, 'p, 'l) psi_files \<Rightarrow> 'w file_calls \<Rightarrow> string \<Rightarrow> 32 word \<Rightarrow> MYSQL_FILE \<Rightarrow> 64 word \<Rightarrow> int \<Rightarrow> int
     \<Rightarrow> ('w \<times> 'p, 64 word) state" where
  "inline_mysql_file_fseek psi sys src_file src_line file pos whence flags = do {
     locker \<leftarrow> psi_call (get_thread_file_stream_locker psi (file_psi file) PSI_FILE_SEEK);
     (case locker of
        Some l \<Rightarrow> do {
          psi_call (start_file_wait psi l 0 src_file src_line);
          result \<leftarrow> os (my_fseek sys (m_file file) pos whence flags);
          psi_call (end_file_wait psi l 0);
          State_Monad.return result
        }
      | None \<Rightarrow> os (my_fseek sys (m_file file) pos whence flags))
   }"

definition inline_mysql_file_ftell ::
    "('w, 'p, 'l) psi_files \<Rightarrow> 'w file_calls \<Rightarrow> string \<Rightarrow> 32 word \<Rightarrow> MYSQL_FILE \<Rightarrow> int
     \<Rightarrow> ('w \<times> 'p, 64 word) state" where
  "inline_mysql_file_ftell psi sys src_file src_line file flags = do {
     locker \<leftarrow> psi_call (get_thread_file_stream_locker psi (file_psi file) PSI_FILE_TELL);
     (case locker of
        Some l \<Rightarrow> do {
          psi_call (start_file_wait psi l 0 src_file src_line);
          result \<leftarrow> os (my_ftell sys (m_file file) flags);
          psi_call (end_file_wait psi l 0);
          State_Monad.return result
        }
      | None \<Rightarrow> os (my_ftell sys (m_file file) flags))
   }"

definition inline_mysql_file_create ::
    "('w, 'p, 'l) psi_files \<Rightarrow> 'w file_calls \<Rightarrow> 32 word \<Rightarrow> string \<Rightarrow> 32 word \<Rightarrow> nat ptr \<Rightarrow> int \<Rightarrow> int \<Rightarrow> int
     \<Rightarrow> ('w \<times> 'p, int) state" where
  "inline_mysql_file_create psi sys key src_file src_line filename create_flags access_flags myFlags = do {
     locker \<leftarrow> psi_call (get_thread_file_name_locker psi key PSI_FILE_CREATE filename);
     (case locker of
        Some l \<Rightarrow> do {
          psi_call (start_file_open_wait psi l src_file src_line);
          result \<leftarrow> os (my_create sys filename create_flags access_flags myFlags);
          psi_call (end_file_open_wait_and_bind_to_descriptor psi l result);
          State_Monad.return result
        }
      | None \<Rightarrow> os (my_create sys filename create_flags access_flags myFlags))
   }"

definition inline_mysql_file_create_temp ::
    "('w, 'p, 'l) psi_files \<Rightarrow> 'w file_calls \<Rightarrow> 32 word \<Rightarrow> string \<Rightarrow> 32 word \<Rightarrow> nat ptr \<Rightarrow> nat ptr \<Rightarrow> nat ptr \<Rightarrow> int \<Rightarrow> int
     \<Rightarrow> ('w \<times> 'p, int) state" where
  "inline_mysql_file_create_temp psi sys key src_file src_line to dir pfx mode myFlags = do {
     locker \<leftarrow> psi_call (get_thread_file_name_locker psi key PSI_FILE_CREATE None);
     (case locker of
        Some l \<Rightarrow> do {
          psi_call (start_file_open_wait psi l src_file src_line);
          result \<leftarrow> os (create_temp_file sys to dir pfx mode myFlags);
          psi_call (end_temp_file_open_wait_and_bind_to_descriptor psi l result to);
          State_Monad.return result
        }
      | None \<Rightarrow> os (create_temp_file sys to dir pfx mode myFlags))
   }"

definition inline_mysql_file_open ::
    "('w, 'p, 'l) psi_files \<Rightarrow> 'w file_calls \<Rightarrow> 32 word \<Rightarrow> string \<Rightarrow> 32 word \<Rightarrow> nat ptr \<Rightarrow> int \<Rightarrow> int
     \<Rightarrow> ('w \<times> 'p, int) state" where
  "inline_mysql_file_open psi sys key src_file src_line filename flags myFlags = do {
     locker \<leftarrow> psi_call (get_thread_file_name_locker psi key PSI_FILE_OPEN filename);
     (case locker of
        Some l \<Rightarrow> do {
          psi_call (start_file_open_wait psi l src_file src_line);
          result \<leftarrow> os (my_open sys filename flags myFlags);
          psi_call (end_file_open_wait_and_bind_to_descriptor psi l result);
          State_Monad.return result
        }
      | None \<Rightarrow> os (my_open sys filename flags myFlags))
   }"

definition inline_mysql_file_close ::
    "('w, 'p, 'l) psi_files \<Rightarrow> 'w file_calls \<Rightarrow> string \<Rightarrow> 32 word \<Rightarrow> int \<Rightarrow> int
     \<Rightarrow> ('w \<times> 'p, int) state" where
  "inline_mysql_file_close psi sys src_file src_line file flags = do {
     locker \<leftarrow> psi_call (get_thread_file_descriptor_locker psi file PSI_FILE_CLOSE);
     (case locker of
        Some l \<Rightarrow> do {
          psi_call (start_file_close_wait psi l src_file src_line);
          result \<leftarrow> os (my_close sys file flags);
          psi_call (end_file_close_wait psi l result);
          State_Monad.return result
        }
      | None \<Rightarrow> os (my_close sys file flags))
   }"

definition inline_mysql_file_read ::
    "('w, 'p, 'l) psi_files \<Rightarrow> 'w file_calls \<Rightarrow> string \<Rightarrow> 32 word \<Rightarrow> int \<Rightarrow> nat ptr \<Rightarrow> size_t \<Rightarrow> int
     \<Rightarrow> ('w \<times> 'p, size_t) state" where
  "inline_mysql_file_read psi sys src_file src_line file buffer count flags = do {
     locker \<leftarrow> psi_call (get_thread_file_descriptor_locker psi file PSI_FILE_READ);
     (case locker of
        Some l \<Rightarrow> do {
          psi_call (start_file_wait psi l count src_file src_line);
          result \<leftarrow> os (my_read sys file buffer count flags);
          psi_call (end_file_wait psi l (moved flags count result));
          State_Monad.return result
        }
      | None \<Rightarrow> os (my_read sys file buffer count flags))
   }"

definition inline_mysql_file_write ::
    "('w, 'p, 'l) psi_files \<Rightarrow> 'w file_calls \<Rightarrow> string \<Rightarrow> 32 word \<Rightarrow> int \<Rightarrow> nat ptr \<Rightarrow> size_t \<Rightarrow> int
     \<Rightarrow> ('w \<times> 'p, size_t) state" where
  "inline_mysql_file_write psi sys src_file src_line file buffer count flags = do {
     locker \<leftarrow> psi_call (get_thread_file_descriptor_locker psi file PSI_FILE_WRITE);
     (case locker of
        Some l \<Rightarrow> do {
          psi_call (start_file_wait psi l count src_file src_line);
          result \<leftarrow> os (my_write sys file buffer count flags);
          psi_call (end_file_wait psi l (moved flags count result));
          State_Monad.return result
        }
      | None \<Rightarrow> os (my_write sys file buffer count flags))
   }"

definition inline_mysql_file_pread ::
    "('w, 'p, 'l) psi_files \<Rightarrow> 'w file_calls \<Rightarrow> string \<Rightarrow> 32 word \<Rightarrow> int \<Rightarrow> nat ptr \<Rightarrow> size_t \<Rightarrow> 64 word \<Rightarrow> int
     \<Rightarrow> ('w \<times> 'p, size_t) state" where
  "inline_mysql_file_pread psi sys src_file src_line file buffer count offset flags = do {
     locker \<leftarrow> psi_call (get_thread_file_descriptor_locker psi file PSI_FILE_READ);
     (case locker of
        Some l \<Rightarrow> do {
          psi_call (start_file_wait psi l count src_file src_line);
          result \<leftarrow> os (my_pread sys file buffer count offset flags);
          psi_call (end_file_wait psi l (moved flags count result));
          State_Monad.return result
        }
      | None \<Rightarrow> os (my_pread sys file buffer count offset flags))
   }"

definition inline_mysql_file_pwrite ::
    "('w, 'p, 'l) psi_files \<Rightarrow> 'w file_calls \<Rightarrow> string \<Rightarrow> 32 word \<Rightarrow> int \<Rightarrow> nat ptr \<Rightarrow> size_t \<Rightarrow> 64 word \<Rightarrow> int
     \<Rightarrow> ('w \<times> 'p, size_t) state" where
  "inline_mysql_file_pwrite psi sys src_file src_line file buffer count offset flags = do {
     locker \<leftarrow> psi_call (get_thread_file_descriptor_locker psi file PSI_FILE_WRITE);
     (case locker of
        Some l \<Rightarrow> do {
          psi_call (start_file_wait psi l count src_file src_line);
          result \<leftarrow> os (my_pwrite sys file buffer count offset flags);
          psi_call (end_file_wait psi l (moved flags count result));
          State_Monad.return result
        }
      | None \<Rightarrow> os (my_pwrite sys file buffer count offset flags))
   }"

definition inline_mysql_file_seek ::
    "('w, 'p, 'l) psi_files \<Rightarrow> 'w file_calls \<Rightarrow> string \<Rightarrow> 32 word \<Rightarrow> int \<Rightarrow> 64 word \<Rightarrow> int \<Rightarrow> int
     \<Rightarrow> ('w \<times> 'p, 64 word) state" where
  "inline_mysql_file_seek psi sys src_file src_line file pos whence flags = do {
     locker \<leftarrow> psi_call (get_thread_file_descriptor_locker psi file PSI_FILE_SEEK);
     (case locker of
        Some l \<Rightarrow> do {
          psi_call (start_file_wait psi l 0 src_file src_line);
          result \<leftarrow> os (my_seek sys file pos whence flags);
          psi_call (end_file_wait psi l 0);
          State_Monad.return result
        }
      | None \<Rightarrow> os (my_seek sys file pos whence flags))
   }"

definition inline_mysql_file_tell ::
    "('w, 'p, 'l) psi_files \<Rightarrow> 'w file_calls \<Rightarrow> string \<Rightarrow> 32 word \<Rightarrow> int \<Rightarrow> int
     \<Rightarrow> ('w \<times> 'p, 64 word) state" where
  "inline_mysql_file_tell psi sys src_file src_line file flags = do {
     locker \<leftarrow> psi_call (get_thread_file_descriptor_locker psi file PSI_FILE_TELL);
     (case locker of
        Some l \<Rightarrow> do {
          psi_call (start_file_wait psi l 0 src_file src_line);
          result \<leftarrow> os (my_tell sys file flags);
          psi_call (end_file_wait psi l 0);
          State_Monad.return result
        }
      | None \<Rightarrow> os (my_tell sys file flags))
   }"

definition inline_mysql_file_delete ::
    "('w, 'p, 'l) psi_files \<Rightarrow> 'w file_calls \<Rightarrow> 32 word \<Rightarrow> string \<Rightarrow> 32 word \<Rightarrow> nat ptr \<Rightarrow> int
     \<Rightarrow> ('w \<times> 'p, int) state" where
  "inline_mysql_file_delete psi sys key src_file src_line name flags = do {
     locker \<leftarrow> psi_call (get_thread_file_name_locker psi key PSI_FILE_DELETE name);
     (case locker of
        Some l \<Rightarrow> do {
          psi_call (start_file_close_wait psi l src_file src_line);
          result \<leftarrow> os (my_delete sys name flags);
          psi_call (end_file_close_wait psi l result);
          State_Monad.return result
        }
      | None \<Rightarrow> os (my_delete sys name flags))
   }"

definition inline_mysql_file_rename ::
    "('w, 'p, 'l) psi_files \<Rightarrow> 'w file_calls \<Rightarrow> 32 word \<Rightarrow> string \<Rightarrow> 32 word \<Rightarrow> nat ptr \<Rightarrow> nat ptr \<Rightarrow> int
     \<Rightarrow> ('w \<times> 'p, int) state" where
  "inline_mysql_file_rename psi sys key src_file src_line old new flags = do {
     locker \<leftarrow> psi_call (get_thread_file_name_locker psi key PSI_FILE_RENAME new);
     (case locker of
        Some l \<Rightarrow> do {
          psi_call (start_file_wait psi l 0 src_file src_line);
          result \<leftarrow> os (my_rename sys old new flags);
          psi_call (end_file_wait psi l 0);
          State_Monad.return result
        }
      | None \<Rightarrow> os (my_rename sys old new flags))
   }"

definition inline_mysql_file_create_with_symlink ::
    "('w, 'p, 'l) psi_files \<Rightarrow> 'w file_calls \<Rightarrow> 32 word \<Rightarrow> string \<Rightarrow> 32 word \<Rightarrow> nat ptr \<Rightarrow> nat ptr \<Rightarrow> int \<Rightarrow> int \<Rightarrow> int
     \<Rightarrow> ('w \<times> 'p, int) state" where
  "inline_mysql_file_create_with_symlink psi sys key src_file src_line linkname filename create_flags access_flags flags = do {
     locker \<leftarrow> psi_call (get_thread_file_name_locker psi key PSI_FILE_CREATE filename);
     (case locker of
        Some l \<Rightarrow> do {
          psi_call (start_file_open_wait psi l src_file src_line);
          result \<leftarrow> os (my_create_with_symlink sys linkname filename create_flags access_flags flags);
          psi_call (end_file_open_wait_and_bind_to_descriptor psi l result);
          State_Monad.return result
        }
      | None \<Rightarrow> os (my_create_with_symlink sys linkname filename create_flags access_flags flags))
   }"

definition inline_mysql_file_delete_with_symlink ::
    "('w, 'p, 'l) psi_files \<Rightarrow> 'w file_calls \<Rightarrow> 32 word \<Rightarrow> string \<Rightarrow> 32 word \<Rightarrow> nat ptr \<Rightarrow> int
     \<Rightarrow> ('w \<times> 'p, int) state" where
  "inline_mysql_file_delete_with_symlink psi sys key src_file src_line name flags = do {
     locker \<leftarrow> psi_call (get_thread_file_name_locker psi key PSI_FILE_DELETE name);
     (case locker of
        Some l \<Rightarrow> do {
          psi_call (start_file_close_wait psi l src_file src_line);
          result \<leftarrow> os (my_delete_with_symlink sys name flags);
          psi_call (end_file_close_wait psi l result);
          State_Monad.return result
        }
      | None \<Rightarrow> os (my_delete_with_symlink sys name flags))
   }"

definition inline_mysql_file_rename_with_symlink ::
    "('w, 'p, 'l) psi_files \<Rightarrow> 'w file_calls \<Rightarrow> 32 word \<Rightarrow> string \<Rightarrow> 32 word \<Rightarrow> nat ptr \<Rightarrow> nat ptr \<Rightarrow> int
     \<Rightarrow> ('w \<times> 'p, int) state" where
  "inline_mysql_file_rename_with_symlink psi sys key src_file src_line old new flags = do {
     locker \<leftarrow> psi_call (get_thread_file_name_locker psi key PSI_FILE_RENAME new);
     (case locker of
        Some l \<Rightarrow> do {
          psi_call (start_file_wait psi l 0 src_file src_line);
          result \<leftarrow> os (my_rename_with_symlink sys old new flags);
          psi_call (end_file_wait psi l 0);
          State_Monad.return result
        }
      | None \<Rightarrow> os (my_rename_with_symlink sys old new flags))
   }"

definition inline_mysql_file_sync ::
    "('w, 'p, 'l) psi_files \<Rightarrow> 'w file_calls \<Rightarrow> string \<Rightarrow> 32 word \<Rightarrow> int \<Rightarrow> int
     \<Rightarrow> ('w \<times> 'p, int) state" where
  "inline_mysql_file_sync psi sys src_file src_line d flags = do {
     locker \<leftarrow> psi_call (get_thread_file_descriptor_locker psi d PSI_FILE_SYNC);
     (case locker of
        Some l \<Rightarrow> do {
          psi_call (start_file_wait psi l 0 src_file src_line);
          result \<leftarrow> os (my_sync sys d flags);
          psi_call (end_file_wait psi l 0);
          State_Monad.return result
        }
      | None \<Rightarrow> os (my_sync sys d flags))
   }"

section \<open>Instrumented files behave like files\<close>

text \<open>The calls a program makes, with the key of the instrument where a call has one, and their results.\<close>

datatype file_result = R_int int | R_size size_t | R_ptr "nat ptr"

datatype file_op =
  F_fgets "nat ptr" int MYSQL_FILE |
  F_fgetc MYSQL_FILE |
  F_fputs "nat ptr" MYSQL_FILE |
  F_fputc "8 word" MYSQL_FILE |
  F_fprintf MYSQL_FILE "nat ptr" "nat ptr" |
  F_vfprintf MYSQL_FILE "nat ptr" "nat ptr" |
  F_fflush MYSQL_FILE |
  F_feof MYSQL_FILE |
  F_fstat int "nat ptr" int |
  F_stat "32 word" "nat ptr" "nat ptr" int |
  F_chsize int "64 word" int int |
  F_fread MYSQL_FILE "nat ptr" size_t int |
  F_fwrite MYSQL_FILE "nat ptr" size_t int |
  F_fseek MYSQL_FILE "64 word" int int |
  F_ftell MYSQL_FILE int |
  F_create "32 word" "nat ptr" int int int |
  F_create_temp "32 word" "nat ptr" "nat ptr" "nat ptr" int int |
  F_open "32 word" "nat ptr" int int |
  F_close int int |
  F_read int "nat ptr" size_t int |
  F_write int "nat ptr" size_t int |
  F_pread int "nat ptr" size_t "64 word" int |
  F_pwrite int "nat ptr" size_t "64 word" int |
  F_seek int "64 word" int int |
  F_tell int int |
  F_delete "32 word" "nat ptr" int |
  F_rename "32 word" "nat ptr" "nat ptr" int |
  F_create_with_symlink "32 word" "nat ptr" "nat ptr" int int int |
  F_delete_with_symlink "32 word" "nat ptr" int |
  F_rename_with_symlink "32 word" "nat ptr" "nat ptr" int |
  F_sync int int

fun perform_file ::
    "('w, 'p, 'l) psi_files \<Rightarrow> 'w file_calls \<Rightarrow> string \<Rightarrow> 32 word \<Rightarrow> file_op \<Rightarrow> ('w \<times> 'p, file_result) state" where
  "perform_file psi sys f l (F_fgets a b c) = map_state R_ptr (inline_mysql_file_fgets psi sys f l a b c)"
| "perform_file psi sys f l (F_fgetc a) = map_state R_int (inline_mysql_file_fgetc psi sys f l a)"
| "perform_file psi sys f l (F_fputs a b) = map_state R_int (inline_mysql_file_fputs psi sys f l a b)"
| "perform_file psi sys f l (F_fputc a b) = map_state R_int (inline_mysql_file_fputc psi sys f l a b)"
| "perform_file psi sys f l (F_fprintf a b c) = map_state R_int (inline_mysql_file_fprintf psi sys a b c)"
| "perform_file psi sys f l (F_vfprintf a b c) = map_state R_int (inline_mysql_file_vfprintf psi sys f l a b c)"
| "perform_file psi sys f l (F_fflush a) = map_state R_int (inline_mysql_file_fflush psi sys f l a)"
| "perform_file psi sys f l (F_feof a) = map_state R_int (inline_mysql_file_feof sys a)"
| "perform_file psi sys f l (F_fstat a b c) = map_state R_int (inline_mysql_file_fstat psi sys f l a b c)"
| "perform_file psi sys f l (F_stat key a b c) = map_state R_ptr (inline_mysql_file_stat psi sys key f l a b c)"
| "perform_file psi sys f l (F_chsize a b c e) = map_state R_int (inline_mysql_file_chsize psi sys f l a b c e)"
| "perform_file psi sys f l (F_fread a b c e) = map_state R_size (inline_mysql_file_fread psi sys f l a b c e)"
| "perform_file psi sys f l (F_fwrite a b c e) = map_state R_size (inline_mysql_file_fwrite psi sys f l a b c e)"
| "perform_file psi sys f l (F_fseek a b c e) = map_state R_size (inline_mysql_file_fseek psi sys f l a b c e)"
| "perform_file psi sys f l (F_ftell a b) = map_state R_size (inline_mysql_file_ftell psi sys f l a b)"
| "perform_file psi sys f l (F_create key a b c e) = map_state R_int (inline_mysql_file_create psi sys key f l a b c e)"
| "perform_file psi sys f l (F_create_temp key a b c e g) = map_state R_int (inline_mysql_file_create_temp psi sys key f l a b c e g)"
| "perform_file psi sys f l (F_open key a b c) = map_state R_int (inline_mysql_file_open psi sys key f l a b c)"
| "perform_file psi sys f l (F_close a b) = map_state R_int (inline_mysql_file_close psi sys f l a b)"
| "perform_file psi sys f l (F_read a b c e) = map_state R_size (inline_mysql_file_read psi sys f l a b c e)"
| "perform_file psi sys f l (F_write a b c e) = map_state R_size (inline_mysql_file_write psi sys f l a b c e)"
| "perform_file psi sys f l (F_pread a b c e g) = map_state R_size (inline_mysql_file_pread psi sys f l a b c e g)"
| "perform_file psi sys f l (F_pwrite a b c e g) = map_state R_size (inline_mysql_file_pwrite psi sys f l a b c e g)"
| "perform_file psi sys f l (F_seek a b c e) = map_state R_size (inline_mysql_file_seek psi sys f l a b c e)"
| "perform_file psi sys f l (F_tell a b) = map_state R_size (inline_mysql_file_tell psi sys f l a b)"
| "perform_file psi sys f l (F_delete key a b) = map_state R_int (inline_mysql_file_delete psi sys key f l a b)"
| "perform_file psi sys f l (F_rename key a b c) = map_state R_int (inline_mysql_file_rename psi sys key f l a b c)"
| "perform_file psi sys f l (F_create_with_symlink key a b c e g) = map_state R_int (inline_mysql_file_create_with_symlink psi sys key f l a b c e g)"
| "perform_file psi sys f l (F_delete_with_symlink key a b) = map_state R_int (inline_mysql_file_delete_with_symlink psi sys key f l a b)"
| "perform_file psi sys f l (F_rename_with_symlink key a b c) = map_state R_int (inline_mysql_file_rename_with_symlink psi sys key f l a b c)"
| "perform_file psi sys f l (F_sync a b) = map_state R_int (inline_mysql_file_sync psi sys f l a b)"

fun plain_file :: "'w file_calls \<Rightarrow> file_op \<Rightarrow> 'w \<Rightarrow> file_result \<times> 'w" where
  "plain_file sys (F_fgets a b c) = apfst R_ptr \<circ> c_fgets sys a b (m_file c)"
| "plain_file sys (F_fgetc a) = apfst R_int \<circ> c_fgetc sys (m_file a)"
| "plain_file sys (F_fputs a b) = apfst R_int \<circ> c_fputs sys a (m_file b)"
| "plain_file sys (F_fputc a b) = apfst R_int \<circ> c_fputc sys a (m_file b)"
| "plain_file sys (F_fprintf a b c) = apfst R_int \<circ> c_vfprintf sys (m_file a) b c"
| "plain_file sys (F_vfprintf a b c) = apfst R_int \<circ> c_vfprintf sys (m_file a) b c"
| "plain_file sys (F_fflush a) = apfst R_int \<circ> c_fflush sys (m_file a)"
| "plain_file sys (F_feof a) = apfst R_int \<circ> c_feof sys (m_file a)"
| "plain_file sys (F_fstat a b c) = apfst R_int \<circ> my_fstat sys a b c"
| "plain_file sys (F_stat key a b c) = apfst R_ptr \<circ> my_stat sys a b c"
| "plain_file sys (F_chsize a b c e) = apfst R_int \<circ> my_chsize sys a b c e"
| "plain_file sys (F_fread a b c e) = apfst R_size \<circ> my_fread sys (m_file a) b c e"
| "plain_file sys (F_fwrite a b c e) = apfst R_size \<circ> my_fwrite sys (m_file a) b c e"
| "plain_file sys (F_fseek a b c e) = apfst R_size \<circ> my_fseek sys (m_file a) b c e"
| "plain_file sys (F_ftell a b) = apfst R_size \<circ> my_ftell sys (m_file a) b"
| "plain_file sys (F_create key a b c e) = apfst R_int \<circ> my_create sys a b c e"
| "plain_file sys (F_create_temp key a b c e g) = apfst R_int \<circ> create_temp_file sys a b c e g"
| "plain_file sys (F_open key a b c) = apfst R_int \<circ> my_open sys a b c"
| "plain_file sys (F_close a b) = apfst R_int \<circ> my_close sys a b"
| "plain_file sys (F_read a b c e) = apfst R_size \<circ> my_read sys a b c e"
| "plain_file sys (F_write a b c e) = apfst R_size \<circ> my_write sys a b c e"
| "plain_file sys (F_pread a b c e g) = apfst R_size \<circ> my_pread sys a b c e g"
| "plain_file sys (F_pwrite a b c e g) = apfst R_size \<circ> my_pwrite sys a b c e g"
| "plain_file sys (F_seek a b c e) = apfst R_size \<circ> my_seek sys a b c e"
| "plain_file sys (F_tell a b) = apfst R_size \<circ> my_tell sys a b"
| "plain_file sys (F_delete key a b) = apfst R_int \<circ> my_delete sys a b"
| "plain_file sys (F_rename key a b c) = apfst R_int \<circ> my_rename sys a b c"
| "plain_file sys (F_create_with_symlink key a b c e g) = apfst R_int \<circ> my_create_with_symlink sys a b c e g"
| "plain_file sys (F_delete_with_symlink key a b) = apfst R_int \<circ> my_delete_with_symlink sys a b"
| "plain_file sys (F_rename_with_symlink key a b c) = apfst R_int \<circ> my_rename_with_symlink sys a b c"
| "plain_file sys (F_sync a b) = apfst R_int \<circ> my_sync sys a b"

lemmas file_op_defs =
  inline_mysql_file_fgets_def inline_mysql_file_fgetc_def inline_mysql_file_fputs_def
  inline_mysql_file_fputc_def inline_mysql_file_fprintf_def inline_mysql_file_vfprintf_def
  inline_mysql_file_fflush_def inline_mysql_file_feof_def inline_mysql_file_fstat_def
  inline_mysql_file_stat_def inline_mysql_file_chsize_def inline_mysql_file_fread_def
  inline_mysql_file_fwrite_def inline_mysql_file_fseek_def inline_mysql_file_ftell_def
  inline_mysql_file_create_def inline_mysql_file_create_temp_def inline_mysql_file_open_def
  inline_mysql_file_close_def inline_mysql_file_read_def inline_mysql_file_write_def
  inline_mysql_file_pread_def inline_mysql_file_pwrite_def inline_mysql_file_seek_def
  inline_mysql_file_tell_def inline_mysql_file_delete_def inline_mysql_file_rename_def
  inline_mysql_file_create_with_symlink_def inline_mysql_file_delete_with_symlink_def inline_mysql_file_rename_with_symlink_def
  inline_mysql_file_sync_def

lemma same_as_map: "same_as m g \<Longrightarrow> same_as (map_state f m) (apfst f \<circ> g)"
  by (simp add: same_as_def run_map_state case_prod_unfold)

lemma silent_length_of [psi_intro]: "silent (length_of sys s)"
  by (simp add: silent_def length_of_def os_def split: option.split)

lemma perform_file_same_as: "same_as (perform_file psi sys f l x) (plain_file sys x)"
  by (cases x) (auto simp: file_op_defs same_as_os split: option.split
      intro!: same_as_map same_as_before same_as_after psi_intro)

interpretation files: instrumented "perform_file psi sys f l" "plain_file sys" for psi sys f l
  by unfold_locales (rule perform_file_same_as)

section \<open>What the performance schema is told of files\<close>

datatype file_end = Moved size_t | Opened "nat ptr" | Bound int | Closed int

definition observe_files ::
    "((PSI_file_operation \<times> size_t option, file_end, 'w) events \<Rightarrow> nat ptr) \<Rightarrow>
     ('w, (PSI_file_operation \<times> size_t option, file_end, 'w) events, nat \<times> PSI_file_operation) psi_files" where
  "observe_files grant = \<lparr>
     register_file = (\<lambda>cat info count. observe_note ''register_file'' ()),
     get_thread_file_name_locker = (\<lambda>key op name w es. (map_option (\<lambda>k. (k, op)) (grant es), es)),
     get_thread_file_stream_locker = (\<lambda>s op w es. (map_option (\<lambda>k. (k, op)) (grant es), es)),
     get_thread_file_descriptor_locker = (\<lambda>d op w es. (map_option (\<lambda>k. (k, op)) (grant es), es)),
     start_file_open_wait = (\<lambda>l f line w es. ((), es @ [Started (fst l) (snd l, None) w])),
     end_file_open_wait = (\<lambda>l r w es. (r, es @ [Ended (fst l) (Opened r) w])),
     end_file_open_wait_and_bind_to_descriptor = (\<lambda>l d. observe_end (fst l) (Bound d)),
     end_temp_file_open_wait_and_bind_to_descriptor = (\<lambda>l d name. observe_end (fst l) (Bound d)),
     start_file_wait = (\<lambda>l n f line w es. ((), es @ [Started (fst l) (snd l, Some n) w])),
     end_file_wait = (\<lambda>l n. observe_end (fst l) (Moved n)),
     start_file_close_wait = (\<lambda>l f line w es. ((), es @ [Started (fst l) (snd l, None) w])),
     end_file_close_wait = (\<lambda>l rc. observe_end (fst l) (Closed rc))\<rparr>"

lemmas file_run = file_op_defs run_bind run_map_state psi_call_def os_def observe_files_def observe_end_def
  length_of_def

lemma perform_file_keeps_paired: "keeps_paired (perform_file (observe_files grant) sys f l x)"
  unfolding keeps_paired_def
  by (cases x) (auto simp: file_run split: option.split prod.split)

section \<open>Properties\<close>

text \<open>C34: a program of instrumented calls on files has the results and the effect on the system of the same
  calls of the library, whatever the performance schema answers.\<close>

theorem file_program_same:
  "fst (run_state (run_calls (perform_file psi sys f l) xs) (w, p)) = fst (plain_calls (plain_file sys) xs w) \<and>
   fst (snd (run_state (run_calls (perform_file psi sys f l) xs) (w, p))) = snd (plain_calls (plain_file sys) xs w)"
  using files.program [of psi sys f l xs] by (simp add: same_as_def)

text \<open>The performance schema sees every wait for a file ended, by the locker it was started with, before
  the next one is started.\<close>

lemma file_waits_paired:
  "paired (snd (snd (run_state (run_calls (perform_file (observe_files grant) sys f l) xs) (w, []))))"
proof -
  have "keeps_paired (run_calls (perform_file (observe_files grant) sys f l) xs)"
    by (rule keeps_paired_run_calls) (rule perform_file_keeps_paired)
  then obtain fs where
    "snd (snd (run_state (run_calls (perform_file (observe_files grant) sys f l) xs) (w, []))) = [] @ fs" "paired fs"
    unfolding keeps_paired_def by blast
  then show ?thesis by simp
qed

text \<open>A read announces the bytes it was asked for and reports those it got: the result, none after an
  error; with \<open>MY_NABP\<close> or \<open>MY_FNABP\<close>, all of them on success and none otherwise.\<close>

lemma file_read_told:
  "run_state (inline_mysql_file_read (observe_files (\<lambda>_. Some k)) sys f l d buf n flags) (w, es) =
     (let (r, w') = my_read sys d buf n flags w
      in (r, (w', es @ [Started k (PSI_FILE_READ, Some n) w,
        Ended k (Moved (if flags AND 6 \<noteq> 0 then (if r = 0 then n else 0)
                        else if r = 0xFFFFFFFFFFFFFFFF then 0 else r)) w'])))"
  by (simp add: file_run moved_def MY_NABP_def MY_FNABP_def MY_FILE_ERROR_def case_prod_unfold Let_def)

text \<open>Opening a stream allocates its structure, and returns it with the open stream; when there is no
  memory, or the file cannot be opened, the result is \<open>NULL\<close>, and in the second case the structure was
  freed. The performance schema does not change that.\<close>

lemma fopen_result:
  "map_prod (map_option (\<lambda>(a, s). (a, m_file s))) fst
       (run_state (inline_mysql_file_fopen psi sys key f l name flags my_flags) (w, p)) =
     (case my_malloc sys 16 w of
        (None, w1) \<Rightarrow> (None, w1)
      | (Some a, w1) \<Rightarrow> (case my_fopen sys name flags my_flags w1 of
            (None, w2) \<Rightarrow> (None, snd (my_free sys a w2))
          | (Some s, w2) \<Rightarrow> (Some (a, Some s), w2)))"
  by (auto simp: inline_mysql_file_fopen_def run_bind psi_call_def os_def case_prod_unfold Let_def
      split: option.split)

text \<open>Closing a stream closes it and then frees its structure, whether it is instrumented or not; a
  \<open>NULL\<close> pointer is no error and does nothing.\<close>

lemma fclose_result:
  "map_prod id fst (run_state (inline_mysql_file_fclose psi sys f l file flags) (w, p)) =
     (case file of None \<Rightarrow> (0, w)
      | Some (a, s) \<Rightarrow> (case my_fclose sys (m_file s) flags w of (r, w1) \<Rightarrow> (r, snd (my_free sys a w1))))"
  by (auto simp: inline_mysql_file_fclose_def run_bind psi_call_def os_def case_prod_unfold Let_def
      split: option.split)

text \<open>An error of \<open>fprintf\<close>, a negative result, is reported as a write of nearly \<open>2 ^ 64\<close> bytes, and the
  end of a file, which \<open>fgetc\<close> returns as \<open>EOF\<close>, as one byte read.\<close>

lemma failed_transfers_told:
  "run_state (inline_mysql_file_fprintf (observe_files (\<lambda>_. Some k)) sys
       \<lparr>m_file = h, file_psi = s\<rparr> format args) (w, es) =
     (let (r, w') = c_vfprintf sys h format args w
      in (r, (w', es @ [Started k (PSI_FILE_WRITE, Some 0) w, Ended k (Moved (word_of_int r)) w']))) \<and>
   unat (word_of_int (-1) :: size_t) = 2 ^ 64 - 1 \<and>
   run_state (inline_mysql_file_fgetc (observe_files (\<lambda>_. Some k)) sys f l \<lparr>m_file = h, file_psi = s\<rparr>) (w, es) =
     (let (r, w') = c_fgetc sys h w
      in (r, (w', es @ [Started k (PSI_FILE_READ, Some 1) w, Ended k (Moved 1) w'])))"
  by (simp add: file_run case_prod_unfold Let_def unsigned_minus_1_eq_mask mask_eq_exp_minus_1)

end
