(* ===== verification/Psi_Server.thy ===== *)
theory Psi_Server
  imports Psi
begin

text \<open>
  The instrumentation of the statements of the database server: \<open>mysql_idle.h\<close>, \<open>mysql_mdl.h\<close>,
  \<open>mysql_table.h\<close>, \<open>mysql_stage.h\<close>, \<open>mysql_statement.h\<close>, \<open>mysql_transaction.h\<close>, \<open>mysql_ps.h\<close>,
  \<open>mysql_sp.h\<close> and \<open>mysql_memory.h\<close> of \<open>mysql/psi\<close>, in a build with these interfaces. Their functions call
  the performance schema only. A text comes with its length, a pointer to data that is only passed on is a
  number.
\<close>

section \<open>The functions of the performance schema\<close>

datatype PSI_table_lock_operation = PSI_TABLE_LOCK | PSI_TABLE_EXTERNAL_LOCK

type_synonym uint = "32 word"
type_synonym ulonglong = "64 word"

record ('w, 'p) psi_server =
  register_stage :: "string \<Rightarrow> nat ptr \<Rightarrow> int \<Rightarrow> 'w \<Rightarrow> 'p \<Rightarrow> unit \<times> 'p"
  register_statement :: "string \<Rightarrow> nat ptr \<Rightarrow> int \<Rightarrow> 'w \<Rightarrow> 'p \<Rightarrow> unit \<times> 'p"
  register_memory :: "string \<Rightarrow> nat ptr \<Rightarrow> int \<Rightarrow> 'w \<Rightarrow> 'p \<Rightarrow> unit \<times> 'p"
  start_idle_wait :: "nat ptr \<Rightarrow> string \<Rightarrow> int \<Rightarrow> 'w \<Rightarrow> 'p \<Rightarrow> nat ptr \<times> 'p"
  end_idle_wait :: "nat \<Rightarrow> 'w \<Rightarrow> 'p \<Rightarrow> unit \<times> 'p"
  start_table_lock_wait ::
    "nat ptr \<Rightarrow> nat \<Rightarrow> PSI_table_lock_operation \<Rightarrow> ulonglong \<Rightarrow> string \<Rightarrow> int \<Rightarrow> 'w \<Rightarrow> 'p \<Rightarrow> nat ptr \<times> 'p"
  end_table_lock_wait :: "nat \<Rightarrow> 'w \<Rightarrow> 'p \<Rightarrow> unit \<times> 'p"
  unlock_table :: "nat \<Rightarrow> 'w \<Rightarrow> 'p \<Rightarrow> unit \<times> 'p"
  start_stage :: "uint \<Rightarrow> string \<Rightarrow> int \<Rightarrow> 'w \<Rightarrow> 'p \<Rightarrow> nat ptr \<times> 'p"
  end_stage :: "'w \<Rightarrow> 'p \<Rightarrow> unit \<times> 'p"
  get_thread_statement_locker :: "nat ptr \<Rightarrow> uint \<Rightarrow> nat ptr \<Rightarrow> nat ptr \<Rightarrow> 'w \<Rightarrow> 'p \<Rightarrow> nat ptr \<times> 'p"
  refine_statement :: "nat \<Rightarrow> uint \<Rightarrow> 'w \<Rightarrow> 'p \<Rightarrow> nat ptr \<times> 'p"
  start_statement :: "nat \<Rightarrow> string \<Rightarrow> uint \<Rightarrow> string \<Rightarrow> int \<Rightarrow> 'w \<Rightarrow> 'p \<Rightarrow> unit \<times> 'p"
  set_statement_text :: "nat \<Rightarrow> string \<Rightarrow> uint \<Rightarrow> 'w \<Rightarrow> 'p \<Rightarrow> unit \<times> 'p"
  set_statement_lock_time :: "nat \<Rightarrow> ulonglong \<Rightarrow> 'w \<Rightarrow> 'p \<Rightarrow> unit \<times> 'p"
  set_statement_rows_sent :: "nat \<Rightarrow> ulonglong \<Rightarrow> 'w \<Rightarrow> 'p \<Rightarrow> unit \<times> 'p"
  set_statement_rows_examined :: "nat \<Rightarrow> ulonglong \<Rightarrow> 'w \<Rightarrow> 'p \<Rightarrow> unit \<times> 'p"
  end_statement :: "nat \<Rightarrow> nat ptr \<Rightarrow> 'w \<Rightarrow> 'p \<Rightarrow> unit \<times> 'p"
  get_thread_transaction_locker ::
    "nat ptr \<Rightarrow> nat ptr \<Rightarrow> nat ptr \<Rightarrow> int \<Rightarrow> bool \<Rightarrow> bool \<Rightarrow> 'w \<Rightarrow> 'p \<Rightarrow> nat ptr \<times> 'p"
  start_transaction :: "nat \<Rightarrow> string \<Rightarrow> int \<Rightarrow> 'w \<Rightarrow> 'p \<Rightarrow> unit \<times> 'p"
  set_transaction_xid :: "nat \<Rightarrow> nat ptr \<Rightarrow> int \<Rightarrow> 'w \<Rightarrow> 'p \<Rightarrow> unit \<times> 'p"
  set_transaction_xa_state :: "nat \<Rightarrow> int \<Rightarrow> 'w \<Rightarrow> 'p \<Rightarrow> unit \<times> 'p"
  set_transaction_gtid :: "nat \<Rightarrow> nat ptr \<Rightarrow> nat ptr \<Rightarrow> 'w \<Rightarrow> 'p \<Rightarrow> unit \<times> 'p"
  set_transaction_trxid :: "nat \<Rightarrow> nat ptr \<Rightarrow> 'w \<Rightarrow> 'p \<Rightarrow> unit \<times> 'p"
  inc_transaction_savepoints :: "nat \<Rightarrow> ulonglong \<Rightarrow> 'w \<Rightarrow> 'p \<Rightarrow> unit \<times> 'p"
  inc_transaction_rollback_to_savepoint :: "nat \<Rightarrow> ulonglong \<Rightarrow> 'w \<Rightarrow> 'p \<Rightarrow> unit \<times> 'p"
  inc_transaction_release_savepoint :: "nat \<Rightarrow> ulonglong \<Rightarrow> 'w \<Rightarrow> 'p \<Rightarrow> unit \<times> 'p"
  end_transaction :: "nat \<Rightarrow> bool \<Rightarrow> 'w \<Rightarrow> 'p \<Rightarrow> unit \<times> 'p"
  create_prepared_stmt ::
    "nat ptr \<Rightarrow> uint \<Rightarrow> nat \<Rightarrow> string \<Rightarrow> size_t \<Rightarrow> string \<Rightarrow> size_t \<Rightarrow> 'w \<Rightarrow> 'p \<Rightarrow> nat ptr \<times> 'p"
  destroy_prepared_stmt :: "nat \<Rightarrow> 'w \<Rightarrow> 'p \<Rightarrow> unit \<times> 'p"
  reprepare_prepared_stmt :: "nat \<Rightarrow> 'w \<Rightarrow> 'p \<Rightarrow> unit \<times> 'p"
  execute_prepared_stmt :: "nat \<Rightarrow> nat \<Rightarrow> 'w \<Rightarrow> 'p \<Rightarrow> unit \<times> 'p"
  digest_start :: "nat \<Rightarrow> 'w \<Rightarrow> 'p \<Rightarrow> nat ptr \<times> 'p"
  digest_end :: "nat \<Rightarrow> nat ptr \<Rightarrow> 'w \<Rightarrow> 'p \<Rightarrow> unit \<times> 'p"
  start_sp :: "nat ptr \<Rightarrow> nat ptr \<Rightarrow> 'w \<Rightarrow> 'p \<Rightarrow> nat ptr \<times> 'p"
  end_sp :: "nat \<Rightarrow> 'w \<Rightarrow> 'p \<Rightarrow> unit \<times> 'p"
  drop_sp :: "uint \<Rightarrow> string \<Rightarrow> uint \<Rightarrow> string \<Rightarrow> uint \<Rightarrow> 'w \<Rightarrow> 'p \<Rightarrow> unit \<times> 'p"
  get_sp_share :: "uint \<Rightarrow> string \<Rightarrow> uint \<Rightarrow> string \<Rightarrow> uint \<Rightarrow> 'w \<Rightarrow> 'p \<Rightarrow> nat ptr \<times> 'p"
  create_metadata_lock ::
    "nat ptr \<Rightarrow> nat ptr \<Rightarrow> int \<Rightarrow> int \<Rightarrow> int \<Rightarrow> string \<Rightarrow> uint \<Rightarrow> 'w \<Rightarrow> 'p \<Rightarrow> nat ptr \<times> 'p"
  set_metadata_lock_status :: "nat \<Rightarrow> int \<Rightarrow> 'w \<Rightarrow> 'p \<Rightarrow> unit \<times> 'p"
  destroy_metadata_lock :: "nat \<Rightarrow> 'w \<Rightarrow> 'p \<Rightarrow> unit \<times> 'p"

section \<open>mysql\_idle.h, mysql\_mdl.h, mysql\_table.h, mysql\_memory.h\<close>

definition inline_mysql_start_idle_wait ::
    "('w, 'p) psi_server \<Rightarrow> nat ptr \<Rightarrow> string \<Rightarrow> int \<Rightarrow> ('w \<times> 'p, nat ptr) state" where
  "inline_mysql_start_idle_wait psi st src_file src_line = do {
     locker \<leftarrow> psi_call (start_idle_wait psi st src_file src_line);
     State_Monad.return locker
   }"

definition inline_mysql_end_idle_wait :: "('w, 'p) psi_server \<Rightarrow> nat ptr \<Rightarrow> ('w \<times> 'p, unit) state" where
  "inline_mysql_end_idle_wait psi locker = if_not_null locker (\<lambda>l. psi_call (end_idle_wait psi l))"

definition inline_mysql_mdl_create ::
    "('w, 'p) psi_server \<Rightarrow> nat ptr \<Rightarrow> nat ptr \<Rightarrow> int \<Rightarrow> int \<Rightarrow> int \<Rightarrow> string \<Rightarrow> uint \<Rightarrow> ('w \<times> 'p, nat ptr) state" where
  "inline_mysql_mdl_create psi identity mdl_key mdl_type mdl_duration mdl_status src_file src_line = do {
     result \<leftarrow> psi_call (create_metadata_lock psi identity mdl_key mdl_type mdl_duration mdl_status src_file src_line);
     State_Monad.return result
   }"

definition inline_mysql_mdl_set_status :: "('w, 'p) psi_server \<Rightarrow> nat ptr \<Rightarrow> int \<Rightarrow> ('w \<times> 'p, unit) state" where
  "inline_mysql_mdl_set_status psi mdl mdl_status =
     if_not_null mdl (\<lambda>m. psi_call (set_metadata_lock_status psi m mdl_status))"

definition inline_mysql_mdl_destroy ::
    "('w, 'p) psi_server \<Rightarrow> nat ptr \<Rightarrow> string \<Rightarrow> uint \<Rightarrow> ('w \<times> 'p, unit) state" where
  "inline_mysql_mdl_destroy psi mdl src_file src_line =
     if_not_null mdl (\<lambda>m. psi_call (destroy_metadata_lock psi m))"

definition inline_mysql_start_table_lock_wait ::
    "('w, 'p) psi_server \<Rightarrow> nat ptr \<Rightarrow> nat ptr \<Rightarrow> PSI_table_lock_operation \<Rightarrow> ulonglong \<Rightarrow> string \<Rightarrow> int
     \<Rightarrow> ('w \<times> 'p, nat ptr) state" where
  "inline_mysql_start_table_lock_wait psi st table op flags src_file src_line =
     (case table of
        Some t \<Rightarrow> do {
          locker \<leftarrow> psi_call (start_table_lock_wait psi st t op flags src_file src_line);
          State_Monad.return locker
        }
      | None \<Rightarrow> State_Monad.return None)"

definition inline_mysql_end_table_lock_wait :: "('w, 'p) psi_server \<Rightarrow> nat ptr \<Rightarrow> ('w \<times> 'p, unit) state" where
  "inline_mysql_end_table_lock_wait psi locker =
     if_not_null locker (\<lambda>l. psi_call (end_table_lock_wait psi l))"

definition inline_mysql_unlock_table :: "('w, 'p) psi_server \<Rightarrow> nat ptr \<Rightarrow> ('w \<times> 'p, unit) state" where
  "inline_mysql_unlock_table psi table = if_not_null table (\<lambda>t. psi_call (unlock_table psi t))"

definition inline_mysql_memory_register ::
    "('w, 'p) psi_server \<Rightarrow> string \<Rightarrow> nat ptr \<Rightarrow> int \<Rightarrow> ('w \<times> 'p, unit) state" where
  "inline_mysql_memory_register psi category info count = psi_call (register_memory psi category info count)"

section \<open>mysql\_stage.h\<close>

definition inline_mysql_stage_register ::
    "('w, 'p) psi_server \<Rightarrow> string \<Rightarrow> nat ptr \<Rightarrow> int \<Rightarrow> ('w \<times> 'p, unit) state" where
  "inline_mysql_stage_register psi category info count = psi_call (register_stage psi category info count)"

definition inline_mysql_set_stage ::
    "('w, 'p) psi_server \<Rightarrow> uint \<Rightarrow> string \<Rightarrow> int \<Rightarrow> ('w \<times> 'p, nat ptr) state" where
  "inline_mysql_set_stage psi key src_file src_line = psi_call (start_stage psi key src_file src_line)"

definition inline_mysql_end_stage :: "('w, 'p) psi_server \<Rightarrow> ('w \<times> 'p, unit) state" where
  "inline_mysql_end_stage psi = psi_call (end_stage psi)"

text \<open>
  The progress of a stage is a structure in the memory of the performance schema, which the functions
  change through its address. Reading through \<open>NULL\<close> has no result.
\<close>

record PSI_stage_progress =
  m_work_completed :: ulonglong
  m_work_estimated :: ulonglong

type_synonym progress_memory = "nat \<Rightarrow> PSI_stage_progress"

definition inline_mysql_stage_set_work_completed :: "nat ptr \<Rightarrow> ulonglong \<Rightarrow> progress_memory \<Rightarrow> progress_memory" where
  "inline_mysql_stage_set_work_completed progress val m =
     (case progress of Some a \<Rightarrow> m(a := (m a)\<lparr>m_work_completed := val\<rparr>) | None \<Rightarrow> m)"

definition inline_mysql_stage_get_work_completed :: "nat ptr \<Rightarrow> progress_memory \<Rightarrow> ulonglong option" where
  "inline_mysql_stage_get_work_completed progress m =
     (case progress of Some a \<Rightarrow> Some (m_work_completed (m a)) | None \<Rightarrow> None)"

definition inline_mysql_stage_inc_work_completed :: "nat ptr \<Rightarrow> ulonglong \<Rightarrow> progress_memory \<Rightarrow> progress_memory" where
  "inline_mysql_stage_inc_work_completed progress val m =
     (case progress of Some a \<Rightarrow> m(a := (m a)\<lparr>m_work_completed := m_work_completed (m a) + val\<rparr>) | None \<Rightarrow> m)"

definition inline_mysql_stage_set_work_estimated :: "nat ptr \<Rightarrow> ulonglong \<Rightarrow> progress_memory \<Rightarrow> progress_memory" where
  "inline_mysql_stage_set_work_estimated progress val m =
     (case progress of Some a \<Rightarrow> m(a := (m a)\<lparr>m_work_estimated := val\<rparr>) | None \<Rightarrow> m)"

definition inline_mysql_stage_get_work_estimated :: "nat ptr \<Rightarrow> progress_memory \<Rightarrow> ulonglong option" where
  "inline_mysql_stage_get_work_estimated progress m =
     (case progress of Some a \<Rightarrow> Some (m_work_estimated (m a)) | None \<Rightarrow> None)"

lemma stage_progress_counts:
  "inline_mysql_stage_get_work_completed (Some a)
     (fold (inline_mysql_stage_inc_work_completed (Some a)) vals (inline_mysql_stage_set_work_completed (Some a) v m)) =
   Some (v + sum_list vals)"
proof -
  have "m_work_completed (fold (inline_mysql_stage_inc_work_completed (Some a)) vals m a) =
      m_work_completed (m a) + sum_list vals" for m
    by (induction vals arbitrary: m) (simp_all add: inline_mysql_stage_inc_work_completed_def add.assoc)
  then show ?thesis
    by (simp add: inline_mysql_stage_get_work_completed_def inline_mysql_stage_set_work_completed_def)
qed

section \<open>mysql\_statement.h\<close>

definition inline_mysql_statement_register ::
    "('w, 'p) psi_server \<Rightarrow> string \<Rightarrow> nat ptr \<Rightarrow> int \<Rightarrow> ('w \<times> 'p, unit) state" where
  "inline_mysql_statement_register psi category info count =
     psi_call (register_statement psi category info count)"

definition inline_mysql_digest_start :: "('w, 'p) psi_server \<Rightarrow> nat ptr \<Rightarrow> ('w \<times> 'p, nat ptr) state" where
  "inline_mysql_digest_start psi locker =
     (case locker of Some l \<Rightarrow> psi_call (digest_start psi l) | None \<Rightarrow> State_Monad.return None)"

definition inline_mysql_digest_end :: "('w, 'p) psi_server \<Rightarrow> nat ptr \<Rightarrow> nat ptr \<Rightarrow> ('w \<times> 'p, unit) state" where
  "inline_mysql_digest_end psi locker digest = if_not_null locker (\<lambda>l. psi_call (digest_end psi l digest))"

definition inline_mysql_start_statement ::
    "('w, 'p) psi_server \<Rightarrow> nat ptr \<Rightarrow> uint \<Rightarrow> string \<Rightarrow> uint \<Rightarrow> nat ptr \<Rightarrow> nat ptr \<Rightarrow> string \<Rightarrow> int
     \<Rightarrow> ('w \<times> 'p, nat ptr) state" where
  "inline_mysql_start_statement psi st key db db_len charset sp_share src_file src_line = do {
     locker \<leftarrow> psi_call (get_thread_statement_locker psi st key charset sp_share);
     if_not_null locker (\<lambda>l. psi_call (start_statement psi l db db_len src_file src_line));
     State_Monad.return locker
   }"

definition inline_mysql_refine_statement ::
    "('w, 'p) psi_server \<Rightarrow> nat ptr \<Rightarrow> uint \<Rightarrow> ('w \<times> 'p, nat ptr) state" where
  "inline_mysql_refine_statement psi locker key =
     (case locker of Some l \<Rightarrow> psi_call (refine_statement psi l key) | None \<Rightarrow> State_Monad.return locker)"

definition inline_mysql_set_statement_text ::
    "('w, 'p) psi_server \<Rightarrow> nat ptr \<Rightarrow> string \<Rightarrow> uint \<Rightarrow> ('w \<times> 'p, unit) state" where
  "inline_mysql_set_statement_text psi locker t text_len =
     if_not_null locker (\<lambda>l. psi_call (set_statement_text psi l t text_len))"

definition inline_mysql_set_statement_lock_time ::
    "('w, 'p) psi_server \<Rightarrow> nat ptr \<Rightarrow> ulonglong \<Rightarrow> ('w \<times> 'p, unit) state" where
  "inline_mysql_set_statement_lock_time psi locker count =
     if_not_null locker (\<lambda>l. psi_call (set_statement_lock_time psi l count))"

definition inline_mysql_set_statement_rows_sent ::
    "('w, 'p) psi_server \<Rightarrow> nat ptr \<Rightarrow> ulonglong \<Rightarrow> ('w \<times> 'p, unit) state" where
  "inline_mysql_set_statement_rows_sent psi locker count =
     if_not_null locker (\<lambda>l. psi_call (set_statement_rows_sent psi l count))"

definition inline_mysql_set_statement_rows_examined ::
    "('w, 'p) psi_server \<Rightarrow> nat ptr \<Rightarrow> ulonglong \<Rightarrow> ('w \<times> 'p, unit) state" where
  "inline_mysql_set_statement_rows_examined psi locker count =
     if_not_null locker (\<lambda>l. psi_call (set_statement_rows_examined psi l count))"

definition inline_mysql_end_statement :: "('w, 'p) psi_server \<Rightarrow> nat ptr \<Rightarrow> nat ptr \<Rightarrow> ('w \<times> 'p, unit) state" where
  "inline_mysql_end_statement psi locker stmt_da = do {
     psi_call (end_stage psi);
     if_not_null locker (\<lambda>l. psi_call (end_statement psi l stmt_da))
   }"

section \<open>mysql\_transaction.h\<close>

definition inline_mysql_start_transaction ::
    "('w, 'p) psi_server \<Rightarrow> nat ptr \<Rightarrow> nat ptr \<Rightarrow> nat ptr \<Rightarrow> int \<Rightarrow> bool \<Rightarrow> bool \<Rightarrow> string \<Rightarrow> int
     \<Rightarrow> ('w \<times> 'p, nat ptr) state" where
  "inline_mysql_start_transaction psi st xid trxid isolation_level read_only autocommit src_file src_line = do {
     locker \<leftarrow> psi_call (get_thread_transaction_locker psi st xid trxid isolation_level read_only autocommit);
     if_not_null locker (\<lambda>l. psi_call (start_transaction psi l src_file src_line));
     State_Monad.return locker
   }"

definition inline_mysql_set_transaction_gtid ::
    "('w, 'p) psi_server \<Rightarrow> nat ptr \<Rightarrow> nat ptr \<Rightarrow> nat ptr \<Rightarrow> ('w \<times> 'p, unit) state" where
  "inline_mysql_set_transaction_gtid psi locker sid gtid_spec =
     if_not_null locker (\<lambda>l. psi_call (set_transaction_gtid psi l sid gtid_spec))"

definition inline_mysql_set_transaction_xid ::
    "('w, 'p) psi_server \<Rightarrow> nat ptr \<Rightarrow> nat ptr \<Rightarrow> int \<Rightarrow> ('w \<times> 'p, unit) state" where
  "inline_mysql_set_transaction_xid psi locker xid xa_state =
     if_not_null locker (\<lambda>l. psi_call (set_transaction_xid psi l xid xa_state))"

definition inline_mysql_set_transaction_xa_state ::
    "('w, 'p) psi_server \<Rightarrow> nat ptr \<Rightarrow> int \<Rightarrow> ('w \<times> 'p, unit) state" where
  "inline_mysql_set_transaction_xa_state psi locker xa_state =
     if_not_null locker (\<lambda>l. psi_call (set_transaction_xa_state psi l xa_state))"

definition inline_mysql_set_transaction_trxid ::
    "('w, 'p) psi_server \<Rightarrow> nat ptr \<Rightarrow> nat ptr \<Rightarrow> ('w \<times> 'p, unit) state" where
  "inline_mysql_set_transaction_trxid psi locker trxid =
     if_not_null locker (\<lambda>l. psi_call (set_transaction_trxid psi l trxid))"

definition inline_mysql_inc_transaction_savepoints ::
    "('w, 'p) psi_server \<Rightarrow> nat ptr \<Rightarrow> ulonglong \<Rightarrow> ('w \<times> 'p, unit) state" where
  "inline_mysql_inc_transaction_savepoints psi locker count =
     if_not_null locker (\<lambda>l. psi_call (inc_transaction_savepoints psi l count))"

definition inline_mysql_inc_transaction_rollback_to_savepoint ::
    "('w, 'p) psi_server \<Rightarrow> nat ptr \<Rightarrow> ulonglong \<Rightarrow> ('w \<times> 'p, unit) state" where
  "inline_mysql_inc_transaction_rollback_to_savepoint psi locker count =
     if_not_null locker (\<lambda>l. psi_call (inc_transaction_rollback_to_savepoint psi l count))"

definition inline_mysql_inc_transaction_release_savepoint ::
    "('w, 'p) psi_server \<Rightarrow> nat ptr \<Rightarrow> ulonglong \<Rightarrow> ('w \<times> 'p, unit) state" where
  "inline_mysql_inc_transaction_release_savepoint psi locker count =
     if_not_null locker (\<lambda>l. psi_call (inc_transaction_release_savepoint psi l count))"

definition inline_mysql_rollback_transaction :: "('w, 'p) psi_server \<Rightarrow> nat ptr \<Rightarrow> ('w \<times> 'p, unit) state" where
  "inline_mysql_rollback_transaction psi locker = if_not_null locker (\<lambda>l. psi_call (end_transaction psi l False))"

definition inline_mysql_commit_transaction :: "('w, 'p) psi_server \<Rightarrow> nat ptr \<Rightarrow> ('w \<times> 'p, unit) state" where
  "inline_mysql_commit_transaction psi locker = if_not_null locker (\<lambda>l. psi_call (end_transaction psi l True))"

section \<open>mysql\_ps.h, mysql\_sp.h\<close>

definition inline_mysql_create_prepared_stmt ::
    "('w, 'p) psi_server \<Rightarrow> nat ptr \<Rightarrow> uint \<Rightarrow> nat ptr \<Rightarrow> string \<Rightarrow> size_t \<Rightarrow> string \<Rightarrow> size_t
     \<Rightarrow> ('w \<times> 'p, nat ptr) state" where
  "inline_mysql_create_prepared_stmt psi identity stmt_id locker stmt_name stmt_name_length sqltext sqltext_length =
     (case locker of None \<Rightarrow> State_Monad.return None
      | Some l \<Rightarrow> psi_call (create_prepared_stmt psi identity stmt_id l stmt_name stmt_name_length sqltext sqltext_length))"

definition inline_mysql_execute_prepared_stmt ::
    "('w, 'p) psi_server \<Rightarrow> nat ptr \<Rightarrow> nat ptr \<Rightarrow> ('w \<times> 'p, unit) state" where
  "inline_mysql_execute_prepared_stmt psi locker prepared_stmt =
     if_not_null prepared_stmt (\<lambda>s. if_not_null locker (\<lambda>l. psi_call (execute_prepared_stmt psi l s)))"

definition inline_mysql_destroy_prepared_stmt :: "('w, 'p) psi_server \<Rightarrow> nat ptr \<Rightarrow> ('w \<times> 'p, unit) state" where
  "inline_mysql_destroy_prepared_stmt psi prepared_stmt =
     if_not_null prepared_stmt (\<lambda>s. psi_call (destroy_prepared_stmt psi s))"

definition inline_mysql_reprepare_prepared_stmt :: "('w, 'p) psi_server \<Rightarrow> nat ptr \<Rightarrow> ('w \<times> 'p, unit) state" where
  "inline_mysql_reprepare_prepared_stmt psi prepared_stmt =
     if_not_null prepared_stmt (\<lambda>s. psi_call (reprepare_prepared_stmt psi s))"

definition inline_mysql_start_sp :: "('w, 'p) psi_server \<Rightarrow> nat ptr \<Rightarrow> nat ptr \<Rightarrow> ('w \<times> 'p, nat ptr) state" where
  "inline_mysql_start_sp psi st sp_share = psi_call (start_sp psi st sp_share)"

definition inline_mysql_end_sp :: "('w, 'p) psi_server \<Rightarrow> nat ptr \<Rightarrow> ('w \<times> 'p, unit) state" where
  "inline_mysql_end_sp psi locker = if_not_null locker (\<lambda>l. psi_call (end_sp psi l))"

definition inline_mysql_drop_sp ::
    "('w, 'p) psi_server \<Rightarrow> uint \<Rightarrow> string \<Rightarrow> uint \<Rightarrow> string \<Rightarrow> uint \<Rightarrow> ('w \<times> 'p, unit) state" where
  "inline_mysql_drop_sp psi sp_type schema_name shcema_name_length object_name object_name_length =
     psi_call (drop_sp psi sp_type schema_name shcema_name_length object_name object_name_length)"

definition inline_mysql_get_sp_share ::
    "('w, 'p) psi_server \<Rightarrow> uint \<Rightarrow> string \<Rightarrow> uint \<Rightarrow> string \<Rightarrow> uint \<Rightarrow> ('w \<times> 'p, nat ptr) state" where
  "inline_mysql_get_sp_share psi sp_type schema_name shcema_name_length object_name object_name_length =
     psi_call (get_sp_share psi sp_type schema_name shcema_name_length object_name object_name_length)"

section \<open>A session of the server\<close>

text \<open>
  A program that uses these functions as their macros are meant to be used: what a start function returns
  is kept, passed to the calls in between, and passed to the function that ends the event. A statement
  may be refined, which gives its locker anew; it may lock tables, run a prepared statement or a stored
  program, and hold transactions.
\<close>

datatype transaction_op =
  Set_Gtid "nat ptr" "nat ptr" | Set_Xid "nat ptr" int | Set_Xa_State int | Set_Trxid "nat ptr" |
  Savepoints ulonglong | Rollback_To ulonglong | Release ulonglong

datatype statement_op =
  Set_Text string uint | Set_Lock_Time ulonglong | Set_Rows_Sent ulonglong | Set_Rows_Examined ulonglong |
  Refine uint | Digest "nat ptr" | Stage uint | Lock_Table "nat ptr" PSI_table_lock_operation |
  Prepared uint string | Stored_Program uint string string | Metadata_Lock int |
  Transaction "transaction_op list" bool

datatype session_op = Idle | Statement uint string "statement_op list"

fun run_transaction_op ::
    "('w, 'p) psi_server \<Rightarrow> nat ptr \<Rightarrow> transaction_op \<Rightarrow> ('w \<times> 'p, unit) state" where
  "run_transaction_op psi t (Set_Gtid a b) = inline_mysql_set_transaction_gtid psi t a b"
| "run_transaction_op psi t (Set_Xid a b) = inline_mysql_set_transaction_xid psi t a b"
| "run_transaction_op psi t (Set_Xa_State a) = inline_mysql_set_transaction_xa_state psi t a"
| "run_transaction_op psi t (Set_Trxid a) = inline_mysql_set_transaction_trxid psi t a"
| "run_transaction_op psi t (Savepoints n) = inline_mysql_inc_transaction_savepoints psi t n"
| "run_transaction_op psi t (Rollback_To n) = inline_mysql_inc_transaction_rollback_to_savepoint psi t n"
| "run_transaction_op psi t (Release n) = inline_mysql_inc_transaction_release_savepoint psi t n"

definition end_of_transaction :: "('w, 'p) psi_server \<Rightarrow> bool \<Rightarrow> nat ptr \<Rightarrow> ('w \<times> 'p, unit) state" where
  "end_of_transaction psi commit t =
     (if commit then inline_mysql_commit_transaction psi t else inline_mysql_rollback_transaction psi t)"

text \<open>A bracket: start, use what was given, end.\<close>

definition bracket ::
    "('s, 'l) state \<Rightarrow> ('l \<Rightarrow> ('s, 'l) state) \<Rightarrow> ('l \<Rightarrow> ('s, unit) state) \<Rightarrow> ('s, unit) state" where
  "bracket start body finish = do { l \<leftarrow> start; l' \<leftarrow> body l; finish l' }"

definition keeping :: "('l \<Rightarrow> ('s, 'a) state) \<Rightarrow> 'l \<Rightarrow> ('s, 'l) state" where
  "keeping f l = do { _ \<leftarrow> f l; State_Monad.return l }"

fun run_statement_op ::
    "('w, 'p) psi_server \<Rightarrow> nat ptr \<Rightarrow> statement_op \<Rightarrow> ('w \<times> 'p, nat ptr) state" where
  "run_statement_op psi s (Refine key) = inline_mysql_refine_statement psi s key"
| "run_statement_op psi s (Set_Text t n) = keeping (\<lambda>s. inline_mysql_set_statement_text psi s t n) s"
| "run_statement_op psi s (Set_Lock_Time n) = keeping (\<lambda>s. inline_mysql_set_statement_lock_time psi s n) s"
| "run_statement_op psi s (Set_Rows_Sent n) = keeping (\<lambda>s. inline_mysql_set_statement_rows_sent psi s n) s"
| "run_statement_op psi s (Set_Rows_Examined n) =
     keeping (\<lambda>s. inline_mysql_set_statement_rows_examined psi s n) s"
| "run_statement_op psi s (Digest d) =
     keeping (\<lambda>s. do { l \<leftarrow> inline_mysql_digest_start psi s; inline_mysql_digest_end psi l d }) s"
| "run_statement_op psi s (Stage key) = keeping (\<lambda>s. inline_mysql_set_stage psi key [] 0) s"
| "run_statement_op psi s (Lock_Table t op) =
     keeping (\<lambda>s. do {
       _ \<leftarrow> bracket (inline_mysql_start_table_lock_wait psi None t op 0 [] 0) State_Monad.return
         (inline_mysql_end_table_lock_wait psi);
       inline_mysql_unlock_table psi t
     }) s"
| "run_statement_op psi s (Prepared n sql) =
     keeping (\<lambda>s. do {
       p \<leftarrow> inline_mysql_create_prepared_stmt psi None n s [] 0 sql (of_nat (length sql));
       _ \<leftarrow> inline_mysql_reprepare_prepared_stmt psi p;
       _ \<leftarrow> inline_mysql_execute_prepared_stmt psi s p;
       inline_mysql_destroy_prepared_stmt psi p
     }) s"
| "run_statement_op psi s (Stored_Program k db name) =
     keeping (\<lambda>s. do {
       share \<leftarrow> inline_mysql_get_sp_share psi k db (of_nat (length db)) name (of_nat (length name));
       _ \<leftarrow> bracket (inline_mysql_start_sp psi None share) State_Monad.return (inline_mysql_end_sp psi);
       inline_mysql_drop_sp psi k db (of_nat (length db)) name (of_nat (length name))
     }) s"
| "run_statement_op psi s (Metadata_Lock st) =
     keeping (\<lambda>s. do {
       l \<leftarrow> inline_mysql_mdl_create psi None None 0 0 st [] 0;
       _ \<leftarrow> inline_mysql_mdl_set_status psi l st;
       inline_mysql_mdl_destroy psi l [] 0
     }) s"
| "run_statement_op psi s (Transaction xs commit) =
     keeping (\<lambda>s. bracket (inline_mysql_start_transaction psi None None None 0 False False [] 0)
       (keeping (\<lambda>t. run_calls (run_transaction_op psi t) xs)) (end_of_transaction psi commit)) s"

fun run_statement_ops ::
    "('w, 'p) psi_server \<Rightarrow> statement_op list \<Rightarrow> nat ptr \<Rightarrow> ('w \<times> 'p, nat ptr) state" where
  "run_statement_ops psi [] s = State_Monad.return s"
| "run_statement_ops psi (x # xs) s = do { s' \<leftarrow> run_statement_op psi s x; run_statement_ops psi xs s' }"

fun run_session_op :: "('w, 'p) psi_server \<Rightarrow> session_op \<Rightarrow> ('w \<times> 'p, unit) state" where
  "run_session_op psi Idle =
     bracket (inline_mysql_start_idle_wait psi None [] 0) State_Monad.return (inline_mysql_end_idle_wait psi)"
| "run_session_op psi (Statement key db xs) =
     bracket (inline_mysql_start_statement psi None key db (of_nat (length db)) None None [] 0)
       (run_statement_ops psi xs) (\<lambda>s. inline_mysql_end_statement psi s None)"

section \<open>What the performance schema is told\<close>

text \<open>An observer of one kind of event; the calls about the other kinds are notes for it.\<close>

datatype watched = Idle_Waits | Table_Waits | Statements | Transactions | Programs

type_synonym 'w server_events = "(watched, bool, 'w) events"

definition see_start :: "watched \<Rightarrow> watched \<Rightarrow> nat \<Rightarrow> 'w \<Rightarrow> 'w server_events \<Rightarrow> unit \<times> 'w server_events" where
  "see_start me k l w es = (if k = me then ((), es @ [Started l k w]) else observe_note ''start'' () w es)"

definition see_wait ::
    "watched \<Rightarrow> ('w server_events \<Rightarrow> nat ptr) \<Rightarrow> watched \<Rightarrow> 'w \<Rightarrow> 'w server_events \<Rightarrow> nat ptr \<times> 'w server_events" where
  "see_wait me grant k w es =
     (if k = me then observe_start grant k w es else observe_note ''start'' (grant es) w es)"

definition see_end :: "watched \<Rightarrow> watched \<Rightarrow> nat \<Rightarrow> bool \<Rightarrow> 'w \<Rightarrow> 'w server_events \<Rightarrow> unit \<times> 'w server_events" where
  "see_end me k l r w es = (if k = me then observe_end l r w es else observe_note ''end'' () w es)"

definition see_grant ::
    "('w server_events \<Rightarrow> nat ptr) \<Rightarrow> string \<Rightarrow> 'w \<Rightarrow> 'w server_events \<Rightarrow> nat ptr \<times> 'w server_events" where
  "see_grant grant what w es = observe_note what (grant es) w es"

definition observe_server ::
    "watched \<Rightarrow> ('w server_events \<Rightarrow> nat ptr) \<Rightarrow> ('w, 'w server_events) psi_server" where
  "observe_server me grant = \<lparr>
     register_stage = (\<lambda>a b c. observe_note ''register_stage'' ()),
     register_statement = (\<lambda>a b c. observe_note ''register_statement'' ()),
     register_memory = (\<lambda>a b c. observe_note ''register_memory'' ()),
     start_idle_wait = (\<lambda>a b c. see_wait me grant Idle_Waits),
     end_idle_wait = (\<lambda>l. see_end me Idle_Waits l True),
     start_table_lock_wait = (\<lambda>a t op fl f n. see_wait me grant Table_Waits),
     end_table_lock_wait = (\<lambda>l. see_end me Table_Waits l True),
     unlock_table = (\<lambda>t. observe_note ''unlock_table'' ()),
     start_stage = (\<lambda>a b c. see_grant grant ''start_stage''),
     end_stage = observe_note ''end_stage'' (),
     get_thread_statement_locker = (\<lambda>a b c d. see_grant grant ''get_thread_statement_locker''),
     refine_statement = (\<lambda>l key. observe_note ''refine_statement'' (Some l)),
     start_statement = (\<lambda>l a b c d. see_start me Statements l),
     set_statement_text = (\<lambda>l a b. observe_note ''set_statement_text'' ()),
     set_statement_lock_time = (\<lambda>l a. observe_note ''set_statement_lock_time'' ()),
     set_statement_rows_sent = (\<lambda>l a. observe_note ''set_statement_rows_sent'' ()),
     set_statement_rows_examined = (\<lambda>l a. observe_note ''set_statement_rows_examined'' ()),
     end_statement = (\<lambda>l da. see_end me Statements l True),
     get_thread_transaction_locker = (\<lambda>a b c d e f. see_grant grant ''get_thread_transaction_locker''),
     start_transaction = (\<lambda>l a b. see_start me Transactions l),
     set_transaction_xid = (\<lambda>l a b. observe_note ''set_transaction_xid'' ()),
     set_transaction_xa_state = (\<lambda>l a. observe_note ''set_transaction_xa_state'' ()),
     set_transaction_gtid = (\<lambda>l a b. observe_note ''set_transaction_gtid'' ()),
     set_transaction_trxid = (\<lambda>l a. observe_note ''set_transaction_trxid'' ()),
     inc_transaction_savepoints = (\<lambda>l a. observe_note ''inc_transaction_savepoints'' ()),
     inc_transaction_rollback_to_savepoint = (\<lambda>l a. observe_note ''inc_transaction_rollback_to_savepoint'' ()),
     inc_transaction_release_savepoint = (\<lambda>l a. observe_note ''inc_transaction_release_savepoint'' ()),
     end_transaction = (\<lambda>l c. see_end me Transactions l c),
     create_prepared_stmt = (\<lambda>a b c d e f g. see_grant grant ''create_prepared_stmt''),
     destroy_prepared_stmt = (\<lambda>s. observe_note ''destroy_prepared_stmt'' ()),
     reprepare_prepared_stmt = (\<lambda>s. observe_note ''reprepare_prepared_stmt'' ()),
     execute_prepared_stmt = (\<lambda>l s. observe_note ''execute_prepared_stmt'' ()),
     digest_start = (\<lambda>l. see_grant grant ''digest_start''),
     digest_end = (\<lambda>l d. observe_note ''digest_end'' ()),
     start_sp = (\<lambda>a b. see_wait me grant Programs),
     end_sp = (\<lambda>l. see_end me Programs l True),
     drop_sp = (\<lambda>a b c d e. observe_note ''drop_sp'' ()),
     get_sp_share = (\<lambda>a b c d e. see_grant grant ''get_sp_share''),
     create_metadata_lock = (\<lambda>a b c d e f g. see_grant grant ''create_metadata_lock''),
     set_metadata_lock_status = (\<lambda>l a. observe_note ''set_metadata_lock_status'' ()),
     destroy_metadata_lock = (\<lambda>l. observe_note ''destroy_metadata_lock'' ())\<rparr>"

lemma observe_server_simps [simp]:
  "register_stage (observe_server me grant) = (\<lambda>a b c. observe_note ''register_stage'' ())"
  "register_statement (observe_server me grant) = (\<lambda>a b c. observe_note ''register_statement'' ())"
  "register_memory (observe_server me grant) = (\<lambda>a b c. observe_note ''register_memory'' ())"
  "start_idle_wait (observe_server me grant) = (\<lambda>a b c. see_wait me grant Idle_Waits)"
  "end_idle_wait (observe_server me grant) = (\<lambda>l. see_end me Idle_Waits l True)"
  "start_table_lock_wait (observe_server me grant) = (\<lambda>a t op fl f n. see_wait me grant Table_Waits)"
  "end_table_lock_wait (observe_server me grant) = (\<lambda>l. see_end me Table_Waits l True)"
  "unlock_table (observe_server me grant) = (\<lambda>t. observe_note ''unlock_table'' ())"
  "start_stage (observe_server me grant) = (\<lambda>a b c. see_grant grant ''start_stage'')"
  "end_stage (observe_server me grant) = observe_note ''end_stage'' ()"
  "get_thread_statement_locker (observe_server me grant) = (\<lambda>a b c d. see_grant grant ''get_thread_statement_locker'')"
  "refine_statement (observe_server me grant) = (\<lambda>l key. observe_note ''refine_statement'' (Some l))"
  "start_statement (observe_server me grant) = (\<lambda>l a b c d. see_start me Statements l)"
  "set_statement_text (observe_server me grant) = (\<lambda>l a b. observe_note ''set_statement_text'' ())"
  "set_statement_lock_time (observe_server me grant) = (\<lambda>l a. observe_note ''set_statement_lock_time'' ())"
  "set_statement_rows_sent (observe_server me grant) = (\<lambda>l a. observe_note ''set_statement_rows_sent'' ())"
  "set_statement_rows_examined (observe_server me grant) = (\<lambda>l a. observe_note ''set_statement_rows_examined'' ())"
  "end_statement (observe_server me grant) = (\<lambda>l da. see_end me Statements l True)"
  "get_thread_transaction_locker (observe_server me grant) = (\<lambda>a b c d e f. see_grant grant ''get_thread_transaction_locker'')"
  "start_transaction (observe_server me grant) = (\<lambda>l a b. see_start me Transactions l)"
  "set_transaction_xid (observe_server me grant) = (\<lambda>l a b. observe_note ''set_transaction_xid'' ())"
  "set_transaction_xa_state (observe_server me grant) = (\<lambda>l a. observe_note ''set_transaction_xa_state'' ())"
  "set_transaction_gtid (observe_server me grant) = (\<lambda>l a b. observe_note ''set_transaction_gtid'' ())"
  "set_transaction_trxid (observe_server me grant) = (\<lambda>l a. observe_note ''set_transaction_trxid'' ())"
  "inc_transaction_savepoints (observe_server me grant) = (\<lambda>l a. observe_note ''inc_transaction_savepoints'' ())"
  "inc_transaction_rollback_to_savepoint (observe_server me grant) = (\<lambda>l a. observe_note ''inc_transaction_rollback_to_savepoint'' ())"
  "inc_transaction_release_savepoint (observe_server me grant) = (\<lambda>l a. observe_note ''inc_transaction_release_savepoint'' ())"
  "end_transaction (observe_server me grant) = (\<lambda>l c. see_end me Transactions l c)"
  "create_prepared_stmt (observe_server me grant) = (\<lambda>a b c d e f g. see_grant grant ''create_prepared_stmt'')"
  "destroy_prepared_stmt (observe_server me grant) = (\<lambda>s. observe_note ''destroy_prepared_stmt'' ())"
  "reprepare_prepared_stmt (observe_server me grant) = (\<lambda>s. observe_note ''reprepare_prepared_stmt'' ())"
  "execute_prepared_stmt (observe_server me grant) = (\<lambda>l s. observe_note ''execute_prepared_stmt'' ())"
  "digest_start (observe_server me grant) = (\<lambda>l. see_grant grant ''digest_start'')"
  "digest_end (observe_server me grant) = (\<lambda>l d. observe_note ''digest_end'' ())"
  "start_sp (observe_server me grant) = (\<lambda>a b. see_wait me grant Programs)"
  "end_sp (observe_server me grant) = (\<lambda>l. see_end me Programs l True)"
  "drop_sp (observe_server me grant) = (\<lambda>a b c d e. observe_note ''drop_sp'' ())"
  "get_sp_share (observe_server me grant) = (\<lambda>a b c d e. see_grant grant ''get_sp_share'')"
  "create_metadata_lock (observe_server me grant) = (\<lambda>a b c d e f g. see_grant grant ''create_metadata_lock'')"
  "set_metadata_lock_status (observe_server me grant) = (\<lambda>l a. observe_note ''set_metadata_lock_status'' ())"
  "destroy_metadata_lock (observe_server me grant) = (\<lambda>l. observe_note ''destroy_metadata_lock'' ())"
  by (simp_all add: observe_server_def)

text \<open>A computation that adds notes only; one that also has the result \<open>r\<close>.\<close>

definition quiet :: "('w \<times> ('o, 'r, 'w) events, 'a) state \<Rightarrow> bool" where
  "quiet m \<longleftrightarrow> (\<forall>w es. \<exists>a ns. run_state m (w, es) = (a, (w, es @ map Noted ns)))"

definition quietly :: "('w \<times> ('o, 'r, 'w) events, 'a) state \<Rightarrow> 'a \<Rightarrow> bool" where
  "quietly m r \<longleftrightarrow> (\<forall>w es. \<exists>ns. run_state m (w, es) = (r, (w, es @ map Noted ns)))"

named_theorems quiet_intro

lemma quiet_return [quiet_intro]: "quiet (State_Monad.return a)"
  unfolding quiet_def by (auto intro: exI [of _ "[]"])

lemma quietly_return [quiet_intro]: "quietly (State_Monad.return a) a"
  unfolding quietly_def by (auto intro: exI [of _ "[]"])

lemma quiet_bind [quiet_intro]:
  assumes "quiet m" "\<And>a. quiet (f a)"
  shows "quiet (State_Monad.bind m f)"
  unfolding quiet_def
proof (intro allI)
  fix w :: 'a and es :: "('b, 'c, 'a) events"
  obtain a ns where 1: "run_state m (w, es) = (a, (w, es @ map Noted ns))" using assms(1) unfolding quiet_def by blast
  obtain b ms where 2: "run_state (f a) (w, es @ map Noted ns) = (b, (w, (es @ map Noted ns) @ map Noted ms))"
    using assms(2) unfolding quiet_def by blast
  then show "\<exists>a ns. run_state (State_Monad.bind m f) (w, es) = (a, (w, es @ map Noted ns))"
    by (auto simp: run_bind 1 intro: exI [of _ "ns @ ms"])
qed

lemma quietly_bind [quiet_intro]:
  assumes "quiet m" "\<And>a. quietly (f a) r"
  shows "quietly (State_Monad.bind m f) r"
  unfolding quietly_def
proof (intro allI)
  fix w :: 'a and es :: "('b, 'c, 'a) events"
  obtain a ns where 1: "run_state m (w, es) = (a, (w, es @ map Noted ns))" using assms(1) unfolding quiet_def by blast
  obtain ms where 2: "run_state (f a) (w, es @ map Noted ns) = (r, (w, (es @ map Noted ns) @ map Noted ms))"
    using assms(2) unfolding quietly_def by blast
  then show "\<exists>ns. run_state (State_Monad.bind m f) (w, es) = (r, (w, es @ map Noted ns))"
    by (auto simp: run_bind 1 intro: exI [of _ "ns @ ms"])
qed

lemma quietly_keeping [quiet_intro]: "quiet (f l) \<Longrightarrow> quietly (keeping f l) l"
  unfolding keeping_def by (intro quiet_intro)

lemma quiet_keeping [quiet_intro]: "quiet (f l) \<Longrightarrow> quiet (keeping f l)"
  unfolding keeping_def by (intro quiet_intro)

lemma quietly_quiet: "quietly m r \<Longrightarrow> quiet m"
  unfolding quietly_def quiet_def by blast

lemma quiet_if_not_null [quiet_intro]: "(\<And>l. quiet (f l)) \<Longrightarrow> quiet (if_not_null locker f)"
  by (simp add: if_not_null_def quiet_return split: option.splits)

lemma quiet_case [quiet_intro]: "quiet a \<Longrightarrow> (\<And>l. quiet (f l)) \<Longrightarrow> quiet (case locker of None \<Rightarrow> a | Some l \<Rightarrow> f l)"
  by (simp split: option.splits)

lemma quiet_bracket [quiet_intro]:
  "quiet start \<Longrightarrow> (\<And>l. quiet (body l)) \<Longrightarrow> (\<And>l. quiet (finish l)) \<Longrightarrow> quiet (bracket start body finish)"
  unfolding bracket_def by (intro quiet_intro)

lemma quiet_run_calls [quiet_intro]: "(\<And>x. quiet (f x)) \<Longrightarrow> quiet (run_calls f xs)"
  by (induction xs) (simp_all add: quiet_return quiet_bind)

lemma quiet_note [quiet_intro]: "quiet (psi_call (observe_note what a))"
  unfolding quiet_def psi_call_def observe_note_def by (auto intro: exI [of _ "[what]"])

lemma quietly_note [quiet_intro]: "quietly (psi_call (observe_note what a)) a"
  unfolding quietly_def psi_call_def observe_note_def by (auto intro: exI [of _ "[what]"])

lemma quiet_grant [quiet_intro]: "quiet (psi_call (see_grant grant what))"
  unfolding quiet_def psi_call_def observe_note_def see_grant_def by (auto intro: exI [of _ "[what]"])

lemma quiet_other [quiet_intro]:
  "k \<noteq> me \<Longrightarrow> quiet (psi_call (see_start me k l))"
  "k \<noteq> me \<Longrightarrow> quiet (psi_call (see_wait me grant k))"
  "k \<noteq> me \<Longrightarrow> quiet (psi_call (see_end me k l r))"
  unfolding quiet_def psi_call_def observe_note_def see_start_def see_wait_def see_end_def
  by (auto intro: exI [of _ "[_]"])

lemma quiet_keeps_paired: "quiet m \<Longrightarrow> keeps_paired m"
  unfolding quiet_def keeps_paired_def paired_def by (metis monitor_notes snd_conv)

text \<open>A start that tells of an event when it gives a locker, and an end that tells of its end.\<close>

definition tells_start :: "('w \<times> ('o, 'r, 'w) events, nat ptr) state \<Rightarrow> bool" where
  "tells_start m \<longleftrightarrow> (\<forall>w es. \<exists>ns l k. run_state m (w, es) =
     (l, (w, es @ map Noted ns @ (case l of None \<Rightarrow> [] | Some l' \<Rightarrow> [Started l' k w]))))"

definition tells_end :: "(nat ptr \<Rightarrow> ('w \<times> ('o, 'r, 'w) events, unit) state) \<Rightarrow> bool" where
  "tells_end f \<longleftrightarrow> (\<forall>l w es. \<exists>ns r. run_state (f l) (w, es) =
     ((), (w, es @ map Noted ns @ (case l of None \<Rightarrow> [] | Some l' \<Rightarrow> [Ended l' r w]))))"

lemma bracket_keeps_paired:
  assumes "tells_start start" "\<And>l. quietly (body l) l" "tells_end finish"
  shows "keeps_paired (bracket start body finish)"
  unfolding keeps_paired_def
proof (intro allI)
  fix w :: 'a and es :: "('b, 'c, 'a) events"
  obtain ns l k where 1: "run_state start (w, es) =
      (l, (w, es @ map Noted ns @ (case l of None \<Rightarrow> [] | Some l' \<Rightarrow> [Started l' k w])))" (is "_ = (_, (_, ?es1))")
    using assms(1) unfolding tells_start_def by blast
  obtain ms where 2: "run_state (body l) (w, ?es1) = (l, (w, ?es1 @ map Noted ms))" (is "_ = (_, (_, ?es2))")
    using assms(2) unfolding quietly_def by blast
  obtain ps r where 3: "run_state (finish l) (w, ?es2) =
      ((), (w, ?es2 @ map Noted ps @ (case l of None \<Rightarrow> [] | Some l' \<Rightarrow> [Ended l' r w])))"
    using assms(3) unfolding tells_end_def by blast
  show "\<exists>fs. snd (snd (run_state (bracket start body finish) (w, es))) = es @ fs \<and> paired fs"
    using 1 2 3 by (cases l) (auto simp: bracket_def run_bind paired_def monitor_append monitor_notes)
qed

lemma tells_start_wait: "tells_start (psi_call (see_wait me grant me))"
  unfolding tells_start_def
proof (intro allI)
  fix w es
  show "\<exists>ns l k. run_state (psi_call (see_wait me grant me)) (w, es) =
      (l, (w, es @ map Noted ns @ (case l of None \<Rightarrow> [] | Some l' \<Rightarrow> [Started l' k w])))"
    by (cases "grant es") (auto simp: psi_call_def see_wait_def observe_start_def intro: exI [of _ "[]"])
qed

lemma tells_start_none: "tells_start (State_Monad.return None)"
  unfolding tells_start_def by (auto intro: exI [of _ "[]"])

lemma tells_start_granted:
  "tells_start (do {
     locker \<leftarrow> psi_call (see_grant grant what);
     _ \<leftarrow> if_not_null locker (\<lambda>l. psi_call (see_start me me l));
     State_Monad.return locker })"
  unfolding tells_start_def
proof (intro allI)
  fix w es
  show "\<exists>ns l k. run_state (do {
      locker \<leftarrow> psi_call (see_grant grant what);
      _ \<leftarrow> if_not_null locker (\<lambda>l. psi_call (see_start me me l));
      State_Monad.return locker }) (w, es) =
      (l, (w, es @ map Noted ns @ (case l of None \<Rightarrow> [] | Some l' \<Rightarrow> [Started l' k w])))"
    by (cases "grant es") (auto simp: run_bind if_not_null_def psi_call_def see_grant_def see_start_def
      observe_note_def intro: exI [of _ "[what]"])
qed

lemma tells_end_event: "tells_end (\<lambda>l. if_not_null l (\<lambda>l. psi_call (see_end me me l r)))"
  unfolding tells_end_def
  by (auto simp: if_not_null_def psi_call_def see_end_def observe_end_def split: option.splits intro: exI [of _ "[]"])

lemma tells_end_after:
  assumes "quiet m" "tells_end f"
  shows "tells_end (\<lambda>l. do { _ \<leftarrow> m; f l })"
  unfolding tells_end_def
proof (intro allI)
  fix l :: "nat ptr" and w :: 'a and es :: "('b, 'c, 'a) events"
  obtain a ns where 1: "run_state m (w, es) = (a, (w, es @ map Noted ns))" using assms(1) unfolding quiet_def by blast
  obtain ms r where "run_state (f l) (w, es @ map Noted ns) =
      ((), (w, (es @ map Noted ns) @ map Noted ms @ (case l of None \<Rightarrow> [] | Some l' \<Rightarrow> [Ended l' r w])))"
    using assms(2) unfolding tells_end_def by blast
  then show "\<exists>ns r. run_state (do { _ \<leftarrow> m; f l }) (w, es) =
      ((), (w, es @ map Noted ns @ (case l of None \<Rightarrow> [] | Some l' \<Rightarrow> [Ended l' r w])))"
    by (intro exI [of _ "ns @ ms"] exI [of _ r]) (simp add: run_bind 1)
qed

lemma keeps_paired_keeping: "keeps_paired (f l) \<Longrightarrow> keeps_paired (keeping f l)"
  unfolding keeping_def by (intro keeps_paired_bind keeps_paired_return)

lemmas server_defs =
  inline_mysql_start_idle_wait_def inline_mysql_end_idle_wait_def inline_mysql_mdl_create_def
  inline_mysql_mdl_set_status_def inline_mysql_mdl_destroy_def inline_mysql_start_table_lock_wait_def
  inline_mysql_end_table_lock_wait_def inline_mysql_unlock_table_def inline_mysql_set_stage_def
  inline_mysql_digest_start_def inline_mysql_digest_end_def inline_mysql_start_statement_def
  inline_mysql_refine_statement_def inline_mysql_set_statement_text_def
  inline_mysql_set_statement_lock_time_def inline_mysql_set_statement_rows_sent_def
  inline_mysql_set_statement_rows_examined_def inline_mysql_end_statement_def
  inline_mysql_start_transaction_def inline_mysql_set_transaction_gtid_def inline_mysql_set_transaction_xid_def
  inline_mysql_set_transaction_xa_state_def inline_mysql_set_transaction_trxid_def
  inline_mysql_inc_transaction_savepoints_def inline_mysql_inc_transaction_rollback_to_savepoint_def
  inline_mysql_inc_transaction_release_savepoint_def inline_mysql_rollback_transaction_def
  inline_mysql_commit_transaction_def inline_mysql_create_prepared_stmt_def
  inline_mysql_execute_prepared_stmt_def inline_mysql_destroy_prepared_stmt_def
  inline_mysql_reprepare_prepared_stmt_def inline_mysql_start_sp_def inline_mysql_end_sp_def
  inline_mysql_drop_sp_def inline_mysql_get_sp_share_def

lemma tells_end_waits:
  "tells_end (inline_mysql_end_idle_wait (observe_server Idle_Waits grant))"
  "tells_end (inline_mysql_end_table_lock_wait (observe_server Table_Waits grant))"
  "tells_end (inline_mysql_end_sp (observe_server Programs grant))"
  "tells_end (end_of_transaction (observe_server Transactions grant) commit)"
proof -
  have e: "inline_mysql_end_idle_wait (observe_server Idle_Waits grant) =
      (\<lambda>l. if_not_null l (\<lambda>l. psi_call (see_end Idle_Waits Idle_Waits l True)))"
    "inline_mysql_end_table_lock_wait (observe_server Table_Waits grant) =
      (\<lambda>l. if_not_null l (\<lambda>l. psi_call (see_end Table_Waits Table_Waits l True)))"
    "inline_mysql_end_sp (observe_server Programs grant) =
      (\<lambda>l. if_not_null l (\<lambda>l. psi_call (see_end Programs Programs l True)))"
    "end_of_transaction (observe_server Transactions grant) commit =
      (\<lambda>l. if_not_null l (\<lambda>l. psi_call (see_end Transactions Transactions l commit)))"
    by (auto simp: server_defs end_of_transaction_def)
  show "tells_end (inline_mysql_end_idle_wait (observe_server Idle_Waits grant))"
    "tells_end (inline_mysql_end_table_lock_wait (observe_server Table_Waits grant))"
    "tells_end (inline_mysql_end_sp (observe_server Programs grant))"
    "tells_end (end_of_transaction (observe_server Transactions grant) commit)"
    unfolding e by (rule tells_end_event)+
qed

lemma run_transaction_op_quiet [quiet_intro]: "quiet (run_transaction_op (observe_server me grant) t x)"
  by (cases x) (simp_all add: server_defs quiet_intro)

lemma bind_return_right: "State_Monad.bind m State_Monad.return = m"
  by (cases m) (simp add: State_Monad.bind_def)

lemma run_statement_op_quietly:
  "quietly (run_statement_op (observe_server Statements grant) s x) s"
  by (cases x; cases s)
    (auto simp: server_defs end_of_transaction_def bind_return_right intro!: quiet_intro)

lemma run_statement_op_keeps_paired:
  assumes "me \<noteq> Statements"
  shows "keeps_paired (run_statement_op (observe_server me grant) s x)"
proof (cases x)
  case (Lock_Table t op)
  show ?thesis
  proof (cases "me = Table_Waits")
    case True
    then have "keeps_paired (bracket (inline_mysql_start_table_lock_wait (observe_server me grant) None t op 0 [] 0)
        State_Monad.return (inline_mysql_end_table_lock_wait (observe_server me grant)))"
      by (cases t) (auto simp: inline_mysql_start_table_lock_wait_def bind_return_right
        intro!: bracket_keeps_paired tells_start_wait tells_start_none tells_end_waits quietly_return)
    moreover have "quiet (inline_mysql_unlock_table (observe_server me grant) t)"
      by (simp add: server_defs quiet_intro)
    ultimately show ?thesis
      by (simp add: Lock_Table keeps_paired_keeping keeps_paired_bind quiet_keeps_paired)
  next
    case False
    then have "quiet (run_statement_op (observe_server me grant) s x)"
      by (cases t) (auto simp: Lock_Table server_defs bind_return_right intro!: quiet_intro)
    then show ?thesis by (rule quiet_keeps_paired)
  qed
next
  case (Stored_Program k db name)
  show ?thesis
  proof (cases "me = Programs")
    case True
    then have "keeps_paired (bracket (inline_mysql_start_sp (observe_server me grant) None share)
        State_Monad.return (inline_mysql_end_sp (observe_server me grant)))" for share
      by (auto simp: inline_mysql_start_sp_def
        intro!: bracket_keeps_paired tells_start_wait tells_end_waits quietly_return)
    moreover have "quiet (inline_mysql_get_sp_share (observe_server me grant) k db n name m)"
      "quiet (inline_mysql_drop_sp (observe_server me grant) k db n name m)" for n m
      by (simp_all add: server_defs quiet_intro)
    ultimately show ?thesis
      by (simp add: Stored_Program keeps_paired_keeping keeps_paired_bind quiet_keeps_paired)
  next
    case False
    then have "quiet (run_statement_op (observe_server me grant) s x)"
      by (auto simp: Stored_Program server_defs intro!: quiet_intro)
    then show ?thesis by (rule quiet_keeps_paired)
  qed
next
  case (Transaction xs commit)
  show ?thesis
  proof (cases "me = Transactions")
    case True
    then show ?thesis
      by (auto simp: Transaction inline_mysql_start_transaction_def intro!: keeps_paired_keeping
        bracket_keeps_paired tells_start_granted tells_end_waits quiet_intro)
  next
    case False
    then have "quiet (run_statement_op (observe_server me grant) s x)"
      by (auto simp: Transaction server_defs end_of_transaction_def intro!: quiet_intro)
    then show ?thesis by (rule quiet_keeps_paired)
  qed
qed (cases s; auto simp: server_defs intro!: quiet_keeps_paired quiet_intro)+

lemma run_statement_ops_quietly: "quietly (run_statement_ops (observe_server Statements grant) xs s) s"
proof (induction xs)
  case (Cons x xs)
  show ?case unfolding quietly_def
  proof (intro allI)
    fix w es
    obtain ns where 1: "run_state (run_statement_op (observe_server Statements grant) s x) (w, es) =
        (s, (w, es @ map Noted ns))"
      using run_statement_op_quietly [of grant s x] unfolding quietly_def by blast
    obtain ms where "run_state (run_statement_ops (observe_server Statements grant) xs s) (w, es @ map Noted ns) =
        (s, (w, (es @ map Noted ns) @ map Noted ms))"
      using Cons unfolding quietly_def by blast
    then show "\<exists>ns. run_state (run_statement_ops (observe_server Statements grant) (x # xs) s) (w, es) =
        (s, (w, es @ map Noted ns))"
      by (intro exI [of _ "ns @ ms"]) (simp add: run_bind 1)
  qed
qed (simp add: quietly_return)

lemma run_statement_ops_keeps_paired:
  "me \<noteq> Statements \<Longrightarrow> keeps_paired (run_statement_ops (observe_server me grant) xs s)"
  by (induction xs arbitrary: s)
    (auto intro!: keeps_paired_return keeps_paired_bind run_statement_op_keeps_paired)

lemma run_session_op_keeps_paired: "keeps_paired (run_session_op (observe_server me grant) x)"
proof (cases x)
  case Idle
  show ?thesis
  proof (cases "me = Idle_Waits")
    case True
    then show ?thesis by (auto simp: Idle inline_mysql_start_idle_wait_def bind_return_right
      intro!: bracket_keeps_paired tells_start_wait tells_end_waits quietly_return)
  next
    case False
    then show ?thesis by (auto simp: Idle server_defs intro!: quiet_keeps_paired quiet_intro)
  qed
next
  case (Statement key db xs)
  show ?thesis
  proof (cases "me = Statements")
    case True
    then show ?thesis
      by (auto simp: Statement server_defs intro!: bracket_keeps_paired tells_start_granted tells_end_after
        tells_end_event quiet_note run_statement_ops_quietly)
  next
    case False
    then have "quiet (inline_mysql_start_statement (observe_server me grant) None key db n None None [] 0)"
      "quiet (inline_mysql_end_statement (observe_server me grant) l None)" for n l
      by (auto simp: server_defs intro!: quiet_intro)
    then show ?thesis
      by (simp add: Statement bracket_def keeps_paired_bind quiet_keeps_paired run_statement_ops_keeps_paired False)
  qed
qed


text \<open>A statement with a transaction that is rolled back, for the observer of transactions.\<close>

lemma server_events_example:
  "snd (snd (run_state (run_calls (run_session_op (observe_server Transactions (\<lambda>es. Some (length es))))
     [Statement 7 ''db'' [Transaction [Savepoints 1] False]]) (w, []))) =
   [Noted ''get_thread_statement_locker'', Noted ''start'', Noted ''get_thread_transaction_locker'',
    Started 2 Transactions w, Noted ''inc_transaction_savepoints'', Ended 2 False w,
    Noted ''end_stage'', Noted ''end'']"
  by (simp add: server_defs run_bind bracket_def keeping_def end_of_transaction_def psi_call_def if_not_null_def
    see_grant_def see_start_def see_end_def observe_note_def observe_end_def)

text \<open>The instrumentation of the server leaves the system as it is, whatever the performance schema does.\<close>

lemma silent_case: "silent a \<Longrightarrow> (\<And>l. silent (f l)) \<Longrightarrow> silent (case locker of None \<Rightarrow> a | Some l \<Rightarrow> f l)"
  by (simp split: option.splits)

lemma silent_bracket:
  "silent start \<Longrightarrow> (\<And>l. silent (body l)) \<Longrightarrow> (\<And>l. silent (finish l)) \<Longrightarrow> silent (bracket start body finish)"
  unfolding bracket_def by (intro psi_intro)

lemma silent_keeping: "(\<And>l. silent (f l)) \<Longrightarrow> silent (keeping f l)"
  unfolding keeping_def by (intro psi_intro)

lemma silent_run_calls: "(\<And>x. silent (f x)) \<Longrightarrow> silent (run_calls f xs)"
  by (induction xs) (simp_all add: psi_intro)

lemma silent_transaction_op: "silent (run_transaction_op psi t x)"
  by (cases x) (simp_all add: server_defs psi_intro)

lemma silent_statement_op: "silent (run_statement_op psi s x)"
  by (cases x) (auto simp: server_defs end_of_transaction_def
    intro!: psi_intro silent_case silent_bracket silent_keeping silent_run_calls silent_transaction_op)

lemma silent_statement_ops: "silent (run_statement_ops psi xs s)"
  by (induction xs arbitrary: s) (auto intro!: psi_intro silent_statement_op)

lemma session_silent: "silent (run_calls (run_session_op psi) xs)"
proof (rule silent_run_calls)
  show "silent (run_session_op psi x)" for x
    by (cases x) (auto simp: server_defs intro!: psi_intro silent_bracket silent_statement_ops)
qed

end
