(* ===== verification/Mysql_Util.thy ===== *)
theory Mysql_Util
  imports Byte_Order "HOL-Library.Signed_Division"
begin

text \<open>
  The small functions that the MySQL headers define in line: \<open>skip_trailing_space\<close> of \<open>m_string.h\<close>, in
  its two versions, the deadlines and the rounding of \<open>my_global.h\<close>, and the sleep of \<open>my_sys.h\<close>. A
  string is the list of its bytes, a pointer into it an index; the version for SPARC also depends on the
  address of the string.
\<close>

section \<open>skip\_trailing\_space\<close>

text \<open>The loop by words of eight bytes, then the loop by bytes. The second argument is \<open>end\<close>.\<close>

function skip_words :: "byte list \<Rightarrow> nat \<Rightarrow> nat" where
  "skip_words s e =
     (if 8 \<le> e
      then if uint8korr (drop (e - 8) s) \<noteq> 0x2020202020202020 then e else skip_words s (e - 8)
      else e)"
  by pat_completeness auto
termination by (relation "measure snd") auto

fun skip_bytes :: "byte list \<Rightarrow> nat \<Rightarrow> nat" where
  "skip_bytes s 0 = 0"
| "skip_bytes s (Suc e) = (if s ! e = 0x20 then skip_bytes s e else Suc e)"

declare skip_words.simps [simp del]

definition skip_trailing_space :: "byte list \<Rightarrow> nat" where
  "skip_trailing_space s = skip_bytes s (skip_words s (length s))"

text \<open>
  The version for SPARC: it reads aligned words of four bytes, high byte first. \<open>addr\<close> is the address of
  the string, \<open>end_words\<close> the last aligned address in it and \<open>start_words\<close> the first one.
\<close>

fun skip_bytes_until :: "byte list \<Rightarrow> nat \<Rightarrow> nat \<Rightarrow> nat" where
  "skip_bytes_until s end_words 0 = 0"
| "skip_bytes_until s end_words (Suc e) =
     (if end_words < Suc e \<and> s ! e = 0x20 then skip_bytes_until s end_words e else Suc e)"

function skip_ints :: "byte list \<Rightarrow> nat \<Rightarrow> nat \<Rightarrow> nat" where
  "skip_ints s start_words e =
     (if start_words < e \<and> (big_read 4 (drop (e - 4) s) :: 32 word) = 0x20202020
      then skip_ints s start_words (e - 4) else e)"
  by pat_completeness auto
termination by (relation "measure (snd \<circ> snd)") auto

declare skip_ints.simps [simp del]

definition sparc_skip_trailing_space :: "nat \<Rightarrow> byte list \<Rightarrow> nat" where
  "sparc_skip_trailing_space addr s =
     (let e = length s;
          e1 = (if 20 < length s
                then let end_words = (addr + e) div 4 * 4 - addr;
                         start_words = (addr + 3) div 4 * 4 - addr;
                         e' = skip_bytes_until s end_words e
                     in if s ! (e' - 1) = 0x20 \<and> start_words < end_words then skip_ints s start_words e' else e'
                else e)
      in skip_bytes s e1)"

text \<open>The reference: the length of the string without its trailing spaces.\<close>

definition spaces_from :: "byte list \<Rightarrow> nat \<Rightarrow> bool" where
  "spaces_from s e \<longleftrightarrow> (\<forall>b \<in> set (drop e s). b = 0x20)"

definition rstrip :: "byte list \<Rightarrow> byte list" where
  "rstrip s = rev (dropWhile (\<lambda>b. b = 0x20) (rev s))"

lemma rstrip_snoc: "rstrip (s @ [b]) = (if b = 0x20 then rstrip s else s @ [b])"
  by (simp add: rstrip_def)

lemma rstrip_append: "\<forall>b \<in> set t. b = 0x20 \<Longrightarrow> rstrip (s @ t) = rstrip s"
  by (induction t rule: rev_induct) (simp_all add: rstrip_snoc flip: append_assoc)

lemma rstrip_from: "spaces_from s e \<Longrightarrow> rstrip (take e s) = rstrip s"
  using rstrip_append [of "drop e s" "take e s"] by (simp add: spaces_from_def)

lemma skip_bytes_rstrip: "e \<le> length s \<Longrightarrow> skip_bytes s e = length (rstrip (take e s))"
  by (induction e) (simp_all add: take_Suc_conv_app_nth rstrip_snoc rstrip_def [of "[]"])

lemma skip_bytes_from: "spaces_from s e \<Longrightarrow> e \<le> length s \<Longrightarrow> skip_bytes s e = length (rstrip s)"
  by (simp add: skip_bytes_rstrip rstrip_from)

text \<open>A word of spaces.\<close>

lemma le_int_spaces:
  assumes "n \<le> length A"
  shows "le_int (take n A) = le_int (replicate n 0x20) \<longleftrightarrow> take n A = replicate n 0x20"
  using assms le_bytes_le_int [of "take n A"] le_bytes_le_int [of "replicate n 0x20"]
  by (metis length_replicate length_take min.absorb2)

lemma word_le_int_eq:
  assumes "length A = n" "length B = n" "LENGTH('a::len) = 8 * n"
  shows "(word_of_int (le_int A) :: 'a word) = word_of_int (le_int B) \<longleftrightarrow> le_int A = le_int B"
proof -
  have "(256 :: int) ^ n = 2 ^ LENGTH('a)" using assms(3) by (simp add: power_mult)
  then have "uint (word_of_int (le_int A) :: 'a word) = le_int A" "uint (word_of_int (le_int B) :: 'a word) = le_int B"
    using le_int_less [of A] le_int_less [of B] le_int_nonneg assms(1,2)
    by (simp_all add: uint_word_of_int)
  then show ?thesis by metis
qed

lemma replicate_bytes: "replicate 8 b = [b, b, b, b, b, b, b, b]" "replicate 4 b = [b, b, b, b]"
  by (simp_all add: numeral_eq_Suc)

lemma uint8korr_spaces:
  assumes "8 \<le> length A"
  shows "uint8korr A = 0x2020202020202020 \<longleftrightarrow> take 8 A = replicate 8 0x20"
proof -
  have "uint8korr A = word_of_int (le_int (take 8 A))" using korr8 [OF assms] by (simp add: machine_read_def)
  moreover have "(0x2020202020202020 :: 64 word) = word_of_int (le_int (replicate 8 0x20))"
    by (simp add: replicate_bytes)
  ultimately show ?thesis using assms le_int_spaces [OF assms]
      word_le_int_eq [of "take 8 A" 8 "replicate 8 0x20", where 'a = 64] by simp
qed

lemma big_read_spaces:
  assumes "4 \<le> length A"
  shows "(big_read 4 A :: 32 word) = 0x20202020 \<longleftrightarrow> take 4 A = replicate 4 0x20"
proof -
  have "(0x20202020 :: 32 word) = word_of_int (le_int (rev (replicate 4 0x20)))"
    by (simp add: replicate_bytes)
  then have "(big_read 4 A :: 32 word) = 0x20202020 \<longleftrightarrow> le_int (rev (take 4 A)) = le_int (rev (replicate 4 0x20))"
    using assms word_le_int_eq [of "rev (take 4 A)" 4 "rev (replicate 4 0x20)", where 'a = 32]
    by (simp add: big_read_def)
  also have "\<dots> \<longleftrightarrow> rev (take 4 A) = rev (replicate 4 0x20)"
    using assms le_bytes_le_int [of "rev (take 4 A)"] le_bytes_le_int [of "rev (replicate 4 0x20)"]
    by (metis length_replicate length_rev length_take min.absorb2)
  finally show ?thesis by (simp only: rev_is_rev_conv)
qed

lemma spaces_from_step:
  assumes "spaces_from s e" "take n (drop (e - n) s) = replicate n 0x20" "n \<le> e"
  shows "spaces_from s (e - n)"
proof -
  have "drop (e - n) s = replicate n 0x20 @ drop e s"
    using assms append_take_drop_id [of n "drop (e - n) s"] by simp
  then show ?thesis using assms(1) by (auto simp: spaces_from_def)
qed

lemma skip_words_spaces:
  "spaces_from s e \<Longrightarrow> e \<le> length s \<Longrightarrow> spaces_from s (skip_words s e) \<and> skip_words s e \<le> e"
proof (induction s e rule: skip_words.induct)
  case (1 s e)
  show ?case
  proof (cases "8 \<le> e \<and> uint8korr (drop (e - 8) s) = 0x2020202020202020")
    case True
    then have "take 8 (drop (e - 8) s) = replicate 8 0x20"
      using 1 uint8korr_spaces [of "drop (e - 8) s"] by simp
    then have "spaces_from s (e - 8)" using 1 True by (intro spaces_from_step) simp_all
    then have "spaces_from s (skip_words s (e - 8)) \<and> skip_words s (e - 8) \<le> e - 8"
      using 1 True by simp
    with True show ?thesis by (subst (1 2) skip_words.simps) auto
  next
    case False with 1 show ?thesis by (subst (1 2) skip_words.simps) auto
  qed
qed

lemma skip_ints_spaces:
  "spaces_from s e \<Longrightarrow> e \<le> length s \<Longrightarrow> b \<le> e \<Longrightarrow> 4 dvd e - b \<Longrightarrow>
   spaces_from s (skip_ints s b e) \<and> skip_ints s b e \<le> e"
proof (induction s b e rule: skip_ints.induct)
  case (1 s b e)
  show ?case
  proof (cases "b < e \<and> (big_read 4 (drop (e - 4) s) :: 32 word) = 0x20202020")
    case True
    then have e: "b + 4 \<le> e" using 1 by (auto dest!: dvd_imp_le)
    then have "take 4 (drop (e - 4) s) = replicate 4 0x20"
      using 1 True big_read_spaces [of "drop (e - 4) s"] by simp
    then have "spaces_from s (e - 4)" using 1 e by (intro spaces_from_step) simp_all
    moreover have "4 dvd e - 4 - b" using 1 e dvd_diff_nat [of 4 "e - b" 4] by (simp add: add.commute)
    ultimately have "spaces_from s (skip_ints s b (e - 4)) \<and> skip_ints s b (e - 4) \<le> e - 4"
      using 1 True e by auto
    with True show ?thesis by (subst (1 2) skip_ints.simps) auto
  next
    case False with 1 show ?thesis by (subst (1 2) skip_ints.simps) auto
  qed
qed

lemma skip_bytes_until_spaces:
  "spaces_from s e \<Longrightarrow> e \<le> length s \<Longrightarrow>
   spaces_from s (skip_bytes_until s w e) \<and> skip_bytes_until s w e \<le> e"
proof (induction e)
  case (Suc e)
  have "drop e s = s ! e # drop (Suc e) s" using Suc.prems by (simp add: Cons_nth_drop_Suc)
  then have "s ! e = 0x20 \<Longrightarrow> spaces_from s e" using Suc.prems by (simp add: spaces_from_def)
  with Suc show ?case by auto
qed simp

lemma spaces_from_length: "spaces_from s (length s)"
  by (simp add: spaces_from_def)

text \<open>The loop by aligned words starts at \<open>end_words\<close> or not at all.\<close>

lemma skip_bytes_until_stops:
  "0 < skip_bytes_until s w e \<Longrightarrow> w \<le> e \<Longrightarrow> s ! (skip_bytes_until s w e - 1) = 0x20 \<Longrightarrow>
   skip_bytes_until s w e = w"
  by (induction e) (auto split: if_splits simp: le_Suc_eq)

lemma aligned_words:
  fixes addr :: nat
  assumes "w = (addr + n) div 4 * 4 - addr" "b = (addr + 3) div 4 * 4 - addr" "b < w"
  shows "4 dvd w - b" "w \<le> n"
proof -
  have "w - b = (addr + n) div 4 * 4 - (addr + 3) div 4 * 4" using assms by simp
  then show "4 dvd w - b" by (simp flip: diff_mult_distrib)
  have "(addr + n) div 4 * 4 \<le> addr + n" by simp
  then show "w \<le> n" using assms by linarith
qed

lemma skip_bytes_until_pos: "0 < w \<Longrightarrow> 0 < e \<Longrightarrow> 0 < skip_bytes_until s w e"
  by (induction e) auto

lemma sparc_end:
  assumes "w = (addr + length s) div 4 * 4 - addr" "b = (addr + 3) div 4 * 4 - addr" "b < w"
    "s ! (skip_bytes_until s w (length s) - 1) = 0x20"
  defines "e \<equiv> skip_bytes_until s w (length s)"
  shows "spaces_from s (skip_ints s b e) \<and> skip_ints s b e \<le> length s"
proof -
  have w: "4 dvd w - b" "w \<le> length s" using aligned_words [OF assms(1-3)] by auto
  then have "0 < e" unfolding e_def using assms(3) by (intro skip_bytes_until_pos) linarith+
  then have "e = w" using assms(4) w skip_bytes_until_stops unfolding e_def by blast
  moreover have "spaces_from s e" unfolding e_def
    using skip_bytes_until_spaces [OF spaces_from_length] by simp
  ultimately have "spaces_from s (skip_ints s b e) \<and> skip_ints s b e \<le> e"
    using w assms(3) by (intro skip_ints_spaces) auto
  with w \<open>e = w\<close> show ?thesis by simp
qed

text \<open>C37: both versions of \<open>skip_trailing_space\<close>, the one that compares words of eight bytes and the one
  that compares aligned words of four, stop where the string without its trailing spaces ends, at every
  address and length.\<close>

theorem skip_trailing_space_strips:
  "skip_trailing_space s = length (rstrip s) \<and> sparc_skip_trailing_space addr s = length (rstrip s)"
proof
  show "skip_trailing_space s = length (rstrip s)"
    using skip_words_spaces [OF spaces_from_length] by (simp add: skip_trailing_space_def skip_bytes_from)
  show "sparc_skip_trailing_space addr s = length (rstrip s)"
    using skip_bytes_until_spaces [OF spaces_from_length] sparc_end [OF refl refl]
    by (simp add: sparc_skip_trailing_space_def Let_def skip_bytes_from spaces_from_length)
qed

section \<open>Deadlines\<close>

text \<open>
  \<open>struct timespec\<close>, with the 64-bit \<open>time_t\<close> and \<open>long\<close> of the platform that \<open>my_config.h\<close> describes,
  where the number of seconds is not cut. The first argument of \<open>set_timespec_nsec\<close> is the result of
  \<open>my_getsystime\<close>, the time in units of 100 nanoseconds.
\<close>

record timespec =
  tv_sec :: "64 word"
  tv_nsec :: "64 word"

definition set_timespec_nsec :: "64 word \<Rightarrow> 64 word \<Rightarrow> timespec" where
  "set_timespec_nsec my_getsystime nsec =
     (let now = my_getsystime + nsec div 100;
          sec = now div 10000000
      in \<lparr> tv_sec = sec, tv_nsec = (now mod 10000000) * 100 + nsec mod 100 \<rparr>)"

definition set_timespec :: "64 word \<Rightarrow> 64 word \<Rightarrow> timespec" where
  "set_timespec my_getsystime sec = set_timespec_nsec my_getsystime (sec * 1000000000)"

definition cmp_timespec :: "timespec \<Rightarrow> timespec \<Rightarrow> int" where
  "cmp_timespec ts1 ts2 =
     (if sint (tv_sec ts1) > sint (tv_sec ts2) \<or>
         (tv_sec ts1 = tv_sec ts2 \<and> sint (tv_nsec ts1) > sint (tv_nsec ts2)) then 1
      else if sint (tv_sec ts1) < sint (tv_sec ts2) \<or>
         (tv_sec ts1 = tv_sec ts2 \<and> sint (tv_nsec ts1) < sint (tv_nsec ts2)) then -1
      else 0)"

definition diff_timespec :: "timespec \<Rightarrow> timespec \<Rightarrow> 64 word" where
  "diff_timespec ts1 ts2 = (tv_sec ts1 - tv_sec ts2) * 1000000000 + tv_nsec ts1 - tv_nsec ts2"

text \<open>A time in nanoseconds, and the times for which the nanoseconds are a fraction of a second.\<close>

definition nanoseconds :: "timespec \<Rightarrow> nat" where
  "nanoseconds ts = unat (tv_sec ts) * 1000000000 + unat (tv_nsec ts)"

definition timespec_ok :: "timespec \<Rightarrow> bool" where
  "timespec_ok ts \<longleftrightarrow> unat (tv_nsec ts) < 1000000000 \<and> unat (tv_sec ts) < 2 ^ 63"

lemma diff_timespec_nanoseconds:
  "diff_timespec ts1 ts2 = of_nat (nanoseconds ts1) - of_nat (nanoseconds ts2)"
  by (simp add: diff_timespec_def nanoseconds_def algebra_simps)

lemma sint_small_64: "unat (w :: 64 word) < 2 ^ 63 \<Longrightarrow> sint w = int (unat w)"
proof -
  assume "unat w < 2 ^ 63"
  then have "int (unat w) < 2 ^ 63" by (metis of_nat_less_iff of_nat_numeral of_nat_power)
  moreover have "- (2 ^ 63) \<le> uint w" using uint_nonnegative [of w] by (rule order_trans [rotated]) simp
  ultimately have "signed_take_bit 63 (uint w) = uint w"
    by (simp only: signed_take_bit_int_eq_self_iff uint_nat int_nat_eq)
  then show ?thesis by (simp add: sint_uint)
qed

lemma unat_less_64: "unat (w :: 64 word) < 18446744073709551616"
  using unsigned_less [of w] by simp

lemma compare_digits:
  fixes s1 s2 n1 n2 :: nat
  assumes "n1 < 1000000000" "n2 < 1000000000"
  shows "sgn (int (s1 * 1000000000 + n1) - int (s2 * 1000000000 + n2)) =
    (if int s1 > int s2 \<or> (s1 = s2 \<and> int n1 > int n2) then 1
     else if int s1 < int s2 \<or> (s1 = s2 \<and> int n1 < int n2) then -1 else 0)"
  using assms by (cases s1 s2 rule: linorder_cases) (auto simp: sgn_if)

lemma cmp_timespec_nanoseconds:
  assumes "timespec_ok ts1" "timespec_ok ts2"
  shows "cmp_timespec ts1 ts2 = sgn (int (nanoseconds ts1) - int (nanoseconds ts2))"
proof -
  have s: "sint (tv_sec ts1) = int (unat (tv_sec ts1))" "sint (tv_nsec ts1) = int (unat (tv_nsec ts1))"
    "sint (tv_sec ts2) = int (unat (tv_sec ts2))" "sint (tv_nsec ts2) = int (unat (tv_nsec ts2))"
    using assms by (simp_all add: timespec_ok_def sint_small_64)
  have "tv_sec ts1 = tv_sec ts2 \<longleftrightarrow> unat (tv_sec ts1) = unat (tv_sec ts2)"
    by (simp add: word_unat_eq_iff)
  then show ?thesis using assms
    by (simp only: cmp_timespec_def s nanoseconds_def timespec_ok_def compare_digits)
qed

lemma set_timespec_nsec_ok: "timespec_ok (set_timespec_nsec t n)"
proof -
  have "unat (now mod 10000000 * 100 + n mod 100) < 1000000000" for now n :: "64 word"
  proof -
    have "unat (now mod 10000000) < 10000000" "unat (n mod 100) < 100" by (simp_all add: unat_mod)
    then show ?thesis by (simp add: unat_word_ariths)
  qed
  moreover have "unat (now div 10000000) < 2 ^ 63" for now :: "64 word"
    using unat_less_64 [of now] by (simp add: unat_div less_mult_imp_div_less)
  ultimately show ?thesis by (simp add: timespec_ok_def set_timespec_nsec_def Let_def)
qed

lemma set_timespec_nsec_nanoseconds:
  assumes "unat t + unat n div 100 < 2 ^ 64"
  shows "nanoseconds (set_timespec_nsec t n) = unat t * 100 + unat n"
proof -
  define now where "now = t + n div 100"
  have now: "unat now = unat t + unat n div 100"
    using assms by (simp add: now_def unat_word_ariths unat_div)
  have "unat (now mod 10000000) < 10000000" "unat (n mod 100) < 100" by (simp_all add: unat_mod)
  then have "unat (now mod 10000000 * 100 + n mod 100) = unat now mod 10000000 * 100 + unat n mod 100"
    by (simp add: unat_word_ariths unat_mod)
  then have "nanoseconds (set_timespec_nsec t n) =
      unat now div 10000000 * 1000000000 + (unat now mod 10000000 * 100 + unat n mod 100)"
    by (simp add: nanoseconds_def set_timespec_nsec_def Let_def unat_div flip: now_def)
  also have "\<dots> = unat t * 100 + unat n" 
    using now div_mult_mod_eq [of "unat now" 10000000] div_mult_mod_eq [of "unat n" 100] by linarith
  finally show ?thesis .
qed

text \<open>Two deadlines set from the same clock differ by exactly the difference of their waits, to the
  nanosecond, and compare as the waits do; their nanoseconds are a fraction of a second. The clock must
  not be so late that adding a wait wraps around.\<close>

lemma timespec_deadlines:
  assumes "unat t + unat n div 100 < 2 ^ 64" "unat t + unat m div 100 < 2 ^ 64"
  shows "timespec_ok (set_timespec_nsec t n) \<and>
    diff_timespec (set_timespec_nsec t n) (set_timespec_nsec t 0) = n \<and>
    diff_timespec (set_timespec_nsec t n) (set_timespec_nsec t m) = n - m \<and>
    cmp_timespec (set_timespec_nsec t n) (set_timespec_nsec t m) = sgn (uint n - uint m)"
  using assms by (simp add: set_timespec_nsec_ok diff_timespec_nanoseconds cmp_timespec_nanoseconds
    set_timespec_nsec_nanoseconds)

text \<open>
  \<open>set_timespec\<close> multiplies by a thousand million without a check: more than about 584 years of seconds
  wrap around.
\<close>

lemma set_timespec_wraps:
  assumes "unat t + unat (sec * 1000000000) div 100 < 2 ^ 64"
  shows "nanoseconds (set_timespec t sec) = unat t * 100 + unat sec * 1000000000 mod 2 ^ 64"
  using set_timespec_nsec_nanoseconds [OF assms] by (simp add: set_timespec_def unat_word_ariths)

section \<open>Rounding, sleeping, the strings of the lexer\<close>

definition MY_ALIGN :: "64 word \<Rightarrow> 64 word \<Rightarrow> 64 word" where
  "MY_ALIGN A L = (A + L - 1) AND NOT (L - 1)"

definition my_sleep :: "int \<Rightarrow> int \<times> int" where
  "my_sleep m_seconds = (m_seconds sdiv 1000000, m_seconds smod 1000000)"

lemma MY_ALIGN_value:
  assumes "k < 64" "unat A + 2 ^ k \<le> 2 ^ 64"
  shows "unat (MY_ALIGN A (2 ^ k)) = (unat A + 2 ^ k - 1) div 2 ^ k * 2 ^ k"
proof -
  define x where "x = A + 2 ^ k - 1"
  have "MY_ALIGN A (2 ^ k) = x AND NOT (mask k)" by (simp add: MY_ALIGN_def x_def mask_eq_exp_minus_1)
  also have "\<dots> = push_bit k (drop_bit k x)" by (rule bit_word_eqI) (auto simp: bit_simps)
  finally have m: "MY_ALIGN A (2 ^ k) = push_bit k (drop_bit k x)" .
  have "1 \<le> unat A + 2 ^ k" by (simp add: trans_le_add2)
  then have "x = of_nat (unat A + 2 ^ k - 1)" by (simp add: x_def of_nat_diff del: One_nat_def)
  moreover have "unat A + 2 ^ k - 1 < 2 ^ 64" using assms(2) by (simp add: less_diff_conv2)
  ultimately have x: "unat x = unat A + 2 ^ k - 1" by (simp add: unat_of_nat)
  have "unat x div 2 ^ k * 2 ^ k < 2 ^ 64"
    by (rule le_less_trans [OF div_times_less_eq_dividend]) (use unat_less_64 [of x] in simp)
  moreover have "unat (push_bit k (drop_bit k x)) = take_bit 64 (unat x div 2 ^ k * 2 ^ k)"
    using unat_less_64 [of x] by (simp only: unsigned_push_bit_eq)
      (simp add: unsigned_drop_bit_eq take_bit_nat_eq_self flip: push_bit_eq_mult drop_bit_eq_div)
  ultimately have "unat (push_bit k (drop_bit k x)) = unat x div 2 ^ k * 2 ^ k"
    by (simp add: take_bit_nat_eq_self)
  then show ?thesis by (simp only: m x)
qed

lemma MY_ALIGN_least:
  assumes "k < 64" "unat A + 2 ^ k \<le> 2 ^ 64"
  shows "2 ^ k dvd unat (MY_ALIGN A (2 ^ k)) \<and> unat A \<le> unat (MY_ALIGN A (2 ^ k)) \<and>
    unat (MY_ALIGN A (2 ^ k)) < unat A + 2 ^ k"
proof -
  let ?p = "2 ^ k :: nat" and ?n = "unat A + 2 ^ k - 1"
  have "?n div ?p * ?p + ?n mod ?p = ?n" "?n mod ?p < ?p" "0 < ?p" by (simp_all add: div_mult_mod_eq)
  then have "?n div ?p * ?p \<le> ?n" "?n < ?n div ?p * ?p + ?p" "0 < ?p" by linarith+
  then show ?thesis unfolding MY_ALIGN_value [OF assms] by (intro conjI dvd_triv_right) linarith+
qed

lemma my_sleep_waits:
  "fst (my_sleep m) * 1000000 + snd (my_sleep m) = m \<and> \<bar>snd (my_sleep m)\<bar> < 1000000"
  using sdiv_mult_smod_eq [of m 1000000]
  by (simp add: my_sleep_def) (simp add: signed_modulo_int_def abs_mult abs_sgn_eq)

end
