(* ===== verification/Mysql_Strings.thy ===== *)
theory Mysql_Strings
  imports CNumbers
begin

text \<open>
  The functions of \<open>m_string.h\<close> that wrap the C library, in a build that is not for Windows and has
  \<open>stpcpy\<close> and \<open>stpncpy\<close>, with the library's behaviour written out, and the setters of \<open>LEX_STRING\<close>.
  A pointer to characters is the memory from there to the end of its object. Copying gives \<open>None\<close>
  where it would go beyond that end; the strings that are scanned and compared are terminated ones,
  and delimiters are given without their final null byte. The macros of \<open>my_global.h\<close> that choose
  between two values are at the end of the definitions.
\<close>

section \<open>Copying\<close>

definition c_strlen :: "bytes \<Rightarrow> nat option" where
  "c_strlen s = find_idx (\<lambda>c. c = NUL) s"

text \<open>The result: the destination afterwards, and the offset of the pointer returned.\<close>

definition my_stpcpy :: "bytes \<Rightarrow> bytes \<Rightarrow> (bytes \<times> nat) option" where
  "my_stpcpy dst src =
     (case c_strlen src of
        None \<Rightarrow> None
      | Some n \<Rightarrow> if n < length dst then Some (take (Suc n) src @ drop (Suc n) dst, n) else None)"

definition my_stpncpy :: "bytes \<Rightarrow> bytes \<Rightarrow> nat \<Rightarrow> (bytes \<times> nat) option" where
  "my_stpncpy dst src n =
     (let s = takeWhile (\<lambda>c. c \<noteq> NUL) (take n src)
      in if (length src < n \<and> NUL \<notin> set src) \<or> length dst < n then None
         else Some (s @ replicate (n - length s) NUL @ drop n dst, length s))"

record LEX_STRING =
  lex_str :: bytes
  lex_length :: nat

definition lex_string_set :: "bytes \<Rightarrow> LEX_STRING option" where
  "lex_string_set s = map_option (\<lambda>n. \<lparr>lex_str = s, lex_length = n\<rparr>) (c_strlen s)"

definition lex_cstring_set :: "bytes \<Rightarrow> LEX_STRING option" where
  "lex_cstring_set s = map_option (\<lambda>n. \<lparr>lex_str = s, lex_length = n\<rparr>) (c_strlen s)"

section \<open>Reading numbers\<close>

definition digit_of :: "char \<Rightarrow> nat" where
  "digit_of c =
     (let n = of_char c
      in if 48 \<le> n \<and> n \<le> 57 then n - 48
         else if 97 \<le> n \<and> n \<le> 122 then n - 87
         else if 65 \<le> n \<and> n \<le> 90 then n - 55 else 36)"

fun scan_digits :: "nat \<Rightarrow> nat \<Rightarrow> nat \<Rightarrow> bytes \<Rightarrow> nat \<times> nat" where
  "scan_digits base acc n [] = (acc, n)"
| "scan_digits base acc n (c # cs) =
     (if digit_of c < base then scan_digits base (base * acc + digit_of c) (Suc n) cs else (acc, n))"

text \<open>The prefixes of bases 16 and 0; \<open>0x\<close> counts only before a digit.\<close>

fun number_prefix :: "nat \<Rightarrow> bytes \<Rightarrow> nat \<times> nat" where
  "number_prefix base (z # x # d # cs) =
     (if base \<in> {0, 16} \<and> z = CHR ''0'' \<and> (x = CHR ''x'' \<or> x = CHR ''X'') \<and> digit_of d < 16 then (16, 2)
      else if base = 0 then (if z = CHR ''0'' then (8, 0) else (10, 0)) else (base, 0))"
| "number_prefix base (z # cs) =
     (if base = 0 then (if z = CHR ''0'' then (8, 0) else (10, 0)) else (base, 0))"
| "number_prefix base [] = (if base = 0 then 10 else base, 0)"

text \<open>
  Sign, magnitude and end of the number at the start of a string, \<open>None\<close> for a base the library
  refuses; without digits the end is the start.
\<close>

definition scan_number :: "bytes \<Rightarrow> int \<Rightarrow> (bool \<times> nat \<times> nat) option" where
  "scan_number s base =
     (if base < 0 \<or> base = 1 \<or> 36 < base then None
      else let spaces = length (takeWhile isspace s);
               t = drop spaces s;
               neg = (t \<noteq> [] \<and> hd t = CHR ''-'');
               sign = (if t \<noteq> [] \<and> (hd t = CHR ''-'' \<or> hd t = CHR ''+'') then 1 else 0);
               u = drop sign t;
               (b, skip) = number_prefix (nat base) u;
               (value, n) = scan_digits b 0 0 (drop skip u)
           in Some (if n = 0 then (False, 0, 0) else (neg, value, spaces + sign + skip + n)))"

definition my_strtoll :: "bytes \<Rightarrow> int \<Rightarrow> int \<times> nat option" where
  "my_strtoll nptr base =
     (case scan_number (c_str nptr) base of
        None \<Rightarrow> (0, None)
      | Some (neg, value, n) \<Rightarrow> (clamp_long (if neg then - int value else int value), Some n))"

definition my_strtoull :: "bytes \<Rightarrow> int \<Rightarrow> int \<times> nat option" where
  "my_strtoull nptr base =
     (case scan_number (c_str nptr) base of
        None \<Rightarrow> (0, None)
      | Some (neg, value, n) \<Rightarrow>
          (if 2 ^ 64 \<le> value then 2 ^ 64 - 1
           else if neg then (- int value) mod 2 ^ 64 else int value, Some n))"

section \<open>Splitting and comparing\<close>

text \<open>\<open>strtok_r\<close>: the next token, and where to go on; a null \<open>str\<close> continues at the saved place.\<close>

definition my_strtok_r :: "bytes option \<Rightarrow> bytes \<Rightarrow> bytes \<Rightarrow> bytes option \<times> bytes" where
  "my_strtok_r str delim saveptr =
     (let s = dropWhile (\<lambda>c. c \<in> set delim) (case str of Some s \<Rightarrow> c_str s | None \<Rightarrow> saveptr)
      in if s = [] then (None, [])
         else (Some (takeWhile (\<lambda>c. c \<notin> set delim) s), drop 1 (dropWhile (\<lambda>c. c \<notin> set delim) s)))"

definition tolower :: "char \<Rightarrow> char" where
  "tolower c = (if 65 \<le> (of_char c :: nat) \<and> (of_char c :: nat) \<le> 90 then char_of (of_char c + 32 :: nat) else c)"

text \<open>The difference of the first two characters that differ; the end of a string counts as 0.\<close>

fun casecmp :: "bytes \<Rightarrow> bytes \<Rightarrow> int" where
  "casecmp [] [] = 0"
| "casecmp [] (d # ds) = - int (of_char (tolower d))"
| "casecmp (c # cs) [] = int (of_char (tolower c))"
| "casecmp (c # cs) (d # ds) =
     (if tolower c = tolower d then casecmp cs ds
      else int (of_char (tolower c)) - int (of_char (tolower d)))"

definition native_strcasecmp :: "bytes \<Rightarrow> bytes \<Rightarrow> int" where
  "native_strcasecmp s1 s2 = casecmp (c_str s1) (c_str s2)"

definition native_strncasecmp :: "bytes \<Rightarrow> bytes \<Rightarrow> nat \<Rightarrow> int" where
  "native_strncasecmp s1 s2 n = casecmp (take n (c_str s1)) (take n (c_str s2))"

section \<open>Macros on two values\<close>

definition swap_variables :: "'a \<Rightarrow> 'a \<Rightarrow> 'a \<times> 'a" where
  "swap_variables a b = (let dummy = a; a = b; b = dummy in (a, b))"

definition set_if_bigger :: "'a::linorder \<Rightarrow> 'a \<Rightarrow> 'a" where
  "set_if_bigger a b = (if a < b then b else a)"

definition set_if_smaller :: "'a::linorder \<Rightarrow> 'a \<Rightarrow> 'a" where
  "set_if_smaller a b = (if a > b then b else a)"

definition MY_MAX :: "'a::linorder \<Rightarrow> 'a \<Rightarrow> 'a" where
  "MY_MAX a b = (if a > b then a else b)"

definition MY_MIN :: "'a::linorder \<Rightarrow> 'a \<Rightarrow> 'a" where
  "MY_MIN a b = (if a < b then a else b)"

section \<open>Facts\<close>

text \<open>A variable clipped from below and above ends within the bounds, unless they cross.\<close>

lemma set_if_clips:
  "lo \<le> hi \<Longrightarrow> set_if_smaller (set_if_bigger a lo) hi = MY_MIN (MY_MAX a lo) hi \<and>
    lo \<le> MY_MIN (MY_MAX a lo) hi \<and> MY_MIN (MY_MAX a lo) hi \<le> hi"
  by (auto simp: set_if_smaller_def set_if_bigger_def MY_MIN_def MY_MAX_def)

lemma c_strlen_Some: "c_strlen s = Some n \<longleftrightarrow> NUL \<in> set s \<and> n = length (c_str s)"
proof -
  have "find_idx (\<lambda>c. c = NUL) s = (if NUL \<in> set s then Some (length (c_str s)) else None)"
    by (induction s) (auto simp: c_str_def)
  then show ?thesis by (auto simp: c_strlen_def)
qed

lemma c_str_terminated: "NUL \<in> set s \<Longrightarrow> take (Suc (length (c_str s))) s = c_str s @ [NUL]"
  by (induction s) (auto simp: c_str_def)

text \<open>\<open>stpcpy\<close> puts the same string into the destination and returns its end.\<close>

lemma my_stpcpy_copies:
  assumes "NUL \<in> set src" and "length (c_str src) < length dst"
  shows "\<exists>dst'. my_stpcpy dst src = Some (dst', length (c_str src)) \<and> c_str dst' = c_str src \<and>
    length dst' = length dst \<and> dst' ! length (c_str src) = NUL"
proof -
  let ?n = "length (c_str src)"
  let ?d = "c_str src @ NUL # drop (Suc ?n) dst"
  have "c_strlen src = Some ?n" using assms(1) by (simp add: c_strlen_Some)
  then have "my_stpcpy dst src = Some (?d, ?n)"
    using assms c_str_terminated [OF assms(1)] by (simp add: my_stpcpy_def)
  moreover have "c_str ?d = c_str src" by (simp add: c_str_append c_str_no_nul) (simp add: c_str_def)
  ultimately show ?thesis using assms(2) by (intro exI [of _ ?d]) simp
qed

text \<open>
  \<open>stpncpy\<close> does not terminate a string that fills the \<open>n\<close> characters: the pointer it returns is then
  not one to a terminating null byte, which the comment in the header promises.
\<close>

lemma c_str_take: "takeWhile (\<lambda>c. c \<noteq> NUL) (take n s) = take n (c_str s)"
  by (induction s arbitrary: n) (auto simp: c_str_def take_Cons split: nat.splits)

lemma take_c_str: "n \<le> length (c_str s) \<Longrightarrow> take n (c_str s) = take n s"
  by (induction s arbitrary: n) (auto simp: c_str_def take_Cons split: nat.splits if_splits)

lemma c_str_shorter: "length (c_str s) \<le> length s"
  by (simp add: c_str_def length_takeWhile_le)

lemma my_stpncpy_short:
  assumes "length (c_str src) < n" and "NUL \<in> set src" and "n \<le> length dst"
  shows "my_stpncpy dst src n =
    Some (c_str src @ replicate (n - length (c_str src)) NUL @ drop n dst, length (c_str src))"
proof -
  have "takeWhile (\<lambda>c. c \<noteq> NUL) (take n src) = c_str src"
    using assms(1) by (simp add: c_str_take)
  then show ?thesis using assms(2,3) by (simp add: my_stpncpy_def Let_def)
qed

lemma my_stpncpy_unterminated:
  assumes "n \<le> length (c_str src)" and "n \<le> length dst"
  shows "my_stpncpy dst src n = Some (take n src @ drop n dst, n) \<and> NUL \<notin> set (take n src)"
proof -
  have n: "n \<le> length src" using assms(1) c_str_shorter le_trans by blast
  have t: "takeWhile (\<lambda>c. c \<noteq> NUL) (take n src) = take n src"
    using assms(1) by (simp add: c_str_take take_c_str)
  then have "NUL \<notin> set (take n src)" by (auto simp: takeWhile_eq_all_conv)
  then show ?thesis using assms(2) n by (simp add: my_stpncpy_def t)
qed

lemma digit_of_digit: "isdigit c \<Longrightarrow> digit_of c = digit_val c \<and> digit_of c < 10"
  by (auto simp: isdigit_def digit_of_def digit_val_def Let_def)

lemma scan_digits_all:
  "\<forall>c\<in>set s. isdigit c \<Longrightarrow> scan_digits 10 acc n s = (parse_digits acc s, n + length s)"
proof (induction s arbitrary: acc n)
  case (Cons c s)
  then have "isdigit c" by simp
  with digit_of_digit [OF this] Cons show ?case by simp
qed simp

lemma number_prefix_ten [simp]: "number_prefix 10 s = (10, 0)"
  by (cases "(10 :: nat, s)" rule: number_prefix.cases) auto

text \<open>A printed number is read back up to its end, cut to 64 bits.\<close>

lemma scan_number_nat:
  "scan_number (string_of_nat n) 10 = Some (False, n, length (string_of_nat n))"
proof -
  obtain c cs where s: "string_of_nat n = c # cs"
    using string_of_nat_nonempty by (cases "string_of_nat n") auto
  with string_of_nat_digits [of n] have c: "isdigit c" by simp
  have "scan_digits 10 0 0 (string_of_nat n) = (n, length (string_of_nat n))"
    using scan_digits_all [OF string_of_nat_digits] parse_string_of_nat by simp
  with s isdigit_nospace [OF c] isdigit_nosign [OF c] show ?thesis
    by (simp add: scan_number_def Let_def)
qed

lemma scan_number_neg:
  "scan_number (CHR ''-'' # string_of_nat n) 10 = Some (True, n, Suc (length (string_of_nat n)))"
proof -
  have "scan_digits 10 0 0 (string_of_nat n) = (n, length (string_of_nat n))"
    using scan_digits_all [OF string_of_nat_digits] parse_string_of_nat by simp
  then show ?thesis using string_of_nat_nonempty [of n]
    by (simp add: scan_number_def Let_def isspace_def)
qed

lemma my_strtoll_reads_back:
  "my_strtoll (string_of_int n @ NUL # t) 10 = (clamp_long n, Some (length (string_of_int n)))"
proof -
  have c: "c_str (string_of_int n @ NUL # t) = string_of_int n"
    using c_str_append [OF string_of_int_no_nul] by (simp add: c_str_def)
  show ?thesis
  proof (cases "n < 0")
    case True
    then show ?thesis using scan_number_neg [of "nat (- n)"]
      by (simp add: my_strtoll_def c) (simp add: string_of_int_def)
  next
    case False
    then show ?thesis using scan_number_nat [of "nat n"]
      by (simp add: my_strtoll_def c) (simp add: string_of_int_def)
  qed
qed

text \<open>The tokens of a string, one call after the other: the non-empty pieces between delimiters.\<close>

lemma my_strtok_r_shorter:
  "my_strtok_r None delim s = (Some tok, s') \<Longrightarrow> length s' < length s"
proof -
  assume "my_strtok_r None delim s = (Some tok, s')"
  then have d: "dropWhile (\<lambda>c. c \<in> set delim) s \<noteq> []"
    and s': "s' = drop 1 (dropWhile (\<lambda>c. c \<notin> set delim) (dropWhile (\<lambda>c. c \<in> set delim) s))"
    by (auto simp: my_strtok_r_def Let_def split: if_splits)
  have "length (dropWhile P xs) \<le> length xs" for P and xs :: bytes by (rule length_dropWhile_le)
  moreover obtain c cs where c: "dropWhile (\<lambda>c. c \<in> set delim) s = c # cs" using d by (meson neq_Nil_conv)
  moreover have "c \<notin> set delim" using c by (metis dropWhile_eq_Cons_conv)
  ultimately have "length s' \<le> length cs" unfolding s'
    by simp (metis diff_le_self le_trans)
  moreover have "length (c # cs) \<le> length s" unfolding c [symmetric] by (rule length_dropWhile_le)
  ultimately show "length s' < length s" by simp
qed

function all_tokens :: "bytes \<Rightarrow> bytes \<Rightarrow> bytes list" where
  "all_tokens delim s =
     (case my_strtok_r None delim s of (None, s') \<Rightarrow> [] | (Some tok, s') \<Rightarrow> tok # all_tokens delim s')"
  by pat_completeness auto
termination
  by (relation "measure (\<lambda>(delim, s). length s)") (auto dest: my_strtok_r_shorter [OF sym])

declare all_tokens.simps [simp del]

lemma filter_first_run: "filter P xs = takeWhile P xs @ filter P (drop 1 (dropWhile P xs))"
  by (induction xs) auto

lemma all_tokens_pieces:
  "concat (all_tokens delim s) = filter (\<lambda>c. c \<notin> set delim) s \<and>
   (\<forall>tok\<in>set (all_tokens delim s). tok \<noteq> [] \<and> set tok \<inter> set delim = {})"
proof (induction delim s rule: all_tokens.induct)
  case (1 delim s)
  let ?u = "dropWhile (\<lambda>c. c \<in> set delim) s"
  have skip: "filter (\<lambda>c. c \<notin> set delim) s = filter (\<lambda>c. c \<notin> set delim) ?u"
    by (induction s) auto
  show ?case
  proof (cases "?u = []")
    case True
    then have "all_tokens delim s = []"
      by (simp add: all_tokens.simps [of delim s] my_strtok_r_def)
    with True skip show ?thesis by simp
  next
    case False
    let ?tok = "takeWhile (\<lambda>c. c \<notin> set delim) ?u" and ?r = "dropWhile (\<lambda>c. c \<notin> set delim) ?u"
    have call: "my_strtok_r None delim s = (Some ?tok, drop 1 ?r)"
      using False by (simp add: my_strtok_r_def Let_def)
    have "hd ?u \<notin> set delim" using hd_dropWhile [OF False] by simp
    then have "?tok \<noteq> []" using False by (cases ?u) auto
    moreover have "set ?tok \<inter> set delim = {}" by (auto dest: set_takeWhileD)
    moreover note filter_first_run [of "\<lambda>c. c \<notin> set delim" ?u]
    moreover have "all_tokens delim s = ?tok # all_tokens delim (drop 1 ?r)"
      by (simp only: all_tokens.simps [of delim s] call prod.case option.case)
    moreover note 1 [OF call [symmetric] refl]
    ultimately show ?thesis using skip by simp
  qed
qed

text \<open>Comparing without case is an order on the lower case forms.\<close>

lemma of_char_zero: "(of_char c :: nat) = 0 \<longleftrightarrow> c = NUL"
  using of_char_eq_iff [where 'a = nat, of c NUL] by simp

lemma tolower_pos: "c \<noteq> NUL \<Longrightarrow> 0 < (of_char (tolower c) :: nat)"
  using of_char_zero [of c] by (auto simp: tolower_def)

lemma casecmp_zero:
  "NUL \<notin> set a \<Longrightarrow> NUL \<notin> set b \<Longrightarrow> casecmp a b = 0 \<longleftrightarrow> map tolower a = map tolower b"
proof (induction a b rule: casecmp.induct)
  case (2 d ds)
  then show ?case using tolower_pos [of d] by auto
next
  case (3 c cs)
  then show ?case using tolower_pos [of c] by auto
next
  case (4 c cs d ds)
  then show ?case by (cases "tolower c = tolower d") auto
qed simp

lemma native_strcasecmp_equal:
  "native_strcasecmp s1 s2 = 0 \<longleftrightarrow> map tolower (c_str s1) = map tolower (c_str s2)"
  by (simp add: native_strcasecmp_def casecmp_zero c_str_no_nul)

lemma casecmp_swap: "casecmp b a = - casecmp a b"
  by (induction a b rule: casecmp.induct) auto

lemma native_strncasecmp_prefix:
  "native_strncasecmp s1 s2 n = 0 \<longleftrightarrow> take n (map tolower (c_str s1)) = take n (map tolower (c_str s2))"
proof -
  have "NUL \<notin> set (take n (c_str s))" for s using c_str_no_nul [of s] by (metis in_set_takeD)
  then show ?thesis by (simp add: native_strncasecmp_def casecmp_zero take_map)
qed

end
