(* ===== verification/Io_Cache.thy ===== *)
theory Io_Cache
  imports Byte_Order
begin

text \<open>
  \<open>IO_CACHE\<close> of \<open>my_sys.h\<close>, the buffered files of the MySQL library: the macros that read and write in the
  buffer and leave the rest to functions of the library. A pointer into a buffer is an index; \<open>current\<close>
  tells which pair of pointers \<open>current_pos\<close> and \<open>current_end\<close> point to. The functions the macros call when
  the buffer does not suffice (\<open>read_function\<close>, \<open>_my_b_get\<close>, \<open>write_function\<close>) are declared by the header
  only and are parameters; they work on the cache and the system, a value of type \<open>'w\<close>.
\<close>

section \<open>The cache\<close>

datatype cache_side = Read_Side | Write_Side

record io_cache =
  pos_in_file :: "64 word"
  buffer :: "byte list option"
  read_pos :: nat
  read_end :: nat
  request_pos :: nat
  write_buffer :: "byte list"
  write_pos :: nat
  write_end :: nat
  current :: cache_side

definition current_pos :: "io_cache \<Rightarrow> nat" where
  "current_pos info = (case current info of Read_Side \<Rightarrow> read_pos info | Write_Side \<Rightarrow> write_pos info)"

definition current_end :: "io_cache \<Rightarrow> nat" where
  "current_end info = (case current info of Read_Side \<Rightarrow> read_end info | Write_Side \<Rightarrow> write_end info)"

definition my_b_clear :: "io_cache \<Rightarrow> io_cache" where
  "my_b_clear info = info\<lparr>buffer := None\<rparr>"

definition my_b_inited :: "io_cache \<Rightarrow> bool" where
  "my_b_inited info = (buffer info \<noteq> None)"

definition my_b_EOF :: int where "my_b_EOF = - 2147483648"

definition my_b_read ::
    "(nat \<Rightarrow> io_cache \<times> 'w \<Rightarrow> (int \<times> byte list) \<times> (io_cache \<times> 'w)) \<Rightarrow> nat \<Rightarrow> io_cache \<times> 'w \<Rightarrow>
     (int \<times> byte list) \<times> (io_cache \<times> 'w)" where
  "my_b_read read_function Count s =
     (let info = fst s
      in if read_pos info + Count \<le> read_end info
         then ((0, take Count (drop (read_pos info) (the (buffer info)))),
               (info\<lparr>read_pos := read_pos info + Count\<rparr>, snd s))
         else read_function Count s)"

definition my_b_write ::
    "(byte list \<Rightarrow> io_cache \<times> 'w \<Rightarrow> int \<times> (io_cache \<times> 'w)) \<Rightarrow> byte list \<Rightarrow> io_cache \<times> 'w \<Rightarrow>
     int \<times> (io_cache \<times> 'w)" where
  "my_b_write write_function data s =
     (let info = fst s
      in if write_pos info + length data \<le> write_end info
         then (0, (info\<lparr>write_buffer := take (write_pos info) (write_buffer info) @ data @
                       drop (write_pos info + length data) (write_buffer info),
                     write_pos := write_pos info + length data\<rparr>, snd s))
         else write_function data s)"

definition my_b_get :: "(io_cache \<times> 'w \<Rightarrow> int \<times> (io_cache \<times> 'w)) \<Rightarrow> io_cache \<times> 'w \<Rightarrow> int \<times> (io_cache \<times> 'w)" where
  "my_b_get slow_get s =
     (let info = fst s
      in if read_pos info \<noteq> read_end info
         then (uint (the (buffer info) ! read_pos info), (info\<lparr>read_pos := read_pos info + 1\<rparr>, snd s))
         else slow_get s)"

definition my_b_tell :: "io_cache \<Rightarrow> 64 word" where
  "my_b_tell info = pos_in_file info + word_of_int (int (current_pos info) - int (request_pos info))"

definition my_b_get_buffer_start :: "io_cache \<Rightarrow> nat" where
  "my_b_get_buffer_start info = request_pos info"

definition my_b_get_bytes_in_buffer :: "io_cache \<Rightarrow> int" where
  "my_b_get_bytes_in_buffer info = int (read_end info) - int (my_b_get_buffer_start info)"

definition my_b_get_pos_in_file :: "io_cache \<Rightarrow> 64 word" where
  "my_b_get_pos_in_file info = pos_in_file info"

definition my_b_bytes_in_cache :: "io_cache \<Rightarrow> 64 word" where
  "my_b_bytes_in_cache info = word_of_int (int (current_end info) - int (current_pos info))"

section \<open>Reading\<close>

text \<open>
  A cache over a file with the contents \<open>F\<close>, at the position \<open>p\<close>: from \<open>request_pos\<close> the buffer holds the
  bytes of the file from \<open>pos_in_file\<close>. The system satisfies \<open>I\<close>.
\<close>

definition reads_from :: "('w \<Rightarrow> bool) \<Rightarrow> byte list \<Rightarrow> nat \<Rightarrow> io_cache \<times> 'w \<Rightarrow> bool" where
  "reads_from I F p s \<longleftrightarrow>
     (let info = fst s; n = read_end info - request_pos info
      in I (snd s) \<and> current info = Read_Side \<and> buffer info \<noteq> None \<and> length F < 2 ^ 64 \<and>
         request_pos info \<le> read_pos info \<and> read_pos info \<le> read_end info \<and>
         read_end info \<le> length (the (buffer info)) \<and> unat (pos_in_file info) + n \<le> length F \<and>
         take n (drop (request_pos info) (the (buffer info))) = take n (drop (unat (pos_in_file info)) F) \<and>
         unat (pos_in_file info) + (read_pos info - request_pos info) = p)"

text \<open>
  What the header says of the functions of the library: one is called for data that is not fully in the
  buffer and then fetches it from the file; the other gives the next byte, or \<open>my_b_EOF\<close> at the end.
\<close>

definition fetches :: "('w \<Rightarrow> bool) \<Rightarrow> byte list \<Rightarrow>
    (nat \<Rightarrow> io_cache \<times> 'w \<Rightarrow> (int \<times> byte list) \<times> (io_cache \<times> 'w)) \<Rightarrow> bool" where
  "fetches I F read_function \<longleftrightarrow>
     (\<forall>n s p. reads_from I F p s \<and> read_end (fst s) < read_pos (fst s) + n \<and> p + n \<le> length F \<longrightarrow>
        fst (read_function n s) = (0, take n (drop p F)) \<and> reads_from I F (p + n) (snd (read_function n s)))"

definition fetches_byte :: "('w \<Rightarrow> bool) \<Rightarrow> byte list \<Rightarrow> (io_cache \<times> 'w \<Rightarrow> int \<times> (io_cache \<times> 'w)) \<Rightarrow> bool" where
  "fetches_byte I F slow_get \<longleftrightarrow>
     (\<forall>s p. reads_from I F p s \<and> read_pos (fst s) = read_end (fst s) \<longrightarrow>
        (if p < length F
         then fst (slow_get s) = uint (F ! p) \<and> reads_from I F (p + 1) (snd (slow_get s))
         else fst (slow_get s) = my_b_EOF \<and> reads_from I F p (snd (slow_get s))))"

text \<open>The bytes in the buffer are those of the file.\<close>

lemma reads_from_nth:
  assumes "reads_from I F p s" "read_pos (fst s) + i < read_end (fst s)"
  shows "the (buffer (fst s)) ! (read_pos (fst s) + i) = F ! (p + i)" "p + i < length F"
proof -
  let ?info = "fst s" and ?b = "the (buffer (fst s))"
  let ?n = "read_end ?info - request_pos ?info" and ?k = "read_pos ?info - request_pos ?info + i"
  have h: "request_pos ?info \<le> read_pos ?info" "read_end ?info \<le> length ?b"
    "unat (pos_in_file ?info) + ?n \<le> length F"
    "take ?n (drop (request_pos ?info) ?b) = take ?n (drop (unat (pos_in_file ?info)) F)"
    "unat (pos_in_file ?info) + (read_pos ?info - request_pos ?info) = p"
    using assms(1) by (auto simp: reads_from_def Let_def)
  have k: "?k < ?n" using assms(2) h(1) by linarith
  have "take ?n (drop (request_pos ?info) ?b) ! ?k = ?b ! (read_pos ?info + i)"
    using k h(1,2) by simp
  moreover have "take ?n (drop (unat (pos_in_file ?info)) F) ! ?k = F ! (p + i)"
    using k h(3,5) by (simp add: add.assoc [symmetric])
  ultimately show "?b ! (read_pos ?info + i) = F ! (p + i)" using h(4) by simp
  show "p + i < length F" using k h(3,5) by linarith
qed

lemma reads_from_advance:
  assumes "reads_from I F p (info, w)" "read_pos info + n \<le> read_end info"
  shows "reads_from I F (p + n) (info\<lparr>read_pos := read_pos info + n\<rparr>, w)"
  using assms by (auto simp: reads_from_def Let_def)

lemma buffered_bytes:
  assumes "reads_from I F p s" "read_pos (fst s) + n \<le> read_end (fst s)"
  shows "take n (drop (read_pos (fst s)) (the (buffer (fst s)))) = take n (drop p F)"
proof (rule nth_equalityI)
  have l: "read_end (fst s) \<le> length (the (buffer (fst s)))" "p + n \<le> length F"
    using assms by (auto simp: reads_from_def Let_def)
  then show "length (take n (drop (read_pos (fst s)) (the (buffer (fst s))))) = length (take n (drop p F))"
    using assms(2) by simp
  show "take n (drop (read_pos (fst s)) (the (buffer (fst s)))) ! i = take n (drop p F) ! i"
    if "i < length (take n (drop (read_pos (fst s)) (the (buffer (fst s)))))" for i
    using that l assms reads_from_nth [OF assms(1), of i] by simp
qed

lemma fetchesD:
  "fetches I F rd \<Longrightarrow> reads_from I F p s \<Longrightarrow> read_end (fst s) < read_pos (fst s) + n \<Longrightarrow> p + n \<le> length F \<Longrightarrow>
   fst (rd n s) = (0, take n (drop p F)) \<and> reads_from I F (p + n) (snd (rd n s))"
  unfolding fetches_def by blast

lemma fetches_byteD:
  "fetches_byte I F gt \<Longrightarrow> reads_from I F p s \<Longrightarrow> read_pos (fst s) = read_end (fst s) \<Longrightarrow>
   (if p < length F
    then fst (gt s) = uint (F ! p) \<and> reads_from I F (p + 1) (snd (gt s))
    else fst (gt s) = my_b_EOF \<and> reads_from I F p (snd (gt s)))"
  unfolding fetches_byte_def by blast

lemma my_b_read_step:
  assumes "fetches I F rd" "reads_from I F p s" "p + n \<le> length F"
  shows "fst (my_b_read rd n s) = (0, take n (drop p F)) \<and> reads_from I F (p + n) (snd (my_b_read rd n s))"
proof (cases "read_pos (fst s) + n \<le> read_end (fst s)")
  case True
  then show ?thesis using assms(2) buffered_bytes [OF assms(2) True] reads_from_advance [of I F p "fst s" "snd s" n]
    by (simp add: my_b_read_def Let_def)
next
  case False
  then show ?thesis using fetchesD [OF assms(1,2) _ assms(3)] by (simp add: my_b_read_def Let_def)
qed

lemma my_b_get_step:
  assumes "fetches_byte I F gt" "reads_from I F p s"
  shows "(if p < length F
     then fst (my_b_get gt s) = uint (F ! p) \<and> reads_from I F (p + 1) (snd (my_b_get gt s))
     else fst (my_b_get gt s) = my_b_EOF \<and> reads_from I F p (snd (my_b_get gt s)))"
proof (cases "read_pos (fst s) = read_end (fst s)")
  case False
  then have lt: "read_pos (fst s) + 0 < read_end (fst s)" using assms(2) by (simp add: reads_from_def Let_def)
  then show ?thesis using assms(2) reads_from_nth [OF assms(2) lt] reads_from_advance [of I F p "fst s" "snd s" 1]
    by (simp add: my_b_get_def Let_def False)
next
  case True
  then show ?thesis using fetches_byteD [OF assms True] by (simp add: my_b_get_def Let_def split: if_split_asm)
qed

lemma my_b_tell_reads:
  assumes "reads_from I F p s"
  shows "my_b_tell (fst s) = of_nat p"
  using assms by (auto simp: my_b_tell_def current_pos_def reads_from_def Let_def of_nat_diff)

text \<open>Programs of these calls, on the cache and on the file itself.\<close>

datatype cache_call = Read nat | Get | Tell
datatype cache_result = Bytes int "byte list" | Char int | Offset "64 word"

fun cache_step ::
    "(nat \<Rightarrow> io_cache \<times> 'w \<Rightarrow> (int \<times> byte list) \<times> (io_cache \<times> 'w)) \<Rightarrow>
     (io_cache \<times> 'w \<Rightarrow> int \<times> (io_cache \<times> 'w)) \<Rightarrow> cache_call \<Rightarrow> io_cache \<times> 'w \<Rightarrow>
     cache_result \<times> (io_cache \<times> 'w)" where
  "cache_step rd gt (Read n) s = (let ((e, bs), s') = my_b_read rd n s in (Bytes e bs, s'))"
| "cache_step rd gt Get s = (let (x, s') = my_b_get gt s in (Char x, s'))"
| "cache_step rd gt Tell s = (Offset (my_b_tell (fst s)), s)"

fun file_step :: "byte list \<Rightarrow> cache_call \<Rightarrow> nat \<Rightarrow> cache_result \<times> nat" where
  "file_step F (Read n) p = (Bytes 0 (take n (drop p F)), p + n)"
| "file_step F Get p = (if p < length F then (Char (uint (F ! p)), p + 1) else (Char my_b_EOF, p))"
| "file_step F Tell p = (Offset (of_nat p), p)"

fun run_steps :: "('c \<Rightarrow> 's \<Rightarrow> 'r \<times> 's) \<Rightarrow> 'c list \<Rightarrow> 's \<Rightarrow> 'r list \<times> 's" where
  "run_steps f [] s = ([], s)"
| "run_steps f (c # cs) s =
     (let (r, s1) = f c s; (rs, s2) = run_steps f cs s1 in (r # rs, s2))"

text \<open>Reads that stay in the file.\<close>

fun read_within :: "byte list \<Rightarrow> cache_call \<Rightarrow> nat \<Rightarrow> bool" where
  "read_within F (Read n) p = (p + n \<le> length F)"
| "read_within F Get p = True"
| "read_within F Tell p = True"

fun reads_within :: "byte list \<Rightarrow> cache_call list \<Rightarrow> nat \<Rightarrow> bool" where
  "reads_within F [] p = True"
| "reads_within F (c # cs) p = (read_within F c p \<and> reads_within F cs (snd (file_step F c p)))"

lemma cache_step_file:
  assumes "fetches I F rd" "fetches_byte I F gt" "reads_from I F p s" "read_within F c p"
  shows "fst (cache_step rd gt c s) = fst (file_step F c p) \<and>
    reads_from I F (snd (file_step F c p)) (snd (cache_step rd gt c s))"
  using assms my_b_read_step [OF assms(1,3)] my_b_get_step [OF assms(2,3)] my_b_tell_reads [OF assms(3)]
  by (cases c) (auto simp: case_prod_unfold)

text \<open>C35: reading and telling through the buffer gives what the same calls give on the file itself,
  whatever part of the file the buffer holds, and leaves a cache over the same file, provided the
  functions of the library refill it as the header says.\<close>

theorem cache_reads_file:
  assumes "fetches I F rd" "fetches_byte I F gt" "reads_from I F p s" "reads_within F cs p"
  shows "fst (run_steps (cache_step rd gt) cs s) = fst (run_steps (file_step F) cs p) \<and>
    reads_from I F (snd (run_steps (file_step F) cs p)) (snd (run_steps (cache_step rd gt) cs s))"
  using assms(3,4)
proof (induction cs arbitrary: p s)
  case (Cons c cs)
  then show ?case using cache_step_file [OF assms(1,2), of p s c]
    by (simp add: case_prod_unfold Let_def)
qed simp

text \<open>A function of the library that reloads the buffer with the next four bytes at most.\<close>

definition reload :: "byte list \<Rightarrow> nat \<Rightarrow> io_cache" where
  "reload F p = \<lparr> pos_in_file = of_nat p, buffer = Some (take 4 (drop p F)), read_pos = 0,
     read_end = min 4 (length F - p), request_pos = 0, write_buffer = [], write_pos = 0, write_end = 0,
     current = Read_Side \<rparr>"

definition position :: "io_cache \<Rightarrow> nat" where
  "position info = unat (pos_in_file info) + (read_pos info - request_pos info)"

definition reload_read :: "nat \<Rightarrow> io_cache \<times> byte list \<Rightarrow> (int \<times> byte list) \<times> (io_cache \<times> byte list)" where
  "reload_read n s = (let p = position (fst s) in ((0, take n (drop p (snd s))), (reload (snd s) (p + n), snd s)))"

definition reload_get :: "io_cache \<times> byte list \<Rightarrow> int \<times> (io_cache \<times> byte list)" where
  "reload_get s = (let p = position (fst s)
     in if p < length (snd s) then (uint (snd s ! p), (reload (snd s) (p + 1), snd s)) else (my_b_EOF, s))"

lemma reads_from_reload:
  "p \<le> length F \<Longrightarrow> length F < 2 ^ 64 \<Longrightarrow> reads_from (\<lambda>w. w = F) F p (reload F p, F)"
  by (cases "length F - p \<le> 4") (auto simp: reads_from_def reload_def unat_of_nat take_bit_nat_eq_self min_absorb2)

lemma reads_from_facts:
  "reads_from (\<lambda>w. w = F) F p s \<Longrightarrow> position (fst s) = p \<and> snd s = F \<and> length F < 2 ^ 64"
  by (simp add: reads_from_def position_def Let_def)

lemma fetches_reload: "fetches (\<lambda>w. w = F) F reload_read"
  unfolding fetches_def
proof (intro allI impI)
  fix n p s assume "reads_from (\<lambda>w. w = F) F p s \<and> read_end (fst s) < read_pos (fst s) + n \<and> p + n \<le> length F"
  then show "fst (reload_read n s) = (0, take n (drop p F)) \<and>
      reads_from (\<lambda>w. w = F) F (p + n) (snd (reload_read n s))"
    using reads_from_facts [of F p s] reads_from_reload [of "p + n" F] by (simp add: reload_read_def)
qed

lemma fetches_byte_reload: "fetches_byte (\<lambda>w. w = F) F reload_get"
  unfolding fetches_byte_def
proof (intro allI impI)
  fix p s assume "reads_from (\<lambda>w. w = F) F p s \<and> read_pos (fst s) = read_end (fst s)"
  then show "if p < length F
      then fst (reload_get s) = uint (F ! p) \<and> reads_from (\<lambda>w. w = F) F (p + 1) (snd (reload_get s))
      else fst (reload_get s) = my_b_EOF \<and> reads_from (\<lambda>w. w = F) F p (snd (reload_get s))"
    using reads_from_facts [of F p s] reads_from_reload [of "p + 1" F] by (simp add: reload_get_def)
qed

theorem cache_reads_file_witness:
  "fst (run_steps (cache_step reload_read reload_get) [Read 3, Get, Get, Tell, Get]
      (reload [1, 2, 3, 4, 5] 0, [1, 2, 3, 4, 5])) =
    [Bytes 0 [1, 2, 3], Char 4, Char 5, Offset 5, Char my_b_EOF]" (is "fst (run_steps _ ?cs (_, ?F)) = _")
proof -
  have w: "reads_within ?F ?cs 0" by simp
  have r: "reads_from (\<lambda>w. w = ?F) ?F 0 (reload ?F 0, ?F)" by (rule reads_from_reload) simp_all
  have "fst (run_steps (cache_step reload_read reload_get) ?cs (reload ?F 0, ?F)) = fst (run_steps (file_step ?F) ?cs 0)"
    using cache_reads_file [OF fetches_reload fetches_byte_reload r w] by (rule conjunct1)
  also have "\<dots> = [Bytes 0 [1, 2, 3], Char 4, Char 5, Offset 5, Char my_b_EOF]" by simp
  finally show ?thesis .
qed

section \<open>Writing\<close>

text \<open>
  A cache that writes: what it holds is the bytes of the system's file, read with \<open>disk\<close>, and those of the
  buffer before \<open>write_pos\<close>. The function of the library writes what does not fit.
\<close>

definition written :: "('w \<Rightarrow> byte list) \<Rightarrow> io_cache \<times> 'w \<Rightarrow> byte list" where
  "written disk s = disk (snd s) @ take (write_pos (fst s)) (write_buffer (fst s))"

definition writes_to :: "('w \<Rightarrow> byte list) \<Rightarrow> io_cache \<times> 'w \<Rightarrow> bool" where
  "writes_to disk s \<longleftrightarrow>
     (let info = fst s
      in current info = Write_Side \<and> request_pos info = 0 \<and> write_pos info \<le> write_end info \<and>
         write_end info \<le> length (write_buffer info) \<and> pos_in_file info = of_nat (length (disk (snd s))))"

definition flushes :: "('w \<Rightarrow> byte list) \<Rightarrow> (byte list \<Rightarrow> io_cache \<times> 'w \<Rightarrow> int \<times> (io_cache \<times> 'w)) \<Rightarrow> bool" where
  "flushes disk write_function \<longleftrightarrow>
     (\<forall>data s. writes_to disk s \<and> write_end (fst s) < write_pos (fst s) + length data \<longrightarrow>
        fst (write_function data s) = 0 \<and> writes_to disk (snd (write_function data s)) \<and>
        written disk (snd (write_function data s)) = written disk s @ data)"

lemma flushesD:
  "flushes disk wr \<Longrightarrow> writes_to disk s \<Longrightarrow> write_end (fst s) < write_pos (fst s) + length data \<Longrightarrow>
   fst (wr data s) = 0 \<and> writes_to disk (snd (wr data s)) \<and> written disk (snd (wr data s)) = written disk s @ data"
  unfolding flushes_def by blast

lemma my_b_write_step:
  assumes "flushes disk wr" "writes_to disk s"
  shows "fst (my_b_write wr data s) = 0 \<and> writes_to disk (snd (my_b_write wr data s)) \<and>
    written disk (snd (my_b_write wr data s)) = written disk s @ data"
proof (cases "write_pos (fst s) + length data \<le> write_end (fst s)")
  case True
  then show ?thesis using assms(2) by (auto simp: my_b_write_def writes_to_def written_def Let_def)
next
  case False
  then show ?thesis using flushesD [OF assms] by (simp add: my_b_write_def Let_def)
qed

lemma my_b_tell_writes:
  "writes_to disk s \<Longrightarrow> my_b_tell (fst s) = of_nat (length (written disk s))"
  by (auto simp: my_b_tell_def current_pos_def writes_to_def written_def Let_def min_absorb2)

text \<open>C36: writing through the buffer succeeds, the bytes on disk followed by those of the buffer are all
  that was written, in order, and \<open>my_b_tell\<close> is their number, provided the function of the library writes
  what does not fit.\<close>

theorem cache_writes_file:
  assumes "flushes disk wr" "writes_to disk s"
  shows "set (fst (run_steps (my_b_write wr) datas s)) \<subseteq> {0} \<and>
    written disk (snd (run_steps (my_b_write wr) datas s)) = written disk s @ concat datas \<and>
    my_b_tell (fst (snd (run_steps (my_b_write wr) datas s))) = of_nat (length (written disk s) + length (concat datas))"
proof -
  have "set (fst (run_steps (my_b_write wr) datas s)) \<subseteq> {0} \<and> writes_to disk (snd (run_steps (my_b_write wr) datas s)) \<and>
      written disk (snd (run_steps (my_b_write wr) datas s)) = written disk s @ concat datas"
    using assms(2)
  proof (induction datas arbitrary: s)
    case (Cons data datas)
    then show ?case using my_b_write_step [OF assms(1) Cons.prems, of data]
      by (simp add: case_prod_unfold Let_def)
  qed simp
  then show ?thesis by (auto simp: my_b_tell_writes)
qed

text \<open>A function of the library that writes the buffer and then the data.\<close>

definition write_through :: "byte list \<Rightarrow> io_cache \<times> byte list \<Rightarrow> int \<times> (io_cache \<times> byte list)" where
  "write_through data s =
     (let w' = written (\<lambda>w. w) s @ data
      in (0, ((fst s)\<lparr>pos_in_file := of_nat (length w'), write_pos := 0\<rparr>, w')))"

lemma flushes_write_through: "flushes (\<lambda>w. w) write_through"
  by (auto simp: flushes_def write_through_def Let_def writes_to_def written_def)

definition empty_cache :: "nat \<Rightarrow> io_cache" where
  "empty_cache n = \<lparr> pos_in_file = 0, buffer = None, read_pos = 0, read_end = 0, request_pos = 0,
     write_buffer = replicate n 0, write_pos = 0, write_end = n, current = Write_Side \<rparr>"

theorem cache_writes_file_witness:
  "written (\<lambda>w. w) (snd (run_steps (my_b_write write_through) [[1, 2], [3, 4, 5], [6]] (empty_cache 4, []))) =
    [1, 2, 3, 4, 5, 6]"
  using cache_writes_file [OF flushes_write_through, of "(empty_cache 4, [])" "[[1, 2], [3, 4, 5], [6]]"]
  by (simp add: writes_to_def written_def empty_cache_def)

end
