(* ===== verification/Mysql_Flags.thy ===== *)
theory Mysql_Flags
  imports Prelude
begin

unbundle bit_operations_syntax

text \<open>
  The words of flags of the MySQL client library and the macros on them: the capabilities of a client, the
  status of the server and the orders to refresh of \<open>mysql_com.h\<close>, the state of a character set, the
  classes of characters and the levels of \<open>strxfrm\<close> of \<open>m_ctype.h\<close>, the types of columns of
  \<open>binary_log_types.h\<close> with the tests of \<open>mysql.h\<close>, and \<open>test_all_bits\<close> of \<open>my_global.h\<close>. The locale
  \<open>flag_word\<close> is what every such word relies on, that no two flags share a bit.
\<close>

section \<open>Sets of flags in a word\<close>

definition test_all_bits :: "32 word \<Rightarrow> 32 word \<Rightarrow> bool" where
  "test_all_bits a b \<longleftrightarrow> a AND b = b"

definition any_of :: "32 word list \<Rightarrow> 32 word" where
  "any_of vs = foldr (OR) vs 0"

lemma any_of_simps [simp]: "any_of [] = 0" "any_of (v # vs) = v OR any_of vs"
  by (simp_all add: any_of_def)

lemma word32_eq_iff: "a = b \<longleftrightarrow> (\<forall>n<32. bit a n = bit b n)" for a b :: "32 word"
  by (auto intro: bit_word_eqI)

locale flag_word =
  fixes flag :: "'f \<Rightarrow> 32 word" and place :: "'f \<Rightarrow> nat"
  assumes flag_place: "flag f = push_bit (place f) 1"
    and place_bound: "place f < 32"
    and place_inj: "place f = place g \<Longrightarrow> f = g"
begin

lemma bit_flag: "bit (flag f) n \<longleftrightarrow> n = place f"
  using place_bound [of f] by (auto simp: flag_place bit_simps bit_1_iff)

lemma test_flag: "w AND flag f \<noteq> 0 \<longleftrightarrow> bit w (place f)"
proof -
  have "w AND flag f = 0 \<longleftrightarrow> \<not> bit w (place f)"
    using place_bound [of f] by (auto simp: word32_eq_iff bit_and_iff bit_flag)
  then show ?thesis by blast
qed

lemma bit_any_of: "bit (any_of (map flag fs)) n \<longleftrightarrow> (\<exists>f\<in>set fs. n = place f)"
  by (induction fs) (auto simp: bit_or_iff bit_flag)

lemma any_of_has: "any_of (map flag fs) AND flag f \<noteq> 0 \<longleftrightarrow> f \<in> set fs"
  using place_inj by (auto simp: test_flag bit_any_of)

lemma any_of_eq: "any_of (map flag fs) = any_of (map flag gs) \<longleftrightarrow> set fs = set gs"
proof
  assume "any_of (map flag fs) = any_of (map flag gs)"
  then show "set fs = set gs" using any_of_has [of fs] any_of_has [of gs] by auto
next
  assume "set fs = set gs"
  then show "any_of (map flag fs) = any_of (map flag gs)"
    by (intro bit_word_eqI) (simp add: bit_any_of)
qed

lemma cleared_has:
  "(w AND NOT (any_of (map flag fs))) AND flag f \<noteq> 0 \<longleftrightarrow> w AND flag f \<noteq> 0 \<and> f \<notin> set fs"
  using place_inj place_bound [of f] by (auto simp: test_flag bit_and_iff bit_not_iff bit_any_of)

lemma all_bits: "test_all_bits w (any_of (map flag fs)) \<longleftrightarrow> (\<forall>f\<in>set fs. w AND flag f \<noteq> 0)"
proof -
  have "test_all_bits w (any_of (map flag fs)) \<longleftrightarrow> (\<forall>f\<in>set fs. bit w (place f))"
    unfolding test_all_bits_def word32_eq_iff bit_and_iff bit_any_of using place_bound by blast
  then show ?thesis by (simp add: test_flag)
qed

end

section \<open>Capabilities of a client\<close>

datatype capability =
    CLIENT_LONG_PASSWORD | CLIENT_FOUND_ROWS | CLIENT_LONG_FLAG | CLIENT_CONNECT_WITH_DB
    | CLIENT_NO_SCHEMA | CLIENT_COMPRESS | CLIENT_ODBC | CLIENT_LOCAL_FILES | CLIENT_IGNORE_SPACE
    | CLIENT_PROTOCOL_41 | CLIENT_INTERACTIVE | CLIENT_SSL | CLIENT_IGNORE_SIGPIPE
    | CLIENT_TRANSACTIONS | CLIENT_RESERVED | CLIENT_RESERVED2 | CLIENT_MULTI_STATEMENTS
    | CLIENT_MULTI_RESULTS | CLIENT_PS_MULTI_RESULTS | CLIENT_PLUGIN_AUTH | CLIENT_CONNECT_ATTRS
    | CLIENT_PLUGIN_AUTH_LENENC_CLIENT_DATA | CLIENT_CAN_HANDLE_EXPIRED_PASSWORDS
    | CLIENT_SESSION_TRACK | CLIENT_DEPRECATE_EOF | CLIENT_SSL_VERIFY_SERVER_CERT
    | CLIENT_REMEMBER_OPTIONS

fun client_flag :: "capability \<Rightarrow> 32 word" where
  "client_flag CLIENT_LONG_PASSWORD = 1"
| "client_flag CLIENT_FOUND_ROWS = 2"
| "client_flag CLIENT_LONG_FLAG = 4"
| "client_flag CLIENT_CONNECT_WITH_DB = 8"
| "client_flag CLIENT_NO_SCHEMA = 16"
| "client_flag CLIENT_COMPRESS = 32"
| "client_flag CLIENT_ODBC = 64"
| "client_flag CLIENT_LOCAL_FILES = 128"
| "client_flag CLIENT_IGNORE_SPACE = 256"
| "client_flag CLIENT_PROTOCOL_41 = 512"
| "client_flag CLIENT_INTERACTIVE = 1024"
| "client_flag CLIENT_SSL = 2048"
| "client_flag CLIENT_IGNORE_SIGPIPE = 4096"
| "client_flag CLIENT_TRANSACTIONS = 8192"
| "client_flag CLIENT_RESERVED = 16384"
| "client_flag CLIENT_RESERVED2 = 32768"
| "client_flag CLIENT_MULTI_STATEMENTS = 0x10000"
| "client_flag CLIENT_MULTI_RESULTS = 0x20000"
| "client_flag CLIENT_PS_MULTI_RESULTS = 0x40000"
| "client_flag CLIENT_PLUGIN_AUTH = 0x80000"
| "client_flag CLIENT_CONNECT_ATTRS = 0x100000"
| "client_flag CLIENT_PLUGIN_AUTH_LENENC_CLIENT_DATA = 0x200000"
| "client_flag CLIENT_CAN_HANDLE_EXPIRED_PASSWORDS = 0x400000"
| "client_flag CLIENT_SESSION_TRACK = 0x800000"
| "client_flag CLIENT_DEPRECATE_EOF = 0x1000000"
| "client_flag CLIENT_SSL_VERIFY_SERVER_CERT = 0x40000000"
| "client_flag CLIENT_REMEMBER_OPTIONS = 0x80000000"

fun client_place :: "capability \<Rightarrow> nat" where
  "client_place CLIENT_LONG_PASSWORD = 0"
| "client_place CLIENT_FOUND_ROWS = 1"
| "client_place CLIENT_LONG_FLAG = 2"
| "client_place CLIENT_CONNECT_WITH_DB = 3"
| "client_place CLIENT_NO_SCHEMA = 4"
| "client_place CLIENT_COMPRESS = 5"
| "client_place CLIENT_ODBC = 6"
| "client_place CLIENT_LOCAL_FILES = 7"
| "client_place CLIENT_IGNORE_SPACE = 8"
| "client_place CLIENT_PROTOCOL_41 = 9"
| "client_place CLIENT_INTERACTIVE = 10"
| "client_place CLIENT_SSL = 11"
| "client_place CLIENT_IGNORE_SIGPIPE = 12"
| "client_place CLIENT_TRANSACTIONS = 13"
| "client_place CLIENT_RESERVED = 14"
| "client_place CLIENT_RESERVED2 = 15"
| "client_place CLIENT_MULTI_STATEMENTS = 16"
| "client_place CLIENT_MULTI_RESULTS = 17"
| "client_place CLIENT_PS_MULTI_RESULTS = 18"
| "client_place CLIENT_PLUGIN_AUTH = 19"
| "client_place CLIENT_CONNECT_ATTRS = 20"
| "client_place CLIENT_PLUGIN_AUTH_LENENC_CLIENT_DATA = 21"
| "client_place CLIENT_CAN_HANDLE_EXPIRED_PASSWORDS = 22"
| "client_place CLIENT_SESSION_TRACK = 23"
| "client_place CLIENT_DEPRECATE_EOF = 24"
| "client_place CLIENT_SSL_VERIFY_SERVER_CERT = 30"
| "client_place CLIENT_REMEMBER_OPTIONS = 31"

interpretation caps: flag_word client_flag client_place
proof
  show "client_flag f = push_bit (client_place f) 1" for f by (cases f) simp_all
  show "client_place f < 32" for f by (cases f) simp_all
  show "client_place f = client_place g \<Longrightarrow> f = g" for f g by (cases f; cases g; simp)
qed

text \<open>\<open>CLIENT_ALL_FLAGS\<close>, in the order of the macro, and \<open>CLIENT_BASIC_FLAGS\<close>.\<close>

definition client_all :: "capability list" where
  "client_all = [CLIENT_LONG_PASSWORD, CLIENT_FOUND_ROWS, CLIENT_LONG_FLAG, CLIENT_CONNECT_WITH_DB,
     CLIENT_NO_SCHEMA, CLIENT_COMPRESS, CLIENT_ODBC, CLIENT_LOCAL_FILES,
     CLIENT_IGNORE_SPACE, CLIENT_PROTOCOL_41, CLIENT_INTERACTIVE, CLIENT_SSL,
     CLIENT_IGNORE_SIGPIPE, CLIENT_TRANSACTIONS, CLIENT_RESERVED, CLIENT_RESERVED2,
     CLIENT_MULTI_STATEMENTS, CLIENT_MULTI_RESULTS, CLIENT_PS_MULTI_RESULTS, CLIENT_SSL_VERIFY_SERVER_CERT,
     CLIENT_REMEMBER_OPTIONS, CLIENT_PLUGIN_AUTH, CLIENT_CONNECT_ATTRS, CLIENT_PLUGIN_AUTH_LENENC_CLIENT_DATA,
     CLIENT_CAN_HANDLE_EXPIRED_PASSWORDS, CLIENT_SESSION_TRACK, CLIENT_DEPRECATE_EOF]"

definition CLIENT_ALL_FLAGS :: "32 word" where
  "CLIENT_ALL_FLAGS = any_of (map client_flag client_all)"

definition CLIENT_BASIC_FLAGS :: "32 word" where
  "CLIENT_BASIC_FLAGS = CLIENT_ALL_FLAGS AND NOT (client_flag CLIENT_SSL) AND
     NOT (client_flag CLIENT_COMPRESS) AND NOT (client_flag CLIENT_SSL_VERIFY_SERVER_CERT)"

lemma client_all_complete: "f \<in> set client_all"
  by (cases f) (simp_all add: client_all_def)

lemma all_flags_has: "CLIENT_ALL_FLAGS AND client_flag f \<noteq> 0"
  by (simp add: CLIENT_ALL_FLAGS_def caps.any_of_has client_all_complete)

lemma basic_flags_has: "CLIENT_BASIC_FLAGS AND client_flag f \<noteq> 0 \<longleftrightarrow>
    f \<notin> {CLIENT_SSL, CLIENT_COMPRESS, CLIENT_SSL_VERIFY_SERVER_CERT}"
proof -
  have e: "CLIENT_BASIC_FLAGS = CLIENT_ALL_FLAGS AND
      NOT (any_of (map client_flag [CLIENT_SSL, CLIENT_COMPRESS, CLIENT_SSL_VERIFY_SERVER_CERT]))"
    by (simp add: CLIENT_BASIC_FLAGS_def and.assoc del: client_flag.simps)
  have "CLIENT_BASIC_FLAGS AND client_flag f \<noteq> 0 \<longleftrightarrow> CLIENT_ALL_FLAGS AND client_flag f \<noteq> 0 \<and>
      f \<notin> set [CLIENT_SSL, CLIENT_COMPRESS, CLIENT_SSL_VERIFY_SERVER_CERT]"
    unfolding e by (rule caps.cleared_has)
  with all_flags_has [of f] show ?thesis by simp
qed

text \<open>\<open>protocol_41\<close> of \<open>sql_common.h\<close>.\<close>

definition protocol_41 :: "32 word \<Rightarrow> bool" where
  "protocol_41 server_capabilities \<longleftrightarrow> server_capabilities AND client_flag CLIENT_PROTOCOL_41 \<noteq> 0"

section \<open>Flags of a column\<close>

datatype field_flag =
    NOT_NULL_FLAG | PRI_KEY_FLAG | UNIQUE_KEY_FLAG | MULTIPLE_KEY_FLAG | BLOB_FLAG | UNSIGNED_FLAG
    | ZEROFILL_FLAG | BINARY_FLAG | ENUM_FLAG | AUTO_INCREMENT_FLAG | TIMESTAMP_FLAG | SET_FLAG
    | NO_DEFAULT_VALUE_FLAG | ON_UPDATE_NOW_FLAG | NUM_FLAG | PART_KEY_FLAG | UNIQUE_FLAG
    | BINCMP_FLAG | GET_FIXED_FIELDS_FLAG

fun field_bit :: "field_flag \<Rightarrow> 32 word" where
  "field_bit NOT_NULL_FLAG = 1"
| "field_bit PRI_KEY_FLAG = 2"
| "field_bit UNIQUE_KEY_FLAG = 4"
| "field_bit MULTIPLE_KEY_FLAG = 8"
| "field_bit BLOB_FLAG = 16"
| "field_bit UNSIGNED_FLAG = 32"
| "field_bit ZEROFILL_FLAG = 64"
| "field_bit BINARY_FLAG = 128"
| "field_bit ENUM_FLAG = 256"
| "field_bit AUTO_INCREMENT_FLAG = 512"
| "field_bit TIMESTAMP_FLAG = 1024"
| "field_bit SET_FLAG = 2048"
| "field_bit NO_DEFAULT_VALUE_FLAG = 4096"
| "field_bit ON_UPDATE_NOW_FLAG = 8192"
| "field_bit NUM_FLAG = 32768"
| "field_bit PART_KEY_FLAG = 16384"
| "field_bit UNIQUE_FLAG = 0x10000"
| "field_bit BINCMP_FLAG = 0x20000"
| "field_bit GET_FIXED_FIELDS_FLAG = 0x40000"

fun field_place :: "field_flag \<Rightarrow> nat" where
  "field_place NOT_NULL_FLAG = 0"
| "field_place PRI_KEY_FLAG = 1"
| "field_place UNIQUE_KEY_FLAG = 2"
| "field_place MULTIPLE_KEY_FLAG = 3"
| "field_place BLOB_FLAG = 4"
| "field_place UNSIGNED_FLAG = 5"
| "field_place ZEROFILL_FLAG = 6"
| "field_place BINARY_FLAG = 7"
| "field_place ENUM_FLAG = 8"
| "field_place AUTO_INCREMENT_FLAG = 9"
| "field_place TIMESTAMP_FLAG = 10"
| "field_place SET_FLAG = 11"
| "field_place NO_DEFAULT_VALUE_FLAG = 12"
| "field_place ON_UPDATE_NOW_FLAG = 13"
| "field_place NUM_FLAG = 15"
| "field_place PART_KEY_FLAG = 14"
| "field_place UNIQUE_FLAG = 16"
| "field_place BINCMP_FLAG = 17"
| "field_place GET_FIXED_FIELDS_FLAG = 18"

interpretation field: flag_word field_bit field_place
proof
  show "field_bit f = push_bit (field_place f) 1" for f by (cases f) simp_all
  show "field_place f < 32" for f by (cases f) simp_all
  show "field_place f = field_place g \<Longrightarrow> f = g" for f g by (cases f; cases g; simp)
qed

text \<open>Inside the server the bit of \<open>NUM_FLAG\<close> has another meaning.\<close>

definition GROUP_FLAG :: "32 word" where "GROUP_FLAG = 32768"

lemma group_is_num: "GROUP_FLAG = field_bit NUM_FLAG"
  by (simp add: GROUP_FLAG_def)

definition IS_PRI_KEY :: "32 word \<Rightarrow> bool" where "IS_PRI_KEY n \<longleftrightarrow> n AND field_bit PRI_KEY_FLAG \<noteq> 0"
definition IS_NOT_NULL :: "32 word \<Rightarrow> bool" where "IS_NOT_NULL n \<longleftrightarrow> n AND field_bit NOT_NULL_FLAG \<noteq> 0"
definition IS_BLOB :: "32 word \<Rightarrow> bool" where "IS_BLOB n \<longleftrightarrow> n AND field_bit BLOB_FLAG \<noteq> 0"

lemma field_tests:
  "IS_PRI_KEY (any_of (map field_bit fs)) \<longleftrightarrow> PRI_KEY_FLAG \<in> set fs"
  "IS_NOT_NULL (any_of (map field_bit fs)) \<longleftrightarrow> NOT_NULL_FLAG \<in> set fs"
  "IS_BLOB (any_of (map field_bit fs)) \<longleftrightarrow> BLOB_FLAG \<in> set fs"
  unfolding IS_PRI_KEY_def IS_NOT_NULL_def IS_BLOB_def by (rule field.any_of_has)+

section \<open>Status of the server\<close>

datatype server_status =
    SERVER_STATUS_IN_TRANS | SERVER_STATUS_AUTOCOMMIT | SERVER_MORE_RESULTS_EXISTS
    | SERVER_QUERY_NO_GOOD_INDEX_USED | SERVER_QUERY_NO_INDEX_USED | SERVER_STATUS_CURSOR_EXISTS
    | SERVER_STATUS_LAST_ROW_SENT | SERVER_STATUS_DB_DROPPED | SERVER_STATUS_NO_BACKSLASH_ESCAPES
    | SERVER_STATUS_METADATA_CHANGED | SERVER_QUERY_WAS_SLOW | SERVER_PS_OUT_PARAMS
    | SERVER_STATUS_IN_TRANS_READONLY | SERVER_SESSION_STATE_CHANGED

fun status_flag :: "server_status \<Rightarrow> 32 word" where
  "status_flag SERVER_STATUS_IN_TRANS = 1"
| "status_flag SERVER_STATUS_AUTOCOMMIT = 2"
| "status_flag SERVER_MORE_RESULTS_EXISTS = 8"
| "status_flag SERVER_QUERY_NO_GOOD_INDEX_USED = 16"
| "status_flag SERVER_QUERY_NO_INDEX_USED = 32"
| "status_flag SERVER_STATUS_CURSOR_EXISTS = 64"
| "status_flag SERVER_STATUS_LAST_ROW_SENT = 128"
| "status_flag SERVER_STATUS_DB_DROPPED = 256"
| "status_flag SERVER_STATUS_NO_BACKSLASH_ESCAPES = 512"
| "status_flag SERVER_STATUS_METADATA_CHANGED = 1024"
| "status_flag SERVER_QUERY_WAS_SLOW = 2048"
| "status_flag SERVER_PS_OUT_PARAMS = 4096"
| "status_flag SERVER_STATUS_IN_TRANS_READONLY = 8192"
| "status_flag SERVER_SESSION_STATE_CHANGED = 16384"

fun status_place :: "server_status \<Rightarrow> nat" where
  "status_place SERVER_STATUS_IN_TRANS = 0"
| "status_place SERVER_STATUS_AUTOCOMMIT = 1"
| "status_place SERVER_MORE_RESULTS_EXISTS = 3"
| "status_place SERVER_QUERY_NO_GOOD_INDEX_USED = 4"
| "status_place SERVER_QUERY_NO_INDEX_USED = 5"
| "status_place SERVER_STATUS_CURSOR_EXISTS = 6"
| "status_place SERVER_STATUS_LAST_ROW_SENT = 7"
| "status_place SERVER_STATUS_DB_DROPPED = 8"
| "status_place SERVER_STATUS_NO_BACKSLASH_ESCAPES = 9"
| "status_place SERVER_STATUS_METADATA_CHANGED = 10"
| "status_place SERVER_QUERY_WAS_SLOW = 11"
| "status_place SERVER_PS_OUT_PARAMS = 12"
| "status_place SERVER_STATUS_IN_TRANS_READONLY = 13"
| "status_place SERVER_SESSION_STATE_CHANGED = 14"

interpretation status: flag_word status_flag status_place
proof
  show "status_flag f = push_bit (status_place f) 1" for f by (cases f) simp_all
  show "status_place f < 32" for f by (cases f) simp_all
  show "status_place f = status_place g \<Longrightarrow> f = g" for f g by (cases f; cases g; simp)
qed

definition status_cleared :: "server_status list" where
  "status_cleared = [SERVER_QUERY_NO_GOOD_INDEX_USED, SERVER_QUERY_NO_INDEX_USED, SERVER_MORE_RESULTS_EXISTS,
     SERVER_STATUS_METADATA_CHANGED, SERVER_QUERY_WAS_SLOW, SERVER_STATUS_DB_DROPPED,
     SERVER_STATUS_CURSOR_EXISTS, SERVER_STATUS_LAST_ROW_SENT, SERVER_SESSION_STATE_CHANGED]"

definition SERVER_STATUS_CLEAR_SET :: "32 word" where
  "SERVER_STATUS_CLEAR_SET = any_of (map status_flag status_cleared)"

lemma clear_set_keeps:
  "(w AND NOT SERVER_STATUS_CLEAR_SET) AND status_flag f \<noteq> 0 \<longleftrightarrow>
   w AND status_flag f \<noteq> 0 \<and> f \<in> {SERVER_STATUS_IN_TRANS, SERVER_STATUS_AUTOCOMMIT,
     SERVER_STATUS_NO_BACKSLASH_ESCAPES, SERVER_PS_OUT_PARAMS, SERVER_STATUS_IN_TRANS_READONLY}"
  unfolding SERVER_STATUS_CLEAR_SET_def status.cleared_has
  by (cases f) (simp_all add: status_cleared_def)

section \<open>Orders to refresh\<close>

datatype refresh =
    REFRESH_GRANT | REFRESH_LOG | REFRESH_TABLES | REFRESH_HOSTS | REFRESH_STATUS
    | REFRESH_THREADS | REFRESH_SLAVE | REFRESH_MASTER | REFRESH_ERROR_LOG | REFRESH_ENGINE_LOG
    | REFRESH_BINARY_LOG | REFRESH_RELAY_LOG | REFRESH_GENERAL_LOG | REFRESH_SLOW_LOG
    | REFRESH_READ_LOCK | REFRESH_FAST | REFRESH_QUERY_CACHE | REFRESH_QUERY_CACHE_FREE
    | REFRESH_DES_KEY_FILE | REFRESH_USER_RESOURCES | REFRESH_FOR_EXPORT | REFRESH_OPTIMIZER_COSTS

fun refresh_flag :: "refresh \<Rightarrow> 32 word" where
  "refresh_flag REFRESH_GRANT = 1"
| "refresh_flag REFRESH_LOG = 2"
| "refresh_flag REFRESH_TABLES = 4"
| "refresh_flag REFRESH_HOSTS = 8"
| "refresh_flag REFRESH_STATUS = 16"
| "refresh_flag REFRESH_THREADS = 32"
| "refresh_flag REFRESH_SLAVE = 64"
| "refresh_flag REFRESH_MASTER = 128"
| "refresh_flag REFRESH_ERROR_LOG = 256"
| "refresh_flag REFRESH_ENGINE_LOG = 512"
| "refresh_flag REFRESH_BINARY_LOG = 1024"
| "refresh_flag REFRESH_RELAY_LOG = 2048"
| "refresh_flag REFRESH_GENERAL_LOG = 4096"
| "refresh_flag REFRESH_SLOW_LOG = 8192"
| "refresh_flag REFRESH_READ_LOCK = 16384"
| "refresh_flag REFRESH_FAST = 32768"
| "refresh_flag REFRESH_QUERY_CACHE = 0x10000"
| "refresh_flag REFRESH_QUERY_CACHE_FREE = 0x20000"
| "refresh_flag REFRESH_DES_KEY_FILE = 0x40000"
| "refresh_flag REFRESH_USER_RESOURCES = 0x80000"
| "refresh_flag REFRESH_FOR_EXPORT = 0x100000"
| "refresh_flag REFRESH_OPTIMIZER_COSTS = 0x200000"

fun refresh_place :: "refresh \<Rightarrow> nat" where
  "refresh_place REFRESH_GRANT = 0"
| "refresh_place REFRESH_LOG = 1"
| "refresh_place REFRESH_TABLES = 2"
| "refresh_place REFRESH_HOSTS = 3"
| "refresh_place REFRESH_STATUS = 4"
| "refresh_place REFRESH_THREADS = 5"
| "refresh_place REFRESH_SLAVE = 6"
| "refresh_place REFRESH_MASTER = 7"
| "refresh_place REFRESH_ERROR_LOG = 8"
| "refresh_place REFRESH_ENGINE_LOG = 9"
| "refresh_place REFRESH_BINARY_LOG = 10"
| "refresh_place REFRESH_RELAY_LOG = 11"
| "refresh_place REFRESH_GENERAL_LOG = 12"
| "refresh_place REFRESH_SLOW_LOG = 13"
| "refresh_place REFRESH_READ_LOCK = 14"
| "refresh_place REFRESH_FAST = 15"
| "refresh_place REFRESH_QUERY_CACHE = 16"
| "refresh_place REFRESH_QUERY_CACHE_FREE = 17"
| "refresh_place REFRESH_DES_KEY_FILE = 18"
| "refresh_place REFRESH_USER_RESOURCES = 19"
| "refresh_place REFRESH_FOR_EXPORT = 20"
| "refresh_place REFRESH_OPTIMIZER_COSTS = 21"

interpretation refresh: flag_word refresh_flag refresh_place
proof
  show "refresh_flag f = push_bit (refresh_place f) 1" for f by (cases f) simp_all
  show "refresh_place f < 32" for f by (cases f) simp_all
  show "refresh_place f = refresh_place g \<Longrightarrow> f = g" for f g by (cases f; cases g; simp)
qed

section \<open>Character sets\<close>

datatype charset_state =
    MY_CS_COMPILED | MY_CS_CONFIG | MY_CS_INDEX | MY_CS_LOADED | MY_CS_BINSORT | MY_CS_PRIMARY
    | MY_CS_STRNXFRM | MY_CS_UNICODE | MY_CS_READY | MY_CS_AVAILABLE | MY_CS_CSSORT | MY_CS_HIDDEN
    | MY_CS_PUREASCII | MY_CS_NONASCII | MY_CS_UNICODE_SUPPLEMENT | MY_CS_LOWER_SORT

fun cs_flag :: "charset_state \<Rightarrow> 32 word" where
  "cs_flag MY_CS_COMPILED = 1"
| "cs_flag MY_CS_CONFIG = 2"
| "cs_flag MY_CS_INDEX = 4"
| "cs_flag MY_CS_LOADED = 8"
| "cs_flag MY_CS_BINSORT = 16"
| "cs_flag MY_CS_PRIMARY = 32"
| "cs_flag MY_CS_STRNXFRM = 64"
| "cs_flag MY_CS_UNICODE = 128"
| "cs_flag MY_CS_READY = 256"
| "cs_flag MY_CS_AVAILABLE = 512"
| "cs_flag MY_CS_CSSORT = 1024"
| "cs_flag MY_CS_HIDDEN = 2048"
| "cs_flag MY_CS_PUREASCII = 4096"
| "cs_flag MY_CS_NONASCII = 8192"
| "cs_flag MY_CS_UNICODE_SUPPLEMENT = 16384"
| "cs_flag MY_CS_LOWER_SORT = 32768"

fun cs_place :: "charset_state \<Rightarrow> nat" where
  "cs_place MY_CS_COMPILED = 0"
| "cs_place MY_CS_CONFIG = 1"
| "cs_place MY_CS_INDEX = 2"
| "cs_place MY_CS_LOADED = 3"
| "cs_place MY_CS_BINSORT = 4"
| "cs_place MY_CS_PRIMARY = 5"
| "cs_place MY_CS_STRNXFRM = 6"
| "cs_place MY_CS_UNICODE = 7"
| "cs_place MY_CS_READY = 8"
| "cs_place MY_CS_AVAILABLE = 9"
| "cs_place MY_CS_CSSORT = 10"
| "cs_place MY_CS_HIDDEN = 11"
| "cs_place MY_CS_PUREASCII = 12"
| "cs_place MY_CS_NONASCII = 13"
| "cs_place MY_CS_UNICODE_SUPPLEMENT = 14"
| "cs_place MY_CS_LOWER_SORT = 15"

interpretation cs: flag_word cs_flag cs_place
proof
  show "cs_flag f = push_bit (cs_place f) 1" for f by (cases f) simp_all
  show "cs_place f < 32" for f by (cases f) simp_all
  show "cs_place f = cs_place g \<Longrightarrow> f = g" for f g by (cases f; cases g; simp)
qed

text \<open>The part of \<open>CHARSET_INFO\<close> the macros read; \<open>cs_ctype\<close> has 257 entries, the first for -1. \<open>mbcharlen\<close> is
  the function of the character set's handler.\<close>

record CHARSET_INFO =
  cs_state :: "32 word"
  cs_ctype :: "8 word list"
  cs_to_lower :: "8 word list"
  cs_to_upper :: "8 word list"
  cs_mbmaxlenlen :: nat
  cs_mbcharlen :: "32 word \<Rightarrow> nat"

definition my_binary_compare :: "CHARSET_INFO \<Rightarrow> bool" where
  "my_binary_compare s \<longleftrightarrow> cs_state s AND cs_flag MY_CS_BINSORT \<noteq> 0"

definition use_strnxfrm :: "CHARSET_INFO \<Rightarrow> bool" where
  "use_strnxfrm s \<longleftrightarrow> cs_state s AND cs_flag MY_CS_STRNXFRM \<noteq> 0"

subsection \<open>Classes of characters\<close>

datatype ctype_class = MY_U | MY_L | MY_NMR | MY_SPC | MY_PNT | MY_CTR | MY_B | MY_X

fun ctype_bit :: "ctype_class \<Rightarrow> 8 word" where
  "ctype_bit MY_U = 0x01"
| "ctype_bit MY_L = 0x02"
| "ctype_bit MY_NMR = 0x04"
| "ctype_bit MY_SPC = 0x08"
| "ctype_bit MY_PNT = 0x10"
| "ctype_bit MY_CTR = 0x20"
| "ctype_bit MY_B = 0x40"
| "ctype_bit MY_X = 0x80"

definition my_isascii :: "32 word \<Rightarrow> bool" where "my_isascii c \<longleftrightarrow> c AND NOT 0x7F = 0"
definition my_toascii :: "32 word \<Rightarrow> 32 word" where "my_toascii c = c AND 0x7F"
definition my_tocntrl :: "32 word \<Rightarrow> 32 word" where "my_tocntrl c = c AND 31"
definition my_toprint :: "32 word \<Rightarrow> 32 word" where "my_toprint c = c OR 64"

definition my_toupper :: "CHARSET_INFO \<Rightarrow> 8 word \<Rightarrow> 8 word" where
  "my_toupper s c = cs_to_upper s ! unat c"

definition my_tolower :: "CHARSET_INFO \<Rightarrow> 8 word \<Rightarrow> 8 word" where
  "my_tolower s c = cs_to_lower s ! unat c"

text \<open>\<open>((s)->ctype+1)[(uchar) (c)] & mask\<close>\<close>

definition in_class :: "CHARSET_INFO \<Rightarrow> 8 word \<Rightarrow> ctype_class list \<Rightarrow> bool" where
  "in_class s c ks \<longleftrightarrow> (cs_ctype s ! (unat c + 1)) AND foldr (\<lambda>k m. ctype_bit k OR m) ks 0 \<noteq> 0"

definition my_isalpha :: "CHARSET_INFO \<Rightarrow> 8 word \<Rightarrow> bool" where "my_isalpha s c = in_class s c [MY_U, MY_L]"
definition my_isupper :: "CHARSET_INFO \<Rightarrow> 8 word \<Rightarrow> bool" where "my_isupper s c = in_class s c [MY_U]"
definition my_islower :: "CHARSET_INFO \<Rightarrow> 8 word \<Rightarrow> bool" where "my_islower s c = in_class s c [MY_L]"
definition my_isdigit :: "CHARSET_INFO \<Rightarrow> 8 word \<Rightarrow> bool" where "my_isdigit s c = in_class s c [MY_NMR]"
definition my_isxdigit :: "CHARSET_INFO \<Rightarrow> 8 word \<Rightarrow> bool" where "my_isxdigit s c = in_class s c [MY_X]"
definition my_isalnum :: "CHARSET_INFO \<Rightarrow> 8 word \<Rightarrow> bool" where
  "my_isalnum s c = in_class s c [MY_U, MY_L, MY_NMR]"
definition my_isspace :: "CHARSET_INFO \<Rightarrow> 8 word \<Rightarrow> bool" where "my_isspace s c = in_class s c [MY_SPC]"
definition my_ispunct :: "CHARSET_INFO \<Rightarrow> 8 word \<Rightarrow> bool" where "my_ispunct s c = in_class s c [MY_PNT]"
definition my_isprint :: "CHARSET_INFO \<Rightarrow> 8 word \<Rightarrow> bool" where
  "my_isprint s c = in_class s c [MY_PNT, MY_U, MY_L, MY_NMR, MY_B]"
definition my_isgraph :: "CHARSET_INFO \<Rightarrow> 8 word \<Rightarrow> bool" where
  "my_isgraph s c = in_class s c [MY_PNT, MY_U, MY_L, MY_NMR]"
definition my_iscntrl :: "CHARSET_INFO \<Rightarrow> 8 word \<Rightarrow> bool" where "my_iscntrl s c = in_class s c [MY_CTR]"

definition my_isvar :: "CHARSET_INFO \<Rightarrow> 8 word \<Rightarrow> bool" where
  "my_isvar s c \<longleftrightarrow> my_isalnum s c \<or> c = 0x5F"

definition my_isvar_start :: "CHARSET_INFO \<Rightarrow> 8 word \<Rightarrow> bool" where
  "my_isvar_start s c \<longleftrightarrow> my_isalpha s c \<or> c = 0x5F"

lemma in_class_Cons:
  "in_class s c (k # ks) \<longleftrightarrow> cs_ctype s ! (unat c + 1) AND ctype_bit k \<noteq> 0 \<or> in_class s c ks"
proof -
  have "w AND (a OR b) = 0 \<longleftrightarrow> w AND a = 0 \<and> w AND b = 0" for w a b :: "8 word"
    by (simp add: bit.conj_disj_distrib or_eq_0_iff)
  then show ?thesis by (auto simp: in_class_def)
qed

lemma in_class_Nil: "\<not> in_class s c []"
  by (simp add: in_class_def)

lemmas class_defs = my_isalpha_def my_isupper_def my_islower_def my_isdigit_def my_isalnum_def
  my_ispunct_def my_isprint_def my_isgraph_def my_isvar_def my_isvar_start_def in_class_Cons in_class_Nil

lemma classes:
  "my_isalpha s c \<longleftrightarrow> my_isupper s c \<or> my_islower s c"
  "my_isalnum s c \<longleftrightarrow> my_isalpha s c \<or> my_isdigit s c"
  "my_isgraph s c \<longleftrightarrow> my_isalnum s c \<or> my_ispunct s c"
  "my_isgraph s c \<Longrightarrow> my_isprint s c"
  "my_isvar s c \<longleftrightarrow> my_isvar_start s c \<or> my_isdigit s c"
  by (auto simp: class_defs)

lemma ascii_value: "my_isascii c \<longleftrightarrow> my_toascii c = c"
proof -
  have "c AND NOT m = 0 \<longleftrightarrow> c AND m = c" for c m :: "32 word"
    by (auto simp: word32_eq_iff bit_and_iff bit_not_iff)
  then show ?thesis unfolding my_isascii_def my_toascii_def .
qed

subsection \<open>Characters of several bytes\<close>

definition my_mbcharlen :: "CHARSET_INFO \<Rightarrow> 32 word \<Rightarrow> nat" where
  "my_mbcharlen s a = cs_mbcharlen s a"

definition my_mbcharlen_2 :: "CHARSET_INFO \<Rightarrow> 32 word \<Rightarrow> 32 word \<Rightarrow> nat" where
  "my_mbcharlen_2 s a b = cs_mbcharlen s (push_bit 8 (a AND 0xFF) + (b AND 0xFF))"

definition my_ismb1st :: "CHARSET_INFO \<Rightarrow> 32 word \<Rightarrow> bool" where
  "my_ismb1st s i \<longleftrightarrow> my_mbcharlen s i > 1 \<or> (cs_mbmaxlenlen s = 2 \<and> my_mbcharlen s i = 0)"

subsection \<open>Levels of strxfrm\<close>

definition MY_STRXFRM_LEVEL :: "32 word list" where
  "MY_STRXFRM_LEVEL = [0x00000001, 0x00000002, 0x00000004, 0x00000008, 0x00000010, 0x00000020]"
definition MY_STRXFRM_LEVEL_ALL :: "32 word" where "MY_STRXFRM_LEVEL_ALL = 0x0000003F"
definition MY_STRXFRM_DESC_LEVEL :: "32 word list" where
  "MY_STRXFRM_DESC_LEVEL = [0x00000100, 0x00000200, 0x00000300, 0x00000800, 0x00001000, 0x00002000]"
definition MY_STRXFRM_DESC_SHIFT :: nat where "MY_STRXFRM_DESC_SHIFT = 8"
definition MY_STRXFRM_REVERSE_LEVEL :: "32 word list" where
  "MY_STRXFRM_REVERSE_LEVEL = [0x00010000, 0x00020000, 0x00040000, 0x00080000, 0x00100000, 0x00200000]"
definition MY_STRXFRM_REVERSE_SHIFT :: nat where "MY_STRXFRM_REVERSE_SHIFT = 16"

lemma strxfrm_levels:
  "any_of MY_STRXFRM_LEVEL = MY_STRXFRM_LEVEL_ALL"
  "MY_STRXFRM_REVERSE_LEVEL = map (push_bit MY_STRXFRM_REVERSE_SHIFT) MY_STRXFRM_LEVEL"
  by (simp_all add: MY_STRXFRM_LEVEL_def MY_STRXFRM_LEVEL_ALL_def MY_STRXFRM_REVERSE_LEVEL_def
      MY_STRXFRM_REVERSE_SHIFT_def)

text \<open>The flag that makes the third level descending is not the third level shifted, but the flags of the first
  two.\<close>

lemma desc_level3:
  "MY_STRXFRM_DESC_LEVEL ! 2 \<noteq> push_bit MY_STRXFRM_DESC_SHIFT (MY_STRXFRM_LEVEL ! 2)"
  "MY_STRXFRM_DESC_LEVEL ! 2 = MY_STRXFRM_DESC_LEVEL ! 0 OR MY_STRXFRM_DESC_LEVEL ! 1"
  "i < 6 \<Longrightarrow> i \<noteq> 2 \<Longrightarrow>
   MY_STRXFRM_DESC_LEVEL ! i = push_bit MY_STRXFRM_DESC_SHIFT (MY_STRXFRM_LEVEL ! i)"
proof -
  show "MY_STRXFRM_DESC_LEVEL ! 2 \<noteq> push_bit MY_STRXFRM_DESC_SHIFT (MY_STRXFRM_LEVEL ! 2)"
    "MY_STRXFRM_DESC_LEVEL ! 2 = MY_STRXFRM_DESC_LEVEL ! 0 OR MY_STRXFRM_DESC_LEVEL ! 1"
    by (simp_all add: MY_STRXFRM_LEVEL_def MY_STRXFRM_DESC_LEVEL_def MY_STRXFRM_DESC_SHIFT_def)
  assume "i < 6" "i \<noteq> 2"
  then consider "i = 0" | "i = 1" | "i = 3" | "i = 4" | "i = 5" by linarith
  then show "MY_STRXFRM_DESC_LEVEL ! i = push_bit MY_STRXFRM_DESC_SHIFT (MY_STRXFRM_LEVEL ! i)"
    by cases (simp_all add: MY_STRXFRM_LEVEL_def MY_STRXFRM_DESC_LEVEL_def MY_STRXFRM_DESC_SHIFT_def)
qed

section \<open>Types of columns\<close>

datatype enum_field_types =
    MYSQL_TYPE_DECIMAL | MYSQL_TYPE_TINY | MYSQL_TYPE_SHORT | MYSQL_TYPE_LONG | MYSQL_TYPE_FLOAT
    | MYSQL_TYPE_DOUBLE | MYSQL_TYPE_NULL | MYSQL_TYPE_TIMESTAMP | MYSQL_TYPE_LONGLONG
    | MYSQL_TYPE_INT24 | MYSQL_TYPE_DATE | MYSQL_TYPE_TIME | MYSQL_TYPE_DATETIME | MYSQL_TYPE_YEAR
    | MYSQL_TYPE_NEWDATE | MYSQL_TYPE_VARCHAR | MYSQL_TYPE_BIT | MYSQL_TYPE_TIMESTAMP2
    | MYSQL_TYPE_DATETIME2 | MYSQL_TYPE_TIME2 | MYSQL_TYPE_JSON | MYSQL_TYPE_NEWDECIMAL
    | MYSQL_TYPE_ENUM | MYSQL_TYPE_SET | MYSQL_TYPE_TINY_BLOB | MYSQL_TYPE_MEDIUM_BLOB
    | MYSQL_TYPE_LONG_BLOB | MYSQL_TYPE_BLOB | MYSQL_TYPE_VAR_STRING | MYSQL_TYPE_STRING
    | MYSQL_TYPE_GEOMETRY

fun type_number :: "enum_field_types \<Rightarrow> nat" where
  "type_number MYSQL_TYPE_DECIMAL = 0"
| "type_number MYSQL_TYPE_TINY = 1"
| "type_number MYSQL_TYPE_SHORT = 2"
| "type_number MYSQL_TYPE_LONG = 3"
| "type_number MYSQL_TYPE_FLOAT = 4"
| "type_number MYSQL_TYPE_DOUBLE = 5"
| "type_number MYSQL_TYPE_NULL = 6"
| "type_number MYSQL_TYPE_TIMESTAMP = 7"
| "type_number MYSQL_TYPE_LONGLONG = 8"
| "type_number MYSQL_TYPE_INT24 = 9"
| "type_number MYSQL_TYPE_DATE = 10"
| "type_number MYSQL_TYPE_TIME = 11"
| "type_number MYSQL_TYPE_DATETIME = 12"
| "type_number MYSQL_TYPE_YEAR = 13"
| "type_number MYSQL_TYPE_NEWDATE = 14"
| "type_number MYSQL_TYPE_VARCHAR = 15"
| "type_number MYSQL_TYPE_BIT = 16"
| "type_number MYSQL_TYPE_TIMESTAMP2 = 17"
| "type_number MYSQL_TYPE_DATETIME2 = 18"
| "type_number MYSQL_TYPE_TIME2 = 19"
| "type_number MYSQL_TYPE_JSON = 245"
| "type_number MYSQL_TYPE_NEWDECIMAL = 246"
| "type_number MYSQL_TYPE_ENUM = 247"
| "type_number MYSQL_TYPE_SET = 248"
| "type_number MYSQL_TYPE_TINY_BLOB = 249"
| "type_number MYSQL_TYPE_MEDIUM_BLOB = 250"
| "type_number MYSQL_TYPE_LONG_BLOB = 251"
| "type_number MYSQL_TYPE_BLOB = 252"
| "type_number MYSQL_TYPE_VAR_STRING = 253"
| "type_number MYSQL_TYPE_STRING = 254"
| "type_number MYSQL_TYPE_GEOMETRY = 255"

definition IS_NUM :: "enum_field_types \<Rightarrow> bool" where
  "IS_NUM t \<longleftrightarrow> (type_number t \<le> type_number MYSQL_TYPE_INT24 \<and> t \<noteq> MYSQL_TYPE_TIMESTAMP) \<or>
     t = MYSQL_TYPE_YEAR \<or> t = MYSQL_TYPE_NEWDECIMAL"

definition IS_LONGDATA :: "enum_field_types \<Rightarrow> bool" where
  "IS_LONGDATA t \<longleftrightarrow> type_number MYSQL_TYPE_TINY_BLOB \<le> type_number t \<and> type_number t \<le> type_number MYSQL_TYPE_STRING"

lemma IS_NUM_types: "IS_NUM t \<longleftrightarrow> t \<in> {MYSQL_TYPE_DECIMAL, MYSQL_TYPE_TINY, MYSQL_TYPE_SHORT, MYSQL_TYPE_LONG,
    MYSQL_TYPE_FLOAT, MYSQL_TYPE_DOUBLE, MYSQL_TYPE_NULL, MYSQL_TYPE_LONGLONG, MYSQL_TYPE_INT24,
    MYSQL_TYPE_YEAR, MYSQL_TYPE_NEWDECIMAL}"
  by (cases t) (simp_all add: IS_NUM_def)

lemma IS_LONGDATA_types: "IS_LONGDATA t \<longleftrightarrow> t \<in> {MYSQL_TYPE_TINY_BLOB, MYSQL_TYPE_MEDIUM_BLOB,
    MYSQL_TYPE_LONG_BLOB, MYSQL_TYPE_BLOB, MYSQL_TYPE_VAR_STRING, MYSQL_TYPE_STRING}"
  by (cases t) (simp_all add: IS_LONGDATA_def)

end
