(* ===== verification/Spec2Isabelle.thy ===== *)
theory Spec2Isabelle
  imports Cgi_Programs Cgi_Pipes Concurrent_Server Log_Shared Byte_Order Psi_Socket Psi_Thread Psi_File
    Psi_Server Mysql_Util Mysql_Strings Io_Cache Mysql_Errors Mysql_Flags
begin

text \<open>
  A verification development for an HTTP/1.0 server in C++ with static files, CGI programs, a thread
  pool and a logging library (directory \<open>http\<close> of the repository).

  \<^bold>\<open>The program and how its parts interact.\<close> \<open>main.cc\<close> reads the port and starts \<open>HttpServer\<close>, whose
  \<open>Loop\<close> gets the listening socket from the singleton \<open>TcpServer\<close>, accepts connections and pushes each
  as a \<open>Task\<close> into the singleton \<open>ThreadPool\<close>. A thread of the pool runs \<open>CallBack::HandlerRequest\<close>
  of \<open>Protocol.hpp\<close>: an \<open>EndPoint\<close> receives and parses the request with \<open>Utill::ReadLine\<close> and
  \<open>CutString\<close>, finds the resource, runs it as a CGI program or opens it, and sends the answer. The CGI
  programs \<open>test_cgi.cc\<close> and \<open>mysql_cgi.cc\<close> read their data with \<open>comm.hpp\<close>. Every part writes to the
  root logger of \<open>http/logs\<close>: a logger formats a message and gives it to its sinks, at once or through
  an asynchronous looper with two buffers.

  \<^bold>\<open>Theories.\<close>
  \<^item> \<open>Prelude\<close>: lists, 64-bit words, maps that keep the first binding, reachable states and the locale
    \<open>invariant_system\<close> every step relation is checked through.
  \<^item> \<open>CStrings\<close>, \<open>CNumbers\<close>: the operations of \<open>std::string\<close>, streams, \<open>std::to_string\<close> and \<open>atoi\<close> the
    program uses, the latter with glibc's behaviour on overflow.
  \<^item> \<open>Utill\<close>: \<open>ReadLine\<close> and \<open>CutString\<close> over a stream of received bytes and errors; the lines it returns
    and what it leaves.
  \<^item> \<open>Protocol_Data\<close>: constants, tables and the classes \<open>HttpRequest\<close>, \<open>HttpResponse\<close>, \<open>EndPoint\<close> as
    records (fields \<open>rq_\<close>, \<open>rs_\<close>, \<open>ep_\<close>); \<open>ep_in\<close> is what the socket still delivers.
  \<^item> \<open>Request\<close>: the receiving and parsing methods of \<open>EndPoint\<close>; a printed request is read back.
  \<^item> \<open>Kernel\<close>: the operating system the server calls: descriptors, files, programs, and how much each
    \<open>write\<close>, \<open>send\<close> and \<open>sendfile\<close> transfers.
  \<^item> \<open>Cgi\<close>: \<open>ProcessCgi\<close>, with the environment, the input and the exit status of the child.
  \<^item> \<open>Cgi_Pipes\<close>: \<open>ProcessCgi\<close> of several threads at the same time, system call by system call, over pipes of
    a bounded capacity, with the descriptors and the logger's mutex a child inherits: a step relation with
    its invariant, the refinement of \<open>Cgi\<close>, bounded runs, and the three ways in which a call hangs.
  \<^item> \<open>Response\<close>: finding the resource, building and sending the response, \<open>HandlerRequest\<close>; the
    specification \<open>respond\<close> of what is sent for a request, and the proof that the code sends it.
  \<^item> \<open>Serving\<close>: the properties of one connection, from the bytes received to the bytes sent.
  \<^item> \<open>Cgi_Programs\<close>: \<open>comm.hpp\<close>, \<open>test_cgi.cc\<close>, \<open>mysql_cgi.cc\<close>; the locale \<open>cgi_channel\<close> states that the
    data put into the environment and the input comes out unchanged.
  \<^item> \<open>Pool\<close>: \<open>ThreadPool\<close> as a step relation: each task once and in order, no lost wakeup, bounded runs.
  \<^item> \<open>Server\<close>: \<open>TcpServer\<close>, the double-checked \<open>getinstance\<close>, \<open>Task\<close>, \<open>Loop\<close> and \<open>main\<close>.
  \<^item> \<open>Concurrent_Server\<close>: these parts together: the accept loop, the pool and the handlers as one step relation
    on one descriptor table, where a handler is cut into its phases (\<open>handle\<close>, which is \<open>HandlerRequest\<close> when
    nothing else runs). Its invariant counts the open descriptors as what each connection holds; from it
    every client gets what it would get alone, every run is bounded, and as long as fewer clients than
    threads stay silent or ask for a program that never answers, a run that cannot go on has served all the
    others; with as many of them as threads nobody else is served. The building and the sending of a response are related by \<open>built\<close> and \<open>sendable\<close> of
    \<open>Response\<close>, which say what remains true while other connections open and close descriptors.
  \<^item> \<open>Log_Data\<close>, \<open>Log_Files\<close>, \<open>Log_Buffer\<close>, \<open>Log_Format\<close>, \<open>Log_Sink\<close>, \<open>Log_Looper\<close>, \<open>Log_Logger\<close>: the files of
    \<open>http/logs\<close> in the order of their includes. The locale \<open>byte_queue\<close> is the buffer as the looper uses
    it, \<open>log_sink\<close> what each of the three sinks promises, \<open>log_op\<close> what each of the five calls does;
    \<open>buffer_refines_queue\<close> is the refinement of the buffer to a queue of bytes.
  \<^item> \<open>Log_Shared\<close>: one asynchronous logger used by several threads, with its looper and its sinks: the sinks
    hold what a synchronous logger writes that makes the calls one after the other.
  \<^item> \<open>Byte_Order\<close>: the headers of the MySQL client library that read and write numbers in the bytes of its
    protocol. The locale \<open>byte_codec\<close> states the contract of a width; it is interpreted for each of the
    six, and gives the round trips and the equality of the generic and the optimised header.
  \<^item> \<open>Psi\<close>, \<open>Psi_Socket\<close>, \<open>Psi_Thread\<close>, \<open>Psi_File\<close>: the inline functions of \<open>mysql/psi\<close> that wrap calls of
    the system for the performance schema, with \<open>thr_mutex.h\<close>, \<open>thr_cond.h\<close> and \<open>thr_rwlock.h\<close>, in a state
    monad over the state of the system and that of the performance schema. The locale \<open>instrumented\<close>
    states that a wrapped operation is one call of the system; it is interpreted for the operations on
    sockets, locks and files. An observer records what the performance schema is told.
  \<^item> \<open>Psi_Server\<close>: the nine headers of \<open>mysql/psi\<close> about statements, transactions, stages, prepared statements,
    stored programs, tables, metadata locks, idle waits and memory, which only call the performance schema;
    a session of the server that uses them, and the pairing of the events it tells.
  \<^item> \<open>Mysql_Util\<close>: \<open>skip_trailing_space\<close> of \<open>m_string.h\<close> in its two versions against the plain definition, the
    deadlines and \<open>MY_ALIGN\<close> of \<open>my_global.h\<close>, \<open>my_sleep\<close>.
  \<^item> \<open>Mysql_Strings\<close>: the functions of \<open>m_string.h\<close> that wrap the C library: copies keep the string, a printed
    number is read back, the tokens are the pieces between delimiters, comparing ignores case.
  \<^item> \<open>Io_Cache\<close>: the macros of \<open>my_sys.h\<close> on buffered files; a cache that reads, or writes, is a refinement of
    the file, for every library function that keeps the contract the header states.
  \<^item> \<open>Mysql_Errors\<close>: the tables of error numbers, names, messages and SQL states, row by row and in pieces, checked
    against each other; the macro \<open>ER\<close> of \<open>errmsg.h\<close>.
  \<^item> \<open>Mysql_Flags\<close>: the words of flags of \<open>mysql_com.h\<close> and \<open>m_ctype.h\<close>, the classes of characters, the types of
    columns, and the macros on them. The locale \<open>flag_word\<close> says that no two flags share a bit; it is
    interpreted for the capabilities, the status, the orders to refresh, the columns and the character sets.

  \<^bold>\<open>State, errors, loops.\<close> Methods are functions that return the changed record; \<open>None\<close> stands for an
  abort (\<open>assert\<close>) or, in \<open>Cgi\<close> and \<open>HandlerRequest\<close>, for a call that never returns because a program
  waits for input that does not come. All loops are total functions with a measure, there is no fuel:
  the socket delivers finitely many bytes, and each transfer of the operating system moves at least one
  byte or fails. Threads, locks and condition variables are step relations whose critical sections are
  single steps where nothing outside the lock can influence them; the texts of the theories say where
  that holds. The whole server is checked for any number of clients the descriptor table has room for,
  whatever the number of threads and of failing calls of \<open>accept\<close>. Machine arithmetic is written out where it matters: \<open>size_t\<close> in the sending loop is a
  64-bit word, \<open>int\<close> fields are cut to 32 bits, the port to 16.

  \<^bold>\<open>Not modelled.\<close> The binaries of the MySQL client library (the result of connecting and of a query is
  a parameter) and the rest of its headers, which declare functions of those binaries, configure the
  build, or define structures of the database server; of the headers above, the branches for Windows and for
  \<open>SAFE_MUTEX\<close>. HTML pages, scripts, build files; logging inside \<open>Protocol.hpp\<close>, which does not change the
  state of a connection, except that \<open>Cgi_Pipes\<close> has the mutex that the messages of \<open>ProcessCgi\<close> take; symbolic links, \<open>..\<close> and permissions in the file system of the sinks; the
  freeing of memory by the server.
\<close>

end
